(* ===== verification/Py_Prelude.thy ===== *)
theory Py_Prelude
  imports Main
begin

text \<open>
  The vocabulary the components share: Python values and exceptions, the string methods the
  sources call, printing and parsing of integers, dictionaries as association lists, and the
  sequencing of operations that raise.

  Strings are \<^typ>\<open>string\<close>: a character is a code point below 256. On that range
  \<open>strip\<close>, \<open>lower\<close>, \<open>isdigit\<close> and \<open>isspace\<close> are Python's; \<open>upper\<close> differs at the two code
  points (181 and 255) whose upper case lies outside it, which it leaves alone. Integers are
  \<^typ>\<open>int\<close>, as Python's are unbounded. A float that only flows through the code is known by
  the text \<open>repr\<close> gives it.
\<close>

named_theorems dict_simps \<open>reading and writing association lists\<close>
named_theorems seq_simps \<open>sequencing of operations that may raise\<close>

section \<open>Values and exceptions\<close>

datatype pyval =
    PNone
  | PBool bool
  | PInt int
  | PFloat string
  | PStr string
  | PList "pyval list"
  | PDict "(string \<times> pyval) list"

type_synonym pydict = "(string \<times> pyval) list"

datatype exn =
    ValueError string
  | RuntimeError string
  | KeyError string
  | HTTPException int pyval "(string \<times> string) list"
  | AuthError string string
  | JwksError string string
  | PyJWTError string
  | StorageError string string
  | SecretError string string
  | AuditExportError string string
  | RateLimitUnavailable string
  | OtherError string

type_synonym 'a result = "exn + 'a"

definition bind_res :: "'a result \<Rightarrow> ('a \<Rightarrow> 'b result) \<Rightarrow> 'b result" where
  "bind_res m f = (case m of Inl e \<Rightarrow> Inl e | Inr x \<Rightarrow> f x)"

text \<open>An operation on a state: the state survives an exception, as Python objects do.\<close>

type_synonym ('s, 'a) eff = "'s \<Rightarrow> 'a result \<times> 's"

definition ret :: "'a \<Rightarrow> ('s, 'a) eff" where
  "ret x s = (Inr x, s)"

definition raise_exn :: "exn \<Rightarrow> ('s, 'a) eff" where
  "raise_exn e s = (Inl e, s)"

definition bind_eff :: "('s, 'a) eff \<Rightarrow> ('a \<Rightarrow> ('s, 'b) eff) \<Rightarrow> ('s, 'b) eff" where
  "bind_eff m f s = (case m s of (Inl e, s') \<Rightarrow> (Inl e, s') | (Inr x, s') \<Rightarrow> f x s')"

definition catch_eff :: "('s, 'a) eff \<Rightarrow> (exn \<Rightarrow> ('s, 'a) eff) \<Rightarrow> ('s, 'a) eff" where
  "catch_eff m h s = (case m s of (Inl e, s') \<Rightarrow> h e s' | (Inr x, s') \<Rightarrow> (Inr x, s'))"

definition lift_res :: "'a result \<Rightarrow> ('s, 'a) eff" where
  "lift_res r s = (r, s)"

lemma bind_res_simps [simp, seq_simps]:
  "bind_res (Inl e) f = Inl e"
  "bind_res (Inr x) f = f x"
  by (simp_all add: bind_res_def)

lemma bind_res_Inr_iff:
  "bind_res m f = Inr y \<longleftrightarrow> (\<exists>x. m = Inr x \<and> f x = Inr y)"
  by (cases m) auto

lemma bind_eff_ret [simp, seq_simps]: "bind_eff (ret x) f = f x"
  by (simp add: bind_eff_def ret_def fun_eq_iff)

lemma bind_eff_raise [simp, seq_simps]: "bind_eff (raise_exn e) f = raise_exn e"
  by (simp add: bind_eff_def raise_exn_def fun_eq_iff)

lemma bind_eff_lift_Inl [simp, seq_simps]: "bind_eff (lift_res (Inl e)) f = raise_exn e"
  by (simp add: bind_eff_def lift_res_def raise_exn_def fun_eq_iff)

lemma bind_eff_lift_Inr [simp, seq_simps]: "bind_eff (lift_res (Inr x)) f = f x"
  by (simp add: bind_eff_def lift_res_def fun_eq_iff)

lemma bind_eff_Inr_iff:
  "bind_eff m f s = (Inr y, t) \<longleftrightarrow> (\<exists>x s'. m s = (Inr x, s') \<and> f x s' = (Inr y, t))"
  by (auto simp: bind_eff_def split: prod.splits sum.splits)

lemma bind_eff_Inl_cases:
  assumes "bind_eff m f s = (Inl e, t)"
  obtains (first) "m s = (Inl e, t)"
  | (second) x s' where "m s = (Inr x, s')" "f x s' = (Inl e, t)"
  using assms by (auto simp: bind_eff_def split: prod.splits sum.splits)

lemma lift_res_eq [seq_simps]: "lift_res r s = (r, s)"
  by (simp add: lift_res_def)

lemma ret_eq [seq_simps]: "ret x s = (Inr x, s)"
  by (simp add: ret_def)

lemma raise_eq [seq_simps]: "raise_exn e s = (Inl e, s)"
  by (simp add: raise_exn_def)

section \<open>Dictionaries\<close>

text \<open>A Python dict keeps insertion order; assigning to a present key keeps its place.\<close>

fun dict_set :: "'k \<Rightarrow> 'v \<Rightarrow> ('k \<times> 'v) list \<Rightarrow> ('k \<times> 'v) list" where
  "dict_set k v [] = [(k, v)]"
| "dict_set k v ((a, b) # d) = (if a = k then (a, v) # d else (a, b) # dict_set k v d)"

definition dict_pop :: "'k \<Rightarrow> ('k \<times> 'v) list \<Rightarrow> ('k \<times> 'v) list" where
  "dict_pop k d = filter (\<lambda>(a, b). a \<noteq> k) d"

definition dict_get :: "('k \<times> 'v) list \<Rightarrow> 'k \<Rightarrow> 'v option" where
  "dict_get d k = map_of d k"

definition dict_get_or :: "('k \<times> 'v) list \<Rightarrow> 'k \<Rightarrow> 'v \<Rightarrow> 'v" where
  "dict_get_or d k v = (case map_of d k of None \<Rightarrow> v | Some w \<Rightarrow> w)"

definition dict_setdefault :: "'k \<Rightarrow> 'v \<Rightarrow> ('k \<times> 'v) list \<Rightarrow> ('k \<times> 'v) list" where
  "dict_setdefault k v d = (case map_of d k of None \<Rightarrow> d @ [(k, v)] | Some w \<Rightarrow> d)"

lemma map_of_dict_set [simp, dict_simps]: "map_of (dict_set k v d) = (map_of d)(k \<mapsto> v)"
  by (induction k v d rule: dict_set.induct) (auto simp: fun_eq_iff)

lemma map_of_dict_pop [simp, dict_simps]: "map_of (dict_pop k d) = (map_of d)(k := None)"
  by (induction d) (auto simp: dict_pop_def fun_eq_iff)

lemma dict_get_set [simp]: "dict_get (dict_set k v d) j = (if j = k then Some v else dict_get d j)"
  by (simp add: dict_get_def)

lemma dict_get_pop [simp]: "dict_get (dict_pop k d) j = (if j = k then None else dict_get d j)"
  by (simp add: dict_get_def)

lemma keys_dict_set: "fst ` set (dict_set k v d) = insert k (fst ` set d)"
  by (induction k v d rule: dict_set.induct) auto

lemma set_dict_set: "set (dict_set k v d) \<subseteq> insert (k, v) (set d)"
  by (induction k v d rule: dict_set.induct) auto

lemma in_dict_set [simp]: "(k, v) \<in> set (dict_set k v d)"
  by (induction k v d rule: dict_set.induct) auto

lemma dict_set_fresh: "k \<notin> fst ` set d \<Longrightarrow> dict_set k v d = d @ [(k, v)]"
  by (induction k v d rule: dict_set.induct) auto

lemma dict_set_twice: "dict_set k v (dict_set k w d) = dict_set k v d"
  by (induction k w d rule: dict_set.induct) auto

lemma distinct_dict_set: "distinct (map fst d) \<Longrightarrow> distinct (map fst (dict_set k v d))"
proof (induction k v d rule: dict_set.induct)
  case (2 k v a b d)
  then show ?case
    using keys_dict_set [of k v d] by (auto simp del: set_map simp: set_map [symmetric])
qed simp

lemma map_of_setdefault [dict_simps]:
  "map_of (dict_setdefault k v d) j =
     (if j = k \<and> map_of d k = None then Some v else map_of d j)"
  by (auto simp: dict_setdefault_def map_add_def split: option.splits)

section \<open>String methods\<close>

definition is_space :: "char \<Rightarrow> bool" where
  "is_space c = (let n = (of_char c :: nat) in
     (9 \<le> n \<and> n \<le> 13) \<or> (28 \<le> n \<and> n \<le> 32) \<or> n = 133 \<or> n = 160)"

definition lower_char :: "char \<Rightarrow> char" where
  "lower_char c = (let n = (of_char c :: nat) in
     if (65 \<le> n \<and> n \<le> 90) \<or> (192 \<le> n \<and> n \<le> 222 \<and> n \<noteq> 215) then char_of (n + 32) else c)"

definition upper_char :: "char \<Rightarrow> string" where
  "upper_char c = (let n = (of_char c :: nat) in
     if (97 \<le> n \<and> n \<le> 122) \<or> (224 \<le> n \<and> n \<le> 254 \<and> n \<noteq> 247) then [char_of (n - 32)]
     else if n = 223 then ''SS'' else [c])"

definition lower :: "string \<Rightarrow> string" where
  "lower s = map lower_char s"

definition upper :: "string \<Rightarrow> string" where
  "upper s = concat (map upper_char s)"

definition lstrip :: "string \<Rightarrow> string" where
  "lstrip s = dropWhile is_space s"

definition rstrip :: "string \<Rightarrow> string" where
  "rstrip s = rev (dropWhile is_space (rev s))"

definition strip :: "string \<Rightarrow> string" where
  "strip s = rstrip (lstrip s)"

text \<open>\<open>lstrip\<close> and \<open>rstrip\<close> of one given character.\<close>

definition lstrip_chr :: "char \<Rightarrow> string \<Rightarrow> string" where
  "lstrip_chr c s = dropWhile (\<lambda>x. x = c) s"

definition rstrip_chr :: "char \<Rightarrow> string \<Rightarrow> string" where
  "rstrip_chr c s = rev (dropWhile (\<lambda>x. x = c) (rev s))"

definition startswith :: "string \<Rightarrow> string \<Rightarrow> bool" where
  "startswith s p = (take (length p) s = p)"

definition endswith :: "string \<Rightarrow> string \<Rightarrow> bool" where
  "endswith s p = startswith (rev s) (rev p)"

fun contains :: "string \<Rightarrow> string \<Rightarrow> bool" where
  "contains [] p = (p = [])"
| "contains (x # s) p = (startswith (x # s) p \<or> contains s p)"

fun split_chr :: "char \<Rightarrow> string \<Rightarrow> string list" where
  "split_chr c [] = [[]]"
| "split_chr c (x # s) =
     (if x = c then [] # split_chr c s
      else (case split_chr c s of [] \<Rightarrow> [[x]] | y # ys \<Rightarrow> (x # y) # ys))"

text \<open>\<open>s.partition(c)\<close> without the separator it found: the parts before and after it.\<close>

definition partition_chr :: "char \<Rightarrow> string \<Rightarrow> string \<times> bool \<times> string" where
  "partition_chr c s = (takeWhile (\<lambda>x. x \<noteq> c) s, c \<in> set s, drop 1 (dropWhile (\<lambda>x. x \<noteq> c) s))"

definition replace_chr :: "char \<Rightarrow> string \<Rightarrow> string \<Rightarrow> string" where
  "replace_chr c r s = concat (map (\<lambda>x. if x = c then r else [x]) s)"

fun join :: "string \<Rightarrow> string list \<Rightarrow> string" where
  "join sep [] = []"
| "join sep [x] = x"
| "join sep (x # y # xs) = x @ sep @ join sep (y # xs)"

text \<open>\<open>s.split()\<close>: the maximal runs of non-space characters.\<close>

function split_ws :: "string \<Rightarrow> string list" where
  "split_ws s = (let t = lstrip s in
     if t = [] then []
     else takeWhile (\<lambda>c. \<not> is_space c) t # split_ws (dropWhile (\<lambda>c. \<not> is_space c) t))"
  by pat_completeness auto

lemma lstrip_length: "length (lstrip s) \<le> length s"
  by (simp add: lstrip_def length_dropWhile_le)

lemma lstrip_hd: "lstrip s \<noteq> [] \<Longrightarrow> \<not> is_space (hd (lstrip s))"
  by (simp add: lstrip_def hd_dropWhile)

lemma split_ws_shrinks:
  assumes "lstrip s \<noteq> []"
  shows "length (dropWhile (\<lambda>c. \<not> is_space c) (lstrip s)) < length s"
proof -
  obtain c t where ct: "lstrip s = c # t"
    using assms by (cases "lstrip s") auto
  have "\<not> is_space c"
    using lstrip_hd [OF assms] ct by simp
  then have "length (dropWhile (\<lambda>c. \<not> is_space c) (lstrip s)) \<le> length t"
    using ct by (simp add: length_dropWhile_le)
  also have "\<dots> < length s"
    using lstrip_length [of s] ct by simp
  finally show ?thesis .
qed

termination split_ws
  by (relation "measure length") (auto simp: split_ws_shrinks)

declare split_ws.simps [simp del]

text \<open>\<open>[p.strip() for p in s.split(",") if p.strip()]\<close>, the list setting idiom.\<close>

definition csv_list :: "string \<Rightarrow> string list" where
  "csv_list s = filter (\<lambda>p. p \<noteq> []) (map strip (split_chr CHR '','' s))"

definition is_digit_char :: "char \<Rightarrow> bool" where
  "is_digit_char c = (let n = (of_char c :: nat) in
     (48 \<le> n \<and> n \<le> 57) \<or> n = 178 \<or> n = 179 \<or> n = 185)"

definition is_decimal_char :: "char \<Rightarrow> bool" where
  "is_decimal_char c = (let n = (of_char c :: nat) in 48 \<le> n \<and> n \<le> 57)"

definition isdigit :: "string \<Rightarrow> bool" where
  "isdigit s = (s \<noteq> [] \<and> list_all is_digit_char s)"

section \<open>Printing\<close>

definition digit :: "nat \<Rightarrow> char" where
  "digit n = char_of (48 + n)"

fun show_nat :: "nat \<Rightarrow> string" where
  "show_nat n = (if n < 10 then [digit n] else show_nat (n div 10) @ [digit (n mod 10)])"

declare show_nat.simps [simp del]

definition show_int :: "int \<Rightarrow> string" where
  "show_int i = (if i < 0 then CHR ''-'' # show_nat (nat (- i)) else show_nat (nat i))"

definition show_pad :: "nat \<Rightarrow> nat \<Rightarrow> string" where
  "show_pad w n = replicate (w - length (show_nat n)) CHR ''0'' @ show_nat n"

text \<open>\<open>int(s)\<close> on a string of decimal digits.\<close>

definition nat_of_digits :: "string \<Rightarrow> nat" where
  "nat_of_digits s = foldl (\<lambda>a c. 10 * a + ((of_char c :: nat) - 48)) 0 s"

definition show_bool :: "bool \<Rightarrow> string" where
  "show_bool b = (if b then ''True'' else ''False'')"

definition hex_digit :: "nat \<Rightarrow> char" where
  "hex_digit n = (if n < 10 then char_of (48 + n) else char_of (87 + n))"

definition repr_char :: "char \<Rightarrow> char \<Rightarrow> string" where
  "repr_char q c = (let n = (of_char c :: nat) in
     if c = q \<or> n = 92 then [char_of (92 :: nat), c]
     else if n = 10 then [char_of (92 :: nat), CHR ''n'']
     else if n = 13 then [char_of (92 :: nat), CHR ''r'']
     else if n = 9 then [char_of (92 :: nat), CHR ''t'']
     else if n < 32 \<or> (127 \<le> n \<and> n \<le> 160) \<or> n = 173
       then [char_of (92 :: nat), CHR ''x'', hex_digit (n div 16), hex_digit (n mod 16)]
     else [c])"

definition repr_str :: "string \<Rightarrow> string" where
  "repr_str s = (let q = (if CHR 0x27 \<in> set s \<and> CHR 0x22 \<notin> set s then CHR 0x22 else CHR 0x27)
     in [q] @ concat (map (repr_char q) s) @ [q])"

text \<open>\<open>int(s)\<close> of any string: blanks around it, a sign, and single underscores between digits.\<close>

definition py_int :: "string \<Rightarrow> int result" where
  "py_int s =
     (let t = strip s;
          neg = startswith t ''-'';
          u = (if neg \<or> startswith t ''+'' then drop 1 t else t);
          ds = filter (\<lambda>c. c \<noteq> CHR ''_'') u in
      if \<not> list_all (\<lambda>p. p \<noteq> [] \<and> list_all is_decimal_char p) (split_chr CHR ''_'' u)
      then Inl (ValueError (''invalid literal for int() with base 10: '' @ take 200 (repr_str s)))
      else if length ds > 4300
      then Inl (ValueError (''Exceeds the limit (4300 digits) for integer string conversion: value has ''
        @ show_nat (length ds) @ '' digits; use sys.set_int_max_str_digits() to increase the limit''))
      else Inr (if neg then - int (nat_of_digits ds) else int (nat_of_digits ds)))"

fun py_repr :: "pyval \<Rightarrow> string" where
  "py_repr PNone = ''None''"
| "py_repr (PBool b) = show_bool b"
| "py_repr (PInt i) = show_int i"
| "py_repr (PFloat r) = r"
| "py_repr (PStr s) = repr_str s"
| "py_repr (PList xs) = ''['' @ join '', '' (map py_repr xs) @ '']''"
| "py_repr (PDict d) =
     ''{'' @ join '', '' (map (\<lambda>(k, v). repr_str k @ '': '' @ py_repr v) d) @ ''}''"

definition py_str :: "pyval \<Rightarrow> string" where
  "py_str v = (case v of PStr s \<Rightarrow> s | _ \<Rightarrow> py_repr v)"

text \<open>Python truth of a value. A float is false exactly when it prints as a zero.\<close>

fun truthy :: "pyval \<Rightarrow> bool" where
  "truthy PNone = False"
| "truthy (PBool b) = b"
| "truthy (PInt i) = (i \<noteq> 0)"
| "truthy (PFloat r) = (r \<noteq> ''0.0'' \<and> r \<noteq> ''-0.0'')"
| "truthy (PStr s) = (s \<noteq> [])"
| "truthy (PList xs) = (xs \<noteq> [])"
| "truthy (PDict d) = (d \<noteq> [])"

text \<open>\<open>str(exc)\<close>.\<close>

definition exn_text :: "exn \<Rightarrow> string" where
  "exn_text e = (case e of ValueError m \<Rightarrow> m | RuntimeError m \<Rightarrow> m | KeyError m \<Rightarrow> m | OtherError m \<Rightarrow> m
     | PyJWTError m \<Rightarrow> m | AuthError m _ \<Rightarrow> m | JwksError m _ \<Rightarrow> m | StorageError m _ \<Rightarrow> m
     | SecretError m _ \<Rightarrow> m | AuditExportError m _ \<Rightarrow> m | RateLimitUnavailable m \<Rightarrow> m
     | HTTPException c d h \<Rightarrow> show_int c @ '': '' @ py_str d)"

section \<open>Lemmas on strings\<close>

lemma lower_char_idem [simp]: "lower_char (lower_char c) = lower_char c"
  by (simp add: lower_char_def Let_def)

lemma lower_idem [simp]: "lower (lower s) = lower s"
  by (simp add: lower_def)

lemma lower_Nil_iff [simp]: "lower s = [] \<longleftrightarrow> s = []"
  by (simp add: lower_def)

lemma strip_Nil [simp]: "strip [] = []" "lstrip [] = []" "rstrip [] = []"
  by (simp_all add: strip_def lstrip_def rstrip_def)

lemma all_dropWhile_iff: "(\<forall>x\<in>set (dropWhile P s). P x) \<longleftrightarrow> (\<forall>x\<in>set s. P x)"
  by (induction s) auto

lemma strip_empty_iff: "strip s = [] \<longleftrightarrow> list_all is_space s"
  by (simp add: strip_def rstrip_def lstrip_def list_all_iff all_dropWhile_iff)

lemma dropWhile_suffix_ex: "\<exists>p. s = p @ dropWhile P s"
  by (rule exI [of _ "takeWhile P s"]) simp

lemma rstrip_prefix: "\<exists>q. s = rstrip s @ q"
proof -
  obtain p where "rev s = p @ dropWhile is_space (rev s)"
    using dropWhile_suffix_ex by blast
  then have "s = rstrip s @ rev p"
    unfolding rstrip_def by (simp add: rev_swap)
  then show ?thesis ..
qed

lemma strip_subset: "set (strip s) \<subseteq> set s"
proof -
  have "set (rstrip t) \<subseteq> set t" for t
    by (metis rstrip_prefix set_append sup_ge1)
  moreover have "set (lstrip s) \<subseteq> set s"
    by (auto simp: lstrip_def dest: set_dropWhileD)
  ultimately show ?thesis
    unfolding strip_def by blast
qed

lemma rstrip_idem [simp]: "rstrip (rstrip s) = rstrip s"
  by (simp add: rstrip_def)

lemma lstrip_idem [simp]: "lstrip (lstrip s) = lstrip s"
  by (simp add: lstrip_def)

lemma lstrip_rstrip_lstrip [simp]: "lstrip (rstrip (lstrip s)) = rstrip (lstrip s)"
proof (cases "rstrip (lstrip s)")
  case Nil
  then show ?thesis by simp
next
  case (Cons c t)
  obtain q where q: "lstrip s = rstrip (lstrip s) @ q"
    using rstrip_prefix by blast
  then have "lstrip s \<noteq> []" and "hd (lstrip s) = c"
    using Cons by (auto simp: hd_append)
  then have "\<not> is_space c"
    using lstrip_hd by blast
  then show ?thesis
    using Cons by (simp add: lstrip_def)
qed

lemma strip_idem [simp]: "strip (strip s) = strip s"
  by (simp add: strip_def)

lemma dropWhile_none: "(\<forall>x\<in>set s. \<not> P x) \<Longrightarrow> dropWhile P s = s"
  by (cases s) auto

lemma strip_no_space: "list_all (\<lambda>c. \<not> is_space c) s \<Longrightarrow> strip s = s"
  by (simp add: strip_def lstrip_def rstrip_def list_all_iff dropWhile_none)

lemma startswith_append [simp]: "startswith (p @ s) p"
  by (simp add: startswith_def)

lemma startswith_iff: "startswith s p \<longleftrightarrow> (\<exists>t. s = p @ t)"
  by (auto simp: startswith_def) (metis append_take_drop_id)

lemma startswith_Nil [simp]: "startswith s []"
  by (simp add: startswith_def)

lemma startswith_trans: "startswith s p \<Longrightarrow> startswith p q \<Longrightarrow> startswith s q"
  by (auto simp: startswith_iff)

lemma endswith_iff: "endswith s p \<longleftrightarrow> (\<exists>t. s = t @ p)"
  unfolding endswith_def startswith_iff by (metis rev_append rev_rev_ident)

lemma contains_iff: "contains s p \<longleftrightarrow> (\<exists>a b. s = a @ p @ b)"
proof (induction s p rule: contains.induct)
  case (1 p)
  then show ?case by auto
next
  case (2 x s p)
  show ?case
  proof
    assume "contains (x # s) p"
    then consider "startswith (x # s) p" | "contains s p" by auto
    then show "\<exists>a b. x # s = a @ p @ b"
    proof cases
      case 1
      then show ?thesis
        by (metis append_Nil startswith_iff)
    next
      case 2
      then show ?thesis
        using "2.IH" by (metis append_Cons)
    qed
  next
    assume "\<exists>a b. x # s = a @ p @ b"
    then obtain a b where ab: "x # s = a @ p @ b" by blast
    show "contains (x # s) p"
    proof (cases a)
      case Nil
      then have "startswith (x # s) p"
        using ab by (auto simp: startswith_iff)
      then show ?thesis by simp
    next
      case (Cons y a')
      then have "contains s p"
        using ab "2.IH" by auto
      then show ?thesis by simp
    qed
  qed
qed

text \<open>Two texts cut at the first occurrence of a separator agree part by part.\<close>

lemma sep_inject:
  assumes "c \<notin> set a" and "c \<notin> set b"
  shows "a @ c # x = b @ c # y \<longleftrightarrow> a = b \<and> x = y"
proof
  assume eq: "a @ c # x = b @ c # y"
  have "takeWhile (\<lambda>z. z \<noteq> c) (a @ c # x) = a" "takeWhile (\<lambda>z. z \<noteq> c) (b @ c # y) = b"
    using assms by (auto simp: takeWhile_tail)
  with eq have "a = b" by simp
  with eq show "a = b \<and> x = y" by simp
qed simp

lemma takeWhile_sep: "c \<in> set s \<Longrightarrow> \<exists>rest. s = takeWhile (\<lambda>x. x \<noteq> c) s @ c # rest"
  by (induction s) auto

lemma split_chr_not_Nil [simp]: "split_chr c s \<noteq> []"
  by (induction c s rule: split_chr.induct) (auto split: list.splits)

lemma join_split_chr: "join [c] (split_chr c s) = s"
proof (induction c s rule: split_chr.induct)
  case (1 c)
  then show ?case by simp
next
  case (2 c x s)
  obtain y ys where y: "split_chr c s = y # ys"
    by (cases "split_chr c s") auto
  show ?case
  proof (cases "x = c")
    case True
    then show ?thesis using 2 y by simp
  next
    case False
    then show ?thesis using 2 y by (cases ys) auto
  qed
qed

lemma split_chr_free: "p \<in> set (split_chr c s) \<Longrightarrow> c \<notin> set p"
  by (induction c s arbitrary: p rule: split_chr.induct) (fastforce split: if_splits list.splits)+

lemma csv_list_nonempty: "p \<in> set (csv_list s) \<Longrightarrow> p \<noteq> [] \<and> strip p = p"
  by (auto simp: csv_list_def)

lemma replace_chr_free: "c \<notin> set r \<Longrightarrow> c \<notin> set (replace_chr c r s)"
  by (induction s) (auto simp: replace_chr_def)

section \<open>Lemmas on printing\<close>

lemma of_char_digit: "n < 10 \<Longrightarrow> of_char (digit n) = (48 + n :: nat)"
  by (simp add: digit_def)

lemma digit_inject: "m < 10 \<Longrightarrow> n < 10 \<Longrightarrow> digit m = digit n \<longleftrightarrow> m = n"
  by (metis of_char_digit add_left_cancel)

lemma nat_of_digits_append:
  "nat_of_digits (s @ [c]) = 10 * nat_of_digits s + ((of_char c :: nat) - 48)"
  by (simp add: nat_of_digits_def)

lemma nat_of_digits_show_nat [simp]: "nat_of_digits (show_nat n) = n"
proof (induction n rule: show_nat.induct)
  case (1 n)
  show ?case
  proof (cases "n < 10")
    case True
    then show ?thesis
      by (subst show_nat.simps) (simp add: nat_of_digits_def of_char_digit)
  next
    case False
    with 1 have "nat_of_digits (show_nat (n div 10)) = n div 10" by simp
    with False show ?thesis
      by (subst show_nat.simps) (simp add: nat_of_digits_append of_char_digit)
  qed
qed

lemma show_nat_inject [simp]: "show_nat m = show_nat n \<longleftrightarrow> m = n"
  by (metis nat_of_digits_show_nat)

lemma nat_of_digits_zeros: "nat_of_digits (replicate k CHR ''0'' @ s) = nat_of_digits s"
  by (induction k) (simp_all add: nat_of_digits_def)

lemma show_pad_inject: "show_pad w m = show_pad w n \<longleftrightarrow> m = n"
  by (metis show_pad_def nat_of_digits_zeros nat_of_digits_show_nat)

lemma show_nat_digits: "c \<in> set (show_nat n) \<Longrightarrow> is_decimal_char c"
proof (induction n rule: show_nat.induct)
  case (1 n)
  then show ?case
    by (cases "n < 10") (auto simp: show_nat.simps [of n] is_decimal_char_def Let_def of_char_digit)
qed

end
