(* ===== verification/Tenant_Scope.thy ===== *)
theory Tenant_Scope
  imports Py_Prelude
begin

text \<open>
  The contract of the naming schemes that keep tenants apart: every name of a tenant lies under a
  prefix of its own, and no name lies under the prefixes of two tenants. The governance and
  write-storm row ids, the Redis keys and the object keys are interpreted in it; what the scheme
  guarantees to a reader, a deleter and a lister is proved once here.
\<close>

locale tenant_scope =
  fixes scope :: "string \<Rightarrow> string"
    and scoped :: "string \<Rightarrow> bool"
  assumes scope_disjoint: "scoped a \<Longrightarrow> scoped b \<Longrightarrow> startswith x (scope a) \<Longrightarrow>
      startswith x (scope b) \<Longrightarrow> a = b"
begin

lemma names_differ:
  assumes "scoped a" and "scoped b" and "a \<noteq> b" and "startswith x (scope a)" and "startswith y (scope b)"
  shows "x \<noteq> y"
  using scope_disjoint assms by blast

lemma listing_separate:
  assumes "scoped a" and "scoped b" and "a \<noteq> b"
  shows "set (filter (\<lambda>x. startswith x (scope a)) xs) \<inter> set (filter (\<lambda>x. startswith x (scope b)) xs) = {}"
  using scope_disjoint assms by auto

text \<open>Removing what one tenant owns keeps everything another one owns.\<close>

lemma removal_keeps:
  assumes "scoped a" and "scoped b" and "a \<noteq> b"
  shows "filter (\<lambda>r. startswith (name r) (scope b)) (filter (\<lambda>r. \<not> startswith (name r) (scope a)) rs)
    = filter (\<lambda>r. startswith (name r) (scope b)) rs"
  using scope_disjoint assms by (induction rs) auto

lemma write_keeps:
  assumes "scoped a" and "scoped b" and "a \<noteq> b" and "startswith x (scope a)" and "startswith y (scope b)"
  shows "map_of (dict_set x v d) y = map_of d y" "map_of (dict_pop x d) y = map_of d y"
  using names_differ [OF assms] by auto

end

text \<open>A prefix made of a fixed text, the tenant and a separator it has not.\<close>

lemma separator_scope:
  assumes "c \<notin> set a" and "c \<notin> set b" and "startswith x (base @ a @ c # rest)"
    and "startswith x (base @ b @ c # rest')"
  shows "a = b"
proof -
  obtain u v where "base @ a @ c # u = base @ b @ c # v"
    using assms(3,4) unfolding startswith_iff by auto
  then show ?thesis
    using sep_inject [OF assms(1,2)] by simp
qed

definition colon_free :: "string \<Rightarrow> bool" where
  "colon_free t = (CHR '':'' \<notin> set t)"

end
