(* ===== verification/Db.thy ===== *)
theory Db
  imports Tenant_Scope
begin

text \<open>
  \<open>apps/api/db.py\<close>: the PostgreSQL database the program works on and the helpers of the
  governance and write-storm labs. The database is a record of tables, each the list of its rows
  in insertion order, with the server clock that \<open>now()\<close> reads. A SQL statement is the list
  operation it denotes. The server can fail: \<open>pg_faults\<close> tells for each connection in turn
  whether opening it raises (an empty list: it never does).
\<close>

section \<open>Tables\<close>

record prompt_request =
  pr_id :: string
  pr_tenant_id :: string
  pr_prompt_text :: string
  pr_created_at :: int
  pr_deleted_at :: "int option"

text \<open>The four downstream tables; \<open>tool_name\<close> is a column of \<open>tool_records\<close> only.\<close>

datatype child_table = prompt_logs | tool_records | evaluation_queue | training_queue

definition all_child_tables :: "child_table list" where
  "all_child_tables = [prompt_logs, tool_records, evaluation_queue, training_queue]"

instantiation child_table :: enum
begin

definition enum_child_table :: "child_table list" where
  "enum_child_table = all_child_tables"

definition enum_all_child_table :: "(child_table \<Rightarrow> bool) \<Rightarrow> bool" where
  "enum_all_child_table P = list_all P all_child_tables"

definition enum_ex_child_table :: "(child_table \<Rightarrow> bool) \<Rightarrow> bool" where
  "enum_ex_child_table P = list_ex P all_child_tables"

instance
proof -
  have all: "t \<in> set all_child_tables" for t
    by (cases t) (simp_all add: all_child_tables_def)
  then have univ: "UNIV = set all_child_tables" by auto
  show "OFCLASS(child_table, enum_class)"
    by standard (auto simp: enum_child_table_def enum_all_child_table_def enum_ex_child_table_def univ
        list_all_iff list_ex_iff intro: all simp: all_child_tables_def)
qed

end

record child_row =
  ch_id :: string
  ch_prompt_request_id :: string
  ch_tool_name :: "string option"
  ch_content :: string
  ch_created_at :: int
  ch_deleted_at :: "int option"

record audit_row =
  da_id :: string
  da_prompt_request_id :: string
  da_mode :: string
  da_orphan_count :: int
  da_complete :: bool
  da_created_at :: int

record storm_event =
  ws_id :: string
  ws_tenant_id :: string
  ws_prompt_request_id :: string
  ws_event_type :: string
  ws_payload :: string
  ws_created_at :: int

record tenant_row =
  tn_id :: string
  tn_name :: string
  tn_status :: string
  tn_created_at :: int

record user_row =
  us_id :: string
  us_subject :: string
  us_email :: "string option"
  us_created_at :: int

record membership_row =
  tm_id :: string
  tm_tenant_id :: string
  tm_user_id :: string
  tm_role :: string
  tm_status :: string
  tm_created_at :: int

record audit_event =
  ae_id :: string
  ae_tenant_id :: "string option"
  ae_actor_subject :: "string option"
  ae_action :: string
  ae_resource_type :: "string option"
  ae_resource_id :: "string option"
  ae_result :: string
  ae_metadata :: pydict
  ae_created_at :: int

record pg =
  pg_faults :: "exn option list"
  pg_now :: int
  prompt_requests :: "prompt_request list"
  children :: "child_table \<Rightarrow> child_row list"
  deletion_audit :: "audit_row list"
  write_storm_events :: "storm_event list"
  tenants :: "tenant_row list"
  users :: "user_row list"
  tenant_memberships :: "membership_row list"
  audit_events :: "audit_event list"

definition empty_pg :: "int \<Rightarrow> pg" where
  "empty_pg now = \<lparr>pg_faults = [], pg_now = now, prompt_requests = [], children = (\<lambda>_. []),
     deletion_audit = [], write_storm_events = [], tenants = [], users = [],
     tenant_memberships = [], audit_events = []\<rparr>"

section \<open>Connections and statements\<close>

definition next_conn :: "pg \<Rightarrow> pg" where
  "next_conn s = s\<lparr>pg_faults := drop 1 (pg_faults s)\<rparr>"

text \<open>
  \<open>get_connection\<close>: the statements of the block run as one transaction, committed at its end
  and rolled back when the block raises.
\<close>

definition get_connection :: "(pg, 'a) eff \<Rightarrow> (pg, 'a) eff" where
  "get_connection block s =
     (case pg_faults s of
        Some e # _ \<Rightarrow> (Inl e, next_conn s)
      | _ \<Rightarrow> (case block (next_conn s) of
                (Inl e, _) \<Rightarrow> (Inl e, next_conn s) | (Inr x, s') \<Rightarrow> (Inr x, s')))"

text \<open>SQL \<open>LIKE\<close>: \<open>%\<close> is any text, \<open>_\<close> any one character, a backslash takes the next literally.\<close>

fun like :: "string \<Rightarrow> string \<Rightarrow> bool" where
  "like [] s = (s = [])"
| "like (c # p) s =
     (if c = CHR ''%'' then like p s \<or> (case s of [] \<Rightarrow> False | _ # t \<Rightarrow> like (c # p) t)
      else if c = CHR ''_'' then (case s of [] \<Rightarrow> False | _ # t \<Rightarrow> like p t)
      else if c = CHR 0x5C then
        (case p of [] \<Rightarrow> False
         | d # q \<Rightarrow> (case s of [] \<Rightarrow> False | x # t \<Rightarrow> x = d \<and> like q t))
      else (case s of [] \<Rightarrow> False | x # t \<Rightarrow> x = c \<and> like p t))"

text \<open>
  \<open>INSERT ... ON CONFLICT (key) DO UPDATE\<close>: \<open>upd\<close> merges the row present with the new one.
\<close>

fun upsert :: "('r \<Rightarrow> 'k) \<Rightarrow> ('r \<Rightarrow> 'r \<Rightarrow> 'r) \<Rightarrow> 'r \<Rightarrow> 'r list \<Rightarrow> 'r list" where
  "upsert key upd new [] = [new]"
| "upsert key upd new (r # rs) =
     (if key r = key new then upd r new # rs else r # upsert key upd new rs)"

text \<open>\<open>INSERT\<close> into a table with a primary key, and \<open>ON CONFLICT DO NOTHING\<close>.\<close>

definition unique_violation :: exn where
  "unique_violation = OtherError ''duplicate key value violates unique constraint''"

definition insert_pk :: "('r \<Rightarrow> 'k) \<Rightarrow> 'r \<Rightarrow> 'r list \<Rightarrow> 'r list result" where
  "insert_pk key new rs =
     (if key new \<in> key ` set rs then Inl unique_violation else Inr (rs @ [new]))"

definition insert_or_skip :: "('r \<Rightarrow> 'k) \<Rightarrow> 'r \<Rightarrow> 'r list \<Rightarrow> 'r list" where
  "insert_or_skip key new rs = (if key new \<in> key ` set rs then rs else rs @ [new])"

section \<open>Identifiers\<close>

definition GOVERNANCE_ID_PREFIX :: string where
  "GOVERNANCE_ID_PREFIX = ''boundary-layer-governance-''"

definition WRITE_STORM_ID_PREFIX :: string where
  "WRITE_STORM_ID_PREFIX = ''boundary-layer-write-storm-''"

definition governance_id_prefix :: "string \<Rightarrow> string" where
  "governance_id_prefix tenant_id = GOVERNANCE_ID_PREFIX @ tenant_id @ '':''"

definition write_storm_id_prefix :: "string \<Rightarrow> string" where
  "write_storm_id_prefix tenant_id = WRITE_STORM_ID_PREFIX @ tenant_id @ '':''"

definition governance_prompt_id :: "string \<Rightarrow> string" where
  "governance_prompt_id tenant_id = governance_id_prefix tenant_id @ ''prompt-001''"

definition postgres_live_enabled :: "(string \<times> string) list \<Rightarrow> bool" where
  "postgres_live_enabled env =
     (lower (dict_get_or env ''BOUNDARY_LAYER_POSTGRES_LIVE'' ''false'') = ''true'')"

definition postgres_connect_kwargs ::
    "(string \<times> string) list \<Rightarrow> string \<Rightarrow> int \<Rightarrow> string \<Rightarrow> string \<Rightarrow> string \<Rightarrow> pydict" where
  "postgres_connect_kwargs env host port dbname user password =
     (let kwargs = [(''host'', PStr host), (''port'', PInt port), (''dbname'', PStr dbname),
                    (''user'', PStr user), (''password'', PStr password), (''connect_timeout'', PInt 2)];
          sslmode = strip (dict_get_or env ''POSTGRES_SSLMODE'' ''prefer'');
          kwargs = (if sslmode \<noteq> [] \<and> lower sslmode \<noteq> ''disable''
                    then dict_set ''sslmode'' (PStr sslmode) kwargs else kwargs);
          root_cert = strip (dict_get_or env ''POSTGRES_SSL_ROOT_CERT'' [])
      in if root_cert \<noteq> [] then dict_set ''sslrootcert'' (PStr root_cert) kwargs else kwargs)"

section \<open>Governance records\<close>

definition verify_prompt_tenant :: "string \<Rightarrow> string \<Rightarrow> (pg, unit) eff" where
  "verify_prompt_tenant prompt_id tenant_id =
     bind_eff (get_connection (\<lambda>s. (Inr (find (\<lambda>r. pr_id r = prompt_id) (prompt_requests s)), s)))
       (\<lambda>row. case row of
          None \<Rightarrow> raise_exn (ValueError (''Prompt record not found: '' @ prompt_id))
        | Some r \<Rightarrow> if pr_tenant_id r \<noteq> tenant_id
                    then raise_exn (ValueError ''Cross-tenant prompt access denied'')
                    else ret ())"

definition init_db :: "(pg, unit) eff" where
  "init_db = get_connection (ret ())"

definition check_postgres_connection :: "(pg, unit) eff" where
  "check_postgres_connection = get_connection (ret ())"

definition reset_governance_lab_records :: "string \<Rightarrow> (pg, unit) eff" where
  "reset_governance_lab_records tenant_id =
     (let pat = governance_id_prefix tenant_id @ ''%'' in
      get_connection (\<lambda>s. (Inr (), s\<lparr>
        deletion_audit := filter (\<lambda>r. \<not> like pat (da_prompt_request_id r)) (deletion_audit s),
        children := (\<lambda>t. filter (\<lambda>r. \<not> (like pat (ch_prompt_request_id r) \<or> like pat (ch_id r)))
                           (children s t)),
        prompt_requests := filter (\<lambda>r. \<not> (like pat (pr_id r) \<and> pr_tenant_id r = tenant_id))
                             (prompt_requests s)\<rparr>)))"

definition put_prompt_request :: "prompt_request \<Rightarrow> pg \<Rightarrow> pg" where
  "put_prompt_request new s = s\<lparr>prompt_requests := upsert pr_id
     (\<lambda>old new. old\<lparr>pr_deleted_at := None, pr_prompt_text := pr_prompt_text new,
                     pr_tenant_id := pr_tenant_id new\<rparr>) new (prompt_requests s)\<rparr>"

definition put_child :: "child_table \<Rightarrow> child_row \<Rightarrow> pg \<Rightarrow> pg" where
  "put_child t new s = s\<lparr>children := (children s)(t := upsert ch_id
     (\<lambda>old new. old\<lparr>ch_deleted_at := None, ch_content := ch_content new\<rparr>) new (children s t))\<rparr>"

definition lifecycle_children :: "string \<Rightarrow> (child_table \<times> string \<times> string option \<times> string) list" where
  "lifecycle_children tenant_id = (let prefix = governance_id_prefix tenant_id in
     [(prompt_logs, prefix @ ''log-200'', None, ''Prompt invocation log A''),
      (prompt_logs, prefix @ ''log-201'', None, ''Prompt invocation log B''),
      (tool_records, prefix @ ''tool-300'', Some ''summarize_feedback'', ''Tool output''),
      (evaluation_queue, prefix @ ''eval-400'', None, ''Queued for offline eval''),
      (training_queue, prefix @ ''train-500'', None, ''Queued for training pipeline'')])"

definition create_prompt_lifecycle_records :: "string \<Rightarrow> (pg, string) eff" where
  "create_prompt_lifecycle_records tenant_id =
     (let prompt_id = governance_prompt_id tenant_id in
      get_connection (\<lambda>s.
        (Inr prompt_id,
         fold (\<lambda>(t, i, tool, content). put_child t
                 \<lparr>ch_id = i, ch_prompt_request_id = prompt_id, ch_tool_name = tool,
                  ch_content = content, ch_created_at = pg_now s, ch_deleted_at = None\<rparr>)
           (lifecycle_children tenant_id)
           (put_prompt_request
              \<lparr>pr_id = prompt_id, pr_tenant_id = tenant_id,
               pr_prompt_text = ''Summarize customer feedback for product team.'',
               pr_created_at = pg_now s, pr_deleted_at = None\<rparr> s))))"

definition mark_prompt_deleted :: "string \<Rightarrow> pg \<Rightarrow> pg" where
  "mark_prompt_deleted prompt_id s = s\<lparr>prompt_requests :=
     map (\<lambda>r. if pr_id r = prompt_id then r\<lparr>pr_deleted_at := Some (pg_now s)\<rparr> else r)
       (prompt_requests s)\<rparr>"

definition mark_children_deleted :: "string \<Rightarrow> pg \<Rightarrow> pg" where
  "mark_children_deleted prompt_id s = s\<lparr>children := (\<lambda>t.
     map (\<lambda>r. if ch_prompt_request_id r = prompt_id \<and> ch_deleted_at r = None
               then r\<lparr>ch_deleted_at := Some (pg_now s)\<rparr> else r) (children s t))\<rparr>"

definition delete_primary_only :: "string \<Rightarrow> string \<Rightarrow> (pg, unit) eff" where
  "delete_primary_only prompt_id tenant_id =
     bind_eff (verify_prompt_tenant prompt_id tenant_id) (\<lambda>_.
       get_connection (\<lambda>s. (Inr (), mark_prompt_deleted prompt_id s)))"

definition delete_all_prompt_lifecycle_records :: "string \<Rightarrow> string \<Rightarrow> (pg, unit) eff" where
  "delete_all_prompt_lifecycle_records prompt_id tenant_id =
     bind_eff (verify_prompt_tenant prompt_id tenant_id) (\<lambda>_.
       get_connection (\<lambda>s. (Inr (), mark_prompt_deleted prompt_id (mark_children_deleted prompt_id s))))"

text \<open>One of the four counting queries: a join of the child table with \<open>prompt_requests\<close>.\<close>

definition orphans_in :: "child_table \<Rightarrow> string \<Rightarrow> string \<Rightarrow> pg \<Rightarrow> nat" where
  "orphans_in t prompt_id tenant_id s =
     length [(c, r). c \<leftarrow> children s t, r \<leftarrow> prompt_requests s,
               pr_id r = ch_prompt_request_id c \<and> ch_prompt_request_id c = prompt_id \<and>
               pr_tenant_id r = tenant_id \<and> pr_deleted_at r \<noteq> None \<and> ch_deleted_at c = None]"

definition count_orphan_records :: "string \<Rightarrow> string \<Rightarrow> (pg, int) eff" where
  "count_orphan_records prompt_id tenant_id =
     bind_eff (verify_prompt_tenant prompt_id tenant_id) (\<lambda>_.
       get_connection (\<lambda>s. (Inr (int (
         orphans_in prompt_logs prompt_id tenant_id s + orphans_in tool_records prompt_id tenant_id s +
         orphans_in evaluation_queue prompt_id tenant_id s +
         orphans_in training_queue prompt_id tenant_id s)), s)))"

text \<open>\<open>uuid\<close> is the twelve hexadecimal digits \<open>uuid4\<close> gave.\<close>

definition insert_deletion_audit ::
    "string \<Rightarrow> string \<Rightarrow> string \<Rightarrow> int \<Rightarrow> bool \<Rightarrow> string \<Rightarrow> (pg, string) eff" where
  "insert_deletion_audit uuid prompt_id mode orphan_count complete tenant_id =
     bind_eff (verify_prompt_tenant prompt_id tenant_id) (\<lambda>_.
       let audit_id = governance_id_prefix tenant_id @ ''audit-'' @ uuid in
       get_connection (\<lambda>s. case insert_pk da_id
           \<lparr>da_id = audit_id, da_prompt_request_id = prompt_id, da_mode = mode,
            da_orphan_count = orphan_count, da_complete = complete, da_created_at = pg_now s\<rparr>
           (deletion_audit s) of
         Inl e \<Rightarrow> (Inl e, s) | Inr rs \<Rightarrow> (Inr audit_id, s\<lparr>deletion_audit := rs\<rparr>)))"

section \<open>Write-storm events\<close>

definition reset_write_storm_events :: "string \<Rightarrow> (pg, unit) eff" where
  "reset_write_storm_events tenant_id =
     get_connection (\<lambda>s. (Inr (), s\<lparr>write_storm_events := filter
       (\<lambda>r. \<not> (ws_tenant_id r = tenant_id \<and> like (write_storm_id_prefix tenant_id @ ''%'') (ws_id r)))
       (write_storm_events s)\<rparr>))"

definition storm_row :: "string \<Rightarrow> string \<Rightarrow> int \<Rightarrow> nat \<Rightarrow> storm_event" where
  "storm_row tenant_id batch_id now index =
     \<lparr>ws_id = write_storm_id_prefix tenant_id @ batch_id @ ''-event-'' @ show_pad 5 index,
      ws_tenant_id = tenant_id, ws_prompt_request_id = governance_prompt_id tenant_id,
      ws_event_type = ''prompt_log'',
      ws_payload = ''synthetic write storm event '' @ show_nat index, ws_created_at = now\<rparr>"

definition insert_write_storm_events :: "int \<Rightarrow> string \<Rightarrow> string \<Rightarrow> (pg, int) eff" where
  "insert_write_storm_events count batch_id tenant_id =
     (if count \<le> 0 then ret 0
      else get_connection (\<lambda>s. (Inr count, s\<lparr>write_storm_events :=
        fold (insert_or_skip ws_id) (map (storm_row tenant_id batch_id (pg_now s)) [0..<nat count])
          (write_storm_events s)\<rparr>)))"

definition count_write_storm_events :: "string \<Rightarrow> (pg, int) eff" where
  "count_write_storm_events tenant_id =
     get_connection (\<lambda>s. (Inr (int (length (filter
       (\<lambda>r. ws_tenant_id r = tenant_id \<and> like (write_storm_id_prefix tenant_id @ ''%'') (ws_id r))
       (write_storm_events s)))), s))"


section \<open>Patterns\<close>

definition like_plain :: "string \<Rightarrow> bool" where
  "like_plain p = list_all (\<lambda>c. c \<noteq> CHR ''%'' \<and> c \<noteq> CHR ''_'' \<and> c \<noteq> CHR 0x5C) p"

lemma like_any [simp]: "like ''%'' s"
  by (induction s) auto

declare like.simps(2) [simp del]

lemma like_plain_append:
  "like_plain p \<Longrightarrow> like (p @ q) s \<longleftrightarrow> (\<exists>t. s = p @ t \<and> like q t)"
proof (induction p arbitrary: s)
  case Nil
  then show ?case by simp
next
  case (Cons c p)
  then have c: "c \<noteq> CHR ''%''" "c \<noteq> CHR ''_''" "c \<noteq> CHR 0x5C" and p: "like_plain p"
    by (simp_all add: like_plain_def)
  show ?case
    using Cons.IH [OF p] c by (cases s) (auto simp: like.simps(2))
qed

lemma like_plain_prefix: "like_plain p \<Longrightarrow> like (p @ ''%'') s \<longleftrightarrow> startswith s p"
  by (simp add: like_plain_append startswith_iff)

lemma like_percent_skip: "like p s \<Longrightarrow> like (CHR ''%'' # p) s"
  by (subst like.simps(2)) simp

lemma like_own_prefix: "CHR 0x5C \<notin> set p \<Longrightarrow> like (p @ ''%'') (p @ t)"
proof (induction p)
  case (Cons c p)
  then have "like (p @ ''%'') (p @ t)" and "c \<noteq> CHR 0x5C" by auto
  then show ?case by (simp add: like.simps(2) [of c "p @ ''%''" "c # p @ t"] like_percent_skip)
qed simp

lemma governance_prefix_plain: "like_plain t \<Longrightarrow> like_plain (governance_id_prefix t)"
  by (simp add: like_plain_def governance_id_prefix_def GOVERNANCE_ID_PREFIX_def)

lemma write_storm_prefix_plain: "like_plain t \<Longrightarrow> like_plain (write_storm_id_prefix t)"
  by (simp add: like_plain_def write_storm_id_prefix_def WRITE_STORM_ID_PREFIX_def)

lemma write_storm_prefix_no_escape:
  "CHR 0x5C \<notin> set t \<Longrightarrow> CHR 0x5C \<notin> set (write_storm_id_prefix t)"
  by (simp add: write_storm_id_prefix_def WRITE_STORM_ID_PREFIX_def)

lemma governance_prefix_no_escape:
  "CHR 0x5C \<notin> set t \<Longrightarrow> CHR 0x5C \<notin> set (governance_id_prefix t)"
  by (simp add: governance_id_prefix_def GOVERNANCE_ID_PREFIX_def)

text \<open>Prefixes of different tenants without a colon never lie under one another.\<close>

lemma governance_prefix_disjoint:
  assumes "CHR '':'' \<notin> set a" and "CHR '':'' \<notin> set b" and "startswith x (governance_id_prefix a)"
    and "startswith x (governance_id_prefix b)"
  shows "a = b"
  using separator_scope [OF assms(1,2), of x GOVERNANCE_ID_PREFIX "[]" "[]"] assms(3,4)
  by (simp add: governance_id_prefix_def)

interpretation governance_scope: tenant_scope governance_id_prefix colon_free
  using governance_prefix_disjoint by unfold_locales (auto simp: colon_free_def)

interpretation storm_scope: tenant_scope write_storm_id_prefix colon_free
proof
  fix a b x
  assume "colon_free a" "colon_free b" "startswith x (write_storm_id_prefix a)" "startswith x (write_storm_id_prefix b)"
  then show "a = b"
    using separator_scope [of "CHR '':''" a b x WRITE_STORM_ID_PREFIX "[]" "[]"]
    by (simp add: colon_free_def write_storm_id_prefix_def)
qed

section \<open>Transactions\<close>

definition pg_up :: "pg \<Rightarrow> bool" where
  "pg_up s = list_all (\<lambda>f. f = None) (pg_faults s)"

definition pg_tables :: "pg \<Rightarrow> pg" where
  "pg_tables s = s\<lparr>pg_faults := []\<rparr>"

lemma pg_up_next_conn [simp]: "pg_up s \<Longrightarrow> pg_up (next_conn s)"
  by (auto simp: pg_up_def next_conn_def list_all_iff dest: in_set_dropD)

lemma next_conn_frame [simp]:
  "prompt_requests (next_conn s) = prompt_requests s" "children (next_conn s) = children s"
  "deletion_audit (next_conn s) = deletion_audit s"
  "write_storm_events (next_conn s) = write_storm_events s" "pg_now (next_conn s) = pg_now s"
  "users (next_conn s) = users s" "tenant_memberships (next_conn s) = tenant_memberships s"
  "tenants (next_conn s) = tenants s" "audit_events (next_conn s) = audit_events s"
  "pg_tables (next_conn s) = pg_tables s"
  by (simp_all add: next_conn_def pg_tables_def)

lemma get_connection_up:
  assumes "pg_up s"
  shows "get_connection block s =
    (case block (next_conn s) of (Inl e, _) \<Rightarrow> (Inl e, next_conn s) | (Inr x, s') \<Rightarrow> (Inr x, s'))"
  using assms by (auto simp: get_connection_def pg_up_def split: list.splits option.splits)

text \<open>Whatever a transaction does, when it raises the tables are as before.\<close>

lemma get_connection_rollback:
  "get_connection block s = (Inl e, t) \<Longrightarrow> pg_tables t = pg_tables s"
  by (auto simp: get_connection_def split: list.splits option.splits prod.splits sum.splits)

lemma get_connection_Inr:
  "get_connection block s = (Inr x, t) \<Longrightarrow> block (next_conn s) = (Inr x, t)"
  by (auto simp: get_connection_def split: list.splits option.splits prod.splits sum.splits)

lemma verify_prompt_tenant_frame:
  "verify_prompt_tenant p t s = (r, s') \<Longrightarrow> pg_tables s' = pg_tables s"
  by (auto simp: verify_prompt_tenant_def bind_eff_def get_connection_def ret_def
      raise_exn_def split: list.splits option.splits if_splits prod.splits sum.splits)

lemma verify_prompt_tenant_up:
  assumes "pg_up s"
  shows "verify_prompt_tenant p t s =
    (case find (\<lambda>r. pr_id r = p) (prompt_requests s) of
       None \<Rightarrow> (Inl (ValueError (''Prompt record not found: '' @ p)), next_conn s)
     | Some r \<Rightarrow> if pr_tenant_id r \<noteq> t
                 then (Inl (ValueError ''Cross-tenant prompt access denied''), next_conn s)
                 else (Inr (), next_conn s))"
  using assms
  by (simp add: verify_prompt_tenant_def bind_eff_def get_connection_up ret_def raise_exn_def
      split: option.splits)

text \<open>The owner of a prompt, as the guard of every prompt operation reads it.\<close>

definition prompt_owner :: "pg \<Rightarrow> string \<Rightarrow> string option" where
  "prompt_owner s p = map_option pr_tenant_id (find (\<lambda>r. pr_id r = p) (prompt_requests s))"

lemma verify_owner:
  assumes "pg_up s" and "prompt_owner s p = Some t"
  shows "verify_prompt_tenant p t s = (Inr (), next_conn s)"
  using assms by (auto simp: verify_prompt_tenant_up prompt_owner_def)

section \<open>Operations guarded by the owner check\<close>

text \<open>
  The interface the lab code relies on: an operation on a prompt that runs the owner check first
  and stops when it fails.
\<close>

locale owner_guarded =
  fixes op :: "string \<Rightarrow> string \<Rightarrow> (pg, 'a) eff"
  assumes guard_stops:
    "verify_prompt_tenant p t s = (Inl e, s') \<Longrightarrow> op p t s = (Inl e, s')"
begin

lemma cross_tenant_denied:
  assumes "pg_up s" and "prompt_owner s p = Some owner" and "owner \<noteq> t"
  shows "\<exists>s'. op p t s = (Inl (ValueError ''Cross-tenant prompt access denied''), s')
    \<and> pg_tables s' = pg_tables s"
proof -
  have "verify_prompt_tenant p t s =
      (Inl (ValueError ''Cross-tenant prompt access denied''), next_conn s)"
    using assms by (auto simp: verify_prompt_tenant_up prompt_owner_def)
  from guard_stops [OF this] show ?thesis by auto
qed

lemma unknown_prompt_denied:
  assumes "pg_up s" and "prompt_owner s p = None"
  shows "\<exists>s'. op p t s = (Inl (ValueError (''Prompt record not found: '' @ p)), s')
    \<and> pg_tables s' = pg_tables s"
proof -
  have "verify_prompt_tenant p t s =
      (Inl (ValueError (''Prompt record not found: '' @ p)), next_conn s)"
    using assms by (auto simp: verify_prompt_tenant_up prompt_owner_def)
  from guard_stops [OF this] show ?thesis by auto
qed

end

lemma bind_guard: "m s = (Inl e, s') \<Longrightarrow> bind_eff m f s = (Inl e, s')"
  by (simp add: bind_eff_def)

interpretation primary: owner_guarded delete_primary_only
  by unfold_locales (simp add: delete_primary_only_def bind_guard)

interpretation cascade: owner_guarded delete_all_prompt_lifecycle_records
  by unfold_locales (simp add: delete_all_prompt_lifecycle_records_def bind_guard)

interpretation orphan_count: owner_guarded count_orphan_records
  by unfold_locales (simp add: count_orphan_records_def bind_guard)

interpretation audit_insert: owner_guarded
  "\<lambda>p t. insert_deletion_audit uuid p mode n complete t" for uuid mode n complete
  by unfold_locales (simp add: insert_deletion_audit_def bind_guard)


section \<open>Primary keys\<close>

definition lab_tables_wf :: "pg \<Rightarrow> bool" where
  "lab_tables_wf s =
     (distinct (map pr_id (prompt_requests s)) \<and>
      list_all (\<lambda>t. distinct (map ch_id (children s t))) all_child_tables \<and>
      distinct (map da_id (deletion_audit s)) \<and> distinct (map ws_id (write_storm_events s)))"

lemma all_child_tables_complete: "t \<in> set all_child_tables"
  by (cases t) (simp_all add: all_child_tables_def)

lemma lab_tables_wf_iff:
  "lab_tables_wf s \<longleftrightarrow> distinct (map pr_id (prompt_requests s)) \<and>
     (\<forall>t. distinct (map ch_id (children s t))) \<and>
     distinct (map da_id (deletion_audit s)) \<and> distinct (map ws_id (write_storm_events s))"
  using all_child_tables_complete by (auto simp: lab_tables_wf_def list_all_iff)

lemma upsert_keys:
  assumes "\<And>r. key (upd r new) = key r"
  shows "map key (upsert key upd new rs) =
    (if key new \<in> key ` set rs then map key rs else map key rs @ [key new])"
  by (induction rs) (auto simp: assms)

lemma distinct_upsert:
  "(\<And>r. key (upd r new) = key r) \<Longrightarrow> distinct (map key rs) \<Longrightarrow>
     distinct (map key (upsert key upd new rs))"
  by (simp add: upsert_keys image_set del: set_map)

lemma distinct_insert_pk:
  "insert_pk key new rs = Inr rs' \<Longrightarrow> distinct (map key rs) \<Longrightarrow> distinct (map key rs')"
  by (auto simp: insert_pk_def split: if_splits)

lemma distinct_insert_or_skip:
  "distinct (map key rs) \<Longrightarrow> distinct (map key (insert_or_skip key new rs))"
  by (auto simp: insert_or_skip_def)

lemma distinct_fold_insert:
  "distinct (map key rs) \<Longrightarrow> distinct (map key (fold (insert_or_skip key) news rs))"
  by (induction news arbitrary: rs) (simp_all add: distinct_insert_or_skip)

lemma wf_put_prompt_request: "lab_tables_wf s \<Longrightarrow> lab_tables_wf (put_prompt_request r s)"
  by (simp add: lab_tables_wf_iff put_prompt_request_def distinct_upsert)

lemma wf_put_child: "lab_tables_wf s \<Longrightarrow> lab_tables_wf (put_child t r s)"
  by (simp add: lab_tables_wf_iff put_child_def distinct_upsert)

lemma wf_fold_put_child:
  "lab_tables_wf s \<Longrightarrow> lab_tables_wf (fold (\<lambda>(t, i, tool, c). put_child t (f i tool c)) xs s)"
  by (induction xs arbitrary: s) (auto simp: wf_put_child)

lemma map_pr_id_mark [simp]:
  "map pr_id (prompt_requests (mark_prompt_deleted p s)) = map pr_id (prompt_requests s)"
  by (simp add: mark_prompt_deleted_def)

lemma map_ch_id_mark [simp]:
  "map ch_id (children (mark_children_deleted p s) t) = map ch_id (children s t)"
  by (simp add: mark_children_deleted_def)

lemma mark_frame [simp]:
  "children (mark_prompt_deleted p s) = children s"
  "deletion_audit (mark_prompt_deleted p s) = deletion_audit s"
  "write_storm_events (mark_prompt_deleted p s) = write_storm_events s"
  "prompt_requests (mark_children_deleted p s) = prompt_requests s"
  "deletion_audit (mark_children_deleted p s) = deletion_audit s"
  "write_storm_events (mark_children_deleted p s) = write_storm_events s"
  "pg_now (mark_children_deleted p s) = pg_now s"
  "pg_faults (mark_children_deleted p s) = pg_faults s"
  "pg_faults (mark_prompt_deleted p s) = pg_faults s"
  by (simp_all add: mark_prompt_deleted_def mark_children_deleted_def)

lemma wf_mark:
  "lab_tables_wf s \<Longrightarrow> lab_tables_wf (mark_prompt_deleted p s)"
  "lab_tables_wf s \<Longrightarrow> lab_tables_wf (mark_children_deleted p s)"
  by (simp_all add: lab_tables_wf_iff)

lemma wf_next_conn [simp]: "lab_tables_wf (next_conn s) = lab_tables_wf s"
  by (simp add: lab_tables_wf_def)

lemma wf_insert_audit:
  "lab_tables_wf s \<Longrightarrow> insert_pk da_id new (deletion_audit s) = Inr rs \<Longrightarrow>
     lab_tables_wf (s\<lparr>deletion_audit := rs\<rparr>)"
  using distinct_insert_pk [of da_id new "deletion_audit s" rs] by (simp add: lab_tables_wf_iff)

lemma wf_insert_storm:
  "lab_tables_wf s \<Longrightarrow>
     lab_tables_wf (s\<lparr>write_storm_events := fold (insert_or_skip ws_id) news (write_storm_events s)\<rparr>)"
  by (simp add: lab_tables_wf_iff distinct_fold_insert)

text \<open>A transaction keeps what its block keeps.\<close>

lemma get_connection_keeps:
  assumes "\<And>x s s'. block s = (Inr x, s') \<Longrightarrow> P s \<Longrightarrow> P s'" and "\<And>s. P (next_conn s) = P s"
    and "P s"
  shows "P (snd (get_connection block s))"
  using assms by (auto simp: get_connection_def split: list.splits option.splits prod.splits sum.splits)

lemma bind_keeps:
  assumes "\<And>s. P s \<Longrightarrow> P (snd (m s))" and "\<And>x s. P s \<Longrightarrow> P (snd (f x s))" and "P s"
  shows "P (snd (bind_eff m f s))"
proof (cases "m s")
  case (Pair r s')
  then have "P s'" using assms(1,3) by (metis snd_conv)
  then show ?thesis using Pair assms(2) by (cases r) (auto simp: bind_eff_def)
qed

lemma pure_keeps [simp]: "P s \<Longrightarrow> P (snd (ret x s))" "P s \<Longrightarrow> P (snd (raise_exn e s))"
  by (simp_all add: ret_def raise_exn_def)

lemma verify_keeps_wf: "lab_tables_wf s \<Longrightarrow> lab_tables_wf (snd (verify_prompt_tenant p t s))"
  unfolding verify_prompt_tenant_def
  by (rule bind_keeps [where P = lab_tables_wf])
    (auto intro!: get_connection_keeps [where P = lab_tables_wf] split: option.splits)

lemma lab_ops_keep_wf:
  assumes "lab_tables_wf s"
  shows "lab_tables_wf (snd (reset_governance_lab_records t s))"
    and "lab_tables_wf (snd (create_prompt_lifecycle_records t s))"
    and "lab_tables_wf (snd (delete_primary_only p t s))"
    and "lab_tables_wf (snd (delete_all_prompt_lifecycle_records p t s))"
    and "lab_tables_wf (snd (count_orphan_records p t s))"
    and "lab_tables_wf (snd (insert_deletion_audit u p m n c t s))"
    and "lab_tables_wf (snd (reset_write_storm_events t s))"
    and "lab_tables_wf (snd (insert_write_storm_events k b t s))"
    and "lab_tables_wf (snd (count_write_storm_events t s))"
proof -
  note keeps = get_connection_keeps [where P = lab_tables_wf]
  note bk = bind_keeps [where P = lab_tables_wf]
  show "lab_tables_wf (snd (reset_governance_lab_records t s))"
    unfolding reset_governance_lab_records_def Let_def
    by (rule keeps [OF _ _ assms]) (auto simp: lab_tables_wf_iff distinct_map_filter assms)
  show "lab_tables_wf (snd (create_prompt_lifecycle_records t s))"
    unfolding create_prompt_lifecycle_records_def Let_def
    by (rule keeps [OF _ _ assms]) (auto intro: wf_fold_put_child wf_put_prompt_request simp: assms)
  show "lab_tables_wf (snd (delete_primary_only p t s))"
    unfolding delete_primary_only_def
    by (rule bk [OF _ _ assms]) (auto intro!: keeps verify_keeps_wf wf_mark simp: assms)
  show "lab_tables_wf (snd (delete_all_prompt_lifecycle_records p t s))"
    unfolding delete_all_prompt_lifecycle_records_def
    by (rule bk [OF _ _ assms]) (auto intro!: keeps verify_keeps_wf wf_mark simp: assms)
  show "lab_tables_wf (snd (count_orphan_records p t s))"
    unfolding count_orphan_records_def
    by (rule bk [OF _ _ assms]) (auto intro!: keeps verify_keeps_wf simp: assms)
  show "lab_tables_wf (snd (insert_deletion_audit u p m n c t s))"
    unfolding insert_deletion_audit_def Let_def
    by (rule bk [OF _ _ assms]) (auto intro!: keeps verify_keeps_wf
        intro: wf_insert_audit split: sum.splits)
  show "lab_tables_wf (snd (reset_write_storm_events t s))"
    unfolding reset_write_storm_events_def
    by (rule keeps [OF _ _ assms]) (auto simp: lab_tables_wf_iff distinct_map_filter assms)
  show "lab_tables_wf (snd (insert_write_storm_events k b t s))"
    unfolding insert_write_storm_events_def
    by (cases "k \<le> 0") (auto intro!: keeps [OF _ _ assms] wf_insert_storm simp: assms)
  show "lab_tables_wf (snd (count_write_storm_events t s))"
    unfolding count_write_storm_events_def
    by (rule keeps [OF _ _ assms]) (auto simp: assms)
qed


section \<open>Deletion and orphans\<close>

definition live_children :: "child_table \<Rightarrow> string \<Rightarrow> pg \<Rightarrow> nat" where
  "live_children t p s =
     length (filter (\<lambda>c. ch_prompt_request_id c = p \<and> ch_deleted_at c = None) (children s t))"

definition all_live_children :: "string \<Rightarrow> pg \<Rightarrow> nat" where
  "all_live_children p s = sum_list (map (\<lambda>t. live_children t p s) all_child_tables)"

lemma find_None_filter: "find P xs = None \<Longrightarrow> filter (\<lambda>x. P x \<and> Q x) xs = []"
  by (auto simp: find_None_iff filter_empty_conv)

lemma unique_match:
  assumes "distinct (map key rs)"
  shows "length (filter (\<lambda>r. key r = k \<and> Q r) rs) =
    (case find (\<lambda>r. key r = k) rs of None \<Rightarrow> 0 | Some r \<Rightarrow> if Q r then 1 else 0)"
  using assms
proof (induction rs)
  case (Cons r rs)
  show ?case
  proof (cases "key r = k")
    case True
    then have "filter (\<lambda>r. key r = k \<and> Q r) rs = []"
      using Cons.prems by (auto simp: filter_empty_conv rev_image_eqI)
    then show ?thesis using True by simp
  next
    case False
    then show ?thesis using Cons by simp
  qed
qed simp

lemma length_concat_if:
  "length (concat (map (\<lambda>x. if P x then [f x] else []) xs)) = length (filter P xs)"
  by (induction xs) auto

lemma length_join_rows:
  "length (concat (map (\<lambda>c. concat (map (\<lambda>r. if P c r then [(c, r)] else []) rs)) cs)) =
     sum_list (map (\<lambda>c. length (filter (P c) rs)) cs)"
  by (induction cs) (simp_all only: list.map concat.simps length_append length_concat_if sum_list.Cons sum_list.Nil list.size)

lemma sum_indicator:
  "sum_list (map (\<lambda>c. if b \<and> P c then 1 else 0) cs) = (if b then length (filter P cs) else 0)"
  by (induction cs) auto

lemma orphans_in_owned:
  assumes "distinct (map pr_id (prompt_requests s))" and "find (\<lambda>r. pr_id r = p) (prompt_requests s) = Some r"
    and "pr_tenant_id r = tenant"
  shows "orphans_in t p tenant s = (if pr_deleted_at r \<noteq> None then live_children t p s else 0)"
proof -
  have inner: "length (filter (\<lambda>r. pr_id r = ch_prompt_request_id c \<and> ch_prompt_request_id c = p \<and>
        pr_tenant_id r = tenant \<and> pr_deleted_at r \<noteq> None \<and> ch_deleted_at c = None) (prompt_requests s)) =
      (if pr_deleted_at r \<noteq> None \<and> ch_prompt_request_id c = p \<and> ch_deleted_at c = None then 1 else 0)" for c
  proof (cases "ch_prompt_request_id c = p")
    case True
    then show ?thesis
      using unique_match [OF assms(1), of p] assms(2,3) by simp
  qed simp
  have "orphans_in t p tenant s = sum_list (map (\<lambda>c. if pr_deleted_at r \<noteq> None \<and>
      ch_prompt_request_id c = p \<and> ch_deleted_at c = None then 1 else 0) (children s t))"
    unfolding orphans_in_def length_join_rows inner ..
  also have "\<dots> = (if pr_deleted_at r \<noteq> None then live_children t p s else 0)"
    unfolding live_children_def by (rule sum_indicator)
  finally show ?thesis .
qed

lemma count_orphans_up:
  assumes "pg_up s" and "prompt_owner s p = Some t"
  shows "count_orphan_records p t s = (Inr (int (sum_list
      (map (\<lambda>c. orphans_in c p t s) all_child_tables))), next_conn (next_conn s))"
  using assms
  by (simp add: count_orphan_records_def bind_eff_def verify_owner get_connection_up all_child_tables_def
      orphans_in_def)

lemma count_orphans_deleted:
  assumes "pg_up s" and "distinct (map pr_id (prompt_requests s))"
    and "find (\<lambda>r. pr_id r = p) (prompt_requests s) = Some r" and "pr_tenant_id r = t" and "pr_deleted_at r \<noteq> None"
  shows "count_orphan_records p t s = (Inr (int (all_live_children p s)), next_conn (next_conn s))"
  using assms count_orphans_up [of s p t] orphans_in_owned [OF assms(2,3,4)]
  by (simp add: prompt_owner_def all_live_children_def)

lemma find_mark:
  "find (\<lambda>r. pr_id r = p) (prompt_requests (mark_prompt_deleted p s)) =
     map_option (\<lambda>r. r\<lparr>pr_deleted_at := Some (pg_now s)\<rparr>) (find (\<lambda>r. pr_id r = p) (prompt_requests s))"
proof -
  have "find (\<lambda>r. pr_id r = p) (map (\<lambda>r. if pr_id r = p then r\<lparr>pr_deleted_at := Some (pg_now s)\<rparr> else r) rs) =
     map_option (\<lambda>r. r\<lparr>pr_deleted_at := Some (pg_now s)\<rparr>) (find (\<lambda>r. pr_id r = p) rs)" for rs :: "prompt_request list"
    by (induction rs) auto
  then show ?thesis
    by (simp add: mark_prompt_deleted_def)
qed

lemma live_children_mark_prompt [simp]:
  "live_children t q (mark_prompt_deleted p s) = live_children t q s"
  by (simp add: live_children_def)

lemma live_children_cascade: "live_children t p (mark_children_deleted p s) = 0"
  by (auto simp: live_children_def mark_children_deleted_def filter_empty_conv)

lemma pg_up_marks [simp]:
  "pg_up (mark_prompt_deleted p s) = pg_up s" "pg_up (mark_children_deleted p s) = pg_up s"
  by (simp_all add: pg_up_def)

lemma delete_primary_up:
  assumes "pg_up s" and "prompt_owner s p = Some t"
  shows "delete_primary_only p t s = (Inr (), mark_prompt_deleted p (next_conn (next_conn s)))"
  using assms by (simp add: delete_primary_only_def bind_eff_def verify_owner get_connection_up)

lemma delete_cascade_up:
  assumes "pg_up s" and "prompt_owner s p = Some t"
  shows "delete_all_prompt_lifecycle_records p t s =
    (Inr (), mark_prompt_deleted p (mark_children_deleted p (next_conn (next_conn s))))"
  using assms by (simp add: delete_all_prompt_lifecycle_records_def bind_eff_def verify_owner get_connection_up)

lemma owner_find:
  "prompt_owner s p = Some t \<Longrightarrow> \<exists>r. find (\<lambda>r. pr_id r = p) (prompt_requests s) = Some r \<and> pr_tenant_id r = t"
  by (auto simp: prompt_owner_def)

lemma all_live_children_cong:
  "children s = children s' \<Longrightarrow> all_live_children p s = all_live_children p s'"
  by (simp add: all_live_children_def live_children_def)

text \<open>What counting finds right after each of the two deletions.\<close>

lemma count_after_primary:
  assumes "pg_up s" and "lab_tables_wf s" and "prompt_owner s p = Some t"
  shows "bind_eff (delete_primary_only p t) (\<lambda>_. count_orphan_records p t) s =
    (Inr (int (all_live_children p s)), next_conn (next_conn (mark_prompt_deleted p (next_conn (next_conn s)))))"
proof -
  let ?s1 = "mark_prompt_deleted p (next_conn (next_conn s))"
  obtain r where r: "find (\<lambda>r. pr_id r = p) (prompt_requests s) = Some r" "pr_tenant_id r = t"
    using owner_find [OF assms(3)] by blast
  have "count_orphan_records p t ?s1 = (Inr (int (all_live_children p ?s1)), next_conn (next_conn ?s1))"
    using assms(1,2) r by (intro count_orphans_deleted [where r = "r\<lparr>pr_deleted_at := Some (pg_now s)\<rparr>"]) (auto simp: lab_tables_wf_iff find_mark)
  then show ?thesis
    using assms(1,3) by (auto simp: bind_eff_def delete_primary_up intro: all_live_children_cong)
qed

lemma count_after_cascade:
  assumes "pg_up s" and "lab_tables_wf s" and "prompt_owner s p = Some t"
  shows "bind_eff (delete_all_prompt_lifecycle_records p t) (\<lambda>_. count_orphan_records p t) s =
    (Inr 0, next_conn (next_conn (mark_prompt_deleted p (mark_children_deleted p (next_conn (next_conn s))))))"
proof -
  let ?s1 = "mark_prompt_deleted p (mark_children_deleted p (next_conn (next_conn s)))"
  obtain r where r: "find (\<lambda>r. pr_id r = p) (prompt_requests s) = Some r" "pr_tenant_id r = t"
    using owner_find [OF assms(3)] by blast
  have "count_orphan_records p t ?s1 = (Inr (int (all_live_children p ?s1)), next_conn (next_conn ?s1))"
    using assms(1,2) r by (intro count_orphans_deleted [where r = "r\<lparr>pr_deleted_at := Some (pg_now s)\<rparr>"]) (auto simp: lab_tables_wf_iff find_mark)
  moreover have "all_live_children p ?s1 = 0"
    by (simp add: all_live_children_def live_children_cascade all_child_tables_def)
  ultimately show ?thesis
    using assms(1,3) by (auto simp: bind_eff_def delete_cascade_up)
qed


section \<open>Write-storm batches\<close>

lemma fold_insert_fresh:
  "distinct (map key news) \<Longrightarrow> key ` set news \<inter> key ` set rs = {} \<Longrightarrow>
     fold (insert_or_skip key) news rs = rs @ news"
proof (induction news arbitrary: rs)
  case (Cons n news)
  then have "fold (insert_or_skip key) news (rs @ [n]) = (rs @ [n]) @ news"
    by (intro Cons.IH) auto
  moreover have "insert_or_skip key n rs = rs @ [n]"
    using Cons.prems by (auto simp: insert_or_skip_def)
  ultimately show ?case by simp
qed simp

lemma storm_row_ids_distinct: "distinct (map ws_id (map (storm_row t b now) [0..<n]))"
  by (simp add: distinct_map inj_on_def storm_row_def show_pad_inject)

definition storm_match :: "string \<Rightarrow> storm_event \<Rightarrow> bool" where
  "storm_match t r = like (write_storm_id_prefix t @ ''%'') (ws_id r)"

lemma storm_row_match: "CHR 0x5C \<notin> set t \<Longrightarrow> storm_match t (storm_row t b now i)"
  by (simp add: storm_match_def storm_row_def like_own_prefix write_storm_prefix_no_escape)

lemma storm_row_tenant [simp]: "ws_tenant_id (storm_row t b now i) = t"
  by (simp add: storm_row_def)

lemma reset_storm_up:
  "pg_up s \<Longrightarrow> reset_write_storm_events t s = (Inr (), (next_conn s)\<lparr>write_storm_events :=
     filter (\<lambda>r. \<not> (ws_tenant_id r = t \<and> storm_match t r)) (write_storm_events s)\<rparr>)"
  by (simp add: reset_write_storm_events_def get_connection_up storm_match_def)

lemma insert_storm_up:
  "pg_up s \<Longrightarrow> 0 < k \<Longrightarrow> insert_write_storm_events k b t s = (Inr k, (next_conn s)\<lparr>write_storm_events :=
     fold (insert_or_skip ws_id) (map (storm_row t b (pg_now s)) [0..<nat k]) (write_storm_events s)\<rparr>)"
  by (simp add: insert_write_storm_events_def get_connection_up)

lemma count_storm_up:
  "pg_up s \<Longrightarrow> count_write_storm_events t s = (Inr (int (length (filter
     (\<lambda>r. ws_tenant_id r = t \<and> storm_match t r) (write_storm_events s)))), next_conn s)"
  by (simp add: count_write_storm_events_def get_connection_up storm_match_def)

lemma pg_up_storm_update [simp]: "pg_up (s\<lparr>write_storm_events := x\<rparr>) = pg_up s"
  by (simp add: pg_up_def)

lemma storm_batch_counted:
  assumes up: "pg_up s" and k: "0 < k" and esc: "CHR 0x5C \<notin> set t"
    and own: "\<forall>r\<in>set (write_storm_events s). storm_match t r \<longrightarrow> ws_tenant_id r = t"
  shows "\<exists>s'. bind_eff (reset_write_storm_events t) (\<lambda>_. bind_eff (insert_write_storm_events k b t)
    (\<lambda>_. count_write_storm_events t)) s = (Inr k, s')"
proof -
  let ?kept = "filter (\<lambda>r. \<not> (ws_tenant_id r = t \<and> storm_match t r)) (write_storm_events s)"
  let ?news = "map (storm_row t b (pg_now s)) [0..<nat k]"
  have nomatch: "\<not> storm_match t r" if "r \<in> set ?kept" for r
    using that own by auto
  have newmatch: "storm_match t r" if "r \<in> set ?news" for r
    using that esc by (auto simp: storm_row_match)
  have "ws_id m \<noteq> ws_id r" if "m \<in> set ?news" "r \<in> set ?kept" for m r
    using nomatch [OF that(2)] newmatch [OF that(1)] unfolding storm_match_def by metis
  then have "ws_id ` set ?news \<inter> ws_id ` set ?kept = {}"
    by blast
  then have fold: "fold (insert_or_skip ws_id) ?news ?kept = ?kept @ ?news"
    by (intro fold_insert_fresh storm_row_ids_distinct)
  have "filter (\<lambda>r. ws_tenant_id r = t \<and> storm_match t r) (?kept @ ?news) = ?news"
    using newmatch by (auto simp: filter_empty_conv intro: filter_True)
  then show ?thesis
    using up k fold by (auto simp: bind_eff_def reset_storm_up insert_storm_up count_storm_up)
qed


section \<open>Properties\<close>

definition example_pg :: pg where
  "example_pg = snd (create_prompt_lifecycle_records ''acme-1'' (empty_pg 7))"

lemma example_pg_up: "pg_up example_pg"
  by code_simp

lemma example_pg_owner: "prompt_owner example_pg (governance_prompt_id ''acme-1'') = Some ''acme-1''"
  by code_simp

text \<open>
  C16. On a prompt that another tenant owns, deleting it, deleting it with its downstream records,
  counting its orphans and writing its deletion audit all raise the cross-tenant error and leave
  every table as it was.
\<close>

theorem prompt_ops_cross_tenant_denied:
  assumes "pg_up s" and "prompt_owner s p = Some owner" and "owner \<noteq> t"
  shows "(\<exists>s'. delete_primary_only p t s = (Inl (ValueError ''Cross-tenant prompt access denied''), s')
        \<and> pg_tables s' = pg_tables s)
    \<and> (\<exists>s'. delete_all_prompt_lifecycle_records p t s =
          (Inl (ValueError ''Cross-tenant prompt access denied''), s') \<and> pg_tables s' = pg_tables s)
    \<and> (\<exists>s'. count_orphan_records p t s =
          (Inl (ValueError ''Cross-tenant prompt access denied''), s') \<and> pg_tables s' = pg_tables s)
    \<and> (\<exists>s'. insert_deletion_audit uuid p mode n complete t s =
          (Inl (ValueError ''Cross-tenant prompt access denied''), s') \<and> pg_tables s' = pg_tables s)"
  using primary.cross_tenant_denied [OF assms] cascade.cross_tenant_denied [OF assms]
    orphan_count.cross_tenant_denied [OF assms] audit_insert.cross_tenant_denied [OF assms]
  by blast

theorem prompt_ops_cross_tenant_denied_witness:
  "\<exists>s'. delete_all_prompt_lifecycle_records (governance_prompt_id ''acme-1'') ''mallory'' example_pg =
     (Inl (ValueError ''Cross-tenant prompt access denied''), s') \<and> pg_tables s' = pg_tables example_pg"
  using prompt_ops_cross_tenant_denied [OF example_pg_up example_pg_owner, of "''mallory''"]
  by simp

text \<open>The rows that lie under a tenant's prefix.\<close>

definition child_under :: "string \<Rightarrow> child_row \<Rightarrow> bool" where
  "child_under u r = (startswith (ch_prompt_request_id r) (governance_id_prefix u)
     \<and> startswith (ch_id r) (governance_id_prefix u))"

lemma filter_keeps: "(\<And>x. P x \<Longrightarrow> Q x) \<Longrightarrow> filter P (filter Q xs) = filter P xs"
  by (induction xs) auto

lemma reset_spares:
  assumes "like_plain t" and "CHR '':'' \<notin> set t" and "CHR '':'' \<notin> set u" and "u \<noteq> t"
    and "startswith x (governance_id_prefix u)"
  shows "\<not> like (governance_id_prefix t @ ''%'') x"
  using assms governance_prefix_disjoint [of u t x]
  by (auto simp: like_plain_prefix [OF governance_prefix_plain])

text \<open>
  Resetting one tenant's governance records keeps every downstream row, every audit row and
  every prompt of another tenant, when neither tenant id has a colon and the tenant being reset has
  no \<open>LIKE\<close> metacharacter in its id.
\<close>

theorem reset_governance_isolated:
  assumes "reset_governance_lab_records t s = (Inr (), s')"
    and "like_plain t" and "CHR '':'' \<notin> set t" and "CHR '':'' \<notin> set u" and "u \<noteq> t"
  shows "filter (child_under u) (children s' c) = filter (child_under u) (children s c)
    \<and> filter (\<lambda>r. startswith (da_prompt_request_id r) (governance_id_prefix u)) (deletion_audit s') =
       filter (\<lambda>r. startswith (da_prompt_request_id r) (governance_id_prefix u)) (deletion_audit s)
    \<and> filter (\<lambda>r. pr_tenant_id r = u) (prompt_requests s') =
       filter (\<lambda>r. pr_tenant_id r = u) (prompt_requests s)"
proof -
  note spares = reset_spares [OF assms(2-5)]
  show ?thesis
    using get_connection_Inr [OF assms(1) [unfolded reset_governance_lab_records_def Let_def]] assms(5)
    by (auto simp del: filter_filter simp: child_under_def spares intro!: filter_keeps)
qed

theorem reset_governance_isolated_witness:
  "filter (child_under ''acme-1'') (children (snd (reset_governance_lab_records ''acme-2'' example_pg)) prompt_logs)
     = filter (child_under ''acme-1'') (children example_pg prompt_logs)"
proof -
  have "reset_governance_lab_records ''acme-2'' example_pg =
      (Inr (), snd (reset_governance_lab_records ''acme-2'' example_pg))"
    by (simp add: reset_governance_lab_records_def Let_def get_connection_up example_pg_up)
  from reset_governance_isolated [OF this, of "''acme-1''" prompt_logs] show ?thesis
    by (simp add: like_plain_def)
qed

text \<open>A pattern that is a text with some characters masked by an underscore.\<close>

definition masks :: "char \<Rightarrow> char \<Rightarrow> bool" where
  "masks c d = (c = CHR ''_'' \<or> c = d \<and> c \<noteq> CHR ''%'' \<and> c \<noteq> CHR 0x5C)"

lemma like_masked: "list_all2 masks p q \<Longrightarrow> like (p @ ''%'') (q @ x)"
proof (induction rule: list_all2_induct)
  case (Cons c p d q)
  then show ?case by (auto simp: masks_def like.simps(2) [of c "p @ ''%''" "d # q @ x"] like_percent_skip)
qed simp

lemma governance_prefix_masked:
  assumes "list_all2 masks t u" and "startswith x (governance_id_prefix u)"
  shows "like (governance_id_prefix t @ ''%'') x"
proof -
  have "list_all2 masks GOVERNANCE_ID_PREFIX GOVERNANCE_ID_PREFIX" "list_all2 masks '':'' '':''" by code_simp+
  then have "list_all2 masks (governance_id_prefix t) (governance_id_prefix u)"
    unfolding governance_id_prefix_def by (intro list_all2_appendI assms(1))
  moreover obtain y where "x = governance_id_prefix u @ y" using assms(2) by (auto simp: startswith_iff)
  ultimately show ?thesis using like_masked by blast
qed

text \<open>
  C37. Without that restriction the reset crosses tenants: the prefix is used as a \<open>LIKE\<close> pattern without escaping. A tenant whose id is
  that of another tenant with characters replaced by underscores, when it resets its own lab, deletes every
  downstream record and every deletion audit of the other tenant, whatever the tables hold.
\<close>

theorem reset_governance_wildcard_leak:
  assumes "pg_up s" and "list_all2 masks t u"
  shows "\<exists>s'. reset_governance_lab_records t s = (Inr (), s')
    \<and> (\<forall>c. filter (child_under u) (children s' c) = [])
    \<and> filter (\<lambda>r. startswith (da_prompt_request_id r) (governance_id_prefix u)) (deletion_audit s') = []"
proof -
  define pat own where "pat = governance_id_prefix t @ ''%''" and "own = governance_id_prefix u"
  have hit: "like pat x" if "startswith x own" for x
    using governance_prefix_masked [OF assms(2)] that by (simp add: pat_def own_def)
  have none: "filter (\<lambda>r. startswith (da_prompt_request_id r) own) (filter (\<lambda>r. \<not> like pat (da_prompt_request_id r)) rs) = []" for rs
    by (auto simp: filter_empty_conv dest: hit)
  have gone: "filter (child_under u) (filter (\<lambda>r. \<not> (like pat (ch_prompt_request_id r) \<or> like pat (ch_id r))) rs) = []" for rs
    by (auto simp: filter_empty_conv child_under_def own_def [symmetric] dest: hit)
  show ?thesis
    using gone none
    by (simp add: reset_governance_lab_records_def Let_def get_connection_up [OF assms(1)] pat_def [symmetric]
        own_def [symmetric] del: filter_filter de_Morgan_disj)
qed

theorem reset_governance_wildcard_leak_witness:
  "length (filter (child_under ''acme-1'') (children example_pg prompt_logs)) = 2
   \<and> (\<exists>s'. reset_governance_lab_records ''acme_1'' example_pg = (Inr (), s')
        \<and> filter (child_under ''acme-1'') (children s' prompt_logs) = [])"
proof -
  have "list_all2 masks ''acme_1'' ''acme-1''" "length (filter (child_under ''acme-1'') (children example_pg prompt_logs)) = 2"
    by code_simp+
  with reset_governance_wildcard_leak [OF example_pg_up this(1)] show ?thesis by metis
qed

end
