(* ===== verification/Metrics.thy ===== *)
theory Metrics
  imports Py_Prelude
begin

text \<open>
  \<open>apps/api/metrics.py\<close>. The Prometheus client is a library: what the program does with it is the
  sequence of calls it makes, so the state is the log of \<open>inc\<close>, \<open>set\<close> and \<open>observe\<close> calls, each
  with the metric's name and labels. \<^term>\<open>counter_total\<close> reads a counter off the log as the sum
  of its increments, which is what the client documents a counter to be.
\<close>

type_synonym labels = "(string \<times> string) list"

datatype metric_op =
    Inc string labels int
  | SetGauge string labels int
  | Observe string labels pyval

type_synonym metric_log = "metric_op list"

definition counter_total :: "string \<Rightarrow> labels \<Rightarrow> metric_log \<Rightarrow> int" where
  "counter_total name lbl log =
     sum_list (map (\<lambda>op. case op of Inc n l k \<Rightarrow> if n = name \<and> l = lbl then k else 0 | _ \<Rightarrow> 0) log)"

definition gauge_value :: "string \<Rightarrow> labels \<Rightarrow> metric_log \<Rightarrow> int option" where
  "gauge_value name lbl log =
     fold (\<lambda>op v. case op of SetGauge n l k \<Rightarrow> if n = name \<and> l = lbl then Some k else v | _ \<Rightarrow> v) log None"

definition inc_by :: "string \<Rightarrow> labels \<Rightarrow> int \<Rightarrow> metric_log \<Rightarrow> metric_log" where
  "inc_by name lbl k log = log @ [Inc name lbl k]"

definition set_gauge :: "string \<Rightarrow> labels \<Rightarrow> int \<Rightarrow> metric_log \<Rightarrow> metric_log" where
  "set_gauge name lbl k log = log @ [SetGauge name lbl k]"

text \<open>\<open>INFERENCE_CIRCUIT_BREAKER_STATE.set(0)\<close> runs at import.\<close>

definition initial_metrics :: metric_log where
  "initial_metrics = [SetGauge ''boundary_layer_inference_circuit_breaker_state'' [] 0]"

definition record_lab_run :: "string \<Rightarrow> string \<Rightarrow> bool \<Rightarrow> metric_log \<Rightarrow> metric_log" where
  "record_lab_run lab mode blocked =
     (let result = (if blocked then ''blocked'' else ''allowed'') in
      inc_by ''boundary_layer_lab_runs_total'' [(''lab'', lab), (''mode'', mode), (''result'', result)] 1)"

definition record_tool_injection_blocked :: "metric_log \<Rightarrow> metric_log" where
  "record_tool_injection_blocked =
     inc_by ''boundary_layer_tool_injection_blocked_total'' [] 1"

definition record_redis_tamper_rejected :: "metric_log \<Rightarrow> metric_log" where
  "record_redis_tamper_rejected =
     inc_by ''boundary_layer_redis_tamper_rejected_total'' [] 1"

definition record_authz_denied :: "metric_log \<Rightarrow> metric_log" where
  "record_authz_denied =
     inc_by ''boundary_layer_authz_denied_total'' [] 1"

definition record_file_injection_blocked :: "metric_log \<Rightarrow> metric_log" where
  "record_file_injection_blocked =
     inc_by ''boundary_layer_file_injection_blocked_total'' [] 1"

definition record_file_upload_extraction :: "string \<Rightarrow> string \<Rightarrow> string \<Rightarrow> metric_log \<Rightarrow> metric_log" where
  "record_file_upload_extraction mode file_type result =
     inc_by ''boundary_layer_file_upload_extractions_total'' [(''mode'', mode), (''file_type'', file_type), (''result'', result)] 1"

definition record_file_upload_sandbox_applied :: "string \<Rightarrow> metric_log \<Rightarrow> metric_log" where
  "record_file_upload_sandbox_applied mode =
     inc_by ''boundary_layer_file_upload_sandbox_applied_total'' [(''mode'', mode)] 1"

definition record_file_upload_egress_blocked :: "string \<Rightarrow> metric_log \<Rightarrow> metric_log" where
  "record_file_upload_egress_blocked mode =
     inc_by ''boundary_layer_file_upload_egress_blocked_total'' [(''mode'', mode)] 1"

definition record_file_upload_active_content_blocked :: "string \<Rightarrow> string \<Rightarrow> metric_log \<Rightarrow> metric_log" where
  "record_file_upload_active_content_blocked mode file_type =
     inc_by ''boundary_layer_file_upload_active_content_blocked_total'' [(''mode'', mode), (''file_type'', file_type)] 1"

definition record_file_upload_hidden_instruction_detected :: "string \<Rightarrow> string \<Rightarrow> metric_log \<Rightarrow> metric_log" where
  "record_file_upload_hidden_instruction_detected mode file_type =
     inc_by ''boundary_layer_file_upload_hidden_instruction_detected_total'' [(''mode'', mode), (''file_type'', file_type)] 1"

definition record_file_upload_untrusted_content_wrapped :: "string \<Rightarrow> metric_log \<Rightarrow> metric_log" where
  "record_file_upload_untrusted_content_wrapped mode =
     inc_by ''boundary_layer_file_upload_untrusted_content_wrapped_total'' [(''mode'', mode)] 1"

definition record_sse_cleanup_applied :: "string \<Rightarrow> metric_log \<Rightarrow> metric_log" where
  "record_sse_cleanup_applied mode =
     inc_by ''boundary_layer_sse_cleanup_applied_total'' [(''mode'', mode)] 1"

definition record_prompt_cache_request :: "string \<Rightarrow> string \<Rightarrow> string \<Rightarrow> metric_log \<Rightarrow> metric_log" where
  "record_prompt_cache_request mode tenant result =
     inc_by ''boundary_layer_prompt_cache_requests_total'' [(''mode'', mode), (''tenant'', tenant), (''result'', result)] 1"

definition record_prompt_cache_hit :: "string \<Rightarrow> string \<Rightarrow> string \<Rightarrow> metric_log \<Rightarrow> metric_log" where
  "record_prompt_cache_hit mode tenant hit_type =
     inc_by ''boundary_layer_prompt_cache_hits_total'' [(''mode'', mode), (''tenant'', tenant), (''hit_type'', hit_type)] 1"

definition record_prompt_cache_cross_tenant_bleed :: "string \<Rightarrow> metric_log \<Rightarrow> metric_log" where
  "record_prompt_cache_cross_tenant_bleed mode =
     inc_by ''boundary_layer_prompt_cache_cross_tenant_bleed_total'' [(''mode'', mode)] 1"

definition record_prompt_cache_isolation_applied :: "string \<Rightarrow> metric_log \<Rightarrow> metric_log" where
  "record_prompt_cache_isolation_applied mode =
     inc_by ''boundary_layer_prompt_cache_isolation_applied_total'' [(''mode'', mode)] 1"

definition record_auth_decision :: "string \<Rightarrow> string \<Rightarrow> metric_log \<Rightarrow> metric_log" where
  "record_auth_decision result reason =
     inc_by ''boundary_layer_auth_decisions_total'' [(''result'', result), (''reason'', reason)] 1"

definition record_tenant_access_denied_metric :: "string \<Rightarrow> metric_log \<Rightarrow> metric_log" where
  "record_tenant_access_denied_metric reason =
     inc_by ''boundary_layer_tenant_access_denied_total'' [(''reason'', reason)] 1"

definition record_audit_event_metric :: "string \<Rightarrow> string \<Rightarrow> metric_log \<Rightarrow> metric_log" where
  "record_audit_event_metric action result =
     inc_by ''boundary_layer_audit_events_total'' [(''action'', action), (''result'', result)] 1"

definition record_governance_deletion_audit :: "string \<Rightarrow> bool \<Rightarrow> metric_log \<Rightarrow> metric_log" where
  "record_governance_deletion_audit mode complete =
     inc_by ''boundary_layer_governance_deletion_audits_total''
       [(''mode'', mode), (''complete'', lower (show_bool complete))] 1"

definition record_prompt_deletion_orphans :: "int \<Rightarrow> metric_log \<Rightarrow> metric_log" where
  "record_prompt_deletion_orphans count log =
     (if count > 0 then inc_by ''boundary_layer_prompt_deletion_orphan_records_total'' [] count log else log)"

definition record_postgres_write_storm_events :: "string \<Rightarrow> string \<Rightarrow> int \<Rightarrow> metric_log \<Rightarrow> metric_log" where
  "record_postgres_write_storm_events mode result count log =
     (if count > 0 then inc_by ''boundary_layer_postgres_write_storm_events_total'' [(''mode'', mode), (''result'', result)] count log else log)"

definition record_postgres_write_storm_blocked_writes :: "string \<Rightarrow> int \<Rightarrow> metric_log \<Rightarrow> metric_log" where
  "record_postgres_write_storm_blocked_writes mode count log =
     (if count > 0 then inc_by ''boundary_layer_postgres_write_storm_blocked_writes_total'' [(''mode'', mode)] count log else log)"

definition record_inference_requests :: "string \<Rightarrow> string \<Rightarrow> int \<Rightarrow> metric_log \<Rightarrow> metric_log" where
  "record_inference_requests mode result count log =
     (if count > 0 then inc_by ''boundary_layer_inference_requests_total'' [(''mode'', mode), (''result'', result)] count log else log)"

definition record_inference_shed_work_units :: "string \<Rightarrow> int \<Rightarrow> metric_log \<Rightarrow> metric_log" where
  "record_inference_shed_work_units mode count log =
     (if count > 0 then inc_by ''boundary_layer_inference_shed_work_units_total'' [(''mode'', mode)] count log else log)"

definition record_inference_simulated_failures :: "string \<Rightarrow> int \<Rightarrow> metric_log \<Rightarrow> metric_log" where
  "record_inference_simulated_failures mode count log =
     (if count > 0 then inc_by ''boundary_layer_inference_simulated_failures_total'' [(''mode'', mode)] count log else log)"

definition record_sse_streams :: "string \<Rightarrow> string \<Rightarrow> int \<Rightarrow> metric_log \<Rightarrow> metric_log" where
  "record_sse_streams mode result count log =
     (if count > 0 then inc_by ''boundary_layer_sse_streams_total'' [(''mode'', mode), (''result'', result)] count log else log)"

definition record_sse_rejected_streams :: "string \<Rightarrow> int \<Rightarrow> metric_log \<Rightarrow> metric_log" where
  "record_sse_rejected_streams mode count log =
     (if count > 0 then inc_by ''boundary_layer_sse_rejected_streams_total'' [(''mode'', mode)] count log else log)"

definition observe_postgres_write_storm_insert_duration ::
    "string \<Rightarrow> pyval \<Rightarrow> metric_log \<Rightarrow> metric_log" where
  "observe_postgres_write_storm_insert_duration mode seconds log =
     log @ [Observe ''boundary_layer_postgres_write_storm_insert_duration_seconds''
              [(''mode'', mode)] seconds]"

definition set_circuit_breaker_state :: "int \<Rightarrow> metric_log \<Rightarrow> metric_log" where
  "set_circuit_breaker_state value =
     set_gauge ''boundary_layer_inference_circuit_breaker_state'' [] value"

definition set_inference_queue_depth :: "string \<Rightarrow> int \<Rightarrow> metric_log \<Rightarrow> metric_log" where
  "set_inference_queue_depth mode value =
     set_gauge ''boundary_layer_inference_simulated_queue_depth'' [(''mode'', mode)] value"

definition set_inference_p99_latency_ms :: "string \<Rightarrow> int \<Rightarrow> metric_log \<Rightarrow> metric_log" where
  "set_inference_p99_latency_ms mode value =
     set_gauge ''boundary_layer_inference_simulated_p99_latency_ms'' [(''mode'', mode)] value"

definition set_sse_active_streams :: "string \<Rightarrow> int \<Rightarrow> metric_log \<Rightarrow> metric_log" where
  "set_sse_active_streams mode value =
     set_gauge ''boundary_layer_sse_active_streams'' [(''mode'', mode)] value"

definition set_sse_orphaned_streams :: "string \<Rightarrow> int \<Rightarrow> metric_log \<Rightarrow> metric_log" where
  "set_sse_orphaned_streams mode value =
     set_gauge ''boundary_layer_sse_orphaned_streams'' [(''mode'', mode)] value"

definition set_sse_worker_pressure :: "string \<Rightarrow> int \<Rightarrow> metric_log \<Rightarrow> metric_log" where
  "set_sse_worker_pressure mode value =
     set_gauge ''boundary_layer_sse_worker_pressure'' [(''mode'', mode)] value"

definition set_sse_memory_pressure_mb :: "string \<Rightarrow> int \<Rightarrow> metric_log \<Rightarrow> metric_log" where
  "set_sse_memory_pressure_mb mode value =
     set_gauge ''boundary_layer_sse_memory_pressure_mb'' [(''mode'', mode)] value"

section \<open>Declared metrics\<close>

datatype metric_kind = Counter | Gauge | Histogram

text \<open>The metrics the module declares: name, kind and label names, in the order of the source.\<close>

type_synonym families = "(string \<times> metric_kind \<times> string list) list"

definition injection_families :: families where
  "injection_families =
     [(''boundary_layer_lab_runs_total'', Counter, [''lab'', ''mode'', ''result'']),
      (''boundary_layer_tool_injection_blocked_total'', Counter, []),
      (''boundary_layer_redis_tamper_rejected_total'', Counter, []),
      (''boundary_layer_authz_denied_total'', Counter, []),
      (''boundary_layer_file_injection_blocked_total'', Counter, []),
      (''boundary_layer_file_upload_extractions_total'', Counter, [''mode'', ''file_type'', ''result'']),
      (''boundary_layer_file_upload_sandbox_applied_total'', Counter, [''mode'']),
      (''boundary_layer_file_upload_egress_blocked_total'', Counter, [''mode'']),
      (''boundary_layer_file_upload_active_content_blocked_total'', Counter, [''mode'', ''file_type'']),
      (''boundary_layer_file_upload_hidden_instruction_detected_total'', Counter, [''mode'', ''file_type'']),
      (''boundary_layer_file_upload_untrusted_content_wrapped_total'', Counter, [''mode''])]"

definition data_families :: families where
  "data_families =
     [(''boundary_layer_prompt_deletion_orphan_records_total'', Counter, []),
      (''boundary_layer_governance_deletion_audits_total'', Counter, [''mode'', ''complete'']),
      (''boundary_layer_postgres_write_storm_events_total'', Counter, [''mode'', ''result'']),
      (''boundary_layer_postgres_write_storm_blocked_writes_total'', Counter, [''mode'']),
      (''boundary_layer_postgres_write_storm_insert_duration_seconds'', Histogram, [''mode''])]"

definition capacity_families :: families where
  "capacity_families =
     [(''boundary_layer_inference_circuit_breaker_state'', Gauge, []),
      (''boundary_layer_inference_requests_total'', Counter, [''mode'', ''result'']),
      (''boundary_layer_inference_shed_work_units_total'', Counter, [''mode'']),
      (''boundary_layer_inference_simulated_failures_total'', Counter, [''mode'']),
      (''boundary_layer_inference_simulated_queue_depth'', Gauge, [''mode'']),
      (''boundary_layer_inference_simulated_p99_latency_ms'', Gauge, [''mode'']),
      (''boundary_layer_sse_streams_total'', Counter, [''mode'', ''result'']),
      (''boundary_layer_sse_rejected_streams_total'', Counter, [''mode'']),
      (''boundary_layer_sse_active_streams'', Gauge, [''mode'']),
      (''boundary_layer_sse_orphaned_streams'', Gauge, [''mode'']),
      (''boundary_layer_sse_worker_pressure'', Gauge, [''mode'']),
      (''boundary_layer_sse_memory_pressure_mb'', Gauge, [''mode'']),
      (''boundary_layer_sse_cleanup_applied_total'', Counter, [''mode''])]"

definition cache_families :: families where
  "cache_families =
     [(''boundary_layer_prompt_cache_requests_total'', Counter, [''mode'', ''tenant'', ''result'']),
      (''boundary_layer_prompt_cache_hits_total'', Counter, [''mode'', ''tenant'', ''hit_type'']),
      (''boundary_layer_prompt_cache_cross_tenant_bleed_total'', Counter, [''mode'']),
      (''boundary_layer_prompt_cache_isolation_applied_total'', Counter, [''mode''])]"

definition access_families :: families where
  "access_families =
     [(''boundary_layer_auth_decisions_total'', Counter, [''result'', ''reason'']),
      (''boundary_layer_tenant_access_denied_total'', Counter, [''reason'']),
      (''boundary_layer_audit_events_total'', Counter, [''action'', ''result''])]"

definition metric_families :: families where
  "metric_families = injection_families @ data_families @ capacity_families @ cache_families @ access_families"

text \<open>
  The calls the client accepts: the metric is declared, the method is one its kind has, the labels
  are the declared ones and a counter never goes down. Any other call raises \<open>ValueError\<close> or has no such method.
\<close>

fun metric_op_ok :: "metric_op \<Rightarrow> bool" where
  "metric_op_ok (Inc name lbl k) = (map_of metric_families name = Some (Counter, map fst lbl) \<and> 0 \<le> k)"
| "metric_op_ok (SetGauge name lbl k) = (map_of metric_families name = Some (Gauge, map fst lbl))"
| "metric_op_ok (Observe name lbl v) = (map_of metric_families name = Some (Histogram, map fst lbl))"

definition metrics_ok :: "metric_log \<Rightarrow> bool" where
  "metrics_ok log = list_all metric_op_ok log"

section \<open>Reading the log\<close>

lemma counter_total_append [simp]:
  "counter_total n l (a @ b) = counter_total n l a + counter_total n l b"
  by (simp add: counter_total_def)

lemma counter_total_inc_by [simp]:
  "counter_total n l (inc_by m k i log) = counter_total n l log + (if m = n \<and> k = l then i else 0)"
  by (simp add: inc_by_def counter_total_def)

lemma counter_total_set_gauge [simp]:
  "counter_total n l (set_gauge m k i log) = counter_total n l log"
  by (simp add: set_gauge_def counter_total_def)

lemma gauge_value_set_gauge [simp]:
  "gauge_value n l (set_gauge m k i log) = (if m = n \<and> k = l then Some i else gauge_value n l log)"
  by (simp add: gauge_value_def set_gauge_def)

lemma gauge_value_inc_by [simp]: "gauge_value n l (inc_by m k i log) = gauge_value n l log"
  by (simp add: gauge_value_def inc_by_def)

lemma length_inc_by [simp]: "length (inc_by m k i log) = Suc (length log)"
  by (simp add: inc_by_def)

section \<open>Types of metrics\<close>

lemma family_lookup:
  "map_of metric_families ''boundary_layer_lab_runs_total'' = Some (Counter, [''lab'', ''mode'', ''result''])"
  "map_of metric_families ''boundary_layer_tool_injection_blocked_total'' = Some (Counter, [])"
  "map_of metric_families ''boundary_layer_redis_tamper_rejected_total'' = Some (Counter, [])"
  "map_of metric_families ''boundary_layer_authz_denied_total'' = Some (Counter, [])"
  "map_of metric_families ''boundary_layer_file_injection_blocked_total'' = Some (Counter, [])"
  "map_of metric_families ''boundary_layer_file_upload_extractions_total'' = Some (Counter, [''mode'', ''file_type'', ''result''])"
  "map_of metric_families ''boundary_layer_file_upload_sandbox_applied_total'' = Some (Counter, [''mode''])"
  "map_of metric_families ''boundary_layer_file_upload_egress_blocked_total'' = Some (Counter, [''mode''])"
  "map_of metric_families ''boundary_layer_file_upload_active_content_blocked_total'' = Some (Counter, [''mode'', ''file_type''])"
  "map_of metric_families ''boundary_layer_file_upload_hidden_instruction_detected_total'' = Some (Counter, [''mode'', ''file_type''])"
  "map_of metric_families ''boundary_layer_file_upload_untrusted_content_wrapped_total'' = Some (Counter, [''mode''])"
  "map_of metric_families ''boundary_layer_prompt_deletion_orphan_records_total'' = Some (Counter, [])"
  "map_of metric_families ''boundary_layer_governance_deletion_audits_total'' = Some (Counter, [''mode'', ''complete''])"
  "map_of metric_families ''boundary_layer_postgres_write_storm_events_total'' = Some (Counter, [''mode'', ''result''])"
  "map_of metric_families ''boundary_layer_postgres_write_storm_blocked_writes_total'' = Some (Counter, [''mode''])"
  "map_of metric_families ''boundary_layer_postgres_write_storm_insert_duration_seconds'' = Some (Histogram, [''mode''])"
  "map_of metric_families ''boundary_layer_inference_circuit_breaker_state'' = Some (Gauge, [])"
  "map_of metric_families ''boundary_layer_inference_requests_total'' = Some (Counter, [''mode'', ''result''])"
  "map_of metric_families ''boundary_layer_inference_shed_work_units_total'' = Some (Counter, [''mode''])"
  "map_of metric_families ''boundary_layer_inference_simulated_failures_total'' = Some (Counter, [''mode''])"
  "map_of metric_families ''boundary_layer_inference_simulated_queue_depth'' = Some (Gauge, [''mode''])"
  "map_of metric_families ''boundary_layer_inference_simulated_p99_latency_ms'' = Some (Gauge, [''mode''])"
  "map_of metric_families ''boundary_layer_sse_streams_total'' = Some (Counter, [''mode'', ''result''])"
  "map_of metric_families ''boundary_layer_sse_rejected_streams_total'' = Some (Counter, [''mode''])"
  "map_of metric_families ''boundary_layer_sse_active_streams'' = Some (Gauge, [''mode''])"
  "map_of metric_families ''boundary_layer_sse_orphaned_streams'' = Some (Gauge, [''mode''])"
  "map_of metric_families ''boundary_layer_sse_worker_pressure'' = Some (Gauge, [''mode''])"
  "map_of metric_families ''boundary_layer_sse_memory_pressure_mb'' = Some (Gauge, [''mode''])"
  "map_of metric_families ''boundary_layer_sse_cleanup_applied_total'' = Some (Counter, [''mode''])"
  "map_of metric_families ''boundary_layer_prompt_cache_requests_total'' = Some (Counter, [''mode'', ''tenant'', ''result''])"
  "map_of metric_families ''boundary_layer_prompt_cache_hits_total'' = Some (Counter, [''mode'', ''tenant'', ''hit_type''])"
  "map_of metric_families ''boundary_layer_prompt_cache_cross_tenant_bleed_total'' = Some (Counter, [''mode''])"
  "map_of metric_families ''boundary_layer_prompt_cache_isolation_applied_total'' = Some (Counter, [''mode''])"
  "map_of metric_families ''boundary_layer_auth_decisions_total'' = Some (Counter, [''result'', ''reason''])"
  "map_of metric_families ''boundary_layer_tenant_access_denied_total'' = Some (Counter, [''reason''])"
  "map_of metric_families ''boundary_layer_audit_events_total'' = Some (Counter, [''action'', ''result''])"
  by code_simp+

lemma metrics_ok_inc_by [simp]: "metrics_ok (inc_by n l k log) \<longleftrightarrow> metrics_ok log \<and> metric_op_ok (Inc n l k)"
  by (auto simp: metrics_ok_def inc_by_def)

lemma metrics_ok_set_gauge [simp]: "metrics_ok (set_gauge n l k log) \<longleftrightarrow> metrics_ok log \<and> metric_op_ok (SetGauge n l k)"
  by (auto simp: metrics_ok_def set_gauge_def)

lemma metrics_ok_observe [simp]: "metrics_ok (log @ [Observe n l v]) \<longleftrightarrow> metrics_ok log \<and> metric_op_ok (Observe n l v)"
  by (auto simp: metrics_ok_def)

text \<open>Every recording operation makes calls the client accepts, whatever its arguments.\<close>

lemma recorded_ok [simp]:
  "metrics_ok (record_lab_run a b p log) \<longleftrightarrow> metrics_ok log"
  "metrics_ok (record_tool_injection_blocked log) \<longleftrightarrow> metrics_ok log"
  "metrics_ok (record_redis_tamper_rejected log) \<longleftrightarrow> metrics_ok log"
  "metrics_ok (record_authz_denied log) \<longleftrightarrow> metrics_ok log"
  "metrics_ok (record_file_injection_blocked log) \<longleftrightarrow> metrics_ok log"
  "metrics_ok (record_file_upload_extraction a b c log) \<longleftrightarrow> metrics_ok log"
  "metrics_ok (record_file_upload_sandbox_applied a log) \<longleftrightarrow> metrics_ok log"
  "metrics_ok (record_file_upload_egress_blocked a log) \<longleftrightarrow> metrics_ok log"
  "metrics_ok (record_file_upload_active_content_blocked a b log) \<longleftrightarrow> metrics_ok log"
  "metrics_ok (record_file_upload_hidden_instruction_detected a b log) \<longleftrightarrow> metrics_ok log"
  "metrics_ok (record_file_upload_untrusted_content_wrapped a log) \<longleftrightarrow> metrics_ok log"
  "metrics_ok (record_sse_cleanup_applied a log) \<longleftrightarrow> metrics_ok log"
  "metrics_ok (record_prompt_cache_request a b c log) \<longleftrightarrow> metrics_ok log"
  "metrics_ok (record_prompt_cache_hit a b c log) \<longleftrightarrow> metrics_ok log"
  "metrics_ok (record_prompt_cache_cross_tenant_bleed a log) \<longleftrightarrow> metrics_ok log"
  "metrics_ok (record_prompt_cache_isolation_applied a log) \<longleftrightarrow> metrics_ok log"
  "metrics_ok (record_auth_decision a b log) \<longleftrightarrow> metrics_ok log"
  "metrics_ok (record_tenant_access_denied_metric a log) \<longleftrightarrow> metrics_ok log"
  "metrics_ok (record_audit_event_metric a b log) \<longleftrightarrow> metrics_ok log"
  "metrics_ok (record_governance_deletion_audit a p log) \<longleftrightarrow> metrics_ok log"
  "metrics_ok (record_prompt_deletion_orphans i log) \<longleftrightarrow> metrics_ok log"
  "metrics_ok (record_postgres_write_storm_events a b i log) \<longleftrightarrow> metrics_ok log"
  "metrics_ok (record_postgres_write_storm_blocked_writes a i log) \<longleftrightarrow> metrics_ok log"
  "metrics_ok (record_inference_requests a b i log) \<longleftrightarrow> metrics_ok log"
  "metrics_ok (record_inference_shed_work_units a i log) \<longleftrightarrow> metrics_ok log"
  "metrics_ok (record_inference_simulated_failures a i log) \<longleftrightarrow> metrics_ok log"
  "metrics_ok (record_sse_streams a b i log) \<longleftrightarrow> metrics_ok log"
  "metrics_ok (record_sse_rejected_streams a i log) \<longleftrightarrow> metrics_ok log"
  "metrics_ok (observe_postgres_write_storm_insert_duration a v log) \<longleftrightarrow> metrics_ok log"
  "metrics_ok (set_circuit_breaker_state i log) \<longleftrightarrow> metrics_ok log"
  "metrics_ok (set_inference_queue_depth a i log) \<longleftrightarrow> metrics_ok log"
  "metrics_ok (set_inference_p99_latency_ms a i log) \<longleftrightarrow> metrics_ok log"
  "metrics_ok (set_sse_active_streams a i log) \<longleftrightarrow> metrics_ok log"
  "metrics_ok (set_sse_orphaned_streams a i log) \<longleftrightarrow> metrics_ok log"
  "metrics_ok (set_sse_worker_pressure a i log) \<longleftrightarrow> metrics_ok log"
  "metrics_ok (set_sse_memory_pressure_mb a i log) \<longleftrightarrow> metrics_ok log"
  by (simp_all add: Let_def family_lookup
      record_lab_run_def record_tool_injection_blocked_def record_redis_tamper_rejected_def record_authz_denied_def
      record_file_injection_blocked_def record_file_upload_extraction_def record_file_upload_sandbox_applied_def
      record_file_upload_egress_blocked_def record_file_upload_active_content_blocked_def
      record_file_upload_hidden_instruction_detected_def record_file_upload_untrusted_content_wrapped_def
      record_sse_cleanup_applied_def record_prompt_cache_request_def record_prompt_cache_hit_def
      record_prompt_cache_cross_tenant_bleed_def record_prompt_cache_isolation_applied_def record_auth_decision_def
      record_tenant_access_denied_metric_def record_audit_event_metric_def record_governance_deletion_audit_def
      record_prompt_deletion_orphans_def record_postgres_write_storm_events_def
      record_postgres_write_storm_blocked_writes_def record_inference_requests_def
      record_inference_shed_work_units_def record_inference_simulated_failures_def record_sse_streams_def
      record_sse_rejected_streams_def observe_postgres_write_storm_insert_duration_def
      set_circuit_breaker_state_def set_inference_queue_depth_def set_inference_p99_latency_ms_def
      set_sse_active_streams_def set_sse_orphaned_streams_def set_sse_worker_pressure_def
      set_sse_memory_pressure_mb_def)

lemma initial_metrics_ok: "metrics_ok initial_metrics"
  by (simp add: initial_metrics_def metrics_ok_def family_lookup)

end
