(* ===== verification/Py_Url.thy ===== *)
theory Py_Url
  imports Py_Prelude
begin

text \<open>
  What the sources use of \<open>urllib.parse.urlparse\<close>: the scheme, the network location, the host
  and the query of a URL, and the \<open>ValueError\<close> an ill-formed bracketed host raises. Whether the
  text between brackets is an address is decided by the \<open>ipaddress\<close> module: it is the argument
  \<open>br\<close>, \<^term>\<open>None\<close> for an acceptable host and the message of the \<open>ValueError\<close> otherwise.
\<close>

type_synonym bracket_check = "string \<Rightarrow> string option"

record parsed_url =
  url_scheme :: string
  url_netloc :: string
  url_query :: string

definition is_ascii_alpha :: "char \<Rightarrow> bool" where
  "is_ascii_alpha c = (let n = (of_char c :: nat) in (65 \<le> n \<and> n \<le> 90) \<or> (97 \<le> n \<and> n \<le> 122))"

definition is_scheme_char :: "char \<Rightarrow> bool" where
  "is_scheme_char c = (is_ascii_alpha c \<or> is_decimal_char c \<or> c \<in> set ''+-.'')"

text \<open>Leading controls and spaces go, and tabs and line ends anywhere.\<close>

definition clean_url :: "string \<Rightarrow> string" where
  "clean_url u = filter (\<lambda>c. (of_char c :: nat) \<notin> {9, 10, 13})
     (dropWhile (\<lambda>c. (of_char c :: nat) \<le> 32) u)"

definition split_scheme :: "string \<Rightarrow> string \<times> string" where
  "split_scheme u = (let s = takeWhile (\<lambda>c. c \<noteq> CHR '':'') u in
     if CHR '':'' \<in> set u \<and> s \<noteq> [] \<and> is_ascii_alpha (hd s) \<and> list_all is_scheme_char s
     then (lower s, drop (Suc (length s)) u) else ([], u))"

definition split_netloc :: "string \<Rightarrow> string \<times> string" where
  "split_netloc u = (if startswith u ''//''
     then (takeWhile (\<lambda>c. c \<notin> set ''/?#'') (drop 2 u), dropWhile (\<lambda>c. c \<notin> set ''/?#'') (drop 2 u))
     else ([], u))"

definition bracketed_host :: "string \<Rightarrow> string" where
  "bracketed_host n = fst (partition_chr CHR '']'' (snd (snd (partition_chr CHR ''['' n))))"

definition check_netloc :: "bracket_check \<Rightarrow> string \<Rightarrow> unit result" where
  "check_netloc br n =
     (if (CHR ''['' \<in> set n) \<noteq> (CHR '']'' \<in> set n) then Inl (ValueError ''Invalid IPv6 URL'')
      else if CHR ''['' \<in> set n
        then (case br (bracketed_host n) of None \<Rightarrow> Inr () | Some m \<Rightarrow> Inl (ValueError m))
      else Inr ())"

definition urlparse :: "bracket_check \<Rightarrow> string \<Rightarrow> parsed_url result" where
  "urlparse br u =
     (let (sch, rest) = split_scheme (clean_url u); (net, rest') = split_netloc rest in
      bind_res (check_netloc br net) (\<lambda>_.
        Inr \<lparr>url_scheme = sch, url_netloc = net,
             url_query = snd (snd (partition_chr CHR ''?'' (takeWhile (\<lambda>c. c \<noteq> CHR ''#'') rest')))\<rparr>))"

text \<open>\<open>parsed.hostname or ""\<close>.\<close>

definition url_hostname :: "parsed_url \<Rightarrow> string" where
  "url_hostname p =
     (let info = last (split_chr CHR ''@'' (url_netloc p));
          (_, open_br, br) = partition_chr CHR ''['' info;
          h = (if open_br then fst (partition_chr CHR '']'' br)
               else fst (partition_chr CHR '':'' info));
          (name, pct, zone) = partition_chr CHR ''%'' h
      in lower name @ (if pct then ''%'' @ zone else []))"

end
