(* ===== verification/Config.thy ===== *)
theory Config
  imports Py_Url
begin

text \<open>
  \<open>apps/api/config.py\<close>: the settings record with its defaults, the field and model validators
  pydantic runs when \<open>Settings()\<close> is built (in source order: normalisation of profile and
  environment, production defaults, production requirements, production-saas requirements) and
  the derived properties. The typed field values pydantic reads from the environment are the
  input; building fails with the \<open>ValueError\<close> the validator raises.
\<close>

definition SUPPORTED_AUTH_PROVIDERS :: "string list" where
  "SUPPORTED_AUTH_PROVIDERS = [''oidc'', ''oidc-test'']"

definition SUPPORTED_OBJECT_STORAGE_BACKENDS :: "string list" where
  "SUPPORTED_OBJECT_STORAGE_BACKENDS = [''gcs'', ''r2'', ''s3'']"

definition SUPPORTED_SECRET_MANAGER_PROVIDERS :: "string list" where
  "SUPPORTED_SECRET_MANAGER_PROVIDERS = [''aws'', ''azure'', ''doppler'', ''gcp'', ''vault'']"

definition LOCAL_MANAGED_HOSTS :: "string list" where
  "LOCAL_MANAGED_HOSTS = [''localhost'', ''127.0.0.1'', ''postgres'', ''redis'',
     ''boundary-layer-postgres'', ''boundary-layer-redis'']"

definition INSECURE_SECRET_KEY_MARKERS :: "string list" where
  "INSECURE_SECRET_KEY_MARKERS = [''changeme'', ''change-me'', ''local-dev-hmac-secret-change-me'',
     ''your-secret-here'', ''placeholder-secret'']"

definition is_valid_https_url :: "bracket_check \<Rightarrow> string \<Rightarrow> bool result" where
  "is_valid_https_url br value =
     bind_res (urlparse br (strip value)) (\<lambda>p.
       Inr (url_scheme p = ''https'' \<and> url_netloc p \<noteq> []))"

record settings =
  boundary_layer_env :: string
  boundary_layer_profile :: string
  app_version :: string
  api_host :: string
  api_port :: int
  api_log_level :: string
  auth_enabled :: bool
  api_key :: string
  metrics_token :: string
  metrics_auth_required :: bool
  allow_vulnerable :: bool
  rate_limit_enabled :: bool
  rate_limit_requests :: int
  rate_limit_window_seconds :: int
  rate_limit_backend :: string
  postgres_password :: string
  redis_password :: string
  session_hmac_secret :: string
  forwarded_allow_ips :: string
  expose_openapi :: bool
  cors_enabled :: bool
  cors_origins :: string
  log_json :: bool
  log_request_id :: bool
  run_migrations :: bool
  trusted_hosts :: string
  trust_proxy_headers :: bool
  auth_provider :: string
  database_url :: string
  redis_url :: string
  secret_key :: string
  allowed_origins :: string
  public_base_url :: string
  secure_cookies :: bool
  file_storage_backend :: string
  audit_log_enabled :: bool
  oidc_issuer_url :: string
  oidc_audience :: string
  oidc_jwks_url :: string
  oidc_algorithms :: string
  oidc_required_claims :: string
  oidc_tenant_claim :: string
  oidc_roles_claim :: string
  oidc_subject_claim :: string
  oidc_email_claim :: string
  oidc_required_roles :: string
  oidc_clock_skew_seconds :: int
  db_pool_min_size :: int
  db_pool_max_size :: int
  db_connect_timeout_seconds :: int
  db_ssl_mode :: string
  redis_connect_timeout_seconds :: int
  redis_key_prefix :: string
  object_storage_bucket :: string
  object_storage_region :: string
  object_storage_prefix :: string
  object_storage_kms_key_id :: string
  object_storage_presigned_url_ttl_seconds :: int
  object_storage_endpoint :: string
  secret_manager_provider :: string
  secret_manager_project_or_path :: string
  secret_rotation_required :: bool
  secret_cache_ttl_seconds :: int
  allow_env_secret_provider :: bool
  audit_sink_provider :: string
  audit_immutable_required :: bool
  audit_retention_days :: int
  audit_export_enabled :: bool
  waf_enabled :: bool
  tenant_rate_limit_required :: bool
  abuse_alerting_enabled :: bool
  max_request_body_bytes :: int
  max_file_upload_bytes :: int
  tenant_concurrency_limit :: int
  tenant_rate_limit_per_minute :: int
  allow_local_managed_endpoints :: bool


section \<open>Defaults\<close>

definition default_settings :: settings where
  "default_settings = \<lparr>
     boundary_layer_env = ''development'', boundary_layer_profile = ''local-lab'',
     app_version = ''1.3.5'', api_host = ''0.0.0.0'', api_port = 8000, api_log_level = ''info'',
     auth_enabled = False, api_key = [], metrics_token = [], metrics_auth_required = False,
     allow_vulnerable = True, rate_limit_enabled = False, rate_limit_requests = 120,
     rate_limit_window_seconds = 60, rate_limit_backend = ''memory'', postgres_password = [],
     redis_password = [], session_hmac_secret = [],
     forwarded_allow_ips = ''127.0.0.1,10.0.0.0/8,172.16.0.0/12,192.168.0.0/16'',
     expose_openapi = True, cors_enabled = False, cors_origins = [], log_json = False,
     log_request_id = True, run_migrations = False, trusted_hosts = [],
     trust_proxy_headers = False, auth_provider = [], database_url = [], redis_url = [],
     secret_key = [], allowed_origins = [], public_base_url = [], secure_cookies = False,
     file_storage_backend = [], audit_log_enabled = False, oidc_issuer_url = [],
     oidc_audience = [], oidc_jwks_url = [], oidc_algorithms = ''RS256'',
     oidc_required_claims = [], oidc_tenant_claim = ''https://boundarylayer.dev/tenant_id'',
     oidc_roles_claim = ''https://boundarylayer.dev/roles'', oidc_subject_claim = ''sub'',
     oidc_email_claim = ''email'', oidc_required_roles = [], oidc_clock_skew_seconds = 60,
     db_pool_min_size = 1, db_pool_max_size = 10, db_connect_timeout_seconds = 5,
     db_ssl_mode = [], redis_connect_timeout_seconds = 3, redis_key_prefix = [],
     object_storage_bucket = [], object_storage_region = [], object_storage_prefix = [],
     object_storage_kms_key_id = [], object_storage_presigned_url_ttl_seconds = 900,
     object_storage_endpoint = [], secret_manager_provider = [],
     secret_manager_project_or_path = [], secret_rotation_required = False,
     secret_cache_ttl_seconds = 0, allow_env_secret_provider = False,
     audit_sink_provider = ''postgres'', audit_immutable_required = False,
     audit_retention_days = 365, audit_export_enabled = False, waf_enabled = False,
     tenant_rate_limit_required = False, abuse_alerting_enabled = False,
     max_request_body_bytes = 0, max_file_upload_bytes = 0, tenant_concurrency_limit = 0,
     tenant_rate_limit_per_minute = 0, allow_local_managed_endpoints = False\<rparr>"

section \<open>Derived properties\<close>

definition is_staging :: "settings \<Rightarrow> bool" where
  "is_staging s = (boundary_layer_env s = ''staging'')"

definition is_production_saas :: "settings \<Rightarrow> bool" where
  "is_production_saas s = (boundary_layer_profile s = ''production-saas'')"

definition is_production :: "settings \<Rightarrow> bool" where
  "is_production s =
     (boundary_layer_profile s \<in> set [''production-like'', ''production-saas'']
      \<or> boundary_layer_env s = ''production'')"

definition is_local_lab :: "settings \<Rightarrow> bool" where
  "is_local_lab s =
     (boundary_layer_profile s = ''local-lab'' \<and> boundary_layer_env s \<noteq> ''production'')"

definition oidc_algorithms_list :: "settings \<Rightarrow> string list" where
  "oidc_algorithms_list s =
     (if strip (oidc_algorithms s) = [] then [] else csv_list (oidc_algorithms s))"

definition oidc_required_claims_list :: "settings \<Rightarrow> string list" where
  "oidc_required_claims_list s =
     (if strip (oidc_required_claims s) = [] then [] else csv_list (oidc_required_claims s))"

definition oidc_required_roles_list :: "settings \<Rightarrow> string list" where
  "oidc_required_roles_list s =
     (if strip (oidc_required_roles s) = [] then [] else csv_list (oidc_required_roles s))"

definition cors_origin_list :: "settings \<Rightarrow> string list" where
  "cors_origin_list s =
     (let origins = (if strip (allowed_origins s) \<noteq> [] then strip (allowed_origins s)
                     else strip (cors_origins s))
      in if origins = [] then [] else csv_list origins)"

definition trusted_host_list :: "settings \<Rightarrow> string list" where
  "trusted_host_list s =
     (if strip (trusted_hosts s) = [] then [] else csv_list (trusted_hosts s))"

section \<open>Validators\<close>

definition normalize_profile :: "string \<Rightarrow> string result" where
  "normalize_profile value =
     (let normalized = lower (strip value) in
      if normalized \<notin> set [''local-lab'', ''production-like'', ''production-saas'']
      then Inl (ValueError
        ''BOUNDARY_LAYER_PROFILE must be one of: local-lab, production-like, production-saas'')
      else Inr normalized)"

definition normalize_env :: "string \<Rightarrow> string" where
  "normalize_env value = lower (strip value)"

definition apply_production_defaults :: "settings \<Rightarrow> settings" where
  "apply_production_defaults s =
     (if \<not> is_production s then s
      else s\<lparr>allow_vulnerable := False, auth_enabled := True, metrics_auth_required := True,
             rate_limit_enabled := True, rate_limit_backend := ''redis'', log_json := True,
             run_migrations := True, expose_openapi := False, trust_proxy_headers := True\<rparr>)"

fun short_secret :: "(string \<times> string) list \<Rightarrow> string option" where
  "short_secret [] = None"
| "short_secret ((name, value) # rest) =
     (if length (strip value) < 16
      then Some (name @ '' must be at least 16 characters in production'')
      else short_secret rest)"

definition validate_production_requirements :: "settings \<Rightarrow> settings result" where
  "validate_production_requirements s =
     (if boundary_layer_env s \<noteq> ''production'' then Inr s
      else if auth_enabled s \<and> strip (api_key s) = []
        then Inl (ValueError ''BOUNDARY_LAYER_API_KEY is required when BOUNDARY_LAYER_ENV=production'')
      else if metrics_auth_required s \<and> strip (metrics_token s) = []
        then Inl (ValueError
          ''BOUNDARY_LAYER_METRICS_TOKEN is required when BOUNDARY_LAYER_ENV=production'')
      else if strip (api_key s) \<noteq> [] \<and> length (strip (api_key s)) < 24
        then Inl (ValueError ''BOUNDARY_LAYER_API_KEY must be at least 24 characters'')
      else if strip (metrics_token s) \<noteq> [] \<and> length (strip (metrics_token s)) < 24
        then Inl (ValueError ''BOUNDARY_LAYER_METRICS_TOKEN must be at least 24 characters'')
      else (case short_secret [(''POSTGRES_PASSWORD'', postgres_password s),
                               (''REDIS_PASSWORD'', redis_password s),
                               (''SESSION_HMAC_SECRET'', session_hmac_secret s)] of
              Some m \<Rightarrow> Inl (ValueError m)
            | None \<Rightarrow> Inr s))"

fun ssl_mode_of_query :: "string list \<Rightarrow> string" where
  "ssl_mode_of_query [] = []"
| "ssl_mode_of_query (part # parts) =
     (let (key, eq, value) = partition_chr CHR ''='' part in
      if \<not> eq then ssl_mode_of_query parts
      else if lower (strip key) \<in> set [''sslmode'', ''ssl_mode''] then lower (strip value)
      else ssl_mode_of_query parts)"

definition database_ssl_mode :: "bracket_check \<Rightarrow> settings \<Rightarrow> string result" where
  "database_ssl_mode br s =
     (let configured = lower (strip (db_ssl_mode s)) in
      if configured \<noteq> [] then Inr configured
      else bind_res (urlparse br (strip (database_url s))) (\<lambda>p.
        Inr (if url_query p \<noteq> [] then ssl_mode_of_query (split_chr CHR ''&'' (url_query p)) else [])))"

definition issue :: "bool \<Rightarrow> string \<Rightarrow> string list" where
  "issue b m = (if b then [m] else [])"

definition local_host :: "settings \<Rightarrow> parsed_url \<Rightarrow> bool" where
  "local_host s p =
     (let host = lower (strip (url_hostname p)) in
      host \<noteq> [] \<and> host \<in> set LOCAL_MANAGED_HOSTS \<and> \<not> allow_local_managed_endpoints s)"

definition validate_managed_database_url :: "bracket_check \<Rightarrow> settings \<Rightarrow> string list result" where
  "validate_managed_database_url br s =
     (let url = strip (database_url s) in
      if url = [] then Inr []
      else bind_res (urlparse br url) (\<lambda>p.
        bind_res (database_ssl_mode br s) (\<lambda>sslmode.
          Inr (issue (local_host s p)
                 ''DATABASE_URL must not use localhost or container hostnames in production-saas'' @
               issue (sslmode \<noteq> ''require'')
                 ''DATABASE_URL or DB_SSL_MODE must require SSL (sslmode=require)''))))"

definition validate_managed_redis_url :: "bracket_check \<Rightarrow> settings \<Rightarrow> string list result" where
  "validate_managed_redis_url br s =
     (let url = strip (redis_url s) in
      if url = [] then Inr []
      else bind_res (urlparse br url) (\<lambda>p.
        Inr (issue (url_scheme p \<noteq> ''rediss'') ''REDIS_URL must use rediss:// in production-saas'' @
             issue (local_host s p)
               ''REDIS_URL must not use localhost or container hostnames in production-saas'')))"

definition secret_key_is_insecure :: "settings \<Rightarrow> bool" where
  "secret_key_is_insecure s =
     (let normalized = lower (strip (secret_key s)) in
      length normalized < 32 \<or> normalized \<in> set INSECURE_SECRET_KEY_MARKERS)"

definition origins_allow_wildcard :: "string \<Rightarrow> bool" where
  "origins_allow_wildcard origins =
     list_ex (\<lambda>origin. let cleaned = strip origin in cleaned = ''*'' \<or> endswith cleaned ''/*'')
       (split_chr CHR '','' origins)"

text \<open>
  The issue list is built in four stretches; \<open>urlparse\<close> can raise between them, which ends the
  validator at once.
\<close>

definition blank_or_not_https :: "bracket_check \<Rightarrow> string \<Rightarrow> bool result" where
  "blank_or_not_https br u =
     (if strip u = [] then Inr True else bind_res (is_valid_https_url br u) (\<lambda>ok. Inr (\<not> ok)))"

definition saas_issues_auth :: "bracket_check \<Rightarrow> settings \<Rightarrow> string list result" where
  "saas_issues_auth br s =
     bind_res (blank_or_not_https br (oidc_issuer_url s)) (\<lambda>bad_issuer.
     bind_res (blank_or_not_https br (oidc_jwks_url s)) (\<lambda>bad_jwks. Inr (
       issue (lower (strip (auth_provider s)) \<notin> set SUPPORTED_AUTH_PROVIDERS)
         (''BOUNDARY_LAYER_AUTH_PROVIDER must be one of: '' @ join '', '' SUPPORTED_AUTH_PROVIDERS) @
       issue (\<not> auth_enabled s) ''BOUNDARY_LAYER_AUTH_ENABLED must be true'' @
       issue bad_issuer ''OIDC_ISSUER_URL must be a valid https URL'' @
       issue (strip (oidc_audience s) = []) ''OIDC_AUDIENCE is required'' @
       issue bad_jwks ''OIDC_JWKS_URL must be a valid https URL'' @
       (if oidc_algorithms_list s = [] then [''OIDC_ALGORITHMS is required'']
        else issue (list_ex (\<lambda>a. lower a = ''none'') (oidc_algorithms_list s))
          ''OIDC_ALGORITHMS must not allow none''))))"

definition saas_issues_core :: "settings \<Rightarrow> string list" where
  "saas_issues_core s =
     issue (strip (auth_provider s) = []) ''BOUNDARY_LAYER_AUTH_PROVIDER is required'' @
     issue (strip (database_url s) = []) ''DATABASE_URL is required'' @
     issue (strip (redis_url s) = []) ''REDIS_URL is required'' @
     (if length (strip (secret_key s)) < 32
      then [''BOUNDARY_LAYER_SECRET_KEY must be at least 32 characters'']
      else issue (secret_key_is_insecure s)
        ''BOUNDARY_LAYER_SECRET_KEY must not use insecure defaults'') @
     (if strip (allowed_origins s) = [] then [''BOUNDARY_LAYER_ALLOWED_ORIGINS is required'']
      else issue (origins_allow_wildcard (allowed_origins s))
        ''BOUNDARY_LAYER_ALLOWED_ORIGINS must not use wildcards'') @
     issue (strip (public_base_url s) = []) ''BOUNDARY_LAYER_PUBLIC_BASE_URL is required'' @
     issue (\<not> secure_cookies s) ''BOUNDARY_LAYER_SECURE_COOKIES must be true'' @
     issue (\<not> trust_proxy_headers s)
       ''BOUNDARY_LAYER_TRUST_PROXY_HEADERS must be explicitly true'' @
     issue (strip (metrics_token s) = []) ''BOUNDARY_LAYER_METRICS_TOKEN is required'' @
     (if strip (file_storage_backend s) = []
      then [''BOUNDARY_LAYER_FILE_STORAGE_BACKEND is required'']
      else issue (lower (strip (file_storage_backend s)) \<in> set [''local'', ''disk'', ''filesystem''])
        ''BOUNDARY_LAYER_FILE_STORAGE_BACKEND must not use local disk'')"

definition saas_issues_managed :: "settings \<Rightarrow> string list" where
  "saas_issues_managed s =
     issue (\<not> audit_log_enabled s) ''BOUNDARY_LAYER_AUDIT_LOG_ENABLED must be true'' @
     issue (strip (oidc_tenant_claim s) = []) ''OIDC_TENANT_CLAIM is required'' @
     issue (strip (oidc_roles_claim s) = []) ''OIDC_ROLES_CLAIM is required'' @
     (if strip (secret_manager_provider s) = [] then [''SECRET_MANAGER_PROVIDER is required'']
      else issue (lower (strip (secret_manager_provider s)) \<notin> set SUPPORTED_SECRET_MANAGER_PROVIDERS)
        (''SECRET_MANAGER_PROVIDER must be one of: '' @
           join '', '' SUPPORTED_SECRET_MANAGER_PROVIDERS)) @
     issue (strip (secret_manager_project_or_path s) = [])
       ''SECRET_MANAGER_PROJECT_OR_PATH is required'' @
     issue (\<not> secret_rotation_required s) ''SECRET_ROTATION_REQUIRED must be true'' @
     (if secret_cache_ttl_seconds s \<le> 0 then [''SECRET_CACHE_TTL_SECONDS is required'']
      else issue (secret_cache_ttl_seconds s > 3600) ''SECRET_CACHE_TTL_SECONDS must be at most 3600'') @
     issue (strip (redis_key_prefix s) = []) ''REDIS_KEY_PREFIX is required'' @
     (if lower (strip (file_storage_backend s)) \<in> set SUPPORTED_OBJECT_STORAGE_BACKENDS
      then issue (strip (object_storage_bucket s) = []) ''OBJECT_STORAGE_BUCKET is required'' @
           issue (strip (object_storage_region s) = []) ''OBJECT_STORAGE_REGION is required'' @
           issue (lower (strip (file_storage_backend s)) = ''r2'' \<and>
                  strip (object_storage_endpoint s) = [])
             ''OBJECT_STORAGE_ENDPOINT is required for r2 backend''
      else [])"

definition saas_issues_staging :: "bracket_check \<Rightarrow> settings \<Rightarrow> string list result" where
  "saas_issues_staging br s =
     (if \<not> is_staging s then Inr []
      else bind_res (if strip (public_base_url s) = [] then Inr False
                     else bind_res (is_valid_https_url br (public_base_url s)) (\<lambda>ok. Inr (\<not> ok)))
        (\<lambda>bad_base. Inr (
          issue (lower (strip (auth_provider s)) = ''oidc-test'')
            ''BOUNDARY_LAYER_AUTH_PROVIDER must be oidc in staging; oidc-test is test-only'' @
          issue bad_base ''BOUNDARY_LAYER_PUBLIC_BASE_URL must be a valid https URL'')))"

definition saas_issues :: "bracket_check \<Rightarrow> settings \<Rightarrow> string list result" where
  "saas_issues br s =
     bind_res (saas_issues_auth br s) (\<lambda>i1.
     bind_res (validate_managed_database_url br s) (\<lambda>i2.
     bind_res (validate_managed_redis_url br s) (\<lambda>i3.
     bind_res (saas_issues_staging br s) (\<lambda>i4.
       Inr (i1 @ saas_issues_core s @ saas_issues_managed s @ i2 @ i3 @ i4)))))"

definition validate_production_saas_requirements :: "bracket_check \<Rightarrow> settings \<Rightarrow> settings result" where
  "validate_production_saas_requirements br s =
     (if \<not> is_production_saas s then Inr s
      else bind_res (saas_issues br s) (\<lambda>issues.
        if issues \<noteq> [] then Inl (ValueError (join ''; '' issues)) else Inr s))"

text \<open>\<open>Settings()\<close>: the field validators, then the model validators in their order.\<close>

definition build_settings :: "bracket_check \<Rightarrow> settings \<Rightarrow> settings result" where
  "build_settings br raw =
     bind_res (normalize_profile (boundary_layer_profile raw)) (\<lambda>profile.
     bind_res (validate_production_requirements (apply_production_defaults
       (raw\<lparr>boundary_layer_profile := profile,
            boundary_layer_env := normalize_env (boundary_layer_env raw)\<rparr>))) (\<lambda>s.
       validate_production_saas_requirements br s))"

section \<open>What a built settings object satisfies\<close>

lemma issue_Nil_iff [simp]: "issue b m = [] \<longleftrightarrow> \<not> b"
  by (simp add: issue_def)

lemma saas_is_production: "is_production_saas s \<Longrightarrow> is_production s"
  by (simp add: is_production_saas_def is_production_def)

lemma local_lab_not_production: "is_local_lab s \<Longrightarrow> \<not> is_production s"
  by (simp add: is_local_lab_def is_production_def)

lemma defaults_frame [simp]:
  "boundary_layer_profile (apply_production_defaults s) = boundary_layer_profile s"
  "boundary_layer_env (apply_production_defaults s) = boundary_layer_env s"
  by (simp_all add: apply_production_defaults_def)

lemma is_production_defaults [simp]:
  "is_production (apply_production_defaults s) = is_production s"
  "is_production_saas (apply_production_defaults s) = is_production_saas s"
  by (simp_all add: is_production_def is_production_saas_def)

lemma validate_production_requirements_same:
  "validate_production_requirements s = Inr t \<Longrightarrow> t = s"
  by (simp add: validate_production_requirements_def split: if_splits option.splits)

lemma validate_saas_same:
  "validate_production_saas_requirements br s = Inr t \<Longrightarrow> t = s"
  by (auto simp: validate_production_saas_requirements_def bind_res_Inr_iff split: if_splits)

lemma build_settings_cases:
  assumes "build_settings br raw = Inr s"
  obtains profile where "normalize_profile (boundary_layer_profile raw) = Inr profile"
    and "s = apply_production_defaults (raw\<lparr>boundary_layer_profile := profile,
            boundary_layer_env := normalize_env (boundary_layer_env raw)\<rparr>)"
    and "validate_production_requirements s = Inr s"
    and "validate_production_saas_requirements br s = Inr s"
  using assms
  by (auto simp: build_settings_def bind_res_Inr_iff dest: validate_saas_same
      validate_production_requirements_same)

lemma normalize_profile_Inr:
  "normalize_profile v = Inr p \<Longrightarrow> p \<in> set [''local-lab'', ''production-like'', ''production-saas'']"
  by (simp only: normalize_profile_def Let_def split: if_splits) auto

lemma apply_production_defaults_locked:
  assumes "is_production s"
  defines "t \<equiv> apply_production_defaults s"
  shows "\<not> allow_vulnerable t" "auth_enabled t" "metrics_auth_required t" "rate_limit_enabled t"
    "rate_limit_backend t = ''redis''" "log_json t" "run_migrations t" "\<not> expose_openapi t"
    "trust_proxy_headers t"
  using assms(1) by (simp_all add: t_def apply_production_defaults_def)


lemma built_profile:
  assumes "build_settings br raw = Inr s"
  shows "boundary_layer_profile s = lower (strip (boundary_layer_profile raw))"
  using assms by (rule build_settings_cases) (auto simp: normalize_profile_def Let_def split: if_splits)

lemma built_production_locked:
  assumes "build_settings br raw = Inr s" and "is_production s"
  shows "\<not> allow_vulnerable s" "auth_enabled s" "metrics_auth_required s" "rate_limit_enabled s"
    "rate_limit_backend s = ''redis''" "log_json s" "run_migrations s" "\<not> expose_openapi s"
    "trust_proxy_headers s"
proof -
  obtain p where s: "s = apply_production_defaults (raw\<lparr>boundary_layer_profile := p,
            boundary_layer_env := normalize_env (boundary_layer_env raw)\<rparr>)" (is "s = apply_production_defaults ?t")
    using assms(1) by (rule build_settings_cases)
  have "is_production ?t"
    using assms(2) by (simp add: s)
  from apply_production_defaults_locked [OF this]
  show "\<not> allow_vulnerable s" "auth_enabled s" "metrics_auth_required s" "rate_limit_enabled s"
    "rate_limit_backend s = ''redis''" "log_json s" "run_migrations s" "\<not> expose_openapi s"
    "trust_proxy_headers s"
    by (simp_all add: s)
qed

lemma validated_saas_issues:
  assumes "validate_production_saas_requirements br s = Inr t" and "is_production_saas s"
  shows "saas_issues br s = Inr []"
  using assms by (auto simp: validate_production_saas_requirements_def bind_res_Inr_iff split: if_splits)

lemma saas_issues_parts:
  assumes "saas_issues br s = Inr []"
  shows "saas_issues_auth br s = Inr []" "saas_issues_core s = []" "saas_issues_managed s = []"
    "validate_managed_database_url br s = Inr []" "validate_managed_redis_url br s = Inr []"
    "saas_issues_staging br s = Inr []"
  using assms by (auto simp: saas_issues_def bind_res_Inr_iff)

lemma blank_or_not_https_False:
  "blank_or_not_https br u = Inr False \<longleftrightarrow> strip u \<noteq> [] \<and> is_valid_https_url br u = Inr True"
  by (auto simp: blank_or_not_https_def bind_res_Inr_iff)

lemma saas_issues_auth_Nil:
  assumes "saas_issues_auth br s = Inr []"
  shows "lower (strip (auth_provider s)) \<in> set SUPPORTED_AUTH_PROVIDERS"
    "is_valid_https_url br (oidc_issuer_url s) = Inr True"
    "is_valid_https_url br (oidc_jwks_url s) = Inr True"
    "strip (oidc_audience s) \<noteq> []" "oidc_algorithms_list s \<noteq> []"
    "\<forall>a\<in>set (oidc_algorithms_list s). lower a \<noteq> ''none''"
  using assms
  by (auto simp: saas_issues_auth_def bind_res_Inr_iff blank_or_not_https_False list_ex_iff
      split: if_splits simp del: set_simps)

lemma saas_issues_core_Nil:
  assumes "saas_issues_core s = []"
  shows "32 \<le> length (strip (secret_key s))" "\<not> secret_key_is_insecure s"
    "strip (allowed_origins s) \<noteq> []" "\<not> origins_allow_wildcard (allowed_origins s)"
    "strip (metrics_token s) \<noteq> []" "secure_cookies s"
    "lower (strip (file_storage_backend s)) \<notin> set [''local'', ''disk'', ''filesystem'']"
  using assms by (auto simp: saas_issues_core_def split: if_splits simp del: set_simps)

lemma saas_issues_managed_Nil:
  assumes "saas_issues_managed s = []"
  shows "audit_log_enabled s" "strip (oidc_tenant_claim s) \<noteq> []"
    "lower (strip (secret_manager_provider s)) \<in> set SUPPORTED_SECRET_MANAGER_PROVIDERS"
    "0 < secret_cache_ttl_seconds s" "secret_cache_ttl_seconds s \<le> 3600"
    "secret_rotation_required s" "strip (redis_key_prefix s) \<noteq> []"
  using assms by (auto simp: saas_issues_managed_def split: if_splits simp del: set_simps)


lemma lower_length [simp]: "length (lower s) = length s"
  by (simp add: lower_def)

lemma markers_short: "m \<in> set INSECURE_SECRET_KEY_MARKERS \<Longrightarrow> length m < 32"
  by (auto simp: INSECURE_SECRET_KEY_MARKERS_def)

lemma built_saas_issues:
  assumes "build_settings br raw = Inr s" and "is_production_saas s"
  shows "saas_issues br s = Inr []"
  using assms by (elim build_settings_cases) (rule validated_saas_issues)

lemma managed_database_url_Nil:
  assumes "validate_managed_database_url br s = Inr []" and "strip (database_url s) \<noteq> []"
  shows "database_ssl_mode br s = Inr ''require''"
  using assms by (auto simp: validate_managed_database_url_def Let_def bind_res_Inr_iff)

lemma managed_redis_url_Nil:
  assumes "validate_managed_redis_url br s = Inr []" and "strip (redis_url s) \<noteq> []"
  shows "\<exists>p. urlparse br (strip (redis_url s)) = Inr p \<and> url_scheme p = ''rediss'' \<and> \<not> local_host s p"
  using assms by (auto simp: validate_managed_redis_url_def Let_def bind_res_Inr_iff)

lemma saas_urls_present:
  assumes "saas_issues_core s = []"
  shows "strip (database_url s) \<noteq> []" "strip (redis_url s) \<noteq> []"
  using assms by (auto simp: saas_issues_core_def)

text \<open>A production-saas configuration that passes, for the witnesses.\<close>

definition example_saas :: settings where
  "example_saas = default_settings\<lparr>
     boundary_layer_profile := '' Production-SaaS '', boundary_layer_env := ''staging'',
     auth_provider := ''oidc'', oidc_issuer_url := ''https://id.example.com/'',
     oidc_audience := ''api'', oidc_jwks_url := ''https://id.example.com/jwks'',
     database_url := ''postgresql://u:p@db.example.com/app?sslmode=require'',
     redis_url := ''rediss://cache.example.com:6379/0'',
     secret_key := ''0123456789abcdef0123456789abcdef'',
     allowed_origins := ''https://app.example.com'', public_base_url := ''https://app.example.com'',
     secure_cookies := True, metrics_token := ''metrics-token-0123456789ab'',
     file_storage_backend := ''s3'', audit_log_enabled := True, secret_manager_provider := ''aws'',
     secret_manager_project_or_path := ''boundary/staging'', secret_rotation_required := True,
     secret_cache_ttl_seconds := 300, redis_key_prefix := ''bl'',
     object_storage_bucket := ''artifacts'', object_storage_region := ''eu-west-1''\<rparr>"

definition no_bracket_error :: bracket_check where
  "no_bracket_error h = None"

definition example_saas_built :: settings where
  "example_saas_built = apply_production_defaults (example_saas\<lparr>
     boundary_layer_profile := ''production-saas'', boundary_layer_env := ''staging''\<rparr>)"

lemma example_saas_builds: "build_settings no_bracket_error example_saas = Inr example_saas_built"
  by code_simp

lemma example_saas_built_saas: "is_production_saas example_saas_built"
  by code_simp

text \<open>
  C9. Every settings object that is built for a production profile or environment has vulnerable
  labs disabled, authentication and metrics authentication on, the Redis rate limiter on, JSON logs,
  migrations at start-up, no OpenAPI pages and trusted proxy headers, whatever the environment asked.
\<close>

theorem production_settings_locked:
  assumes "build_settings br raw = Inr s" and "is_production s"
  shows "\<not> allow_vulnerable s \<and> auth_enabled s \<and> metrics_auth_required s \<and> rate_limit_enabled s
    \<and> rate_limit_backend s = ''redis'' \<and> log_json s \<and> run_migrations s \<and> \<not> expose_openapi s
    \<and> trust_proxy_headers s"
  using built_production_locked [OF assms] by simp

theorem production_settings_locked_witness:
  "\<not> allow_vulnerable example_saas_built \<and> rate_limit_backend example_saas_built = ''redis''"
  using production_settings_locked [OF example_saas_builds saas_is_production [OF example_saas_built_saas]]
  by simp

text \<open>
  A settings object built for the production-saas profile has a supported auth provider, https
  issuer and JWKS URLs, an audience, at least one signing algorithm and never \<open>none\<close>, a secret key of
  at least 32 characters, origins without wildcards, a non-local storage backend, the audit log on, a
  supported secret manager with a cache lifetime between 1 and 3600 seconds, a database connection
  that requires SSL and a \<open>rediss\<close> URL whose host is not a local or container name.
\<close>

theorem saas_settings_sound:
  assumes "build_settings br raw = Inr s" and "is_production_saas s"
  shows "lower (strip (auth_provider s)) \<in> set SUPPORTED_AUTH_PROVIDERS
    \<and> is_valid_https_url br (oidc_issuer_url s) = Inr True
    \<and> is_valid_https_url br (oidc_jwks_url s) = Inr True
    \<and> strip (oidc_audience s) \<noteq> []
    \<and> oidc_algorithms_list s \<noteq> [] \<and> (\<forall>a\<in>set (oidc_algorithms_list s). lower a \<noteq> ''none'')
    \<and> 32 \<le> length (strip (secret_key s))
    \<and> \<not> origins_allow_wildcard (allowed_origins s)
    \<and> lower (strip (file_storage_backend s)) \<notin> set [''local'', ''disk'', ''filesystem'']
    \<and> audit_log_enabled s
    \<and> lower (strip (secret_manager_provider s)) \<in> set SUPPORTED_SECRET_MANAGER_PROVIDERS
    \<and> 0 < secret_cache_ttl_seconds s \<and> secret_cache_ttl_seconds s \<le> 3600
    \<and> database_ssl_mode br s = Inr ''require''
    \<and> (\<exists>p. urlparse br (strip (redis_url s)) = Inr p \<and> url_scheme p = ''rediss'' \<and> \<not> local_host s p)"
proof -
  note parts = saas_issues_parts [OF built_saas_issues [OF assms]]
  note urls = saas_urls_present [OF parts(2)]
  show ?thesis
    using saas_issues_auth_Nil [OF parts(1)] saas_issues_core_Nil [OF parts(2)]
      saas_issues_managed_Nil [OF parts(3)] managed_database_url_Nil [OF parts(4) urls(1)]
      managed_redis_url_Nil [OF parts(5) urls(2)]
    by (intro conjI)
qed

theorem saas_settings_sound_witness:
  "lower (strip (auth_provider example_saas_built)) \<in> set SUPPORTED_AUTH_PROVIDERS
    \<and> database_ssl_mode no_bracket_error example_saas_built = Inr ''require''"
  using saas_settings_sound [OF example_saas_builds example_saas_built_saas] by blast

text \<open>
  The list of insecure secret keys never decides anything: a key of 32 characters or more is
  never in it, since every marker is shorter, so the check for insecure defaults that follows the
  length check cannot report an issue.
\<close>

theorem secret_marker_check_never_fires:
  assumes "32 \<le> length (strip (secret_key s))"
  shows "\<not> secret_key_is_insecure s
    \<and> ''BOUNDARY_LAYER_SECRET_KEY must not use insecure defaults'' \<notin> set (saas_issues_core s)"
proof
  show ok: "\<not> secret_key_is_insecure s"
    using assms markers_short by (fastforce simp: secret_key_is_insecure_def Let_def)
  show "''BOUNDARY_LAYER_SECRET_KEY must not use insecure defaults'' \<notin> set (saas_issues_core s)"
    using assms ok by (simp add: saas_issues_core_def issue_def)
qed

theorem secret_marker_check_never_fires_witness:
  "\<not> secret_key_is_insecure (default_settings\<lparr>secret_key := ''changemechangemechangemechangeme''\<rparr>)"
proof -
  have "32 \<le> length (strip (secret_key (default_settings\<lparr>secret_key := ''changemechangemechangemechangeme''\<rparr>)))"
    by code_simp
  from secret_marker_check_never_fires [OF this] show ?thesis ..
qed

end
