(* ===== verification/Ttl_Cache.thy ===== *)
theory Ttl_Cache
  imports Py_Prelude
begin

text \<open>
  The contract of the time-limited caches of \<open>jwks.py\<close> and \<open>secrets.py\<close>: a stored value is
  returned until its time to live has passed, and no other key is touched. The JWKS clients and the
  secret providers are interpreted in it in their own theories.
\<close>

locale ttl_cache =
  fixes hit :: "'s \<Rightarrow> string \<Rightarrow> int \<Rightarrow> 'v option"
    and store :: "string \<Rightarrow> 'v \<Rightarrow> int \<Rightarrow> 's \<Rightarrow> 's"
    and ttl :: "'s \<Rightarrow> int"
  assumes hit_store: "hit (store k v t0 s) j t =
      (if j = k then (if t < t0 + ttl s then Some v else None) else hit s j t)"
    and ttl_store: "ttl (store k v t0 s) = ttl s"
begin

definition stores :: "(string \<times> 'v \<times> int) list \<Rightarrow> 's \<Rightarrow> 's" where
  "stores ops s = fold (\<lambda>(k, v, t). store k v t) ops s"

lemma ttl_stores [simp]: "ttl (stores ops s) = ttl s"
  by (induction ops arbitrary: s) (auto simp: stores_def ttl_store)

lemma stores_snoc: "stores (ops @ [(k, v, t)]) s = store k v t (stores ops s)"
  by (simp add: stores_def)

text \<open>A value is never served once its time to live has passed.\<close>

lemma hit_not_stale:
  assumes "hit (stores ops s) k t = Some v" and "hit s k t = None"
  obtains t0 where "(k, v, t0) \<in> set ops" "t < t0 + ttl s"
proof -
  have "\<exists>t0. (k, v, t0) \<in> set ops \<and> t < t0 + ttl s"
    using assms
  proof (induction ops rule: rev_induct)
    case Nil
    then show ?case by (simp add: stores_def)
  next
    case (snoc x ops)
    obtain j w t1 where x: "x = (j, w, t1)" by (cases x)
    show ?case
    proof (cases "j = k")
      case True
      then have "t < t1 + ttl s \<and> w = v"
        using snoc.prems x by (auto simp: stores_snoc hit_store split: if_splits)
      then show ?thesis using x True by auto
    next
      case False
      then have "hit (stores ops s) k t = Some v"
        using snoc.prems x by (simp add: stores_snoc hit_store)
      then show ?thesis using snoc by auto
    qed
  qed
  then show ?thesis using that by blast
qed

text \<open>What was stored last is what is served, as long as it lives.\<close>

lemma hit_last:
  assumes "t < t0 + ttl s" and "k \<notin> fst ` set later"
  shows "hit (stores ((k, v, t0) # later) s) k t = Some v"
  using assms
proof (induction later rule: rev_induct)
  case Nil
  then show ?case by (simp add: stores_def hit_store)
next
  case (snoc x later)
  obtain j w t1 where x: "x = (j, w, t1)" by (cases x)
  then have "stores ((k, v, t0) # later @ [x]) s = store j w t1 (stores ((k, v, t0) # later) s)"
    using stores_snoc [of "(k, v, t0) # later"] by simp
  then show ?case
    using snoc x by (auto simp: hit_store)
qed

end

end
