(* ===== verification/Jwks.thy ===== *)
theory Jwks
  imports Ttl_Cache
begin

text \<open>
  \<open>apps/api/jwks.py\<close>: the clients that find the key a token was signed with, and the checks of
  its header. A key is opaque (\<open>'k\<close>). The clock is read where the code reads it, and each reading
  is an argument; the HTTP fetch and PyJWT's \<open>PyJWKSet.from_json\<close> and
  \<open>get_unverified_header\<close> are parameters.
\<close>

section \<open>Data\<close>

definition SUPPORTED_JWT_ALGORITHMS :: "string list" where
  "SUPPORTED_JWT_ALGORITHMS =
     [''RS256'', ''RS384'', ''RS512'', ''ES256'', ''ES384'', ''ES512'', ''PS256'', ''PS384'', ''PS512'']"

record 'k cached_key =
  ck_key :: 'k
  ck_expires_at :: int

record 'k memory_jwks =
  mj_keys_by_kid :: "(string \<times> 'k) list"
  mj_cache_ttl_seconds :: int
  mj_cache :: "(string \<times> 'k cached_key) list"

record 'k http_jwks =
  hj_url :: string
  hj_timeout_seconds :: int
  hj_cache_ttl_seconds :: int
  hj_keys_by_kid :: "(string option \<times> 'k) list"
  hj_cache :: "(string \<times> 'k cached_key) list"
  hj_fetched_at :: int

text \<open>
  What \<open>urlopen\<close> and \<open>read\<close> may raise, as far as the handlers tell it apart. \<open>URLError\<close> and
  \<open>TimeoutError\<close> are subclasses of \<open>OSError\<close>.
\<close>

datatype fetch_error = URLError | OSError | TimeoutError | Unhandled exn

type_synonym fetch = "string \<Rightarrow> int \<Rightarrow> fetch_error + string"
type_synonym 'k jwkset_parser = "string \<Rightarrow> (string option \<times> 'k) list result"

fun is_os_error :: "fetch_error \<Rightarrow> bool" where
  "is_os_error URLError = True"
| "is_os_error OSError = True"
| "is_os_error TimeoutError = True"
| "is_os_error (Unhandled e) = False"

section \<open>The in-memory client\<close>

definition memory_hit :: "'k memory_jwks \<Rightarrow> string \<Rightarrow> int \<Rightarrow> 'k option" where
  "memory_hit c kid now = (case map_of (mj_cache c) kid of
     None \<Rightarrow> None | Some e \<Rightarrow> if ck_expires_at e > now then Some (ck_key e) else None)"

definition memory_store :: "string \<Rightarrow> 'k \<Rightarrow> int \<Rightarrow> 'k memory_jwks \<Rightarrow> 'k memory_jwks" where
  "memory_store kid key now c = c\<lparr>mj_cache := dict_set kid
     \<lparr>ck_key = key, ck_expires_at = now + mj_cache_ttl_seconds c\<rparr> (mj_cache c)\<rparr>"

definition memory_get_signing_key :: "string option \<Rightarrow> int \<Rightarrow> ('k memory_jwks, 'k) eff" where
  "memory_get_signing_key kid now c =
     (case kid of
        None \<Rightarrow> (Inl (JwksError ''JWT header missing kid'' ''jwks_missing_kid''), c)
      | Some kid \<Rightarrow>
          if kid = [] then (Inl (JwksError ''JWT header missing kid'' ''jwks_missing_kid''), c)
          else case memory_hit c kid now of
            Some key \<Rightarrow> (Inr key, c)
          | None \<Rightarrow> (case map_of (mj_keys_by_kid c) kid of
              None \<Rightarrow> (Inl (JwksError (''Unknown key id: '' @ kid) ''jwks_unknown_kid''), c)
            | Some key \<Rightarrow> (Inr key, memory_store kid key now c)))"

definition memory_refresh :: "'k memory_jwks \<Rightarrow> 'k memory_jwks" where
  "memory_refresh c = c\<lparr>mj_cache := []\<rparr>"

section \<open>The HTTP client\<close>

definition http_hit :: "'k http_jwks \<Rightarrow> string \<Rightarrow> int \<Rightarrow> 'k option" where
  "http_hit c kid now = (case map_of (hj_cache c) kid of
     None \<Rightarrow> None | Some e \<Rightarrow> if ck_expires_at e > now then Some (ck_key e) else None)"

definition http_store :: "string \<Rightarrow> 'k \<Rightarrow> int \<Rightarrow> 'k http_jwks \<Rightarrow> 'k http_jwks" where
  "http_store kid key now c = c\<lparr>hj_cache := dict_set kid
     \<lparr>ck_key = key, ck_expires_at = now + hj_cache_ttl_seconds c\<rparr> (hj_cache c)\<rparr>"

text \<open>The \<open>except\<close> clauses in their order: the one for \<open>TimeoutError\<close> comes second.\<close>

definition http_refresh :: "fetch \<Rightarrow> 'k jwkset_parser \<Rightarrow> int \<Rightarrow> ('k http_jwks, unit) eff" where
  "http_refresh urlopen from_json now c =
     (case urlopen (hj_url c) (hj_timeout_seconds c) of
        Inl e \<Rightarrow>
          (Inl (if is_os_error e then JwksError ''JWKS fetch failed'' ''jwks_fetch_failed''
                else case e of
                  TimeoutError \<Rightarrow> JwksError ''JWKS fetch timed out'' ''jwks_fetch_timeout''
                | Unhandled x \<Rightarrow> x
                | _ \<Rightarrow> OtherError ''fetch''), c)
      | Inr payload \<Rightarrow>
          (case from_json payload of
             Inl (PyJWTError m) \<Rightarrow> (Inl (JwksError ''Invalid JWKS payload'' ''jwks_invalid_payload''), c)
           | Inl e \<Rightarrow> (Inl e, c)
           | Inr entries \<Rightarrow>
               (Inr (), c\<lparr>hj_keys_by_kid := fold (\<lambda>(k, v). dict_set k v) entries [],
                          hj_cache := [], hj_fetched_at := now\<rparr>)))"

definition http_lookup :: "string \<Rightarrow> int \<Rightarrow> ('k http_jwks, 'k) eff" where
  "http_lookup kid now c =
     (case map_of (hj_keys_by_kid c) (Some kid) of
        None \<Rightarrow> (Inl (JwksError (''Unknown key id: '' @ kid) ''jwks_unknown_kid''), c)
      | Some key \<Rightarrow> (Inr key, http_store kid key now c))"

text \<open>\<open>now\<close> is the first reading of the clock, \<open>now'\<close> the one at the end of \<open>refresh\<close>.\<close>

definition http_get_signing_key ::
    "fetch \<Rightarrow> 'k jwkset_parser \<Rightarrow> string option \<Rightarrow> int \<Rightarrow> int \<Rightarrow> ('k http_jwks, 'k) eff" where
  "http_get_signing_key urlopen from_json kid now now' c =
     (case kid of
        None \<Rightarrow> (Inl (JwksError ''JWT header missing kid'' ''jwks_missing_kid''), c)
      | Some kid \<Rightarrow>
          if kid = [] then (Inl (JwksError ''JWT header missing kid'' ''jwks_missing_kid''), c)
          else case http_hit c kid now of
            Some key \<Rightarrow> (Inr key, c)
          | None \<Rightarrow>
              if hj_keys_by_kid c = [] \<or> now - hj_fetched_at c > hj_cache_ttl_seconds c
              then bind_eff (http_refresh urlopen from_json now') (\<lambda>_. http_lookup kid now) c
              else http_lookup kid now c)"

section \<open>Header checks\<close>

definition validate_jwt_algorithm :: "pyval option \<Rightarrow> string list \<Rightarrow> unit result" where
  "validate_jwt_algorithm algorithm allowed =
     (case algorithm of
        None \<Rightarrow> Inl (JwksError ''JWT header missing alg'' ''jwt_missing_alg'')
      | Some v \<Rightarrow>
          if \<not> truthy v then Inl (JwksError ''JWT header missing alg'' ''jwt_missing_alg'')
          else case v of
            PStr a \<Rightarrow>
              (let normalized = strip a; allowed_set = map upper allowed in
               if lower normalized = ''none''
               then Inl (JwksError ''Algorithm none is not allowed'' ''jwt_alg_none'')
               else if allowed_set \<noteq> [] \<and> upper normalized \<notin> set allowed_set
               then Inl (JwksError (''Unsupported JWT algorithm: '' @ normalized) ''jwt_unsupported_alg'')
               else if upper normalized \<notin> set SUPPORTED_JWT_ALGORITHMS
                       \<and> upper normalized \<notin> set [''HS256'', ''HS384'', ''HS512'']
               then Inl (JwksError (''Unsupported JWT algorithm: '' @ normalized) ''jwt_unsupported_alg'')
               else Inr ())
          | _ \<Rightarrow> Inl (OtherError ''AttributeError: no attribute strip''))"

definition extract_token_kid ::
    "(string \<Rightarrow> pydict result) \<Rightarrow> string \<Rightarrow> (pydict \<times> string option) result" where
  "extract_token_kid get_unverified_header token =
     (case get_unverified_header token of
        Inl (PyJWTError m) \<Rightarrow> Inl (JwksError ''Invalid JWT header'' ''jwt_invalid_header'')
      | Inl e \<Rightarrow> Inl e
      | Inr header \<Rightarrow>
          Inr (header, case dict_get header ''kid'' of
                 Some (PStr k) \<Rightarrow> if strip k = [] then None else Some (strip k)
               | _ \<Rightarrow> None))"

datatype 'k jwks_client = MemoryClient "'k memory_jwks" | HttpClient "'k http_jwks"

definition build_jwks_client ::
    "string \<Rightarrow> int \<Rightarrow> int \<Rightarrow> (string \<times> 'k) list option \<Rightarrow> 'k jwks_client result" where
  "build_jwks_client jwks_url timeout_seconds cache_ttl_seconds test_keys_by_kid =
     (case test_keys_by_kid of
        Some keys \<Rightarrow> Inr (MemoryClient \<lparr>mj_keys_by_kid = keys,
                       mj_cache_ttl_seconds = cache_ttl_seconds, mj_cache = []\<rparr>)
      | None \<Rightarrow>
          if strip jwks_url = [] then Inl (JwksError ''JWKS URL not configured'' ''jwks_misconfigured'')
          else Inr (HttpClient \<lparr>hj_url = strip jwks_url, hj_timeout_seconds = timeout_seconds,
                      hj_cache_ttl_seconds = cache_ttl_seconds, hj_keys_by_kid = [], hj_cache = [],
                      hj_fetched_at = 0\<rparr>))"

definition client_get_signing_key ::
    "fetch \<Rightarrow> 'k jwkset_parser \<Rightarrow> string option \<Rightarrow> int \<Rightarrow> int \<Rightarrow> ('k jwks_client, 'k) eff" where
  "client_get_signing_key urlopen from_json kid now now' c =
     (case c of
        MemoryClient m \<Rightarrow> map_prod id MemoryClient (memory_get_signing_key kid now m)
      | HttpClient h \<Rightarrow> map_prod id HttpClient (http_get_signing_key urlopen from_json kid now now' h))"

section \<open>The caches keep the contract\<close>

interpretation memory_cache: ttl_cache memory_hit memory_store mj_cache_ttl_seconds
  by unfold_locales (auto simp: memory_hit_def memory_store_def)

interpretation http_cache: ttl_cache http_hit http_store hj_cache_ttl_seconds
  by unfold_locales (auto simp: http_hit_def http_store_def)

text \<open>
  Every cached key is a key of the set fetched last, and its entry lapses at most two times to live
  after the fetch.
\<close>

definition http_wf :: "'k http_jwks \<Rightarrow> bool" where
  "http_wf c = (0 \<le> hj_cache_ttl_seconds c \<and>
     (\<forall>(kid, e) \<in> set (hj_cache c).
        map_of (hj_keys_by_kid c) (Some kid) = Some (ck_key e) \<and>
        ck_expires_at e \<le> hj_fetched_at c + 2 * hj_cache_ttl_seconds c))"

lemma http_wf_entry:
  assumes "http_wf c" and "map_of (hj_cache c) kid = Some e"
  shows "map_of (hj_keys_by_kid c) (Some kid) = Some (ck_key e)"
    and "ck_expires_at e \<le> hj_fetched_at c + 2 * hj_cache_ttl_seconds c"
  using assms by (auto simp: http_wf_def dest!: map_of_SomeD)

lemma http_store_frame [simp]:
  "hj_keys_by_kid (http_store kid key now c) = hj_keys_by_kid c"
  "hj_fetched_at (http_store kid key now c) = hj_fetched_at c"
  "hj_cache_ttl_seconds (http_store kid key now c) = hj_cache_ttl_seconds c"
  by (simp_all add: http_store_def)

lemma http_wf_store:
  assumes "http_wf c" and "map_of (hj_keys_by_kid c) (Some kid) = Some key"
    and "now \<le> hj_fetched_at c + hj_cache_ttl_seconds c"
  shows "http_wf (http_store kid key now c)"
  using assms set_dict_set [of kid "\<lparr>ck_key = key, ck_expires_at = now + hj_cache_ttl_seconds c\<rparr>" "hj_cache c"]
  by (fastforce simp: http_wf_def http_store_def)

lemma http_lookup_wf:
  assumes "http_lookup kid now c = (r, c')" and "http_wf c"
    and "now \<le> hj_fetched_at c + hj_cache_ttl_seconds c"
  shows "http_wf c'" and "hj_fetched_at c' = hj_fetched_at c"
    and "r = Inr key \<Longrightarrow> map_of (hj_keys_by_kid c') (Some kid) = Some key"
    and "hj_cache_ttl_seconds c' = hj_cache_ttl_seconds c"
  using assms by (auto simp: http_lookup_def intro: http_wf_store split: option.splits)

lemma http_refresh_wf:
  assumes "http_refresh urlopen from_json now c = (r, c')" and "http_wf c"
  shows "http_wf c'" and "r = Inr () \<Longrightarrow> hj_fetched_at c' = now"
    and "hj_cache_ttl_seconds c' = hj_cache_ttl_seconds c"
  using assms by (auto simp: http_refresh_def http_wf_def split: sum.splits exn.splits)

lemma http_hit_Some:
  "http_hit c kid now = Some key \<longleftrightarrow>
     (\<exists>e. map_of (hj_cache c) kid = Some e \<and> now < ck_expires_at e \<and> key = ck_key e)"
  by (auto simp: http_hit_def split: option.splits if_splits)

lemma http_refreshed_lookup:
  assumes "bind_eff (http_refresh urlopen from_json now') (\<lambda>_. http_lookup kid now) c = (r, c')"
    and "http_wf c" and "now \<le> now'"
  shows "http_wf c' \<and> (\<forall>key. r = Inr key \<longrightarrow>
    map_of (hj_keys_by_kid c') (Some kid) = Some key \<and> now \<le> hj_fetched_at c')"
proof -
  obtain r1 c1 where step: "http_refresh urlopen from_json now' c = (r1, c1)" by fastforce
  note wf1 = http_refresh_wf [OF step assms(2)]
  show ?thesis
  proof (cases r1)
    case (Inl e)
    then show ?thesis using assms(1) step wf1(1) by (auto simp: bind_eff_def)
  next
    case (Inr u)
    then have look: "http_lookup kid now c1 = (r, c')" and at: "hj_fetched_at c1 = now'"
      using assms(1) step wf1(2) by (auto simp: bind_eff_def)
    have "0 \<le> hj_cache_ttl_seconds c1"
      using wf1(1) by (simp add: http_wf_def)
    then show ?thesis
      using http_lookup_wf [OF look wf1(1)] at assms(3) by auto
  qed
qed

text \<open>
  The JWKS client never serves an outdated key: a key it returns for a key id is the one the
  key set fetched last binds to that id, and that set was fetched at most two cache lifetimes
  ago. The invariant this rests on is kept by every call, failed ones included. The second
  lifetime is not slack: a key copied into the per-key cache just before the set lapses lives there
  for a lifetime of its own.
\<close>

theorem jwks_keys_fresh:
  assumes "http_wf c" and "now \<le> now'"
    and "http_get_signing_key urlopen from_json (Some kid) now now' c = (r, c')"
  shows "http_wf c' \<and> (\<forall>key. r = Inr key \<longrightarrow>
    map_of (hj_keys_by_kid c') (Some kid) = Some key \<and>
    now \<le> hj_fetched_at c' + 2 * hj_cache_ttl_seconds c')"
proof -
  have ttl: "0 \<le> hj_cache_ttl_seconds c" using assms(1) by (simp add: http_wf_def)
  consider (missing) "kid = []"
    | (hit) key where "kid \<noteq> []" "http_hit c kid now = Some key"
    | (stale) "kid \<noteq> []" "http_hit c kid now = None"
        "hj_keys_by_kid c = [] \<or> now - hj_fetched_at c > hj_cache_ttl_seconds c"
    | (known) "kid \<noteq> []" "http_hit c kid now = None"
        "\<not> (hj_keys_by_kid c = [] \<or> now - hj_fetched_at c > hj_cache_ttl_seconds c)"
    by (cases "http_hit c kid now") blast+
  then show ?thesis
  proof cases
    case missing
    then show ?thesis using assms by (auto simp: http_get_signing_key_def)
  next
    case (hit key)
    then have "r = Inr key" "c' = c" using assms(3) by (auto simp: http_get_signing_key_def)
    moreover obtain e where e: "map_of (hj_cache c) kid = Some e" "now < ck_expires_at e" "key = ck_key e"
      using hit(2) by (auto simp: http_hit_Some)
    ultimately show ?thesis
      using http_wf_entry [OF assms(1) e(1)] assms(1) e by auto
  next
    case stale
    then have "bind_eff (http_refresh urlopen from_json now') (\<lambda>_. http_lookup kid now) c = (r, c')"
      using assms(3) by (auto simp: http_get_signing_key_def)
    from http_refreshed_lookup [OF this assms(1,2)] show ?thesis
      by (auto simp: http_wf_def [of c'])
  next
    case known
    then have look: "http_lookup kid now c = (r, c')"
      using assms(3) by (auto simp: http_get_signing_key_def)
    have "now \<le> hj_fetched_at c + hj_cache_ttl_seconds c" using known by auto
    from http_lookup_wf [OF look assms(1) this] show ?thesis
      using known ttl by auto
  qed
qed

definition example_urlopen :: fetch where
  "example_urlopen url timeout = (if url = ''https://idp.example/jwks'' then Inr ''{keys}'' else Inl TimeoutError)"

definition example_jwkset :: "string jwkset_parser" where
  "example_jwkset payload = (if payload = ''{keys}'' then Inr [(Some ''k1'', ''key-one''), (None, ''anon'')]
     else Inl (PyJWTError ''no keys''))"

definition example_client :: "string http_jwks" where
  "example_client = \<lparr>hj_url = ''https://idp.example/jwks'', hj_timeout_seconds = 5,
     hj_cache_ttl_seconds = 300, hj_keys_by_kid = [], hj_cache = [], hj_fetched_at = 0\<rparr>"

theorem jwks_keys_fresh_witness:
  "map_of (hj_keys_by_kid (snd (http_get_signing_key example_urlopen example_jwkset (Some ''k1'') 10 11 example_client)))
     (Some ''k1'') = Some ''key-one''"
proof -
  have "http_get_signing_key example_urlopen example_jwkset (Some ''k1'') 10 11 example_client =
      (Inr ''key-one'', snd (http_get_signing_key example_urlopen example_jwkset (Some ''k1'') 10 11 example_client))"
    by code_simp
  moreover have "http_wf example_client" by code_simp
  ultimately show ?thesis
    using jwks_keys_fresh [of example_client 10 11] by simp
qed

lemma upper_char_of_n:
  assumes "lower_char c = CHR ''n''"
  shows "upper_char c = ''N''"
proof -
  have "of_char (lower_char c) = (110 :: nat)"
    using assms by simp
  then have "of_char c = (110 :: nat) \<or> of_char c = (78 :: nat)"
    by (auto simp: lower_char_def Let_def split: if_splits)
  then have "c = char_of (110 :: nat) \<or> c = char_of (78 :: nat)"
    by (metis char_of_char)
  then show ?thesis
    by (auto simp: upper_char_def char_of_def bit_0)
qed

lemma none_not_supported:
  assumes "lower s = ''none''"
  shows "upper s \<notin> set SUPPORTED_JWT_ALGORITHMS" "upper s \<notin> set [''HS256'', ''HS384'', ''HS512'']"
proof -
  obtain c t where "s = c # t" "lower_char c = CHR ''n''"
    using assms by (cases s) (auto simp: lower_def)
  then have "hd (upper s) = CHR ''N''"
    by (simp add: upper_def upper_char_of_n)
  then show "upper s \<notin> set SUPPORTED_JWT_ALGORITHMS" "upper s \<notin> set [''HS256'', ''HS384'', ''HS512'']"
    by (auto simp: SUPPORTED_JWT_ALGORITHMS_def)
qed

lemma empty_not_supported:
  "upper [] \<notin> set SUPPORTED_JWT_ALGORITHMS" "upper [] \<notin> set [''HS256'', ''HS384'', ''HS512'']"
  by (simp_all add: upper_def SUPPORTED_JWT_ALGORITHMS_def)

text \<open>
  Which algorithms a token may name: the header must carry a string whose trimmed upper case
  is one of the nine asymmetric or three HMAC algorithms, and, unless the configured list is empty,
  one of that list. In particular \<open>none\<close>, in any case and with any spacing, is always refused.
\<close>

theorem validate_jwt_algorithm_iff:
  "validate_jwt_algorithm algorithm allowed = Inr () \<longleftrightarrow>
     (\<exists>a. algorithm = Some (PStr a) \<and>
        upper (strip a) \<in> set SUPPORTED_JWT_ALGORITHMS \<union> set [''HS256'', ''HS384'', ''HS512''] \<and>
        (allowed = [] \<or> upper (strip a) \<in> set (map upper allowed)))"
proof (cases "\<exists>a. algorithm = Some (PStr a) \<and> a \<noteq> []")
  case True
  then obtain a where a: "algorithm = Some (PStr a)" "a \<noteq> []" by blast
  show ?thesis
  proof (cases "lower (strip a) = ''none''")
    case True
    then show ?thesis
      using a none_not_supported [OF True] by (simp add: validate_jwt_algorithm_def)
  next
    case False
    then show ?thesis
      using a by (auto simp: validate_jwt_algorithm_def Let_def)
  qed
next
  case False
  then show ?thesis
    using empty_not_supported by (auto simp: validate_jwt_algorithm_def split: option.splits pyval.splits)
qed

text \<open>
  A timeout is reported as any other failed fetch: the clause for \<open>TimeoutError\<close> follows one
  that catches \<open>OSError\<close>, whose subclass it is, and no fetch raises \<open>jwks_fetch_timeout\<close> by it.
\<close>

theorem jwks_timeout_code_unreachable:
  assumes "urlopen (hj_url c) (hj_timeout_seconds c) = Inl TimeoutError"
  shows "http_refresh urlopen from_json now c =
    (Inl (JwksError ''JWKS fetch failed'' ''jwks_fetch_failed''), c)"
  using assms by (simp add: http_refresh_def)

theorem jwks_timeout_code_unreachable_witness:
  "http_refresh (\<lambda>_ _. Inl TimeoutError) example_jwkset 3 example_client =
    (Inl (JwksError ''JWKS fetch failed'' ''jwks_fetch_failed''), example_client)"
  by (rule jwks_timeout_code_unreachable) simp

end
