(* ===== verification/Auth.thy ===== *)
theory Auth
  imports Config Jwks
begin

text \<open>
  \<open>apps/api/auth.py\<close>: bearer tokens, their validation, and the caller identity built from the
  verified claims. Claims are a Python dict of values. What PyJWT and the network do is collected in
  a record of functions, the environment \<open>jwt_env\<close>, with the two clock readings of one call.
\<close>

section \<open>Identity\<close>

definition LOCAL_LAB_TENANT_ID :: string where
  "LOCAL_LAB_TENANT_ID = ''local-lab''"

definition PLATFORM_ADMIN_ROLE :: string where
  "PLATFORM_ADMIN_ROLE = ''platform_admin''"

definition DEFAULT_TENANT_CLAIM :: string where
  "DEFAULT_TENANT_CLAIM = ''https://boundarylayer.dev/tenant_id''"

definition DEFAULT_ROLES_CLAIM :: string where
  "DEFAULT_ROLES_CLAIM = ''https://boundarylayer.dev/roles''"

definition DEFAULT_SUBJECT_CLAIM :: string where
  "DEFAULT_SUBJECT_CLAIM = ''sub''"

record auth_context =
  ac_subject :: string
  ac_email :: "string option"
  ac_tenant_id :: string
  ac_roles :: "string list"
  ac_scopes :: "string list"
  ac_issuer :: "string option"
  ac_audience :: "string option"
  ac_raw_claims :: pydict
  ac_is_anonymous :: bool

definition has_role :: "auth_context \<Rightarrow> string \<Rightarrow> bool" where
  "has_role ctx role = (role \<in> set (ac_roles ctx))"

definition is_platform_admin :: "auth_context \<Rightarrow> bool" where
  "is_platform_admin ctx = has_role ctx PLATFORM_ADMIN_ROLE"

definition local_lab_auth_context :: auth_context where
  "local_lab_auth_context = \<lparr>ac_subject = ''local-lab-anonymous'', ac_email = None,
     ac_tenant_id = LOCAL_LAB_TENANT_ID, ac_roles = [''lab_runner''], ac_scopes = [],
     ac_issuer = None, ac_audience = None, ac_raw_claims = [], ac_is_anonymous = True\<rparr>"

definition parse_authorization_header :: "string option \<Rightarrow> string option" where
  "parse_authorization_header authorization =
     (case authorization of None \<Rightarrow> None
      | Some a \<Rightarrow> (if a = [] then None else case partition_chr CHR '' '' a of (scheme, _, token) \<Rightarrow>
          if lower scheme \<noteq> ''bearer'' \<or> strip token = [] then None else Some (strip token)))"

section \<open>Claims\<close>

text \<open>\<open>settings.x.strip() or DEFAULT\<close>.\<close>

definition claim_or :: "string \<Rightarrow> string \<Rightarrow> string" where
  "claim_or configured fallback = (if strip configured = [] then fallback else strip configured)"

definition extract_roles :: "pydict \<Rightarrow> settings \<Rightarrow> string list" where
  "extract_roles claims settings =
     (case (case dict_get claims (claim_or (oidc_roles_claim settings) DEFAULT_ROLES_CLAIM) of
              Some v \<Rightarrow> Some v | None \<Rightarrow> dict_get claims ''roles'') of
        Some (PStr r) \<Rightarrow> [r]
      | Some (PList items) \<Rightarrow> map py_str items
      | _ \<Rightarrow> [])"

text \<open>The text of a claim, trimmed; none when it is missing, null or blank.\<close>

definition claim_text :: "pydict \<Rightarrow> string \<Rightarrow> string option" where
  "claim_text claims name =
     (case dict_get_or claims name PNone of
        PNone \<Rightarrow> None
      | v \<Rightarrow> if strip (py_str v) = [] then None else Some (strip (py_str v)))"

definition extract_tenant_id :: "pydict \<Rightarrow> settings \<Rightarrow> string option" where
  "extract_tenant_id claims settings =
     claim_text claims (claim_or (oidc_tenant_claim settings) DEFAULT_TENANT_CLAIM)"

definition extract_subject :: "pydict \<Rightarrow> settings \<Rightarrow> string option" where
  "extract_subject claims settings =
     claim_text claims (claim_or (oidc_subject_claim settings) DEFAULT_SUBJECT_CLAIM)"

definition audience_ok :: "pydict \<Rightarrow> string \<Rightarrow> bool" where
  "audience_ok claims audience =
     (case dict_get_or claims ''aud'' PNone of
        PList xs \<Rightarrow> PStr audience \<in> set xs
      | aud \<Rightarrow> aud = PStr audience)"

definition validate_jwt_claims :: "pydict \<Rightarrow> settings \<Rightarrow> unit result" where
  "validate_jwt_claims claims settings =
     (let issuer = strip (oidc_issuer_url settings); audience = strip (oidc_audience settings) in
      if issuer \<noteq> [] \<and> dict_get_or claims ''iss'' PNone \<noteq> PStr issuer
      then Inl (AuthError ''issuer mismatch'' ''auth_invalid_token'')
      else if audience \<noteq> [] \<and> \<not> audience_ok claims audience
      then Inl (AuthError ''audience mismatch'' ''auth_invalid_token'')
      else case find (\<lambda>c. dict_get claims c = None) (oidc_required_claims_list settings) of
        Some c \<Rightarrow> Inl (AuthError (''missing required claim: '' @ c) ''auth_missing_claim'')
      | None \<Rightarrow> Inr ())"

definition scopes_of :: "pydict \<Rightarrow> string list" where
  "scopes_of claims =
     (case dict_get claims ''scope'' of
        Some (PStr s) \<Rightarrow> split_ws s
      | Some (PList parts) \<Rightarrow> map py_str parts
      | _ \<Rightarrow> [])"

definition audience_text :: "pydict \<Rightarrow> string option" where
  "audience_text claims =
     (case dict_get_or claims ''aud'' PNone of
        PList xs \<Rightarrow> Some (join '','' (map py_str xs))
      | PNone \<Rightarrow> None
      | v \<Rightarrow> Some (py_str v))"

definition build_auth_context :: "pydict \<Rightarrow> settings \<Rightarrow> auth_context result" where
  "build_auth_context claims settings =
     bind_res (validate_jwt_claims claims settings) (\<lambda>_.
       case extract_subject claims settings of
         None \<Rightarrow> Inl (AuthError ''missing subject claim'' ''auth_missing_subject'')
       | Some subject \<Rightarrow>
           (case extract_tenant_id claims settings of
              None \<Rightarrow> Inl (AuthError ''missing tenant claim'' ''auth_missing_tenant'')
            | Some tenant_id \<Rightarrow> Inr \<lparr>
                ac_subject = subject,
                ac_email = (case dict_get_or claims ''email'' PNone of PNone \<Rightarrow> None | v \<Rightarrow> Some (py_str v)),
                ac_tenant_id = tenant_id, ac_roles = extract_roles claims settings,
                ac_scopes = scopes_of claims,
                ac_issuer = (let iss = dict_get_or claims ''iss'' PNone in
                             if truthy iss then Some (py_str iss) else None),
                ac_audience = audience_text claims, ac_raw_claims = claims,
                ac_is_anonymous = False\<rparr>))"

section \<open>Token verification\<close>

datatype 'k verify_key = SecretKey string | SigningKey 'k

text \<open>
  \<open>jwt.decode\<close> takes the token, the key, the algorithms, the audience, the issuer, the claims
  required and, where it is given, the leeway.
\<close>

record 'k jwt_env =
  je_get_unverified_header :: "string \<Rightarrow> pydict result"
  je_decode :: "string \<Rightarrow> 'k verify_key \<Rightarrow> string list \<Rightarrow> string option \<Rightarrow> string option
    \<Rightarrow> string list \<Rightarrow> int option \<Rightarrow> pydict result"
  je_urlopen :: fetch
  je_from_json :: "'k jwkset_parser"
  je_now :: int
  je_now' :: int

definition or_none :: "string \<Rightarrow> string option" where
  "or_none s = (if s = [] then None else Some s)"

definition or_default :: "'a list \<Rightarrow> 'a list \<Rightarrow> 'a list" where
  "or_default xs d = (if xs = [] then d else xs)"

definition signing_key_for :: "'k jwt_env \<Rightarrow> string option \<Rightarrow> settings \<Rightarrow> 'k result" where
  "signing_key_for env kid settings =
     (case bind_res (build_jwks_client (strip (oidc_jwks_url settings))
              (redis_connect_timeout_seconds settings) 300 None)
            (\<lambda>client. fst (client_get_signing_key (je_urlopen env) (je_from_json env) kid
                              (je_now env) (je_now' env) client)) of
        Inl (JwksError m c) \<Rightarrow> Inl (AuthError m c)
      | r \<Rightarrow> r)"

definition verify_jwt_body :: "'k jwt_env \<Rightarrow> string \<Rightarrow> settings \<Rightarrow> pydict result" where
  "verify_jwt_body env token settings =
     (let algorithms = oidc_algorithms_list settings;
          issuer = or_none (strip (oidc_issuer_url settings));
          audience = or_none (strip (oidc_audience settings)) in
      if lower (strip (auth_provider settings)) = ''oidc-test'' then
        je_decode env token (SecretKey (strip (secret_key settings))) (or_default algorithms [''HS256''])
          audience issuer [''exp'', ''sub''] None
      else if strip (oidc_jwks_url settings) = [] then
        Inl (AuthError ''JWKS URL not configured'' ''auth_misconfigured'')
      else
        bind_res (extract_token_kid (je_get_unverified_header env) token) (\<lambda>(header, kid).
        bind_res (validate_jwt_algorithm (dict_get header ''alg'') (or_default algorithms [''RS256''])) (\<lambda>_.
        bind_res (signing_key_for env kid settings) (\<lambda>signing_key.
          je_decode env token (SigningKey signing_key) (or_default algorithms [''RS256''])
            audience issuer [''exp'', ''sub''] (Some (oidc_clock_skew_seconds settings))))))"

definition verify_jwt_token :: "'k jwt_env \<Rightarrow> string \<Rightarrow> settings \<Rightarrow> pydict result" where
  "verify_jwt_token env token settings =
     (case verify_jwt_body env token settings of
        Inl (PyJWTError m) \<Rightarrow> Inl (AuthError m ''auth_invalid_token'')
      | r \<Rightarrow> r)"

definition build_auth_context_from_token :: "'k jwt_env \<Rightarrow> string \<Rightarrow> settings \<Rightarrow> auth_context result" where
  "build_auth_context_from_token env token settings =
     bind_res (verify_jwt_token env token settings) (\<lambda>claims. build_auth_context claims settings)"

section \<open>Guards\<close>

definition auth_required :: exn where
  "auth_required = HTTPException 401 (PStr ''Authentication required'') [(''WWW-Authenticate'', ''Bearer'')]"

definition require_auth_context :: "auth_context option \<Rightarrow> auth_context result" where
  "require_auth_context auth_context =
     (case auth_context of
        None \<Rightarrow> Inl auth_required
      | Some ctx \<Rightarrow> if ac_is_anonymous ctx then Inl auth_required else Inr ctx)"

definition require_role :: "auth_context \<Rightarrow> string list \<Rightarrow> unit result" where
  "require_role ctx roles =
     (if is_platform_admin ctx then Inr ()
      else if \<not> list_ex (has_role ctx) roles
      then Inl (HTTPException 403 (PStr ''Insufficient role'') [])
      else Inr ())"

definition require_tenant_match :: "auth_context \<Rightarrow> string \<Rightarrow> unit result" where
  "require_tenant_match ctx tenant_id =
     (if is_platform_admin ctx then Inr ()
      else if ac_tenant_id ctx \<noteq> tenant_id
      then Inl (HTTPException 403 (PStr ''Tenant access denied'') [])
      else Inr ())"

section \<open>Lemmas\<close>

lemma validate_jwt_claims_iff:
  "validate_jwt_claims claims st = Inr () \<longleftrightarrow>
     (strip (oidc_issuer_url st) = [] \<or> dict_get_or claims ''iss'' PNone = PStr (strip (oidc_issuer_url st)))
     \<and> (strip (oidc_audience st) = [] \<or> audience_ok claims (strip (oidc_audience st)))
     \<and> (\<forall>c \<in> set (oidc_required_claims_list st). dict_get claims c \<noteq> None)"
proof (cases "find (\<lambda>c. dict_get claims c = None) (oidc_required_claims_list st)")
  case None
  then have "\<forall>c \<in> set (oidc_required_claims_list st). dict_get claims c \<noteq> None"
    by (auto simp: find_None_iff)
  with None show ?thesis
    by (auto simp: validate_jwt_claims_def Let_def)
next
  case (Some c)
  then have "c \<in> set (oidc_required_claims_list st)" "dict_get claims c = None"
    by (auto simp: find_Some_iff)
  with Some show ?thesis
    by (auto simp: validate_jwt_claims_def Let_def)
qed

lemma claim_text_Some:
  "claim_text claims name = Some t \<longleftrightarrow>
     (\<exists>v. dict_get claims name = Some v \<and> v \<noteq> PNone \<and> t = strip (py_str v) \<and> t \<noteq> [])"
  by (auto simp: claim_text_def dict_get_or_def dict_get_def split: option.splits pyval.splits)

lemma verify_jwt_body_key:
  assumes "verify_jwt_body env token st = Inr claims" and "lower (strip (auth_provider st)) \<noteq> ''oidc-test''"
  obtains header kid key where
    "extract_token_kid (je_get_unverified_header env) token = Inr (header, kid)"
    "validate_jwt_algorithm (dict_get header ''alg'') (or_default (oidc_algorithms_list st) [''RS256'']) = Inr ()"
    "signing_key_for env kid st = Inr key"
    "je_decode env token (SigningKey key) (or_default (oidc_algorithms_list st) [''RS256''])
       (or_none (strip (oidc_audience st))) (or_none (strip (oidc_issuer_url st))) [''exp'', ''sub'']
       (Some (oidc_clock_skew_seconds st)) = Inr claims"
  using assms by (auto simp: verify_jwt_body_def Let_def bind_res_Inr_iff split: if_splits)

lemma verify_jwt_token_Inr:
  "verify_jwt_token env token st = Inr claims \<longleftrightarrow> verify_jwt_body env token st = Inr claims"
  by (auto simp: verify_jwt_token_def split: sum.splits exn.splits)


lemma build_auth_context_Inr:
  assumes "build_auth_context claims st = Inr ctx"
  shows "validate_jwt_claims claims st = Inr ()" "extract_subject claims st = Some (ac_subject ctx)"
    "extract_tenant_id claims st = Some (ac_tenant_id ctx)" "ac_roles ctx = extract_roles claims st"
    "ac_raw_claims ctx = claims" "\<not> ac_is_anonymous ctx"
  using assms by (auto simp: build_auth_context_def bind_res_Inr_iff split: option.splits)

lemma context_tenant_trimmed:
  "build_auth_context claims st = Inr ctx \<Longrightarrow> ac_tenant_id ctx \<noteq> [] \<and> strip (ac_tenant_id ctx) = ac_tenant_id ctx"
  using build_auth_context_Inr(3) [of claims st ctx] by (auto simp: extract_tenant_id_def claim_text_Some)

lemma claim_text_trimmed: "claim_text claims name = Some t \<Longrightarrow> strip t \<noteq> []"
  by (auto simp: claim_text_Some)

lemma identity_claims:
  assumes "build_auth_context claims st = Inr ctx"
  shows "(strip (oidc_issuer_url st) = []
        \<or> dict_get_or (ac_raw_claims ctx) ''iss'' PNone = PStr (strip (oidc_issuer_url st)))
      \<and> (strip (oidc_audience st) = [] \<or> audience_ok (ac_raw_claims ctx) (strip (oidc_audience st)))
      \<and> (\<forall>c \<in> set (oidc_required_claims_list st). dict_get (ac_raw_claims ctx) c \<noteq> None)
      \<and> extract_tenant_id (ac_raw_claims ctx) st = Some (ac_tenant_id ctx) \<and> strip (ac_tenant_id ctx) \<noteq> []
      \<and> extract_subject (ac_raw_claims ctx) st = Some (ac_subject ctx) \<and> strip (ac_subject ctx) \<noteq> []
      \<and> \<not> ac_is_anonymous ctx"
  using build_auth_context_Inr [OF assms] claim_text_trimmed
  unfolding validate_jwt_claims_iff extract_tenant_id_def extract_subject_def by blast

section \<open>Properties\<close>

definition example_claims :: pydict where
  "example_claims = [(''iss'', PStr ''https://idp.example.com/''), (''aud'', PList [PStr ''boundary-layer-api'']),
     (''sub'', PStr ''user-1''), (''exp'', PInt 2000000000),
     (''https://boundarylayer.dev/tenant_id'', PStr '' acme ''),
     (''https://boundarylayer.dev/roles'', PList [PStr ''lab_runner''])]"

definition example_env :: "string jwt_env" where
  "example_env = \<lparr>
     je_get_unverified_header = (\<lambda>t. if t = ''good'' then Inr [(''alg'', PStr ''RS256''), (''kid'', PStr ''k1'')]
        else if t = ''none'' then Inr [(''alg'', PStr ''none''), (''kid'', PStr ''k1'')]
        else Inl (PyJWTError ''Not enough segments'')),
     je_decode = (\<lambda>t k algs aud iss req leeway.
        if t = ''good'' \<and> k = SigningKey ''key-one'' then Inr example_claims
        else Inl (PyJWTError ''Signature verification failed'')),
     je_urlopen = example_urlopen, je_from_json = example_jwkset, je_now = 10, je_now' = 11\<rparr>"

definition example_oidc :: settings where
  "example_oidc = default_settings\<lparr>boundary_layer_profile := ''production-saas'', auth_provider := ''oidc'',
     oidc_issuer_url := ''https://idp.example.com/'', oidc_audience := ''boundary-layer-api'',
     oidc_jwks_url := ''https://idp.example/jwks'', audit_log_enabled := True\<rparr>"

definition example_context :: auth_context where
  "example_context = (case build_auth_context_from_token example_env ''good'' example_oidc of
     Inr ctx \<Rightarrow> ctx | Inl _ \<Rightarrow> local_lab_auth_context)"

lemma example_context_built:
  "build_auth_context_from_token example_env ''good'' example_oidc = Inr example_context"
  by code_simp

text \<open>
  C10. Every identity the OIDC path yields is backed by the token: its header names an accepted
  algorithm, PyJWT accepted its signature with the key the JWKS endpoint serves for its key id
  under the configured algorithms, audience, issuer and clock skew with \<open>exp\<close> and \<open>sub\<close>
  required, the claims name the configured issuer and audience and hold every required claim, and
  the tenant and the subject are the trimmed, non-empty texts of their claims. The identity is never
  the anonymous one.
\<close>

theorem oidc_identity_sound:
  assumes "build_auth_context_from_token env token st = Inr ctx"
    and "lower (strip (auth_provider st)) \<noteq> ''oidc-test''"
  shows "(\<exists>header kid key.
      extract_token_kid (je_get_unverified_header env) token = Inr (header, kid)
      \<and> validate_jwt_algorithm (dict_get header ''alg'') (or_default (oidc_algorithms_list st) [''RS256'']) = Inr ()
      \<and> signing_key_for env kid st = Inr key
      \<and> je_decode env token (SigningKey key) (or_default (oidc_algorithms_list st) [''RS256''])
           (or_none (strip (oidc_audience st))) (or_none (strip (oidc_issuer_url st))) [''exp'', ''sub'']
           (Some (oidc_clock_skew_seconds st)) = Inr (ac_raw_claims ctx))
      \<and> (strip (oidc_issuer_url st) = []
        \<or> dict_get_or (ac_raw_claims ctx) ''iss'' PNone = PStr (strip (oidc_issuer_url st)))
      \<and> (strip (oidc_audience st) = [] \<or> audience_ok (ac_raw_claims ctx) (strip (oidc_audience st)))
      \<and> (\<forall>c \<in> set (oidc_required_claims_list st). dict_get (ac_raw_claims ctx) c \<noteq> None)
      \<and> extract_tenant_id (ac_raw_claims ctx) st = Some (ac_tenant_id ctx) \<and> strip (ac_tenant_id ctx) \<noteq> []
      \<and> extract_subject (ac_raw_claims ctx) st = Some (ac_subject ctx) \<and> strip (ac_subject ctx) \<noteq> []
      \<and> \<not> ac_is_anonymous ctx"
proof -
  obtain claims where decoded: "verify_jwt_body env token st = Inr claims"
    and built: "build_auth_context claims st = Inr ctx"
    using assms(1) by (auto simp: build_auth_context_from_token_def bind_res_Inr_iff verify_jwt_token_Inr)
  have "\<exists>header kid key.
      extract_token_kid (je_get_unverified_header env) token = Inr (header, kid)
      \<and> validate_jwt_algorithm (dict_get header ''alg'') (or_default (oidc_algorithms_list st) [''RS256'']) = Inr ()
      \<and> signing_key_for env kid st = Inr key
      \<and> je_decode env token (SigningKey key) (or_default (oidc_algorithms_list st) [''RS256''])
           (or_none (strip (oidc_audience st))) (or_none (strip (oidc_issuer_url st))) [''exp'', ''sub'']
           (Some (oidc_clock_skew_seconds st)) = Inr (ac_raw_claims ctx)"
    using verify_jwt_body_key [OF decoded assms(2)] build_auth_context_Inr(5) [OF built] by metis
  then show ?thesis
    using identity_claims [OF built] by (rule conjI)
qed

theorem oidc_identity_sound_witness:
  "extract_tenant_id (ac_raw_claims example_context) example_oidc = Some (ac_tenant_id example_context)
   \<and> ac_tenant_id example_context = ''acme''"
proof -
  have "lower (strip (auth_provider example_oidc)) \<noteq> ''oidc-test''" by code_simp
  from oidc_identity_sound [OF example_context_built this]
  have "extract_tenant_id (ac_raw_claims example_context) example_oidc = Some (ac_tenant_id example_context)"
    by simp
  moreover have "ac_tenant_id example_context = ''acme''" by code_simp
  ultimately show ?thesis by simp
qed

text \<open>
  A token with a bad header is not reported as an authentication failure: the \<open>JwksError\<close>
  of the header and algorithm checks is raised outside the handler that turns it into an
  \<open>AuthError\<close>, so it leaves \<open>build_auth_context_from_token\<close> as it is.
\<close>

theorem header_errors_escape:
  assumes "lower (strip (auth_provider st)) \<noteq> ''oidc-test''" and "strip (oidc_jwks_url st) \<noteq> []"
    and "bind_res (extract_token_kid (je_get_unverified_header env) token) (\<lambda>(header, kid).
           validate_jwt_algorithm (dict_get header ''alg'') (or_default (oidc_algorithms_list st) [''RS256'']))
         = Inl (JwksError m c)"
  shows "build_auth_context_from_token env token st = Inl (JwksError m c)"
  using assms
  by (auto simp: build_auth_context_from_token_def verify_jwt_token_def verify_jwt_body_def Let_def
      bind_res_def split: sum.splits prod.splits)

theorem header_errors_escape_witness:
  "build_auth_context_from_token example_env ''none'' example_oidc
     = Inl (JwksError ''Algorithm none is not allowed'' ''jwt_alg_none'')"
  by (rule header_errors_escape) code_simp+

end
