(* ===== verification/Tenancy.thy ===== *)
theory Tenancy
  imports Db Metrics Auth
begin

text \<open>
  \<open>apps/api/tenancy.py\<close>: tenants, users, memberships and the audit trail in PostgreSQL, and the
  tenant-scoped Redis keys. A request runs on the state \<open>app\<close>: the database, the metric log and the
  \<open>auth_context\<close> attached to the request being served.
  The random part of an audit id (\<open>uuid4().hex\<close>) is an argument.
\<close>

section \<open>State\<close>

record app =
  ap_pg :: pg
  ap_metrics :: metric_log
  ap_auth_context :: "auth_context option"

definition on_pg :: "(pg, 'a) eff \<Rightarrow> (app, 'a) eff" where
  "on_pg m s = (case m (ap_pg s) of (r, d) \<Rightarrow> (r, s\<lparr>ap_pg := d\<rparr>))"

definition metric :: "(metric_log \<Rightarrow> metric_log) \<Rightarrow> (app, unit) eff" where
  "metric f s = (Inr (), s\<lparr>ap_metrics := f (ap_metrics s)\<rparr>)"

section \<open>Tables\<close>

definition init_tenancy_schema :: "(pg, unit) eff" where
  "init_tenancy_schema = get_connection (ret ())"

definition upsert_tenant :: "string \<Rightarrow> string \<Rightarrow> string \<Rightarrow> (pg, unit) eff" where
  "upsert_tenant tenant_id name status = get_connection (\<lambda>s. (Inr (), s\<lparr>tenants :=
     upsert tn_id (\<lambda>old new. old\<lparr>tn_name := tn_name new, tn_status := tn_status new\<rparr>)
       \<lparr>tn_id = tenant_id, tn_name = name, tn_status = status, tn_created_at = pg_now s\<rparr> (tenants s)\<rparr>))"

text \<open>The conflict target is the subject; a taken primary key of another row raises.\<close>

definition upsert_user :: "string \<Rightarrow> string \<Rightarrow> string option \<Rightarrow> (pg, unit) eff" where
  "upsert_user user_id subject email = get_connection (\<lambda>s.
     let new = \<lparr>us_id = user_id, us_subject = subject, us_email = email, us_created_at = pg_now s\<rparr> in
     if subject \<notin> us_subject ` set (users s) \<and> user_id \<in> us_id ` set (users s)
     then (Inl unique_violation, s)
     else (Inr (), s\<lparr>users := upsert us_subject (\<lambda>old new. old\<lparr>us_email := us_email new\<rparr>) new (users s)\<rparr>))"

text \<open>The conflict target is the id; a second membership of the same user and tenant raises.\<close>

definition upsert_membership ::
    "string \<Rightarrow> string \<Rightarrow> string \<Rightarrow> string \<Rightarrow> string \<Rightarrow> (pg, unit) eff" where
  "upsert_membership membership_id tenant_id user_id role status = get_connection (\<lambda>s.
     let new = \<lparr>tm_id = membership_id, tm_tenant_id = tenant_id, tm_user_id = user_id, tm_role = role,
                tm_status = status, tm_created_at = pg_now s\<rparr> in
     if membership_id \<notin> tm_id ` set (tenant_memberships s)
        \<and> (tenant_id, user_id) \<in> (\<lambda>r. (tm_tenant_id r, tm_user_id r)) ` set (tenant_memberships s)
     then (Inl unique_violation, s)
     else (Inr (), s\<lparr>tenant_memberships := upsert tm_id
             (\<lambda>old new. old\<lparr>tm_role := tm_role new, tm_status := tm_status new\<rparr>) new
             (tenant_memberships s)\<rparr>))"

definition get_user_id_by_subject :: "string \<Rightarrow> (pg, string option) eff" where
  "get_user_id_by_subject subject = get_connection (\<lambda>s.
     (Inr (map_option us_id (find (\<lambda>u. us_subject u = subject) (users s))), s))"

text \<open>The rows of the join of memberships and users, and the first of them.\<close>

definition membership_rows :: "string \<Rightarrow> string \<Rightarrow> pg \<Rightarrow> membership_row list" where
  "membership_rows tenant_id subject s =
     [tm. tm \<leftarrow> tenant_memberships s, u \<leftarrow> users s,
        us_id u = tm_user_id tm \<and> tm_tenant_id tm = tenant_id \<and> us_subject u = subject]"

definition get_membership :: "string \<Rightarrow> string \<Rightarrow> (pg, membership_row option) eff" where
  "get_membership tenant_id subject = get_connection (\<lambda>s.
     (Inr (case membership_rows tenant_id subject s of [] \<Rightarrow> None | r # _ \<Rightarrow> Some r), s))"

text \<open>\<open>{}\<close> outside \<open>production-saas\<close> is \<open>None\<close> here; every exception of the lookup is a 503.\<close>

definition require_active_membership ::
    "string \<Rightarrow> string \<Rightarrow> settings \<Rightarrow> (pg, membership_row option) eff" where
  "require_active_membership tenant_id subject settings =
     (if \<not> is_production_saas settings then ret None
      else bind_eff
        (catch_eff (get_membership tenant_id subject)
           (\<lambda>_. raise_exn (HTTPException 503 (PStr ''Tenant membership service unavailable'') [])))
        (\<lambda>membership. case membership of
           None \<Rightarrow> raise_exn (HTTPException 403 (PStr ''Active tenant membership required'') [])
         | Some m \<Rightarrow> if tm_status m \<noteq> ''active''
             then raise_exn (HTTPException 403 (PStr ''Active tenant membership required'') [])
             else ret (Some m)))"

section \<open>The audit trail\<close>

definition insert_audit_event ::
    "string \<Rightarrow> string \<Rightarrow> string \<Rightarrow> string option \<Rightarrow> string option \<Rightarrow> string option \<Rightarrow> string option
     \<Rightarrow> pydict option \<Rightarrow> (pg, string) eff" where
  "insert_audit_event uuid action result tenant_id actor_subject resource_type resource_id metadata =
     (let event_id = ''audit-'' @ uuid in
      get_connection (\<lambda>s. case insert_pk ae_id
          \<lparr>ae_id = event_id, ae_tenant_id = tenant_id, ae_actor_subject = actor_subject,
           ae_action = action, ae_resource_type = resource_type, ae_resource_id = resource_id,
           ae_result = result, ae_metadata = (case metadata of None \<Rightarrow> [] | Some m \<Rightarrow> m),
           ae_created_at = pg_now s\<rparr> (audit_events s) of
        Inl e \<Rightarrow> (Inl e, s)
      | Inr rs \<Rightarrow> (Inr event_id, s\<lparr>audit_events := rs\<rparr>)))"

definition opt_str :: "string option \<Rightarrow> pyval" where
  "opt_str v = (case v of None \<Rightarrow> PNone | Some t \<Rightarrow> PStr t)"

definition audit_event_dict :: "(int \<Rightarrow> string) \<Rightarrow> audit_event \<Rightarrow> pydict" where
  "audit_event_dict isoformat e =
     [(''id'', PStr (ae_id e)), (''tenant_id'', opt_str (ae_tenant_id e)),
      (''actor_subject'', opt_str (ae_actor_subject e)), (''action'', PStr (ae_action e)),
      (''resource_type'', opt_str (ae_resource_type e)), (''resource_id'', opt_str (ae_resource_id e)),
      (''result'', PStr (ae_result e)), (''metadata'', PDict (ae_metadata e)),
      (''created_at'', PStr (isoformat (ae_created_at e)))]"

text \<open>Events of the same instant keep their insertion order, which SQL leaves open.\<close>

definition list_audit_events_for_tenant ::
    "(int \<Rightarrow> string) \<Rightarrow> string \<Rightarrow> int \<Rightarrow> (pg, pydict list) eff" where
  "list_audit_events_for_tenant isoformat tenant_id limit = get_connection (\<lambda>s.
     if limit < 0 then (Inl (OtherError ''LIMIT must not be negative''), s)
     else (Inr (map (audit_event_dict isoformat) (take (nat limit)
             (sort_key (\<lambda>e. - ae_created_at e)
               (filter (\<lambda>e. ae_tenant_id e = Some tenant_id) (audit_events s))))), s))"

definition removeprefix :: "string \<Rightarrow> string \<Rightarrow> string" where
  "removeprefix s p = (if startswith s p then drop (length p) s else s)"

definition audit_decision :: "string \<Rightarrow> metric_log \<Rightarrow> metric_log" where
  "audit_decision action =
     (if action = ''auth_allowed'' then record_auth_decision ''allowed'' ''authenticated''
      else if startswith action ''auth_'' then record_auth_decision ''denied'' (removeprefix action ''auth_'')
      else id)"

definition record_auth_audit_event ::
    "string \<Rightarrow> settings \<Rightarrow> string \<Rightarrow> string \<Rightarrow> string option \<Rightarrow> string option \<Rightarrow> pydict option
     \<Rightarrow> (app, string option) eff" where
  "record_auth_audit_event uuid settings action result tenant_id actor_subject metadata =
     (if \<not> audit_log_enabled settings then ret None
      else if \<not> is_production_saas settings then ret None
      else catch_eff
        (bind_eff (on_pg (insert_audit_event uuid action result tenant_id actor_subject (Some ''auth'') None metadata))
           (\<lambda>event_id. bind_eff (metric (record_audit_event_metric action result))
           (\<lambda>_. bind_eff (metric (audit_decision action)) (\<lambda>_. ret (Some event_id)))))
        (\<lambda>_. raise_exn (HTTPException 503 (PStr ''Audit logging unavailable'') [])))"

definition record_tenant_access_denied ::
    "string \<Rightarrow> settings \<Rightarrow> string \<Rightarrow> auth_context option \<Rightarrow> string option \<Rightarrow> (app, unit) eff" where
  "record_tenant_access_denied uuid settings reason auth_context requested_tenant_id =
     bind_eff (metric (record_tenant_access_denied_metric reason)) (\<lambda>_.
     bind_eff (metric (record_auth_decision ''denied'' reason)) (\<lambda>_.
     bind_eff (record_auth_audit_event uuid settings ''auth_cross_tenant_denied'' ''denied''
         (map_option ac_tenant_id auth_context) (map_option ac_subject auth_context)
         (Some [(''reason'', PStr reason), (''requested_tenant_id'', opt_str requested_tenant_id)]))
       (\<lambda>_. ret ())))"

section \<open>Tenant ids\<close>

definition TENANT_REDIS_PREFIX :: string where
  "TENANT_REDIS_PREFIX = ''boundary_layer:tenant''"

definition normalize_lab_tenant_id :: "string option \<Rightarrow> string" where
  "normalize_lab_tenant_id tenant_id =
     (case tenant_id of None \<Rightarrow> LOCAL_LAB_TENANT_ID
      | Some t \<Rightarrow> if t \<noteq> [] \<and> strip t \<noteq> [] then strip t else LOCAL_LAB_TENANT_ID)"

definition build_tenant_redis_key :: "string \<Rightarrow> string \<Rightarrow> string \<Rightarrow> string" where
  "build_tenant_redis_key tenant_id lab_name key =
     TENANT_REDIS_PREFIX @ '':'' @ normalize_lab_tenant_id (Some tenant_id) @ '':lab:'' @
     replace_chr CHR '':'' ''_'' (strip lab_name) @ '':'' @ lstrip_chr CHR '':'' (strip key)"

definition assert_tenant_scope :: "string option \<Rightarrow> settings \<Rightarrow> string result" where
  "assert_tenant_scope tenant_id settings =
     (if is_production_saas settings \<and> (tenant_id = None \<or> tenant_id = Some [])
      then Inl (ValueError ''tenant_id is required in production-saas database paths'')
      else Inr (normalize_lab_tenant_id tenant_id))"

definition require_same_tenant_or_admin :: "settings \<Rightarrow> auth_context \<Rightarrow> string \<Rightarrow> unit result" where
  "require_same_tenant_or_admin settings ctx target_tenant_id =
     (if is_platform_admin ctx then Inr ()
      else if ac_tenant_id ctx \<noteq> normalize_lab_tenant_id (Some target_tenant_id)
      then Inl (HTTPException 403 (PStr ''Cross-tenant access denied'') [])
      else Inr ())"

section \<open>Keys of the tables\<close>

definition tenancy_tables where
  "tenancy_tables s = (tenants s, users s, tenant_memberships s, audit_events s)"

definition membership_pair :: "membership_row \<Rightarrow> string \<times> string" where
  "membership_pair r = (tm_tenant_id r, tm_user_id r)"

definition tenancy_wf :: "pg \<Rightarrow> bool" where
  "tenancy_wf s =
     (distinct (map tn_id (tenants s)) \<and> distinct (map us_id (users s)) \<and>
      distinct (map us_subject (users s)) \<and> distinct (map tm_id (tenant_memberships s)) \<and>
      distinct (map membership_pair (tenant_memberships s)) \<and> distinct (map ae_id (audit_events s)))"

lemma tenancy_wf_frame: "tenancy_tables s = tenancy_tables s' \<Longrightarrow> tenancy_wf s = tenancy_wf s'"
  by (simp add: tenancy_wf_def tenancy_tables_def)

lemma tenancy_next_conn [simp]:
  "tenancy_tables (next_conn s) = tenancy_tables s" "tenancy_wf (next_conn s) = tenancy_wf s"
  by (simp_all add: tenancy_tables_def tenancy_wf_def)

lemma tenancy_tables_pg: "tenancy_tables (pg_tables s) = tenancy_tables s"
  by (simp add: tenancy_tables_def pg_tables_def)

lemma map_upsert:
  assumes "\<And>r. f (upd r new) = f r"
  shows "map f (upsert key upd new rs) =
    (if key new \<in> key ` set rs then map f rs else map f rs @ [f new])"
  by (induction rs) (auto simp: assms)

lemma upsert_append: "key new \<notin> key ` set rs \<Longrightarrow> upsert key upd new rs = rs @ [new]"
  by (induction rs) auto

lemma distinct_upsert_col:
  assumes "\<And>r. f (upd r new) = f r" and "distinct (map f rs)"
    and "key new \<notin> key ` set rs \<Longrightarrow> f new \<notin> f ` set rs"
  shows "distinct (map f (upsert key upd new rs))"
  using assms(2,3) by (auto simp: map_upsert [of f upd new key rs, OF assms(1)])

text \<open>The six operations that write the tenancy tables keep their keys unique.\<close>

lemma tenancy_ops_keep_wf:
  assumes "tenancy_wf s"
  shows "tenancy_wf (snd (upsert_tenant t n st s))"
    and "tenancy_wf (snd (upsert_user uid sub em s))"
    and "tenancy_wf (snd (upsert_membership m t uid r st s))"
    and "tenancy_wf (snd (insert_audit_event u a res t' act rt ri md s))"
proof -
  note keeps = get_connection_keeps [where P = tenancy_wf, OF _ tenancy_next_conn(2) assms]
  show "tenancy_wf (snd (upsert_tenant t n st s))"
    unfolding upsert_tenant_def
    by (rule keeps) (auto simp: tenancy_wf_def intro!: distinct_upsert_col)
  show "tenancy_wf (snd (upsert_user uid sub em s))"
    unfolding upsert_user_def Let_def
    by (rule keeps) (auto simp: tenancy_wf_def split: if_splits intro!: distinct_upsert_col)
  show "tenancy_wf (snd (upsert_membership m t uid r st s))"
    unfolding upsert_membership_def Let_def
    by (rule keeps) (auto simp: tenancy_wf_def membership_pair_def split: if_splits intro!: distinct_upsert_col)
  show "tenancy_wf (snd (insert_audit_event u a res t' act rt ri md s))"
    unfolding insert_audit_event_def Let_def
    by (rule keeps) (auto simp: tenancy_wf_def insert_pk_def split: if_splits sum.splits)
qed

lemma tenancy_ops_keep_lab_wf:
  assumes "lab_tables_wf s"
  shows "lab_tables_wf (snd (upsert_tenant t n st s))"
    and "lab_tables_wf (snd (upsert_user uid sub em s))"
    and "lab_tables_wf (snd (upsert_membership m t uid r st s))"
    and "lab_tables_wf (snd (insert_audit_event u a res t' act rt ri md s))"
proof -
  note keeps = get_connection_keeps [where P = lab_tables_wf, OF _ wf_next_conn assms]
  show "lab_tables_wf (snd (upsert_tenant t n st s))"
    unfolding upsert_tenant_def by (rule keeps) (auto simp: lab_tables_wf_def)
  show "lab_tables_wf (snd (upsert_user uid sub em s))"
    unfolding upsert_user_def Let_def by (rule keeps) (auto simp: lab_tables_wf_def split: if_splits)
  show "lab_tables_wf (snd (upsert_membership m t uid r st s))"
    unfolding upsert_membership_def Let_def by (rule keeps) (auto simp: lab_tables_wf_def split: if_splits)
  show "lab_tables_wf (snd (insert_audit_event u a res t' act rt ri md s))"
    unfolding insert_audit_event_def Let_def
    by (rule keeps) (auto simp: lab_tables_wf_def split: if_splits sum.splits)
qed

lemma tenancy_tables_put [simp]:
  "tenancy_tables (put_prompt_request r s) = tenancy_tables s"
  "tenancy_tables (put_child t c s) = tenancy_tables s"
  "tenancy_tables (mark_prompt_deleted p s) = tenancy_tables s"
  "tenancy_tables (mark_children_deleted p s) = tenancy_tables s"
  "tenancy_tables (s\<lparr>deletion_audit := das\<rparr>) = tenancy_tables s"
  "tenancy_tables (s\<lparr>write_storm_events := wss\<rparr>) = tenancy_tables s"
  by (simp_all add: tenancy_tables_def put_prompt_request_def put_child_def mark_prompt_deleted_def
      mark_children_deleted_def)

lemma tenancy_tables_fold [simp]:
  "tenancy_tables (fold (\<lambda>(t, i, tool, c). put_child t (f i tool c)) xs s) = tenancy_tables s"
  by (induction xs arbitrary: s) auto

text \<open>The lab operations leave the tenancy tables alone.\<close>

lemma lab_ops_tenancy_frame:
  shows "tenancy_tables (snd (reset_governance_lab_records t s)) = tenancy_tables s"
    and "tenancy_tables (snd (create_prompt_lifecycle_records t s)) = tenancy_tables s"
    and "tenancy_tables (snd (delete_primary_only p t s)) = tenancy_tables s"
    and "tenancy_tables (snd (delete_all_prompt_lifecycle_records p t s)) = tenancy_tables s"
    and "tenancy_tables (snd (insert_deletion_audit u p m n c t s)) = tenancy_tables s"
    and "tenancy_tables (snd (reset_write_storm_events t s)) = tenancy_tables s"
    and "tenancy_tables (snd (insert_write_storm_events k b t s)) = tenancy_tables s"
proof -
  let ?P = "\<lambda>x. tenancy_tables x = tenancy_tables s"
  note keeps = get_connection_keeps [where P = ?P]
  note bk = bind_keeps [where P = ?P]
  have verify: "?P (snd (verify_prompt_tenant p t x))" if "?P x" for p t x
    using that verify_prompt_tenant_frame [of p t x] by (metis prod.collapse tenancy_tables_pg)
  show "?P (snd (reset_governance_lab_records t s))"
    unfolding reset_governance_lab_records_def Let_def by (rule keeps) (auto simp: tenancy_tables_def)
  show "?P (snd (create_prompt_lifecycle_records t s))"
    unfolding create_prompt_lifecycle_records_def Let_def by (rule keeps) auto
  show "?P (snd (delete_primary_only p t s))"
    unfolding delete_primary_only_def by (rule bk) (auto intro!: verify keeps)
  show "?P (snd (delete_all_prompt_lifecycle_records p t s))"
    unfolding delete_all_prompt_lifecycle_records_def by (rule bk) (auto intro!: verify keeps)
  show "?P (snd (insert_deletion_audit u p m n c t s))"
    unfolding insert_deletion_audit_def Let_def
    by (rule bk) (auto intro!: verify keeps split: sum.splits)
  show "?P (snd (reset_write_storm_events t s))"
    unfolding reset_write_storm_events_def by (rule keeps) (auto simp: tenancy_tables_def)
  show "?P (snd (insert_write_storm_events k b t s))"
    unfolding insert_write_storm_events_def
    by (cases "k \<le> 0") (auto simp: ret_def intro!: keeps)
qed

section \<open>Reachable databases\<close>

text \<open>
  One operation of \<open>db.py\<close> or \<open>tenancy.py\<close>, the clock moving on, or the server starting or
  ceasing to fail. Operations that raise are steps too.
\<close>

inductive pg_step :: "pg \<Rightarrow> pg \<Rightarrow> bool" where
  tick: "pg_now s \<le> n \<Longrightarrow> pg_step s (s\<lparr>pg_now := n\<rparr>)"
| faults: "pg_step s (s\<lparr>pg_faults := fs\<rparr>)"
| tenant: "pg_step s (snd (upsert_tenant t n st s))"
| user: "pg_step s (snd (upsert_user uid sub em s))"
| membership: "pg_step s (snd (upsert_membership m t uid r st s))"
| audit: "pg_step s (snd (insert_audit_event u a res t' act rt ri md s))"
| reset: "pg_step s (snd (reset_governance_lab_records t s))"
| create: "pg_step s (snd (create_prompt_lifecycle_records t s))"
| primary: "pg_step s (snd (delete_primary_only p t s))"
| cascade: "pg_step s (snd (delete_all_prompt_lifecycle_records p t s))"
| deletion_audit: "pg_step s (snd (insert_deletion_audit u p m n c t s))"
| storm_reset: "pg_step s (snd (reset_write_storm_events t s))"
| storm_insert: "pg_step s (snd (insert_write_storm_events k b t s))"

inductive reachable :: "pg \<Rightarrow> bool" where
  init: "reachable (empty_pg now)"
| step: "reachable s \<Longrightarrow> pg_step s s' \<Longrightarrow> reachable s'"

inductive_cases pg_stepE: "pg_step s s'"

lemma pg_step_tenancy_wf: "pg_step s s' \<Longrightarrow> tenancy_wf s \<Longrightarrow> tenancy_wf s'"
proof (induction rule: pg_step.induct)
  case (tick s n)
  then show ?case by (simp add: tenancy_wf_def)
next
  case (faults s fs)
  then show ?case by (simp add: tenancy_wf_def)
qed (use tenancy_ops_keep_wf lab_ops_tenancy_frame tenancy_wf_frame in metis)+

lemma pg_step_lab_wf: "pg_step s s' \<Longrightarrow> lab_tables_wf s \<Longrightarrow> lab_tables_wf s'"
proof (induction rule: pg_step.induct)
  case (tick s n)
  then show ?case by (simp add: lab_tables_wf_def)
next
  case (faults s fs)
  then show ?case by (simp add: lab_tables_wf_def)
qed (use tenancy_ops_keep_lab_wf lab_ops_keep_wf in metis)+

lemma reachable_tenancy_wf: "reachable s \<Longrightarrow> tenancy_wf s"
  by (induction rule: reachable.induct) (auto simp: tenancy_wf_def empty_pg_def dest: pg_step_tenancy_wf)

lemma reachable_lab_wf: "reachable s \<Longrightarrow> lab_tables_wf s"
  by (induction rule: reachable.induct) (auto simp: lab_tables_wf_iff empty_pg_def dest: pg_step_lab_wf)

lemma distinct_map_eq: "distinct (map f xs) \<Longrightarrow> x \<in> set xs \<Longrightarrow> y \<in> set xs \<Longrightarrow> f x = f y \<Longrightarrow> x = y"
  by (simp add: distinct_map inj_on_def)

lemma membership_rows_iff:
  "r \<in> set (membership_rows t sub s) \<longleftrightarrow> r \<in> set (tenant_memberships s) \<and> tm_tenant_id r = t \<and>
     (\<exists>u \<in> set (users s). us_id u = tm_user_id r \<and> us_subject u = sub)"
  by (auto simp: membership_rows_def)

lemma membership_rows_unique:
  assumes "tenancy_wf s" and "r \<in> set (membership_rows t sub s)" and "r' \<in> set (membership_rows t sub s)"
  shows "r = r'"
proof -
  obtain u u' where u: "u \<in> set (users s)" "us_id u = tm_user_id r" "us_subject u = sub"
    and u': "u' \<in> set (users s)" "us_id u' = tm_user_id r'" "us_subject u' = sub"
    using assms(2,3) by (auto simp: membership_rows_iff)
  have "u = u'"
    using distinct_map_eq [of us_subject "users s" u u'] assms(1) u u' by (auto simp: tenancy_wf_def)
  then have "membership_pair r = membership_pair r'"
    using assms(2,3) u u' by (auto simp: membership_rows_iff membership_pair_def)
  then show ?thesis
    using distinct_map_eq [of membership_pair "tenant_memberships s" r r'] assms
    by (auto simp: tenancy_wf_def membership_rows_iff)
qed

lemma get_membership_up:
  "pg_up s \<Longrightarrow> get_membership t sub s =
     (Inr (case membership_rows t sub s of [] \<Rightarrow> None | r # _ \<Rightarrow> Some r), next_conn s)"
  by (simp add: get_membership_def get_connection_up membership_rows_def)

lemma get_membership_row:
  assumes "tenancy_wf s" and "pg_up s" and "r \<in> set (membership_rows t sub s)"
  shows "get_membership t sub s = (Inr (Some r), next_conn s)"
proof (cases "membership_rows t sub s")
  case Nil
  then show ?thesis using assms(3) by simp
next
  case (Cons a list)
  then have "a = r" using membership_rows_unique [OF assms(1) _ assms(3)] by simp
  then show ?thesis using Cons assms(2) by (simp add: get_membership_up)
qed

section \<open>Redis keys\<close>

definition redis_scope :: "string \<Rightarrow> string" where
  "redis_scope tenant_id = TENANT_REDIS_PREFIX @ '':'' @ tenant_id @ '':lab:''"

interpretation redis_scope: tenant_scope redis_scope colon_free
proof
  fix a b x
  assume "colon_free a" "colon_free b" "startswith x (redis_scope a)" "startswith x (redis_scope b)"
  then show "a = b"
    using separator_scope [of "CHR '':''" a b x "TENANT_REDIS_PREFIX @ '':''" "''lab:''" "''lab:''"]
    by (simp add: colon_free_def redis_scope_def)
qed

lemma redis_key_in_scope:
  "startswith (build_tenant_redis_key t lab k) (redis_scope (normalize_lab_tenant_id (Some t)))"
  unfolding startswith_iff build_tenant_redis_key_def redis_scope_def by auto

lemma lab_part_colon_free: "CHR '':'' \<notin> set (replace_chr CHR '':'' ''_'' s)"
  by (rule replace_chr_free) simp

lemma redis_key_parts:
  assumes "build_tenant_redis_key t lab k = build_tenant_redis_key t' lab' k'"
    and "normalize_lab_tenant_id (Some t) = normalize_lab_tenant_id (Some t')"
  shows "replace_chr CHR '':'' ''_'' (strip lab) = replace_chr CHR '':'' ''_'' (strip lab')"
    and "lstrip_chr CHR '':'' (strip k) = lstrip_chr CHR '':'' (strip k')"
  using assms sep_inject [OF lab_part_colon_free [of "strip lab"] lab_part_colon_free [of "strip lab'"]]
  by (auto simp: build_tenant_redis_key_def)

section \<open>Audit recording\<close>

lemma on_pg_eq: "on_pg m s = (r, s') \<longleftrightarrow> (\<exists>d. m (ap_pg s) = (r, d) \<and> s' = s\<lparr>ap_pg := d\<rparr>)"
  by (auto simp: on_pg_def split: prod.splits)

lemma record_auth_audit_event_Inr:
  assumes "record_auth_audit_event uuid st action result t sub md s = (Inr (Some i), s')"
  obtains d where "insert_audit_event uuid action result t sub (Some ''auth'') None md (ap_pg s) = (Inr i, d)"
    "s' = s\<lparr>ap_pg := d, ap_metrics := audit_decision action (record_audit_event_metric action result (ap_metrics s))\<rparr>"
  using assms
  by (cases s) (auto simp: record_auth_audit_event_def catch_eff_def bind_eff_def metric_def ret_def
      raise_exn_def on_pg_def split: if_splits prod.splits sum.splits)

lemma record_auth_audit_event_Inl:
  assumes "record_auth_audit_event uuid st action result t sub md s = (Inl e, s')"
  shows "e = HTTPException 503 (PStr ''Audit logging unavailable'') []"
    and "ap_metrics s' = ap_metrics s" and "pg_tables (ap_pg s') = pg_tables (ap_pg s)"
    and "ap_auth_context s' = ap_auth_context s"
  using assms
  by (auto simp: record_auth_audit_event_def insert_audit_event_def Let_def catch_eff_def bind_eff_def
      metric_def ret_def raise_exn_def on_pg_def split: if_splits prod.splits sum.splits
      dest: get_connection_rollback)

text \<open>Whether an audit row is written: the log is on and the profile is \<open>production-saas\<close>.\<close>

definition audited :: "settings \<Rightarrow> bool" where
  "audited st = (audit_log_enabled st \<and> is_production_saas st)"

lemma record_auth_audit_event_off:
  "\<not> audited st \<Longrightarrow> record_auth_audit_event uuid st action result t sub md s = (Inr None, s)"
  by (auto simp: audited_def record_auth_audit_event_def ret_def)

lemma record_auth_audit_event_on:
  "audited st \<Longrightarrow> record_auth_audit_event uuid st action result t sub md s \<noteq> (Inr None, s')"
  by (auto simp: audited_def record_auth_audit_event_def ret_def catch_eff_def bind_eff_def
      raise_exn_def metric_def split: prod.splits sum.splits)

lemma insert_audit_event_Inr:
  assumes "insert_audit_event uuid action result t sub rt ri md d = (Inr i, d')"
  shows "i = ''audit-'' @ uuid"
    and "audit_events d' = audit_events d @ [\<lparr>ae_id = i, ae_tenant_id = t, ae_actor_subject = sub,
      ae_action = action, ae_resource_type = rt, ae_resource_id = ri, ae_result = result,
      ae_metadata = (case md of None \<Rightarrow> [] | Some m \<Rightarrow> m), ae_created_at = pg_now d\<rparr>]"
    and "users d' = users d" and "tenant_memberships d' = tenant_memberships d"
  using get_connection_Inr [OF assms [unfolded insert_audit_event_def Let_def]]
  by (auto simp: insert_pk_def split: if_splits)

section \<open>Properties\<close>

definition example_tenancy :: pg where
  "example_tenancy = snd (upsert_membership ''m-1'' ''acme'' ''u-1'' ''lab_runner'' ''active''
     (snd (upsert_user ''u-1'' ''user-1'' None (snd (upsert_tenant ''acme'' ''Acme'' ''active'' (empty_pg 0))))))"

lemma example_tenancy_reachable: "reachable example_tenancy"
  unfolding example_tenancy_def
  by (intro reachable.step [OF _ pg_step.membership] reachable.step [OF _ pg_step.user]
      reachable.step [OF _ pg_step.tenant] reachable.init)

lemma example_tenancy_up: "pg_up example_tenancy"
  by code_simp



text \<open>
  The membership gate decides exactly: on a reachable database that answers, in
  \<open>production-saas\<close>, it lets a subject into a tenant if and only if the tenant has a membership
  with status \<open>active\<close> of the user with that subject. (One membership per tenant and user is what
  makes reading a single row of the join enough.)
\<close>

theorem active_membership_iff:
  assumes "reachable s" and "pg_up s" and "is_production_saas st"
  shows "(\<exists>m s'. require_active_membership t sub st s = (Inr (Some m), s')) \<longleftrightarrow>
    (\<exists>m \<in> set (tenant_memberships s). \<exists>u \<in> set (users s).
       tm_tenant_id m = t \<and> tm_user_id m = us_id u \<and> us_subject u = sub \<and> tm_status m = ''active'')"
    (is "?admits \<longleftrightarrow> ?member")
proof -
  have admits: "?admits \<longleftrightarrow> (\<exists>r rs. membership_rows t sub s = r # rs \<and> tm_status r = ''active'')"
    using assms(2,3) by (auto simp: require_active_membership_def catch_eff_def bind_eff_def
        get_membership_up ret_def raise_exn_def split: list.splits if_splits)
  have member: "?member \<longleftrightarrow> (\<exists>r \<in> set (membership_rows t sub s). tm_status r = ''active'')"
    unfolding Bex_def membership_rows_iff by metis
  show ?thesis
    unfolding admits member
    using membership_rows_unique [OF reachable_tenancy_wf [OF assms(1)], of _ t sub]
    by (cases "membership_rows t sub s") auto
qed

theorem active_membership_iff_witness:
  "\<exists>m s'. require_active_membership ''acme'' ''user-1'' example_oidc example_tenancy = (Inr (Some m), s')"
proof -
  have "is_production_saas example_oidc" by code_simp
  moreover have "\<exists>m \<in> set (tenant_memberships example_tenancy). \<exists>u \<in> set (users example_tenancy).
      tm_tenant_id m = ''acme'' \<and> tm_user_id m = us_id u \<and> us_subject u = ''user-1'' \<and> tm_status m = ''active''"
    by code_simp
  ultimately show ?thesis
    using active_membership_iff [OF example_tenancy_reachable example_tenancy_up] by blast
qed

text \<open>
  Adding a membership takes effect and touches nobody else: after an insert with a fresh id for
  a known user, looking the user up in that tenant gives the new role and status, and every lookup
  in another tenant gives what it gave before.
\<close>

theorem membership_insert_lookup:
  assumes "reachable s" and "pg_up s" and "u \<in> set (users s)" and "mid \<notin> tm_id ` set (tenant_memberships s)"
    and "upsert_membership mid t (us_id u) role status s = (Inr (), s')"
  shows "fst (get_membership t (us_subject u) s') = Inr (Some \<lparr>tm_id = mid, tm_tenant_id = t,
      tm_user_id = us_id u, tm_role = role, tm_status = status, tm_created_at = pg_now s\<rparr>)
    \<and> (\<forall>t' sub. t' \<noteq> t \<longrightarrow> fst (get_membership t' sub s') = fst (get_membership t' sub s))"
proof -
  let ?new = "\<lparr>tm_id = mid, tm_tenant_id = t, tm_user_id = us_id u, tm_role = role, tm_status = status,
    tm_created_at = pg_now s\<rparr>"
  have s': "s' = next_conn s\<lparr>tenant_memberships := tenant_memberships s @ [?new]\<rparr>"
    using get_connection_Inr [OF assms(5) [unfolded upsert_membership_def Let_def]] assms(4)
    by (auto simp: upsert_append split: if_splits)
  have up: "pg_up s'"
    using pg_up_next_conn [OF assms(2)] by (simp add: s' pg_up_def)
  have "reachable s'"
    using reachable.step [OF assms(1) pg_step.membership] assms(5) by (metis snd_conv)
  then have wf: "tenancy_wf s'" by (rule reachable_tenancy_wf)
  have "?new \<in> set (membership_rows t (us_subject u) s')"
    using assms(3) by (auto simp: membership_rows_iff s')
  then have "fst (get_membership t (us_subject u) s') = Inr (Some ?new)"
    using get_membership_row [OF wf up] by simp
  moreover have "membership_rows t' sub s' = membership_rows t' sub s" if "t' \<noteq> t" for t' sub
    using that by (auto simp: membership_rows_def s')
  ultimately show ?thesis
    using up assms(2) by (simp add: get_membership_up)
qed

theorem membership_insert_lookup_witness:
  "fst (get_membership ''globex'' ''user-1'' (snd (upsert_membership ''m-2'' ''globex'' ''u-1'' ''tenant_admin'' ''active'' example_tenancy)))
     = Inr (Some \<lparr>tm_id = ''m-2'', tm_tenant_id = ''globex'', tm_user_id = ''u-1'',
         tm_role = ''tenant_admin'', tm_status = ''active'', tm_created_at = 0\<rparr>)"
proof -
  let ?u = "\<lparr>us_id = ''u-1'', us_subject = ''user-1'', us_email = None, us_created_at = 0\<rparr>"
  let ?s = "snd (upsert_membership ''m-2'' ''globex'' ''u-1'' ''tenant_admin'' ''active'' example_tenancy)"
  have u: "?u \<in> set (users example_tenancy)" by code_simp
  have fresh: "''m-2'' \<notin> tm_id ` set (tenant_memberships example_tenancy)" by code_simp
  have ran: "upsert_membership ''m-2'' ''globex'' (us_id ?u) ''tenant_admin'' ''active'' example_tenancy = (Inr (), ?s)"
    by (simp add: prod_eq_iff) code_simp
  have now: "pg_now example_tenancy = 0" by code_simp
  show ?thesis
    using membership_insert_lookup [OF example_tenancy_reachable example_tenancy_up u fresh ran] now by simp
qed

lemma upsert_hit:
  assumes "distinct (map key rs)" and "m \<in> set rs" and "key m = key new"
  shows "set (upsert key upd new rs) = insert (upd m new) (set rs - {m})"
    and "\<not> P m \<Longrightarrow> \<not> P (upd m new) \<Longrightarrow> filter P (upsert key upd new rs) = filter P rs"
  using assms by (induction rs) (auto simp: image_iff)

text \<open>
  C38. A membership id that is already taken is not bound to its tenant: an upsert for another
  tenant under that id succeeds, gives that tenant no membership, and overwrites the role and
  status of the row of the first tenant, and of no other row.
\<close>

theorem membership_upsert_crosses_tenants:
  assumes "pg_up s" and "tenancy_wf s" and "m \<in> set (tenant_memberships s)" and "t \<noteq> tm_tenant_id m"
  shows "\<exists>s'. upsert_membership (tm_id m) t user role status s = (Inr (), s')
    \<and> set (tenant_memberships s') = insert (m\<lparr>tm_role := role, tm_status := status\<rparr>) (set (tenant_memberships s) - {m})
    \<and> filter (\<lambda>r. tm_tenant_id r = t) (tenant_memberships s') = filter (\<lambda>r. tm_tenant_id r = t) (tenant_memberships s)"
proof -
  have "distinct (map tm_id (tenant_memberships s))" using assms(2) by (simp add: tenancy_wf_def)
  note hit = upsert_hit [OF this assms(3), where new = "\<lparr>tm_id = tm_id m, tm_tenant_id = t, tm_user_id = user, tm_role = role,
    tm_status = status, tm_created_at = pg_now s\<rparr>" and upd = "\<lambda>old new. old\<lparr>tm_role := tm_role new, tm_status := tm_status new\<rparr>"]
  show ?thesis
    using assms(3,4) hit
    by (auto simp: upsert_membership_def Let_def get_connection_up [OF assms(1)] image_iff)
qed

theorem membership_upsert_crosses_tenants_witness:
  "\<exists>s' m. upsert_membership ''m-1'' ''globex'' ''u-1'' ''tenant_admin'' ''suspended'' example_tenancy = (Inr (), s')
    \<and> m \<in> set (tenant_memberships s') \<and> tm_tenant_id m = ''acme'' \<and> tm_status m = ''suspended''"
proof -
  obtain m where m: "tenant_memberships example_tenancy = [m]" "tm_id m = ''m-1''" "tm_tenant_id m = ''acme''"
    by (rule that [of "hd (tenant_memberships example_tenancy)"]) code_simp+
  then have "m \<in> set (tenant_memberships example_tenancy)" "''globex'' \<noteq> tm_tenant_id m" by simp_all
  from membership_upsert_crosses_tenants [OF example_tenancy_up _ this, of "''u-1''" "''tenant_admin''" "''suspended''"]
  show ?thesis using reachable_tenancy_wf [OF example_tenancy_reachable] m by force
qed

text \<open>
  The audit listing of a tenant holds that tenant's events only, at most the number asked for,
  newest first, and all of them when that many were asked for.
\<close>

theorem audit_listing_isolated:
  assumes "pg_up s" and "0 \<le> limit"
  shows "\<exists>es. fst (list_audit_events_for_tenant fmt t limit s) = Inr (map (audit_event_dict fmt) es)
    \<and> set es \<subseteq> {e \<in> set (audit_events s). ae_tenant_id e = Some t}
    \<and> int (length es) \<le> limit
    \<and> sorted_wrt (\<lambda>a b. ae_created_at a \<ge> ae_created_at b) es
    \<and> (int (length (filter (\<lambda>e. ae_tenant_id e = Some t) (audit_events s))) \<le> limit
        \<longrightarrow> set es = {e \<in> set (audit_events s). ae_tenant_id e = Some t})"
proof -
  let ?sorted = "sort_key (\<lambda>e. - ae_created_at e) (filter (\<lambda>e. ae_tenant_id e = Some t) (audit_events s))"
  let ?es = "take (nat limit) ?sorted"
  have "sorted (map (\<lambda>e. - ae_created_at e) ?sorted)" by simp
  then have "sorted (map (\<lambda>e. - ae_created_at e) ?es)"
    by (simp add: sorted_wrt_take flip: take_map)
  then have order: "sorted_wrt (\<lambda>a b. ae_created_at a \<ge> ae_created_at b) ?es"
    by (simp add: sorted_map)
  have "set ?es \<subseteq> {e \<in> set (audit_events s). ae_tenant_id e = Some t}"
    by (auto dest: in_set_takeD)
  moreover have "fst (list_audit_events_for_tenant fmt t limit s) = Inr (map (audit_event_dict fmt) ?es)"
    using assms by (simp add: list_audit_events_for_tenant_def get_connection_up)
  moreover have "set ?es = {e \<in> set (audit_events s). ae_tenant_id e = Some t}"
    if "int (length (filter (\<lambda>e. ae_tenant_id e = Some t) (audit_events s))) \<le> limit"
    using that by (auto simp: nat_le_iff le_nat_iff)
  ultimately show ?thesis
    using order assms(2) by (intro exI [of _ ?es]) auto
qed

definition example_audits :: pg where
  "example_audits = snd (insert_audit_event ''02'' ''auth_allowed'' ''allowed'' (Some ''globex'') None None None None
     (snd (insert_audit_event ''01'' ''auth_allowed'' ''allowed'' (Some ''acme'') None None None None (empty_pg 5))))"

theorem audit_listing_isolated_witness:
  "pg_up example_audits \<and> (\<exists>es. fst (list_audit_events_for_tenant show_int ''acme'' 10 example_audits)
      = Inr (map (audit_event_dict show_int) es)
    \<and> set es \<subseteq> {e \<in> set (audit_events example_audits). ae_tenant_id e = Some ''acme''})"
proof -
  have up: "pg_up example_audits" by code_simp
  with audit_listing_isolated [OF up, of 10 show_int "''acme''"] show ?thesis by auto
qed

text \<open>
  Two tenants without a colon in their ids never share a Redis key, and within a tenant two
  keys agree only when the lab names agree up to trimming and colons and the keys up to trimming
  and leading colons.
\<close>

theorem redis_keys_separate_tenants:
  assumes "colon_free (normalize_lab_tenant_id (Some t))" and "colon_free (normalize_lab_tenant_id (Some t'))"
    and "build_tenant_redis_key t lab k = build_tenant_redis_key t' lab' k'"
  shows "normalize_lab_tenant_id (Some t) = normalize_lab_tenant_id (Some t')
    \<and> replace_chr CHR '':'' ''_'' (strip lab) = replace_chr CHR '':'' ''_'' (strip lab')
    \<and> lstrip_chr CHR '':'' (strip k) = lstrip_chr CHR '':'' (strip k')"
proof -
  have same: "normalize_lab_tenant_id (Some t) = normalize_lab_tenant_id (Some t')"
    using redis_scope.names_differ [OF assms(1,2) _ redis_key_in_scope redis_key_in_scope] assms(3) by blast
  then show ?thesis
    using redis_key_parts [OF assms(3) same] by simp
qed

theorem redis_keys_separate_tenants_witness:
  "normalize_lab_tenant_id (Some '' acme'') = normalize_lab_tenant_id (Some ''acme '')
   \<and> build_tenant_redis_key '' acme'' ''lab'' '':k'' = build_tenant_redis_key ''acme '' ''lab'' ''k''"
proof -
  have "colon_free (normalize_lab_tenant_id (Some '' acme''))" by code_simp
  moreover have "colon_free (normalize_lab_tenant_id (Some ''acme ''))" by code_simp
  moreover have key: "build_tenant_redis_key '' acme'' ''lab'' '':k'' = build_tenant_redis_key ''acme '' ''lab'' ''k''"
    by code_simp
  ultimately show ?thesis
    using redis_keys_separate_tenants by blast
qed

text \<open>
  A colon in a tenant id breaks the separation: two different tenants, both in normal form,
  reach the same key.
\<close>

theorem redis_key_collision:
  "normalize_lab_tenant_id (Some ''a'') \<noteq> normalize_lab_tenant_id (Some ''a:lab:l:k'')
   \<and> build_tenant_redis_key ''a'' ''l'' ''k:lab:m:q'' = build_tenant_redis_key ''a:lab:l:k'' ''m'' ''q''"
  by code_simp

end
