(* ===== verification/Security.thy ===== *)
theory Security
  imports Tenancy
begin

text \<open>
  The gate every request passes: \<open>apps/api/security.py\<close>, \<open>resolve_request_tenant\<close> of
  \<open>apps/api/auth.py\<close> and \<open>apps/api/request_context.py\<close>. Each call runs on the state \<open>app\<close> of
  \<open>Tenancy\<close>; \<open>attach_auth_context\<close> writes its \<open>ap_auth_context\<close>.
\<close>

section \<open>Credentials\<close>

definition extract_api_key :: "string option \<Rightarrow> string option \<Rightarrow> string option" where
  "extract_api_key authorization x_api_key =
     (case parse_authorization_header authorization of
        Some bearer \<Rightarrow> Some bearer
      | None \<Rightarrow> (case x_api_key of
          None \<Rightarrow> None | Some k \<Rightarrow> if strip k = [] then None else Some (strip k)))"

text \<open>\<open>secrets.compare_digest\<close> on two strings: it raises on a character outside ASCII.\<close>

definition compare_digest :: "string \<Rightarrow> string \<Rightarrow> bool result" where
  "compare_digest a b =
     (if list_all (\<lambda>c. (of_char c :: nat) < 128) (a @ b) then Inr (a = b)
      else Inl (OtherError ''TypeError: comparing strings with non-ASCII characters is not supported''))"

definition attach_auth_context :: "auth_context \<Rightarrow> (app, unit) eff" where
  "attach_auth_context ctx s = (Inr (), s\<lparr>ap_auth_context := Some ctx\<rparr>)"

definition unauthorized :: "string \<Rightarrow> exn" where
  "unauthorized detail = HTTPException 401 (PStr detail) [(''WWW-Authenticate'', ''Bearer'')]"

text \<open>A credential is accepted when it is there and equal to the one configured.\<close>

definition check_credential :: "string option \<Rightarrow> string \<Rightarrow> string \<Rightarrow> unit result" where
  "check_credential provided expected detail =
     (case provided of
        None \<Rightarrow> Inl (unauthorized detail)
      | Some p \<Rightarrow> if p = [] then Inl (unauthorized detail)
          else bind_res (compare_digest p expected) (\<lambda>same.
            if same then Inr () else Inl (unauthorized detail)))"

definition verify_metrics_access :: "string option \<Rightarrow> string option \<Rightarrow> settings \<Rightarrow> unit result" where
  "verify_metrics_access authorization x_metrics_token settings =
     (if \<not> metrics_auth_required settings then Inr ()
      else
        let provided = (case parse_authorization_header authorization of
              Some p \<Rightarrow> Some p | None \<Rightarrow> map_option strip x_metrics_token)
        in check_credential provided (strip (metrics_token settings)) ''Invalid or missing metrics credentials'')"

section \<open>Access\<close>

definition authenticate :: "'k jwt_env \<Rightarrow> string \<Rightarrow> settings \<Rightarrow> (app, auth_context) eff" where
  "authenticate env token settings =
     bind_eff (lift_res (build_auth_context_from_token env token settings)) (\<lambda>ctx.
     bind_eff (on_pg (require_active_membership (ac_tenant_id ctx) (ac_subject ctx) settings)) (\<lambda>_.
     bind_eff (lift_res (require_role ctx [''lab_runner'', ''tenant_admin'', ''platform_admin''])) (\<lambda>_.
       ret ctx)))"

text \<open>The two \<open>except\<close> clauses.\<close>

definition on_auth_failure :: "string \<Rightarrow> settings \<Rightarrow> exn \<Rightarrow> (app, 'a) eff" where
  "on_auth_failure uuid settings e =
     (case e of
        AuthError message code \<Rightarrow>
          bind_eff (record_auth_audit_event uuid settings ''auth_invalid_token'' ''denied'' None None
              (Some [(''error'', PStr message), (''code'', PStr code)]))
            (\<lambda>_. raise_exn (unauthorized message))
      | HTTPException status_code detail headers \<Rightarrow>
          if status_code = 403 then
            bind_eff (record_auth_audit_event uuid settings ''auth_cross_tenant_denied'' ''denied'' None None
                (Some [(''detail'', PStr (py_str detail))]))
              (\<lambda>_. raise_exn e)
          else raise_exn e
      | _ \<Rightarrow> raise_exn e)"

definition verify_production_saas_access ::
    "string \<Rightarrow> 'k jwt_env \<Rightarrow> string option \<Rightarrow> settings \<Rightarrow> (app, auth_context) eff" where
  "verify_production_saas_access uuid env authorization settings =
     (case parse_authorization_header authorization of
        None \<Rightarrow>
          bind_eff (record_auth_audit_event uuid settings ''auth_missing_token'' ''denied'' None None None)
            (\<lambda>_. raise_exn (unauthorized ''Missing bearer token''))
      | Some token \<Rightarrow>
          bind_eff (catch_eff (authenticate env token settings) (on_auth_failure uuid settings)) (\<lambda>ctx.
          bind_eff (record_auth_audit_event uuid settings ''auth_allowed'' ''allowed''
              (Some (ac_tenant_id ctx)) (Some (ac_subject ctx)) None) (\<lambda>_.
          bind_eff (attach_auth_context ctx) (\<lambda>_. ret ctx))))"

definition api_key_context :: auth_context where
  "api_key_context = \<lparr>ac_subject = ''api-key-client'', ac_email = None, ac_tenant_id = ''production-like'',
     ac_roles = [''lab_runner''], ac_scopes = [], ac_issuer = None, ac_audience = None,
     ac_raw_claims = [], ac_is_anonymous = False\<rparr>"

definition verify_api_access ::
    "string \<Rightarrow> 'k jwt_env \<Rightarrow> string option \<Rightarrow> string option \<Rightarrow> settings \<Rightarrow> (app, unit) eff" where
  "verify_api_access uuid env authorization x_api_key settings =
     (if is_production_saas settings then
        bind_eff (verify_production_saas_access uuid env authorization settings) (\<lambda>_. ret ())
      else if \<not> auth_enabled settings then attach_auth_context local_lab_auth_context
      else
        bind_eff (lift_res (check_credential (extract_api_key authorization x_api_key)
            (strip (api_key settings)) ''Invalid or missing API credentials''))
          (\<lambda>_. attach_auth_context api_key_context))"

definition enforce_vulnerable_allowed :: "string \<Rightarrow> settings \<Rightarrow> unit result" where
  "enforce_vulnerable_allowed mode settings =
     (if mode \<noteq> ''vulnerable'' then Inr ()
      else if allow_vulnerable settings then Inr ()
      else Inl (HTTPException 403 (PStr ''Vulnerable lab mode is disabled in this environment'') []))"

section \<open>The tenant of a request\<close>

definition resolve_request_tenant ::
    "string \<Rightarrow> settings \<Rightarrow> auth_context option \<Rightarrow> string option \<Rightarrow> (app, string) eff" where
  "resolve_request_tenant uuid settings auth_context requested_tenant_id =
     (let requested = (case requested_tenant_id of None \<Rightarrow> [] | Some r \<Rightarrow> strip r) in
      if \<not> is_production_saas settings then
        (if requested \<noteq> [] then ret requested
         else case auth_context of Some ctx \<Rightarrow> ret (ac_tenant_id ctx) | None \<Rightarrow> ret LOCAL_LAB_TENANT_ID)
      else bind_eff (lift_res (require_auth_context auth_context)) (\<lambda>ctx.
        if requested \<noteq> [] then
          (if is_platform_admin ctx then ret requested
           else if requested \<noteq> ac_tenant_id ctx then
             bind_eff (record_tenant_access_denied uuid settings ''tenant_override_denied'' (Some ctx) (Some requested))
               (\<lambda>_. raise_exn (HTTPException 403 (PStr ''Cross-tenant access denied'') []))
           else ret requested)
        else ret (ac_tenant_id ctx)))"

record lab_request_context =
  lc_profile :: string
  lc_tenant_id :: string
  lc_auth_context :: auth_context
  lc_is_local_lab :: bool
  lc_is_production_saas :: bool
  lc_is_admin :: bool

definition resolve_lab_request_context :: "auth_context option \<Rightarrow> settings \<Rightarrow> lab_request_context result" where
  "resolve_lab_request_context request_context current =
     (let ctx = (case request_context of Some c \<Rightarrow> c | None \<Rightarrow> local_lab_auth_context) in
      bind_res
        (if is_production_saas current then
           (if ac_is_anonymous ctx
            then Inl (ValueError ''Authenticated tenant context required in production-saas'')
            else Inr (ac_tenant_id ctx))
         else if is_local_lab current then Inr LOCAL_LAB_TENANT_ID
         else Inr (if ac_tenant_id ctx \<noteq> [] \<and> \<not> ac_is_anonymous ctx then ac_tenant_id ctx
                   else ''production-like''))
        (\<lambda>tenant_id. Inr \<lparr>lc_profile = boundary_layer_profile current, lc_tenant_id = tenant_id,
           lc_auth_context = ctx, lc_is_local_lab = is_local_lab current,
           lc_is_production_saas = is_production_saas current, lc_is_admin = is_platform_admin ctx\<rparr>))"

section \<open>Lemmas\<close>

lemma get_membership_frame: "get_membership t sub d = (r, d') \<Longrightarrow> pg_tables d' = pg_tables d"
  by (auto simp: get_membership_def get_connection_def split: list.splits option.splits)

lemma pg_tables_audit: "pg_tables d = pg_tables d' \<Longrightarrow> audit_events d = audit_events d'"
  by (metis pg.select_convs(10) pg.surjective pg.update_convs(1) pg_tables_def)

lemma membership_rows_hd: "membership_rows t sub (next_conn d) = r # rs \<Longrightarrow> r \<in> set (membership_rows t sub d)"
  by (metis list.set_intros(1) membership_rows_iff next_conn_frame(6,7))

lemma get_membership_Inr:
  "get_membership t sub d = (Inr (Some m), d') \<Longrightarrow> m \<in> set (membership_rows t sub d)"
  unfolding get_membership_def
  by (drule get_connection_Inr) (auto simp: membership_rows_iff split: list.splits dest!: membership_rows_hd)

lemma require_active_membership_frame:
  "require_active_membership t sub st d = (r, d') \<Longrightarrow> pg_tables d' = pg_tables d"
  using get_membership_frame [of t sub d]
  by (auto simp: require_active_membership_def bind_eff_def catch_eff_def ret_def raise_exn_def
      split: prod.splits sum.splits option.splits if_splits)

lemma require_active_membership_Inr:
  assumes "require_active_membership t sub st d = (Inr x, d')" and "is_production_saas st"
  obtains m where "m \<in> set (membership_rows t sub d)" "tm_status m = ''active''"
  using assms get_membership_Inr [of t sub d]
  by (auto simp: require_active_membership_def bind_eff_def catch_eff_def ret_def raise_exn_def
      split: prod.splits sum.splits option.splits if_splits)

lemma audit_keeps_context:
  assumes "record_auth_audit_event uuid st action result t sub md s = (r, s')"
  shows "ap_auth_context s' = ap_auth_context s"
proof (cases r)
  case (Inl e)
  then show ?thesis using record_auth_audit_event_Inl(4) assms by blast
next
  case (Inr x)
  then show ?thesis
    using assms record_auth_audit_event_on record_auth_audit_event_off
    by (cases x; cases "audited st") (auto elim!: record_auth_audit_event_Inr)
qed

lemma authenticate_frame:
  assumes "authenticate env token st s = (r, s')"
  shows "ap_auth_context s' = ap_auth_context s" and "ap_metrics s' = ap_metrics s"
    and "pg_tables (ap_pg s') = pg_tables (ap_pg s)"
  using assms require_active_membership_frame
  by (auto simp: authenticate_def bind_eff_def lift_res_def on_pg_def ret_def
      split: prod.splits sum.splits)

lemma authenticate_Inr:
  assumes "authenticate env token st s = (Inr ctx, s')"
  shows "build_auth_context_from_token env token st = Inr ctx"
    and "require_role ctx [''lab_runner'', ''tenant_admin'', ''platform_admin''] = Inr ()"
    and "is_production_saas st \<Longrightarrow> \<exists>m \<in> set (membership_rows (ac_tenant_id ctx) (ac_subject ctx) (ap_pg s)).
      tm_status m = ''active''"
proof -
  show "build_auth_context_from_token env token st = Inr ctx"
    and "require_role ctx [''lab_runner'', ''tenant_admin'', ''platform_admin''] = Inr ()"
    using assms by (auto simp: authenticate_def bind_eff_Inr_iff lift_res_def ret_def)
  assume "is_production_saas st"
  moreover obtain x d where "require_active_membership (ac_tenant_id ctx) (ac_subject ctx) st (ap_pg s) = (Inr x, d)"
    using assms by (auto simp: authenticate_def bind_eff_Inr_iff lift_res_def ret_def on_pg_eq)
  ultimately show "\<exists>m \<in> set (membership_rows (ac_tenant_id ctx) (ac_subject ctx) (ap_pg s)). tm_status m = ''active''"
    using require_active_membership_Inr by metis
qed

lemma require_role_iff:
  "require_role ctx roles = Inr () \<longleftrightarrow> is_platform_admin ctx \<or> (\<exists>r \<in> set roles. has_role ctx r)"
  by (auto simp: require_role_def list_ex_iff)

lemma on_auth_failure_raises [simp]: "on_auth_failure uuid st e s \<noteq> (Inr x, s')"
  by (auto simp: on_auth_failure_def bind_eff_Inr_iff raise_exn_def split: exn.splits if_splits)

lemma on_auth_failure_context:
  "on_auth_failure uuid st e s = (r, s') \<Longrightarrow> ap_auth_context s' = ap_auth_context s"
  using audit_keeps_context
  by (auto simp: on_auth_failure_def bind_eff_def raise_exn_def split: exn.splits if_splits prod.splits sum.splits)

text \<open>What a passed gate means, step by step.\<close>

lemma saas_access_Inr:
  assumes "verify_production_saas_access uuid env authorization st s = (Inr ctx, s')"
  obtains token s1 i s2 where "parse_authorization_header authorization = Some token"
    "authenticate env token st s = (Inr ctx, s1)"
    "record_auth_audit_event uuid st ''auth_allowed'' ''allowed'' (Some (ac_tenant_id ctx))
       (Some (ac_subject ctx)) None s1 = (Inr i, s2)"
    "s' = s2\<lparr>ap_auth_context := Some ctx\<rparr>"
  using assms
  by (auto simp: verify_production_saas_access_def bind_eff_Inr_iff raise_exn_def catch_eff_def
      attach_auth_context_def ret_def split: option.splits prod.splits sum.splits)

lemma saas_access_Inl_context:
  assumes "verify_production_saas_access uuid env authorization st s = (Inl e, s')"
  shows "ap_auth_context s' = ap_auth_context s"
proof (cases "parse_authorization_header authorization")
  case None
  then show ?thesis
    using assms audit_keeps_context
    by (fastforce simp: verify_production_saas_access_def bind_eff_def raise_exn_def split: prod.splits sum.splits)
next
  case (Some token)
  obtain r s1 where auth: "authenticate env token st s = (r, s1)" by fastforce
  have s1: "ap_auth_context s1 = ap_auth_context s" by (rule authenticate_frame(1) [OF auth])
  show ?thesis
  proof (cases r)
    case (Inl x)
    obtain r2 :: "auth_context result" and s2 where fail: "on_auth_failure uuid st x s1 = (r2, s2)"
      by fastforce
    then have "s' = s2"
      using assms Some auth Inl by (cases r2) (auto simp: verify_production_saas_access_def bind_eff_def catch_eff_def)
    then show ?thesis using on_auth_failure_context [OF fail] s1 by simp
  next
    case (Inr ctx)
    then show ?thesis
      using assms Some auth s1 audit_keeps_context
      by (fastforce simp: verify_production_saas_access_def bind_eff_def catch_eff_def attach_auth_context_def
          ret_def split: prod.splits sum.splits)
  qed
qed

lemma audit_row_added:
  assumes "record_auth_audit_event uuid st action result t sub md s = (Inr i, s')" and "audited st"
  shows "\<exists>row. audit_events (ap_pg s') = audit_events (ap_pg s) @ [row] \<and> ae_action row = action
    \<and> ae_result row = result \<and> ae_tenant_id row = t \<and> ae_actor_subject row = sub"
proof -
  obtain j where j: "i = Some j" using assms record_auth_audit_event_on by (cases i) blast+
  with assms(1) obtain d where "insert_audit_event uuid action result t sub (Some ''auth'') None md (ap_pg s) = (Inr j, d)"
    "ap_pg s' = d"
    by (auto elim!: record_auth_audit_event_Inr)
  from insert_audit_event_Inr(2) [OF this(1)] this(2) show ?thesis by auto
qed

text \<open>
  PyJWT, \<open>urlopen\<close> and the JSON parser know nothing of FastAPI: none of them raises an
  \<open>HTTPException\<close>.
\<close>

fun is_http :: "exn \<Rightarrow> bool" where
  "is_http (HTTPException c d h) = True"
| "is_http _ = False"

definition raises_no_http :: "'k jwt_env \<Rightarrow> bool" where
  "raises_no_http env =
     ((\<forall>t e. je_get_unverified_header env t = Inl e \<longrightarrow> \<not> is_http e) \<and>
      (\<forall>t k a aud iss r l e. je_decode env t k a aud iss r l = Inl e \<longrightarrow> \<not> is_http e) \<and>
      (\<forall>u t e. je_urlopen env u t = Inl (Unhandled e) \<longrightarrow> \<not> is_http e) \<and>
      (\<forall>p e. je_from_json env p = Inl e \<longrightarrow> \<not> is_http e))"

lemma raises_no_httpD:
  assumes "raises_no_http env"
  shows "je_get_unverified_header env t = Inl e \<Longrightarrow> \<not> is_http e"
    and "je_decode env t k a aud iss r l = Inl e \<Longrightarrow> \<not> is_http e"
    and "je_urlopen env u n = Inl (Unhandled e) \<Longrightarrow> \<not> is_http e"
    and "je_from_json env p = Inl e \<Longrightarrow> \<not> is_http e"
  using assms by (auto simp: raises_no_http_def)

lemma bind_res_Inl_cases:
  assumes "bind_res m f = Inl e"
  obtains "m = Inl e" | x where "m = Inr x" "f x = Inl e"
  using assms by (cases m) auto

lemma extract_token_kid_no_http:
  "raises_no_http env \<Longrightarrow> extract_token_kid (je_get_unverified_header env) t = Inl e \<Longrightarrow> \<not> is_http e"
  by (auto simp: extract_token_kid_def split: sum.splits exn.splits dest: raises_no_httpD(1))

lemma validate_jwt_algorithm_no_http: "validate_jwt_algorithm a al = Inl e \<Longrightarrow> \<not> is_http e"
  by (auto simp: validate_jwt_algorithm_def Let_def split: option.splits pyval.splits if_splits)

lemma http_refresh_no_http:
  "raises_no_http env \<Longrightarrow> http_refresh (je_urlopen env) (je_from_json env) n c = (Inl e, c') \<Longrightarrow> \<not> is_http e"
  unfolding http_refresh_def
  by (auto dest: raises_no_httpD(3,4) split: sum.splits exn.splits fetch_error.splits if_splits)

lemma http_lookup_no_http: "http_lookup kid n c = (Inl e, c') \<Longrightarrow> \<not> is_http e"
  by (auto simp: http_lookup_def split: option.splits)

lemma http_get_signing_key_no_http:
  assumes "raises_no_http env"
    and "http_get_signing_key (je_urlopen env) (je_from_json env) kid n n' c = (Inl e, c')"
  shows "\<not> is_http e"
  using assms(2)
  by (auto simp: http_get_signing_key_def split: option.splits if_splits elim!: bind_eff_Inl_cases
      dest: http_refresh_no_http [OF assms(1)] http_lookup_no_http)

lemma signing_key_for_no_http:
  assumes "raises_no_http env" and "signing_key_for env kid st = Inl e"
  shows "\<not> is_http e"
  using assms(2) http_get_signing_key_no_http [OF assms(1)]
  by (auto simp: signing_key_for_def build_jwks_client_def client_get_signing_key_def
      map_prod_def split: sum.splits exn.splits if_splits prod.splits elim!: bind_res_Inl_cases)

lemma verify_jwt_token_no_http:
  assumes "raises_no_http env" and "verify_jwt_token env token st = Inl e"
  shows "\<not> is_http e"
proof -
  have body: "\<not> is_http x" if "verify_jwt_body env token st = Inl x" for x
    using that unfolding verify_jwt_body_def Let_def
    by (auto split: if_splits elim!: bind_res_Inl_cases dest: raises_no_httpD(2) [OF assms(1)]
        extract_token_kid_no_http [OF assms(1)] validate_jwt_algorithm_no_http
        signing_key_for_no_http [OF assms(1)])
  show ?thesis
    using assms(2) body by (auto simp: verify_jwt_token_def split: sum.splits exn.splits)
qed

lemma build_auth_context_no_http: "build_auth_context claims st = Inl e \<Longrightarrow> \<not> is_http e"
  by (auto simp: build_auth_context_def validate_jwt_claims_def Let_def bind_res_def
      split: if_splits option.splits sum.splits)

lemma from_token_no_http:
  "raises_no_http env \<Longrightarrow> build_auth_context_from_token env token st = Inl e \<Longrightarrow> \<not> is_http e"
  unfolding build_auth_context_from_token_def
  by (auto elim!: bind_res_Inl_cases dest: verify_jwt_token_no_http build_auth_context_no_http)

lemma authenticate_http_codes:
  assumes "raises_no_http env" and "authenticate env token st s = (Inl (HTTPException c d h), s')"
  shows "c = 503 \<or> c = 403"
  using assms(2) from_token_no_http [OF assms(1), of token st "HTTPException c d h"]
  by (auto simp: authenticate_def lift_res_def on_pg_def require_active_membership_def require_role_def
      bind_eff_def catch_eff_def ret_def raise_exn_def
      split: prod.splits sum.splits option.splits if_splits)

lemma denied_row:
  assumes "bind_eff (record_auth_audit_event uuid st action ''denied'' None None md) (\<lambda>_. raise_exn y) s
      = (Inl (HTTPException c d h), s')" and "audited st" and "c \<in> {401, 403}"
  shows "\<exists>row. audit_events (ap_pg s') = audit_events (ap_pg s) @ [row] \<and> ae_result row = ''denied''"
  using assms(1)
proof (cases rule: bind_eff_Inl_cases)
  case first
  then show ?thesis using record_auth_audit_event_Inl(1) assms(3) by fastforce
next
  case (second i s2)
  then show ?thesis using audit_row_added [OF second(1) assms(2)] by (auto simp: raise_exn_def)
qed

lemma on_auth_failure_row:
  assumes "on_auth_failure uuid st x s = (Inl (HTTPException c d h), s')" and "audited st"
    and "c \<in> {401, 403}" and "\<And>d h. x \<noteq> HTTPException 401 d h"
  shows "\<exists>row. audit_events (ap_pg s') = audit_events (ap_pg s) @ [row] \<and> ae_result row = ''denied''"
  using assms denied_row [OF _ assms(2,3)]
  by (cases x) (auto simp: on_auth_failure_def raise_exn_def split: if_splits)

lemma authenticated_never_401:
  assumes "bind_eff (record_auth_audit_event uuid st action result t sub md)
      (\<lambda>_. bind_eff (attach_auth_context ctx) (\<lambda>_. ret ctx)) s = (Inl (HTTPException c d h), s')"
  shows "c = 503"
  using assms
  by (cases rule: bind_eff_Inl_cases)
    (auto simp: bind_eff_def attach_auth_context_def ret_def dest: record_auth_audit_event_Inl(1))

lemma saas_denial_row:
  assumes "verify_production_saas_access uuid env authorization st s = (Inl (HTTPException c d h), s')"
    and "raises_no_http env" and "audited st" and "c \<in> {401, 403}"
  shows "\<exists>row. audit_events (ap_pg s') = audit_events (ap_pg s) @ [row] \<and> ae_result row = ''denied''"
proof (cases "parse_authorization_header authorization")
  case None
  then show ?thesis
    using assms denied_row [OF _ assms(3,4)] by (auto simp: verify_production_saas_access_def)
next
  case (Some token)
  obtain r s1 where auth: "authenticate env token st s = (r, s1)" by fastforce
  have same: "audit_events (ap_pg s1) = audit_events (ap_pg s)"
    using authenticate_frame(3) [OF auth] by (rule pg_tables_audit)
  show ?thesis
  proof (cases r)
    case (Inl x)
    have "on_auth_failure uuid st x s1 = (Inl (HTTPException c d h) :: auth_context result, s')"
      using assms(1) Some auth Inl
      by (auto simp: verify_production_saas_access_def catch_eff_def elim!: bind_eff_Inl_cases)
    moreover have "\<And>d h. x \<noteq> HTTPException 401 d h"
      using authenticate_http_codes [OF assms(2)] auth Inl by fastforce
    ultimately show ?thesis
      using on_auth_failure_row [OF _ assms(3,4)] same by fastforce
  next
    case (Inr ctx)
    then have "c = 503"
      using assms(1) Some auth authenticated_never_401
      by (auto simp: verify_production_saas_access_def catch_eff_def bind_eff_def [of "\<lambda>s. _ s"])
    then show ?thesis using assms(4) by simp
  qed
qed

lemma example_env_no_http: "raises_no_http example_env"
  by (auto simp: raises_no_http_def example_env_def example_urlopen_def example_jwkset_def split: if_splits)

section \<open>Properties\<close>

definition example_app :: app where
  "example_app = \<lparr>ap_pg = example_tenancy, ap_metrics = initial_metrics, ap_auth_context = None\<rparr>"

definition example_after :: app where
  "example_after = snd (verify_api_access ''01'' example_env (Some ''Bearer good'') None example_oidc example_app)"

lemma saas_granted:
  assumes "is_production_saas st"
    and "verify_api_access uuid env authorization x_api_key st s = (Inr (), s')"
  obtains token ctx m s1 i s2 where "parse_authorization_header authorization = Some token"
    "build_auth_context_from_token env token st = Inr ctx"
    "m \<in> set (membership_rows (ac_tenant_id ctx) (ac_subject ctx) (ap_pg s))" "tm_status m = ''active''"
    "\<exists>r \<in> set [''lab_runner'', ''tenant_admin'', ''platform_admin'']. has_role ctx r"
    "authenticate env token st s = (Inr ctx, s1)"
    "record_auth_audit_event uuid st ''auth_allowed'' ''allowed'' (Some (ac_tenant_id ctx))
       (Some (ac_subject ctx)) None s1 = (Inr i, s2)"
    "s' = s2\<lparr>ap_auth_context := Some ctx\<rparr>"
proof -
  obtain ctx where "verify_production_saas_access uuid env authorization st s = (Inr ctx, s')"
    using assms by (auto simp: verify_api_access_def bind_eff_Inr_iff ret_def)
  then obtain token s1 i s2 where tok: "parse_authorization_header authorization = Some token"
    and auth: "authenticate env token st s = (Inr ctx, s1)"
    and rec: "record_auth_audit_event uuid st ''auth_allowed'' ''allowed'' (Some (ac_tenant_id ctx))
       (Some (ac_subject ctx)) None s1 = (Inr i, s2)"
    and s': "s' = s2\<lparr>ap_auth_context := Some ctx\<rparr>"
    by (rule saas_access_Inr)
  obtain m where m: "m \<in> set (membership_rows (ac_tenant_id ctx) (ac_subject ctx) (ap_pg s))" "tm_status m = ''active''"
    using authenticate_Inr(3) [OF auth assms(1)] by blast
  have "\<exists>r \<in> set [''lab_runner'', ''tenant_admin'', ''platform_admin'']. has_role ctx r"
    using authenticate_Inr(2) [OF auth] by (auto simp: require_role_iff is_platform_admin_def PLATFORM_ADMIN_ROLE_def)
  then show thesis by (rule that [OF tok authenticate_Inr(1) [OF auth] m _ auth rec s'])
qed

text \<open>
  C6. No unauthenticated request passes in \<open>production-saas\<close>: when \<open>verify_api_access\<close>
  returns, the request carried a bearer token that verified to the identity now attached to it, that
  identity's subject has an active membership of its tenant and one of the three lab roles, and with
  the audit log on exactly one row was added to the trail, naming that tenant and subject.
\<close>

theorem saas_access_sound:
  assumes "is_production_saas st"
    and "verify_api_access uuid env authorization x_api_key st s = (Inr (), s')"
  shows "\<exists>token ctx m. parse_authorization_header authorization = Some token
    \<and> build_auth_context_from_token env token st = Inr ctx
    \<and> ap_auth_context s' = Some ctx
    \<and> m \<in> set (membership_rows (ac_tenant_id ctx) (ac_subject ctx) (ap_pg s)) \<and> tm_status m = ''active''
    \<and> (\<exists>r \<in> set [''lab_runner'', ''tenant_admin'', ''platform_admin'']. has_role ctx r)
    \<and> (audit_log_enabled st \<longrightarrow> (\<exists>row. audit_events (ap_pg s') = audit_events (ap_pg s) @ [row]
         \<and> ae_action row = ''auth_allowed'' \<and> ae_result row = ''allowed''
         \<and> ae_tenant_id row = Some (ac_tenant_id ctx) \<and> ae_actor_subject row = Some (ac_subject ctx)))"
proof -
  obtain token ctx m s1 i s2 where tok: "parse_authorization_header authorization = Some token"
    and ctx: "build_auth_context_from_token env token st = Inr ctx"
    and m: "m \<in> set (membership_rows (ac_tenant_id ctx) (ac_subject ctx) (ap_pg s))" "tm_status m = ''active''"
    and role: "\<exists>r \<in> set [''lab_runner'', ''tenant_admin'', ''platform_admin'']. has_role ctx r"
    and auth: "authenticate env token st s = (Inr ctx, s1)"
    and rec: "record_auth_audit_event uuid st ''auth_allowed'' ''allowed'' (Some (ac_tenant_id ctx))
       (Some (ac_subject ctx)) None s1 = (Inr i, s2)"
    and s': "s' = s2\<lparr>ap_auth_context := Some ctx\<rparr>"
    by (rule saas_granted [OF assms])
  have same: "audit_events (ap_pg s1) = audit_events (ap_pg s)"
    using authenticate_frame(3) [OF auth] by (rule pg_tables_audit)
  have row: "\<exists>row. audit_events (ap_pg s') = audit_events (ap_pg s) @ [row]
         \<and> ae_action row = ''auth_allowed'' \<and> ae_result row = ''allowed''
         \<and> ae_tenant_id row = Some (ac_tenant_id ctx) \<and> ae_actor_subject row = Some (ac_subject ctx)"
    if "audit_log_enabled st"
    using audit_row_added [OF rec] that assms(1) same by (simp add: audited_def s')
  show ?thesis
    using tok ctx m role row by (auto simp: s')
qed

lemma example_access:
  "verify_api_access ''01'' example_env (Some ''Bearer good'') None example_oidc example_app = (Inr (), example_after)"
  by (simp add: prod_eq_iff example_after_def) code_simp

theorem saas_access_sound_witness:
  "ap_auth_context example_after = Some example_context \<and> length (audit_events (ap_pg example_after)) = 1"
proof -
  have saas: "is_production_saas example_oidc" and log: "audit_log_enabled example_oidc"
    and tok: "parse_authorization_header (Some ''Bearer good'') = Some ''good''"
    and none: "audit_events (ap_pg example_app) = []"
    by code_simp+
  show ?thesis
    using saas_access_sound [OF saas example_access] log tok none example_context_built by auto
qed

text \<open>
  C8. A refused request in \<open>production-saas\<close> leaves no identity behind, whatever the exception;
  and with the audit log on every refusal the client sees as a 401 or a 403 has added exactly one
  \<open>denied\<close> row to the trail (when the row cannot be written the client sees a 503 instead).
\<close>

theorem saas_denials_audited:
  assumes "is_production_saas st" and "raises_no_http env"
    and "verify_api_access uuid env authorization x_api_key st s = (Inl e, s')"
  shows "ap_auth_context s' = ap_auth_context s
    \<and> (audit_log_enabled st \<and> (\<exists>c d h. e = HTTPException c d h \<and> c \<in> {401, 403}) \<longrightarrow>
       (\<exists>row. audit_events (ap_pg s') = audit_events (ap_pg s) @ [row] \<and> ae_result row = ''denied''))"
proof -
  have v: "verify_production_saas_access uuid env authorization st s = (Inl e, s')"
    using assms(1,3) by (auto simp: verify_api_access_def bind_eff_def ret_def split: prod.splits sum.splits)
  show ?thesis
    using saas_access_Inl_context [OF v] saas_denial_row [of uuid env authorization st s _ _ _ s', OF _ assms(2)] v assms(1)
    by (auto simp: audited_def)
qed

theorem saas_denials_audited_witness:
  "(\<exists>row. audit_events (ap_pg (snd (verify_api_access ''01'' example_env None None example_oidc example_app)))
     = audit_events (ap_pg example_app) @ [row] \<and> ae_result row = ''denied'')"
proof -
  let ?s = "snd (verify_api_access ''01'' example_env None None example_oidc example_app)"
  have saas: "is_production_saas example_oidc" and log: "audit_log_enabled example_oidc" by code_simp+
  have ran: "verify_api_access ''01'' example_env None None example_oidc example_app =
      (Inl (unauthorized ''Missing bearer token''), ?s)"
    by (simp add: prod_eq_iff) code_simp
  show ?thesis
    using saas_denials_audited [OF saas example_env_no_http ran] log by (auto simp: unauthorized_def)
qed

lemma denied_counts:
  "counter_total ''boundary_layer_tenant_access_denied_total'' l (record_auth_decision a b log)
     = counter_total ''boundary_layer_tenant_access_denied_total'' l log"
  "counter_total ''boundary_layer_tenant_access_denied_total'' l (record_audit_event_metric a b log)
     = counter_total ''boundary_layer_tenant_access_denied_total'' l log"
  "counter_total ''boundary_layer_tenant_access_denied_total'' [(''reason'', r)] (record_tenant_access_denied_metric r log)
     = counter_total ''boundary_layer_tenant_access_denied_total'' [(''reason'', r)] log + 1"
  by (simp_all add: record_auth_decision_def record_audit_event_metric_def record_tenant_access_denied_metric_def)

lemma audit_denied_count:
  assumes "record_auth_audit_event uuid st action result t sub md s = (Inr i, s')"
  shows "counter_total ''boundary_layer_tenant_access_denied_total'' l (ap_metrics s')
     = counter_total ''boundary_layer_tenant_access_denied_total'' l (ap_metrics s)"
proof (cases "audited st")
  case True
  then obtain j where "i = Some j" using assms record_auth_audit_event_on by (cases i) blast+
  then show ?thesis
    using assms by (auto elim!: record_auth_audit_event_Inr simp: denied_counts audit_decision_def)
next
  case False
  then show ?thesis using assms record_auth_audit_event_off by simp
qed

lemma override_counter:
  assumes "resolve_request_tenant uuid st (Some ctx) (Some r) s = (res, s')" and "is_production_saas st"
    and "\<not> ac_is_anonymous ctx" and "\<not> is_platform_admin ctx" and "strip r \<noteq> []" and "strip r \<noteq> ac_tenant_id ctx"
  obtains ar s1 where "record_auth_audit_event uuid st ''auth_cross_tenant_denied'' ''denied'' (Some (ac_tenant_id ctx))
      (Some (ac_subject ctx)) (Some [(''reason'', PStr ''tenant_override_denied''), (''requested_tenant_id'', PStr (strip r))])
      (s\<lparr>ap_metrics := record_auth_decision ''denied'' ''tenant_override_denied''
          (record_tenant_access_denied_metric ''tenant_override_denied'' (ap_metrics s))\<rparr>) = (ar, s1)"
    "s' = s1" "res = (case ar of Inl e \<Rightarrow> Inl e | Inr _ \<Rightarrow> Inl (HTTPException 403 (PStr ''Cross-tenant access denied'') []))"
  using assms
  by (auto simp: resolve_request_tenant_def require_auth_context_def record_tenant_access_denied_def
      bind_eff_def lift_res_def metric_def raise_exn_def ret_def Let_def opt_str_def
      split: prod.splits sum.splits)

lemma resolve_request_tenant_Inr:
  assumes "resolve_request_tenant uuid st auth requested s = (Inr t, s')"
  shows "s' = s" and "is_production_saas st \<Longrightarrow> \<exists>ctx. auth = Some ctx \<and> \<not> ac_is_anonymous ctx
    \<and> (t = ac_tenant_id ctx \<or> is_platform_admin ctx \<and> (\<exists>r. requested = Some r \<and> t = strip r))"
  using assms
  by (auto simp: resolve_request_tenant_def require_auth_context_def bind_eff_Inr_iff lift_res_def ret_def
      raise_exn_def Let_def split: option.splits if_splits)

text \<open>
  C7. In \<open>production-saas\<close> a request is served only for an authenticated identity, and for a
  tenant other than the identity's own only when it is a platform administrator. Resolving the
  tenant changes nothing.
\<close>

theorem resolve_request_tenant_isolated:
  assumes "is_production_saas st"
    and "resolve_request_tenant uuid st auth requested s = (Inr t, s')"
  shows "s' = s \<and> (\<exists>ctx. auth = Some ctx \<and> \<not> ac_is_anonymous ctx
    \<and> (t = ac_tenant_id ctx \<or> is_platform_admin ctx \<and> (\<exists>r. requested = Some r \<and> t = strip r)))"
  using resolve_request_tenant_Inr [OF assms(2)] assms(1) by blast

theorem resolve_request_tenant_isolated_witness:
  "\<exists>ctx. Some example_context = Some ctx \<and> \<not> ac_is_anonymous ctx
    \<and> (''acme'' = ac_tenant_id ctx \<or> is_platform_admin ctx \<and> (\<exists>r. Some '' acme'' = Some r \<and> ''acme'' = strip r))"
proof -
  have saas: "is_production_saas example_oidc" by code_simp
  have ran: "resolve_request_tenant ''02'' example_oidc (Some example_context) (Some '' acme'') example_app
      = (Inr ''acme'', example_app)"
    by (simp add: prod_eq_iff) code_simp
  show ?thesis
    using resolve_request_tenant_isolated [OF saas ran] by simp
qed

text \<open>
  Asking for another tenant is refused and leaves its trace: the request never succeeds, the
  counter of denied tenant overrides grows by exactly one, and with the audit log on either one
  \<open>denied\<close> row names the caller's own tenant and subject and the answer is 403, or the trail is
  as before and the answer is 503.
\<close>

theorem tenant_override_refused:
  assumes "is_production_saas st" and "\<not> ac_is_anonymous ctx" and "\<not> is_platform_admin ctx"
    and "strip r \<noteq> []" and "strip r \<noteq> ac_tenant_id ctx"
    and "resolve_request_tenant uuid st (Some ctx) (Some r) s = (res, s')"
  shows "counter_total ''boundary_layer_tenant_access_denied_total'' [(''reason'', ''tenant_override_denied'')] (ap_metrics s')
      = counter_total ''boundary_layer_tenant_access_denied_total'' [(''reason'', ''tenant_override_denied'')] (ap_metrics s) + 1
    \<and> (if audit_log_enabled st then
          (\<exists>row. res = Inl (HTTPException 403 (PStr ''Cross-tenant access denied'') [])
             \<and> audit_events (ap_pg s') = audit_events (ap_pg s) @ [row] \<and> ae_result row = ''denied''
             \<and> ae_tenant_id row = Some (ac_tenant_id ctx) \<and> ae_actor_subject row = Some (ac_subject ctx))
          \<or> res = Inl (HTTPException 503 (PStr ''Audit logging unavailable'') [])
             \<and> pg_tables (ap_pg s') = pg_tables (ap_pg s)
        else res = Inl (HTTPException 403 (PStr ''Cross-tenant access denied'') []) \<and> ap_pg s' = ap_pg s)"
proof -
  let ?s = "s\<lparr>ap_metrics := record_auth_decision ''denied'' ''tenant_override_denied''
      (record_tenant_access_denied_metric ''tenant_override_denied'' (ap_metrics s))\<rparr>"
  obtain ar s1 where rec: "record_auth_audit_event uuid st ''auth_cross_tenant_denied'' ''denied'' (Some (ac_tenant_id ctx))
      (Some (ac_subject ctx)) (Some [(''reason'', PStr ''tenant_override_denied''), (''requested_tenant_id'', PStr (strip r))])
      ?s = (ar, s1)" and s': "s' = s1"
    and res: "res = (case ar of Inl e \<Rightarrow> Inl e | Inr _ \<Rightarrow> Inl (HTTPException 403 (PStr ''Cross-tenant access denied'') []))"
    using override_counter [OF assms(6,1,2,3,4,5)] .
  show ?thesis
  proof (cases ar)
    case (Inl e)
    have "audited st"
      using record_auth_audit_event_off [of st] rec Inl by (cases "audited st") auto
    then show ?thesis
      using record_auth_audit_event_Inl [OF rec [unfolded Inl]] res s' Inl
      by (auto simp: denied_counts audited_def)
  next
    case (Inr i)
    then show ?thesis
      using audit_row_added [OF rec [unfolded Inr]] audit_denied_count [OF rec [unfolded Inr]] res s'
        record_auth_audit_event_off [of st] rec assms(1)
      by (auto simp: denied_counts audited_def)
  qed
qed

theorem tenant_override_refused_witness:
  "counter_total ''boundary_layer_tenant_access_denied_total'' [(''reason'', ''tenant_override_denied'')]
     (ap_metrics (snd (resolve_request_tenant ''02'' example_oidc (Some example_context) (Some ''globex'') example_app))) = 1"
proof -
  have st: "is_production_saas example_oidc" "\<not> ac_is_anonymous example_context" "\<not> is_platform_admin example_context"
    "strip ''globex'' \<noteq> []" "strip ''globex'' \<noteq> ac_tenant_id example_context"
    and zero: "counter_total ''boundary_layer_tenant_access_denied_total'' [(''reason'', ''tenant_override_denied'')]
      (ap_metrics example_app) = 0"
    by code_simp+
  show ?thesis
    using tenant_override_refused [OF st prod.collapse [symmetric]] zero by simp
qed

text \<open>
  Vulnerable lab modes cannot be reached in production: with any settings object the program
  can build for a production profile or environment, asking for one is answered 403, and every other
  mode is let through.
\<close>

theorem vulnerable_mode_blocked_in_production:
  assumes "build_settings br raw = Inr st" and "is_production st"
  shows "enforce_vulnerable_allowed mode st =
    (if mode = ''vulnerable''
     then Inl (HTTPException 403 (PStr ''Vulnerable lab mode is disabled in this environment'') [])
     else Inr ())"
  using built_production_locked(1) [OF assms] by (simp add: enforce_vulnerable_allowed_def)

theorem vulnerable_mode_blocked_in_production_witness:
  "enforce_vulnerable_allowed ''vulnerable'' example_saas_built =
     Inl (HTTPException 403 (PStr ''Vulnerable lab mode is disabled in this environment'') [])"
  using vulnerable_mode_blocked_in_production [OF example_saas_builds saas_is_production [OF example_saas_built_saas]]
  by simp

text \<open>
  With an API key in force, outside \<open>production-saas\<close>, a request passes exactly when its
  credential (the bearer token, else the API key header, trimmed) is the configured key in ASCII and
  not empty; it is then served as the fixed API-key client, and otherwise nothing is attached to it.
\<close>

theorem api_key_access_iff:
  assumes "\<not> is_production_saas st" and "auth_enabled st"
    and "verify_api_access uuid env authorization x_api_key st s = (res, s')"
  shows "(res = Inr () \<longleftrightarrow> extract_api_key authorization x_api_key = Some (strip (api_key st))
      \<and> strip (api_key st) \<noteq> [] \<and> (\<forall>c \<in> set (strip (api_key st)). (of_char c :: nat) < 128))
    \<and> (if res = Inr () then s' = s\<lparr>ap_auth_context := Some api_key_context\<rparr> else s' = s)"
  using assms
  by (auto simp: verify_api_access_def bind_eff_def lift_res_def attach_auth_context_def check_credential_def
      compare_digest_def list_all_iff split: option.splits if_splits)

theorem api_key_access_iff_witness:
  "snd (verify_api_access ''01'' example_env None (Some '' key-123 '')
      (default_settings\<lparr>auth_enabled := True, api_key := ''key-123''\<rparr>) example_app)
     = example_app\<lparr>ap_auth_context := Some api_key_context\<rparr>"
proof -
  let ?st = "default_settings\<lparr>auth_enabled := True, api_key := ''key-123''\<rparr>"
  have st: "\<not> is_production_saas ?st" "auth_enabled ?st" by code_simp+
  have ok: "fst (verify_api_access ''01'' example_env None (Some '' key-123 '') ?st example_app) = Inr ()"
    by code_simp
  note c = api_key_access_iff [OF st, of "''01''" example_env None "Some '' key-123 ''" example_app,
      OF prod.collapse [symmetric], THEN conjunct2]
  show ?thesis
    using c by (simp only: ok if_True simp_thms)
qed

end
