(* ===== verification/Rate_Limit.thy ===== *)
theory Rate_Limit
  imports Py_Prelude "HOL-Library.While_Combinator"
begin

text \<open>
  \<open>apps/api/rate_limit.py\<close>: the in-memory and the Redis sliding-window limiters. A clock reading
  is an integer number of microseconds, \<open>TICKS\<close> to the second. The Redis server is a record of
  sorted sets with their expiry, sharing the caller's clock, and it fails as \<open>PostgreSQL\<close> does in
  \<open>Db\<close>: \<open>rd_faults\<close> tells for each pipeline in turn whether \<open>execute\<close> raises.
\<close>

section \<open>The limiters\<close>

definition TICKS :: int where
  "TICKS = 1000000"

type_synonym memory_limiter = "(string \<times> int list) list"

definition memory_expired :: "int \<Rightarrow> int \<Rightarrow> int \<Rightarrow> bool" where
  "memory_expired window now e = (now - e > window * TICKS)"

text \<open>The loop that drops expired events from the front, as a loop: \<open>None\<close> would be a loop that never ends.\<close>

definition pop_expired :: "int \<Rightarrow> int \<Rightarrow> int list \<Rightarrow> int list option" where
  "pop_expired window now = while_option (\<lambda>bucket. bucket \<noteq> [] \<and> memory_expired window now (hd bucket)) tl"

definition memory_allow :: "string \<Rightarrow> int \<Rightarrow> int \<Rightarrow> int \<Rightarrow> memory_limiter \<Rightarrow> (bool \<times> int) \<times> memory_limiter" where
  "memory_allow key limit window now evs =
     (let bucket = dropWhile (memory_expired window now) (dict_get_or evs key []) in
      if int (length bucket) \<ge> limit then ((False, 0), dict_set key bucket evs)
      else let bucket = bucket @ [now] in
        ((True, max (limit - int (length bucket)) 0), dict_set key bucket evs))"

record zset =
  zs_expires :: "int option"
  zs_members :: "(string \<times> int) list"

record redis =
  rd_faults :: "exn option list"
  rd_zsets :: "(string \<times> zset) list"

text \<open>A key whose time has come is gone.\<close>

definition zset_at :: "int \<Rightarrow> redis \<Rightarrow> string \<Rightarrow> zset" where
  "zset_at now s k = (case map_of (rd_zsets s) k of
     None \<Rightarrow> \<lparr>zs_expires = None, zs_members = []\<rparr>
   | Some z \<Rightarrow> (case zs_expires z of
       Some t \<Rightarrow> if t \<le> now then \<lparr>zs_expires = None, zs_members = []\<rparr> else z
     | None \<Rightarrow> z))"

definition pipeline :: "(redis \<Rightarrow> 'a \<times> redis) \<Rightarrow> (redis, 'a) eff" where
  "pipeline cmds s =
     (let s' = s\<lparr>rd_faults := drop 1 (rd_faults s)\<rparr> in
      case rd_faults s of Some e # _ \<Rightarrow> (Inl e, s') | _ \<Rightarrow> (case cmds s' of (x, t) \<Rightarrow> (Inr x, t)))"

definition RATE_LIMIT_PREFIX :: string where
  "RATE_LIMIT_PREFIX = ''boundary_layer:rate_limit:''"

text \<open>\<open>zremrangebyscore(key, 0, window_start)\<close> and \<open>zcard(key)\<close>.\<close>

definition redis_expired :: "int \<Rightarrow> int \<Rightarrow> int \<Rightarrow> bool" where
  "redis_expired window now e = (0 \<le> e \<and> e \<le> now - window * TICKS)"

definition redis_check :: "string \<Rightarrow> int \<Rightarrow> int \<Rightarrow> (redis, int) eff" where
  "redis_check redis_key window now = pipeline (\<lambda>s.
     let z = zset_at now s redis_key;
         left = filter (\<lambda>(m, e). \<not> redis_expired window now e) (zs_members z) in
     (int (length left), s\<lparr>rd_zsets := dict_set redis_key (z\<lparr>zs_members := left\<rparr>) (rd_zsets s)\<rparr>))"

text \<open>\<open>zadd\<close>, \<open>expire\<close> and \<open>zcard\<close>; \<open>member\<close> is the text of the time and a random id.\<close>

definition redis_add :: "string \<Rightarrow> string \<Rightarrow> int \<Rightarrow> int \<Rightarrow> (redis, int) eff" where
  "redis_add redis_key member window now = pipeline (\<lambda>s.
     let z = zset_at now s redis_key;
         members = dict_set member now (zs_members z) in
     (int (length members), s\<lparr>rd_zsets := dict_set redis_key
         \<lparr>zs_expires = Some (now + (window + 1) * TICKS), zs_members = members\<rparr> (rd_zsets s)\<rparr>))"

definition redis_allow_body ::
    "string \<Rightarrow> string \<Rightarrow> int \<Rightarrow> int \<Rightarrow> int \<Rightarrow> (redis, bool \<times> int) eff" where
  "redis_allow_body member key limit window now =
     (let redis_key = RATE_LIMIT_PREFIX @ key in
      bind_eff (redis_check redis_key window now) (\<lambda>count.
        if count \<ge> limit then ret (False, 0)
        else bind_eff (redis_add redis_key member window now) (\<lambda>count.
          ret (True, max (limit - count) 0))))"

definition redis_allow ::
    "bool \<Rightarrow> string \<Rightarrow> string \<Rightarrow> int \<Rightarrow> int \<Rightarrow> int \<Rightarrow> (redis, bool \<times> int) eff" where
  "redis_allow fail_open member key limit window now =
     catch_eff (redis_allow_body member key limit window now) (\<lambda>e.
       if fail_open then ret (True, limit) else raise_exn (RateLimitUnavailable (exn_text e)))"

datatype limiter_kind = InMemoryRateLimiter | RedisRateLimiter bool

text \<open>\<open>client\<close> is what \<open>get_redis_client\<close> does: it raises when a setting is not a number.\<close>

definition build_rate_limiter :: "unit result \<Rightarrow> string \<Rightarrow> bool \<Rightarrow> limiter_kind result" where
  "build_rate_limiter client backend fail_open =
     (if backend \<noteq> ''redis'' then Inr InMemoryRateLimiter
      else case client of
        Inr _ \<Rightarrow> Inr (RedisRateLimiter fail_open)
      | Inl e \<Rightarrow> if \<not> fail_open then Inl (RateLimitUnavailable (exn_text e)) else Inr InMemoryRateLimiter)"

section \<open>The sliding window\<close>

text \<open>
  What a limiter means: an event log that only grows, and an accepted request whenever fewer than
  \<open>limit\<close> of the logged events are still in the window.
\<close>

locale sliding_window =
  fixes expired :: "int \<Rightarrow> int \<Rightarrow> int \<Rightarrow> bool"
  assumes expired_later: "0 \<le> now \<Longrightarrow> expired w now e \<Longrightarrow> now \<le> now' \<Longrightarrow> expired w now' e"
    and expired_older: "0 \<le> e' \<Longrightarrow> expired w now e \<Longrightarrow> e' \<le> e \<Longrightarrow> expired w now e'"
begin

definition live :: "int \<Rightarrow> int \<Rightarrow> int list \<Rightarrow> int list" where
  "live w now log = filter (\<lambda>e. \<not> expired w now e) log"

definition spec_allow :: "int \<Rightarrow> int \<Rightarrow> int \<Rightarrow> int list \<Rightarrow> (bool \<times> int) \<times> int list" where
  "spec_allow limit w now log =
     (let n = int (length (live w now log)) in
      if n \<ge> limit then ((False, 0), log) else ((True, max (limit - (n + 1)) 0), log @ [now]))"

text \<open>Of any \<open>limit + 1\<close> consecutive accepted events the first has left the window of the last.\<close>

definition spread :: "int \<Rightarrow> int \<Rightarrow> int list \<Rightarrow> bool" where
  "spread limit w log = (\<forall>i j. j < length log \<and> int i + limit \<le> int j \<longrightarrow> expired w (log ! j) (log ! i))"

definition timed :: "int \<Rightarrow> int list \<Rightarrow> bool" where
  "timed now log = (sorted log \<and> (\<forall>e \<in> set log. 0 \<le> e \<and> e \<le> now))"

lemma timed_later: "timed now log \<Longrightarrow> now \<le> now' \<Longrightarrow> timed now' log"
  by (auto simp: timed_def)

lemma timed_snoc: "timed now log \<Longrightarrow> 0 \<le> now \<Longrightarrow> timed now (log @ [now])"
  by (auto simp: timed_def sorted_append)

lemma dropWhile_live: "sorted log \<Longrightarrow> \<forall>e \<in> set log. 0 \<le> e \<Longrightarrow> dropWhile (expired w now) log = live w now log"
proof (induction log)
  case (Cons a log)
  show ?case
  proof (cases "expired w now a")
    case False
    then have "\<not> expired w now e" if "e \<in> set log" for e
      using Cons.prems that expired_older [of a w now e] by auto
    with False show ?thesis by (simp add: live_def filter_id_conv)
  qed (use Cons in \<open>simp add: live_def\<close>)
qed (simp add: live_def)

text \<open>The events still in the window are the newest ones.\<close>

lemma expired_nth:
  assumes "timed now log" and "i + length (live w now log) < length log"
  shows "expired w now (log ! i)"
proof (rule ccontr)
  assume "\<not> expired w now (log ! i)"
  then have "\<not> expired w now (log ! j)" if "i \<le> j" "j < length log" for j
    using that assms(1) expired_older [of "log ! i" w now "log ! j"]
    by (auto simp: timed_def sorted_iff_nth_mono)
  then have "\<forall>e \<in> set (drop i log). \<not> expired w now e"
    by (auto simp: in_set_conv_nth)
  then have "filter (\<lambda>e. \<not> expired w now e) (drop i log) = drop i log"
    by (simp add: filter_id_conv)
  then have "length (drop i log) \<le> length (live w now log)"
    unfolding live_def by (metis append_take_drop_id filter_append le_add2 length_append)
  with assms(2) show False by simp
qed

lemma spread_snoc:
  assumes "spread limit w log" and "timed now log" and "int (length (live w now log)) < limit"
  shows "spread limit w (log @ [now])"
  unfolding spread_def
proof (intro allI impI)
  fix i j
  assume ij: "j < length (log @ [now]) \<and> int i + limit \<le> int j"
  show "expired w ((log @ [now]) ! j) ((log @ [now]) ! i)"
  proof (cases "j = length log")
    case True
    then have "i + length (live w now log) < length log" using ij assms(3) by linarith
    with True show ?thesis using expired_nth [OF assms(2)] by (simp add: nth_append)
  next
    case False
    have "0 < limit" using assms(3) by linarith
    with False ij have "j < length log" "i < length log" by auto
    then show ?thesis using ij assms(1) by (auto simp: spread_def nth_append)
  qed
qed

lemma spec_allow_keeps:
  assumes "spread limit w log" and "timed now log" and "0 \<le> now" and "spec_allow limit w now log = (r, log')"
  shows "spread limit w log'" and "timed now log'"
  using assms spread_snoc [OF assms(1,2)] timed_snoc [OF assms(2,3)]
  by (auto simp: spec_allow_def Let_def split: if_splits)

end

interpretation memory_window: sliding_window memory_expired
  by unfold_locales (auto simp: memory_expired_def)

interpretation redis_window: sliding_window redis_expired
  by unfold_locales (auto simp: redis_expired_def)

section \<open>A limiter over time\<close>

text \<open>The answers to a sequence of calls, each with its client and time.\<close>

type_synonym answer = "string \<times> int \<times> bool \<times> int"

fun run_limiter ::
    "('x \<Rightarrow> string \<Rightarrow> int \<Rightarrow> 's \<Rightarrow> (bool \<times> int) \<times> 's) \<Rightarrow> ('x \<times> string \<times> int) list \<Rightarrow> 's \<Rightarrow> answer list" where
  "run_limiter allow [] s = []"
| "run_limiter allow ((x, k, t) # cs) s =
     (case allow x k t s of ((ok, rem), s') \<Rightarrow> (k, t, ok, rem) # run_limiter allow cs s')"

definition admitted :: "string \<Rightarrow> answer list \<Rightarrow> int list" where
  "admitted key trace = [t. (k, t, ok, rem) \<leftarrow> trace, k = key \<and> ok]"

text \<open>The calls come in the order of their times, none before \<open>now\<close>.\<close>

fun in_order :: "int \<Rightarrow> ('x \<times> string \<times> int) list \<Rightarrow> bool" where
  "in_order now [] = True"
| "in_order now ((x, k, t) # cs) = (now \<le> t \<and> in_order t cs)"

lemma admitted_simps [simp]:
  "admitted key [] = []"
  "admitted key ((k, t, ok, rem) # tr) = (if k = key \<and> ok then [t] else []) @ admitted key tr"
  by (simp_all add: admitted_def)

text \<open>
  A limiter: its answer and its next state are those of the window on the events it keeps for the
  client, and the other clients are not touched. \<open>ok\<close> is its invariant for a window and
  \<open>fresh\<close> what it needs of the random id of a call.
\<close>

locale limiter = sliding_window expired for expired :: "int \<Rightarrow> int \<Rightarrow> int \<Rightarrow> bool" +
  fixes allow :: "'x \<Rightarrow> string \<Rightarrow> int \<Rightarrow> int \<Rightarrow> int \<Rightarrow> 's \<Rightarrow> (bool \<times> int) \<times> 's"
    and events :: "'s \<Rightarrow> string \<Rightarrow> int list"
    and ok :: "int \<Rightarrow> 's \<Rightarrow> bool"
    and fresh :: "'x \<Rightarrow> string \<Rightarrow> 's \<Rightarrow> bool"
  assumes allow_answer: "ok w s \<Longrightarrow> fresh x key s \<Longrightarrow> timed now (events s key) \<Longrightarrow> 0 \<le> now \<Longrightarrow> 0 \<le> w \<Longrightarrow>
      fst (allow x key limit w now s) = fst (spec_allow limit w now (events s key))"
    and allow_own: "ok w s \<Longrightarrow> fresh x key s \<Longrightarrow> timed now (events s key) \<Longrightarrow> 0 \<le> now \<Longrightarrow> 0 \<le> w \<Longrightarrow>
      events (snd (allow x key limit w now s)) key = live w now (events s key) @
        (if fst (fst (allow x key limit w now s)) then [now] else [])"
    and allow_other: "ok w s \<Longrightarrow> k \<noteq> key \<Longrightarrow> events (snd (allow x key limit w now s)) k = events s k"
    and allow_ok: "ok w s \<Longrightarrow> fresh x key s \<Longrightarrow> timed now (events s key) \<Longrightarrow> 0 \<le> now \<Longrightarrow> 0 \<le> w \<Longrightarrow>
      ok w (snd (allow x key limit w now s))"
begin

fun all_fresh :: "int \<Rightarrow> int \<Rightarrow> ('x \<times> string \<times> int) list \<Rightarrow> 's \<Rightarrow> bool" where
  "all_fresh limit w [] s = True"
| "all_fresh limit w ((x, k, t) # cs) s = (fresh x k s \<and> all_fresh limit w cs (snd (allow x k limit w t s)))"

text \<open>The state keeps, for every client, what is still in the window of its whole log.\<close>

definition tracks :: "int \<Rightarrow> int \<Rightarrow> (string \<Rightarrow> int list) \<Rightarrow> 's \<Rightarrow> bool" where
  "tracks w now logs s = (ok w s \<and> (\<forall>k. timed now (events s k) \<and>
     (\<forall>t \<ge> now. live w t (events s k) = live w t (logs k))))"

lemma live_live: "0 \<le> now \<Longrightarrow> now \<le> t \<Longrightarrow> live w t (live w now log) = live w t log"
  using expired_later by (auto simp: live_def intro!: filter_cong)

lemma tracks_answer:
  assumes "tracks w now logs s" and "fresh x key s" and "now \<le> t" and "0 \<le> now" and "0 \<le> w"
  shows "fst (allow x key limit w t s) = fst (spec_allow limit w t (logs key))"
proof -
  have "timed t (events s key)" "live w t (events s key) = live w t (logs key)" "ok w s"
    using assms timed_later by (auto simp: tracks_def)
  then show ?thesis
    using allow_answer [of w s x key t limit] assms by (auto simp: spec_allow_def Let_def)
qed

lemma tracks_step:
  assumes "tracks w now logs s" and "fresh x key s" and "now \<le> t" and "0 \<le> now" and "0 \<le> w"
  shows "tracks w t (logs(key := snd (spec_allow limit w t (logs key)))) (snd (allow x key limit w t s))"
proof -
  let ?s = "snd (allow x key limit w t s)"
  have facts: "ok w s" "\<And>k. timed t (events s k)" "0 \<le> t"
    "\<And>k u. t \<le> u \<Longrightarrow> live w u (events s k) = live w u (logs k)"
    using assms timed_later [of now _ t] by (auto simp: tracks_def)
  note own = allow_own [OF facts(1) assms(2) facts(2,3) assms(5), of limit]
  have live_timed: "timed t (live w t (events s key))"
    using facts(2) [of key] by (auto simp: timed_def live_def sorted_wrt_filter)
  have timed: "timed t (events ?s k)" for k
    using own live_timed timed_snoc [OF live_timed facts(3)] facts(2) allow_other [OF facts(1)]
    by (cases "k = key") (auto split: if_splits)
  have new: "live w u (events ?s key) = live w u (snd (spec_allow limit w t (logs key)))" if "t \<le> u" for u
    using own facts(4) [OF that, of key] live_live [OF facts(3) that] tracks_answer [OF assms, of limit]
    by (auto simp: spec_allow_def Let_def live_def split: if_splits)
  show ?thesis
    using timed new allow_other [OF facts(1)] facts(4) allow_ok [OF facts(1) assms(2) facts(2,3) assms(5)]
    by (auto simp: tracks_def)
qed

text \<open>The answers to a run are those of the window, call by call.\<close>

lemma run_exact:
  assumes "tracks w now logs s" and "in_order now cs" and "all_fresh limit w cs s" and "0 \<le> now" and "0 \<le> w"
    and "n < length cs" and "run_limiter (\<lambda>x k t. allow x k limit w t) cs s ! n = (k, t, a, rem)"
  shows "(a, rem) = fst (spec_allow limit w t (logs k @ admitted k (take n (run_limiter (\<lambda>x k t. allow x k limit w t) cs s))))"
  using assms
proof (induction cs arbitrary: now logs s n)
  case (Cons c cs)
  obtain x key u where c: "c = (x, key, u)" by (cases c)
  let ?s = "snd (allow x key limit w u s)"
  let ?logs = "logs(key := snd (spec_allow limit w u (logs key)))"
  have pre: "fresh x key s" "now \<le> u" "in_order u cs" "all_fresh limit w cs ?s"
    using Cons.prems by (simp_all add: c)
  note first = tracks_answer [OF Cons.prems(1) pre(1,2) Cons.prems(4,5), of limit]
  note step = tracks_step [OF Cons.prems(1) pre(1,2) Cons.prems(4,5), of limit]
  obtain a0 r0 where ar: "fst (allow x key limit w u s) = (a0, r0)" by fastforce
  then have run: "run_limiter (\<lambda>x k t. allow x k limit w t) (c # cs) s =
      (key, u, a0, r0) # run_limiter (\<lambda>x k t. allow x k limit w t) cs ?s"
    by (simp add: c split: prod.splits) (metis fst_conv snd_conv)
  show ?case
  proof (cases n)
    case 0
    then show ?thesis using Cons.prems(7) first ar by (simp add: run)
  next
    case (Suc m)
    have grown: "?logs k @ tr = logs k @ (if key = k \<and> a0 then [u] else []) @ tr" for tr
      using first ar by (auto simp: spec_allow_def Let_def split: if_splits)
    have "(a, rem) = fst (spec_allow limit w t (?logs k @ admitted k (take m (run_limiter (\<lambda>x k t. allow x k limit w t) cs ?s))))"
      using Cons.IH [OF step pre(3,4) _ Cons.prems(5)] Cons.prems pre Suc by (simp add: run)
    then show ?thesis
      unfolding run Suc take_Suc_Cons admitted_simps grown .
  qed
qed simp

lemma run_spread:
  assumes "tracks w now logs s" and "in_order now cs" and "all_fresh limit w cs s" and "0 \<le> now" and "0 \<le> w"
    and "spread limit w (logs key)" and "timed now (logs key)"
  shows "spread limit w (logs key @ admitted key (run_limiter (\<lambda>x k t. allow x k limit w t) cs s))"
  using assms
proof (induction cs arbitrary: now logs s)
  case (Cons c cs)
  obtain x k u where c: "c = (x, k, u)" by (cases c)
  let ?s = "snd (allow x k limit w u s)"
  let ?logs = "logs(k := snd (spec_allow limit w u (logs k)))"
  have pre: "fresh x k s" "now \<le> u" "in_order u cs" "all_fresh limit w cs ?s" "0 \<le> u"
    using Cons.prems by (simp_all add: c)
  note first = tracks_answer [OF Cons.prems(1) pre(1,2) Cons.prems(4,5), of limit]
  note step = tracks_step [OF Cons.prems(1) pre(1,2) Cons.prems(4,5), of limit]
  have timed: "timed u (logs key)" using timed_later [OF Cons.prems(7) pre(2)] .
  have keep: "spread limit w (?logs key) \<and> timed u (?logs key)"
    using Cons.prems(6) timed spec_allow_keeps [OF Cons.prems(6) timed pre(5)]
    by (cases "k = key") (auto, (metis prod.collapse)+)
  obtain a0 r0 where ar: "fst (allow x k limit w u s) = (a0, r0)" by fastforce
  then have run: "run_limiter (\<lambda>x k t. allow x k limit w t) (c # cs) s =
      (k, u, a0, r0) # run_limiter (\<lambda>x k t. allow x k limit w t) cs ?s"
    by (simp add: c split: prod.splits) (metis fst_conv snd_conv)
  have grown: "?logs key @ tr = logs key @ (if k = key \<and> a0 then [u] else []) @ tr" for tr
    using first ar by (auto simp: spec_allow_def Let_def split: if_splits)
  show ?case
    using Cons.IH [OF step pre(3,4,5) Cons.prems(5)] keep
    unfolding run admitted_simps grown by blast
qed simp

lemma tracks_empty: "ok w s \<Longrightarrow> (\<And>k. events s k = []) \<Longrightarrow> tracks w now (\<lambda>_. []) s"
  by (simp add: tracks_def timed_def)

lemma run_window:
  assumes "ok w s" and "\<And>k. events s k = []" and "in_order 0 cs" and "all_fresh limit w cs s" and "0 \<le> w"
  shows "spread limit w (admitted key (run_limiter (\<lambda>x k t. allow x k limit w t) cs s))"
  using run_spread [OF tracks_empty [OF assms(1,2)] assms(3,4) _ assms(5), of key]
  by (simp add: spread_def timed_def)

end

definition memory_events :: "memory_limiter \<Rightarrow> string \<Rightarrow> int list" where
  "memory_events evs k = dict_get_or evs k []"

lemma memory_allow_bucket:
  assumes "memory_window.timed now (memory_events s key)"
  shows "dropWhile (memory_expired w now) (dict_get_or s key []) = memory_window.live w now (memory_events s key)"
  using memory_window.dropWhile_live assms by (auto simp: memory_window.timed_def memory_events_def)

interpretation memory: limiter memory_expired "\<lambda>_ :: unit. memory_allow" memory_events "\<lambda>_ _. True" "\<lambda>_ _ _. True"
proof
  fix w s x key now limit
  assume timed: "memory_window.timed now (memory_events s key)"
  show "fst (memory_allow key limit w now s) = fst (memory_window.spec_allow limit w now (memory_events s key))"
    using memory_allow_bucket [OF timed]
    by (simp add: memory_allow_def memory_window.spec_allow_def Let_def algebra_simps)
  show "memory_events (snd (memory_allow key limit w now s)) key =
      memory_window.live w now (memory_events s key) @ (if fst (fst (memory_allow key limit w now s)) then [now] else [])"
    using memory_allow_bucket [OF timed]
    by (simp add: memory_allow_def memory_events_def dict_get_or_def Let_def)
qed (auto simp: memory_allow_def memory_events_def dict_get_or_def Let_def)

section \<open>The Redis limiter keeps the contract\<close>

definition redis_up :: "redis \<Rightarrow> bool" where
  "redis_up s = list_all (\<lambda>f. f = None) (rd_faults s)"

definition redis_members :: "redis \<Rightarrow> string \<Rightarrow> (string \<times> int) list" where
  "redis_members s key = (case map_of (rd_zsets s) (RATE_LIMIT_PREFIX @ key) of None \<Rightarrow> [] | Some z \<Rightarrow> zs_members z)"

definition redis_events :: "redis \<Rightarrow> string \<Rightarrow> int list" where
  "redis_events s key = map snd (redis_members s key)"

text \<open>An expiry set by the limiter comes only after the last event has left the window.\<close>

definition expiry_late :: "int \<Rightarrow> zset \<Rightarrow> bool" where
  "expiry_late w z = (case zs_expires z of
     None \<Rightarrow> zs_members z = []
   | Some t \<Rightarrow> list_all (\<lambda>(m, e). e + (w + 1) * TICKS \<le> t) (zs_members z))"

definition redis_ok :: "int \<Rightarrow> redis \<Rightarrow> bool" where
  "redis_ok w s = (redis_up s \<and> list_all (\<lambda>(k, z). expiry_late w z) (rd_zsets s))"

definition redis_fresh :: "string \<Rightarrow> string \<Rightarrow> redis \<Rightarrow> bool" where
  "redis_fresh member key s = (member \<notin> fst ` set (redis_members s key))"

definition redis_allow_up :: "string \<Rightarrow> string \<Rightarrow> int \<Rightarrow> int \<Rightarrow> int \<Rightarrow> redis \<Rightarrow> (bool \<times> int) \<times> redis" where
  "redis_allow_up member key limit window now s =
     (case redis_allow False member key limit window now s of
        (Inr r, s') \<Rightarrow> (r, s') | (Inl _, s') \<Rightarrow> ((False, 0), s'))"

lemma pipeline_up:
  "redis_up s \<Longrightarrow> pipeline cmds s = (let s' = s\<lparr>rd_faults := drop 1 (rd_faults s)\<rparr> in
     (Inr (fst (cmds s')), snd (cmds s')))"
  by (auto simp: pipeline_def redis_up_def Let_def split: list.splits option.splits prod.splits)

lemma redis_up_drop: "redis_up s \<Longrightarrow> redis_up (s\<lparr>rd_faults := drop 1 (rd_faults s)\<rparr>)"
  by (auto simp: redis_up_def list_all_iff dest: in_set_dropD)

text \<open>The members of a client that are in the window.\<close>

definition redis_left :: "int \<Rightarrow> int \<Rightarrow> redis \<Rightarrow> string \<Rightarrow> (string \<times> int) list" where
  "redis_left w now s key = filter (\<lambda>(m, e). \<not> redis_expired w now e) (redis_members s key)"

lemma redis_left_live: "map snd (redis_left w now s key) = redis_window.live w now (redis_events s key)"
  by (simp add: redis_left_def redis_window.live_def redis_events_def filter_map comp_def)
    (rule arg_cong [where f = "map snd"], rule filter_cong, auto)

lemma redis_ok_late: "redis_ok w s \<Longrightarrow> map_of (rd_zsets s) k = Some z \<Longrightarrow> expiry_late w z"
  by (auto simp: redis_ok_def list_all_iff dest: map_of_SomeD)

lemma zset_at_left:
  assumes "redis_ok w s" and "redis_window.timed now (redis_events s key)"
  shows "filter (\<lambda>(m, e). \<not> redis_expired w now e) (zs_members (zset_at now s (RATE_LIMIT_PREFIX @ key)))
    = redis_left w now s key"
proof (cases "map_of (rd_zsets s) (RATE_LIMIT_PREFIX @ key)")
  case None
  then show ?thesis by (simp add: zset_at_def redis_left_def redis_members_def)
next
  case (Some z)
  have late: "expiry_late w z" by (rule redis_ok_late [OF assms(1) Some])
  show ?thesis
  proof (cases "\<exists>t. zs_expires z = Some t \<and> t \<le> now")
    case True
    then obtain t where t: "zs_expires z = Some t" "t \<le> now" by blast
    have "redis_expired w now e" if "(m, e) \<in> set (zs_members z)" for m e
      using that late t assms(2) Some
      by (force simp: expiry_late_def list_all_iff redis_expired_def redis_window.timed_def redis_events_def
          redis_members_def TICKS_def algebra_simps)
    then have "filter (\<lambda>(m, e). \<not> redis_expired w now e) (zs_members z) = []"
      by (auto simp: filter_empty_conv)
    then show ?thesis using Some t by (simp add: zset_at_def redis_left_def redis_members_def)
  next
    case False
    then show ?thesis
      using Some by (auto simp: zset_at_def redis_left_def redis_members_def split: option.splits)
  qed
qed

lemma zset_at_late: "redis_ok w s \<Longrightarrow> expiry_late w (zset_at now s k)"
  using redis_ok_late [of w s k] by (auto simp: zset_at_def expiry_late_def split: option.splits)

lemma late_filter: "expiry_late w z \<Longrightarrow> expiry_late w (z\<lparr>zs_members := filter P (zs_members z)\<rparr>)"
  by (auto simp: expiry_late_def list_all_iff split: option.splits)

definition redis_checked :: "int \<Rightarrow> int \<Rightarrow> redis \<Rightarrow> string \<Rightarrow> redis" where
  "redis_checked w now s key = s\<lparr>rd_faults := drop 1 (rd_faults s),
     rd_zsets := dict_set (RATE_LIMIT_PREFIX @ key)
       ((zset_at now s (RATE_LIMIT_PREFIX @ key))\<lparr>zs_members := redis_left w now s key\<rparr>) (rd_zsets s)\<rparr>"

definition redis_added :: "string \<Rightarrow> int \<Rightarrow> int \<Rightarrow> redis \<Rightarrow> string \<Rightarrow> redis" where
  "redis_added member w now s key = s\<lparr>rd_faults := drop 1 (rd_faults s),
     rd_zsets := dict_set (RATE_LIMIT_PREFIX @ key)
       \<lparr>zs_expires = Some (now + (w + 1) * TICKS), zs_members = redis_members s key @ [(member, now)]\<rparr> (rd_zsets s)\<rparr>"

lemma redis_check_up:
  assumes "redis_ok w s" and "redis_window.timed now (redis_events s key)"
  shows "redis_check (RATE_LIMIT_PREFIX @ key) w now s = (Inr (int (length (redis_left w now s key))), redis_checked w now s key)"
proof -
  have "redis_up s" using assms(1) by (simp add: redis_ok_def)
  moreover have "zset_at now (s\<lparr>rd_faults := f\<rparr>) k = zset_at now s k" for f k
    by (simp add: zset_at_def)
  ultimately show ?thesis
    using zset_at_left [OF assms] by (simp add: redis_check_def pipeline_up Let_def redis_checked_def)
qed

lemma redis_checked_facts:
  assumes "redis_ok w s" and "redis_window.timed now (redis_events s key)"
  shows "redis_members (redis_checked w now s key) key = redis_left w now s key"
    and "k \<noteq> key \<Longrightarrow> redis_members (redis_checked w now s key) k = redis_members s k"
    and "redis_ok w (redis_checked w now s key)"
    and "zs_members (zset_at now (redis_checked w now s key) (RATE_LIMIT_PREFIX @ key)) = redis_left w now s key"
proof -
  let ?K = "RATE_LIMIT_PREFIX @ key"
  show "redis_members (redis_checked w now s key) key = redis_left w now s key"
    and "k \<noteq> key \<Longrightarrow> redis_members (redis_checked w now s key) k = redis_members s k"
    by (simp_all add: redis_checked_def redis_members_def)
  have "expiry_late w ((zset_at now s ?K)\<lparr>zs_members := redis_left w now s key\<rparr>)"
    using late_filter [OF zset_at_late [OF assms(1), of now ?K]] zset_at_left [OF assms] by metis
  then show "redis_ok w (redis_checked w now s key)"
    using assms(1) redis_up_drop set_dict_set
    by (fastforce simp: redis_ok_def redis_checked_def list_all_iff redis_up_def)
  show "zs_members (zset_at now (redis_checked w now s key) ?K) = redis_left w now s key"
    using zset_at_left [OF assms]
    by (auto simp: zset_at_def [of now "redis_checked w now s key"] redis_checked_def zset_at_def split: option.splits)
qed

lemma redis_add_up:
  assumes "redis_ok w s" and "redis_fresh member key s" and "0 \<le> w"
    and "zs_members (zset_at now s (RATE_LIMIT_PREFIX @ key)) = redis_members s key"
    and "\<forall>e \<in> set (redis_events s key). e \<le> now"
  shows "redis_add (RATE_LIMIT_PREFIX @ key) member w now s =
      (Inr (int (length (redis_members s key)) + 1), redis_added member w now s key)"
    and "redis_members (redis_added member w now s key) key = redis_members s key @ [(member, now)]"
    and "k \<noteq> key \<Longrightarrow> redis_members (redis_added member w now s key) k = redis_members s k"
    and "redis_ok w (redis_added member w now s key)"
proof -
  have up: "redis_up s" using assms(1) by (simp add: redis_ok_def)
  have "zset_at now (s\<lparr>rd_faults := f\<rparr>) k = zset_at now s k" for f k
    by (simp add: zset_at_def)
  moreover have "dict_set member now (redis_members s key) = redis_members s key @ [(member, now)]"
    using assms(2) by (simp add: dict_set_fresh redis_fresh_def)
  ultimately show "redis_add (RATE_LIMIT_PREFIX @ key) member w now s =
      (Inr (int (length (redis_members s key)) + 1), redis_added member w now s key)"
    using up assms(4) by (simp add: redis_add_def pipeline_up Let_def redis_added_def)
  show "redis_members (redis_added member w now s key) key = redis_members s key @ [(member, now)]"
    and "k \<noteq> key \<Longrightarrow> redis_members (redis_added member w now s key) k = redis_members s k"
    by (simp_all add: redis_added_def redis_members_def)
  have "expiry_late w \<lparr>zs_expires = Some (now + (w + 1) * TICKS), zs_members = redis_members s key @ [(member, now)]\<rparr>"
    using assms(5) by (fastforce simp: expiry_late_def list_all_iff redis_events_def)
  then show "redis_ok w (redis_added member w now s key)"
    using assms(1) redis_up_drop set_dict_set
    by (fastforce simp: redis_ok_def redis_added_def list_all_iff redis_up_def)
qed

lemma redis_allow_up_eq:
  assumes "redis_ok w s" and "redis_fresh member key s" and "redis_window.timed now (redis_events s key)"
    and "0 \<le> w"
  defines "n \<equiv> int (length (redis_left w now s key))"
  shows "redis_allow_up member key limit w now s =
    (if n \<ge> limit then ((False, 0), redis_checked w now s key)
     else ((True, max (limit - (n + 1)) 0), redis_added member w now (redis_checked w now s key) key))"
proof -
  note checked = redis_checked_facts [OF assms(1,3)]
  have "redis_fresh member key (redis_checked w now s key)"
    using assms(2) by (auto simp: redis_fresh_def checked(1) redis_left_def)
  moreover have "\<forall>e \<in> set (redis_events (redis_checked w now s key) key). e \<le> now"
    using assms(3) by (auto simp: redis_events_def checked(1) redis_left_def redis_window.timed_def)
  ultimately have "redis_add (RATE_LIMIT_PREFIX @ key) member w now (redis_checked w now s key) =
      (Inr (n + 1), redis_added member w now (redis_checked w now s key) key)"
    using redis_add_up(1) [OF checked(3)] assms(4) checked(1,4) by (simp add: n_def)
  then show ?thesis
    using redis_check_up [OF assms(1,3)]
    by (simp add: redis_allow_up_def redis_allow_def redis_allow_body_def catch_eff_def bind_eff_def
        ret_def n_def Let_def)
qed

lemma redis_allow_up_state:
  assumes "redis_ok w s" and "redis_fresh member key s" and "redis_window.timed now (redis_events s key)"
    and "0 \<le> w"
  shows "redis_events (snd (redis_allow_up member key limit w now s)) key =
      redis_window.live w now (redis_events s key) @
      (if fst (fst (redis_allow_up member key limit w now s)) then [now] else [])"
    and "redis_ok w (snd (redis_allow_up member key limit w now s))"
proof -
  note checked = redis_checked_facts [OF assms(1,3)]
  have fresh: "redis_fresh member key (redis_checked w now s key)"
    using assms(2) by (auto simp: redis_fresh_def checked(1) redis_left_def)
  have past: "\<forall>e \<in> set (redis_events (redis_checked w now s key) key). e \<le> now"
    using assms(3) by (auto simp: redis_events_def checked(1) redis_left_def redis_window.timed_def)
  note added = redis_add_up [OF checked(3) fresh assms(4) _ past]
  show "redis_events (snd (redis_allow_up member key limit w now s)) key =
      redis_window.live w now (redis_events s key) @
      (if fst (fst (redis_allow_up member key limit w now s)) then [now] else [])"
    unfolding redis_allow_up_eq [OF assms] using added(2) checked(1,4)
    by (simp add: redis_events_def [of "redis_checked w now s key"] redis_events_def [of "redis_added _ _ _ _ _"]
        flip: redis_left_live)
  show "redis_ok w (snd (redis_allow_up member key limit w now s))"
    unfolding redis_allow_up_eq [OF assms] using added(4) checked(1,3,4) by simp
qed

lemma pipeline_other:
  assumes "redis_check K w now s = (r, s') \<or> redis_add K m w now s = (r, s')" and "k \<noteq> K"
  shows "map_of (rd_zsets s') k = map_of (rd_zsets s) k"
  using assms by (auto simp: redis_check_def redis_add_def pipeline_def Let_def
      split: list.splits option.splits prod.splits)

lemma redis_allow_up_other:
  assumes "k \<noteq> key"
  shows "redis_events (snd (redis_allow_up member key limit w now s)) k = redis_events s k"
proof -
  have K: "RATE_LIMIT_PREFIX @ k \<noteq> RATE_LIMIT_PREFIX @ key" using assms by simp
  obtain r s1 where c: "redis_check (RATE_LIMIT_PREFIX @ key) w now s = (r, s1)" by fastforce
  obtain r2 s2 where a: "redis_add (RATE_LIMIT_PREFIX @ key) member w now s1 = (r2, s2)" by fastforce
  have "snd (redis_allow_up member key limit w now s) \<in> {s1, s2}"
    using c a by (auto simp: redis_allow_up_def redis_allow_def redis_allow_body_def catch_eff_def bind_eff_def
        ret_def raise_exn_def Let_def split: sum.splits prod.splits)
  then show ?thesis
    using pipeline_other [of "RATE_LIMIT_PREFIX @ key" w now s r s1 _ "RATE_LIMIT_PREFIX @ k"] c a K
      pipeline_other [of "RATE_LIMIT_PREFIX @ key" w now s1 r2 s2 member "RATE_LIMIT_PREFIX @ k"]
    by (auto simp: redis_events_def redis_members_def)
qed

lemma redis_answer:
  assumes "redis_ok w s" and "redis_fresh member key s" and "redis_window.timed now (redis_events s key)"
    and "0 \<le> w"
  shows "fst (redis_allow_up member key limit w now s) =
    fst (redis_window.spec_allow limit w now (redis_events s key))"
proof -
  have "length (redis_left w now s key) = length (redis_window.live w now (redis_events s key))"
    by (simp flip: redis_left_live)
  then show ?thesis
    using redis_allow_up_eq [OF assms] by (simp add: redis_window.spec_allow_def Let_def)
qed

interpretation redis: limiter redis_expired redis_allow_up redis_events redis_ok redis_fresh
  by unfold_locales (auto simp: redis_answer redis_allow_up_state redis_allow_up_other)

text \<open>Ids that differ from call to call are fresh when they are used.\<close>

definition member_ids :: "redis \<Rightarrow> string set" where
  "member_ids s = (\<Union>(k, z) \<in> set (rd_zsets s). fst ` set (zs_members z))"

lemma redis_fresh_ids: "member \<notin> member_ids s \<Longrightarrow> redis_fresh member key s"
proof (cases "map_of (rd_zsets s) (RATE_LIMIT_PREFIX @ key)")
  case (Some z)
  assume "member \<notin> member_ids s"
  with map_of_SomeD [OF Some] Some show ?thesis
    by (force simp: redis_fresh_def redis_members_def member_ids_def)
qed (simp add: redis_fresh_def redis_members_def)

lemma zset_at_ids: "fst ` set (zs_members (zset_at now s k)) \<subseteq> member_ids s"
  by (force simp: zset_at_def member_ids_def split: option.splits dest!: map_of_SomeD)

lemma pipeline_ids:
  assumes "redis_check K w now s = (r, s') \<or> redis_add K m w now s = (r, s')"
  shows "member_ids s' \<subseteq> insert m (member_ids s)"
proof -
  let ?s = "s\<lparr>rd_faults := drop 1 (rd_faults s)\<rparr>"
  have dict: "member_ids (t\<lparr>rd_zsets := dict_set k z (rd_zsets t)\<rparr>) \<subseteq> fst ` set (zs_members z) \<union> member_ids t" for t k z
  proof -
    have "member_ids (t\<lparr>rd_zsets := dict_set k z (rd_zsets t)\<rparr>) \<subseteq>
        (\<Union>(k, z) \<in> insert (k, z) (set (rd_zsets t)). fst ` set (zs_members z))"
      unfolding member_ids_def by (rule UN_mono) (use set_dict_set [of k z "rd_zsets t"] in auto)
    then show ?thesis by (simp add: member_ids_def)
  qed
  have same: "member_ids ?s = member_ids s"
    by (simp add: member_ids_def)
  have step: "s' = ?s \<or> s' = snd (cmds ?s)" if "pipeline cmds s = (r, s')" for cmds :: "redis \<Rightarrow> int \<times> redis"
    using that by (auto simp: pipeline_def Let_def split: list.splits option.splits prod.splits)
  have filtered: "fst ` set (filter P (zs_members (zset_at now ?s K))) \<subseteq> member_ids s" for P
    using zset_at_ids [of now ?s K] same by auto
  have added: "fst ` set (dict_set m now (zs_members (zset_at now ?s K))) \<subseteq> insert m (member_ids s)"
    using zset_at_ids [of now ?s K] same keys_dict_set [of m now "zs_members (zset_at now ?s K)"] by blast
  from assms show ?thesis
  proof
    assume "redis_check K w now s = (r, s')"
    from step [OF this [unfolded redis_check_def]] show ?thesis
    proof
      let ?z = "(zset_at now ?s K)\<lparr>zs_members := filter (\<lambda>(m, e). \<not> redis_expired w now e) (zs_members (zset_at now ?s K))\<rparr>"
      assume "s' = snd (let z = zset_at now ?s K; left = filter (\<lambda>(m, e). \<not> redis_expired w now e) (zs_members z) in
        (int (length left), ?s\<lparr>rd_zsets := dict_set K (z\<lparr>zs_members := left\<rparr>) (rd_zsets ?s)\<rparr>))"
      then have s': "s' = ?s\<lparr>rd_zsets := dict_set K ?z (rd_zsets ?s)\<rparr>" by (simp add: Let_def)
      have "fst ` set (zs_members ?z) \<subseteq> member_ids s" using filtered by simp
      with dict [of K ?z ?s] same show ?thesis unfolding s' by blast
    qed (use same in blast)
  next
    assume "redis_add K m w now s = (r, s')"
    from step [OF this [unfolded redis_add_def]] show ?thesis
    proof
      let ?z = "\<lparr>zs_expires = Some (now + (w + 1) * TICKS), zs_members = dict_set m now (zs_members (zset_at now ?s K))\<rparr>"
      assume "s' = snd (let z = zset_at now ?s K; members = dict_set m now (zs_members z) in
        (int (length members), ?s\<lparr>rd_zsets := dict_set K
          \<lparr>zs_expires = Some (now + (w + 1) * TICKS), zs_members = members\<rparr> (rd_zsets ?s)\<rparr>))"
      then have s': "s' = ?s\<lparr>rd_zsets := dict_set K ?z (rd_zsets ?s)\<rparr>" by (simp add: Let_def)
      have "fst ` set (zs_members ?z) \<subseteq> insert m (member_ids s)" using added by simp
      with dict [of K ?z ?s] same show ?thesis unfolding s' by blast
    qed (use same in blast)
  qed
qed

lemma redis_allow_up_ids: "member_ids (snd (redis_allow_up member key limit w now s)) \<subseteq> insert member (member_ids s)"
proof -
  obtain r s1 where c: "redis_check (RATE_LIMIT_PREFIX @ key) w now s = (r, s1)" by fastforce
  obtain r2 s2 where a: "redis_add (RATE_LIMIT_PREFIX @ key) member w now s1 = (r2, s2)" by fastforce
  have "snd (redis_allow_up member key limit w now s) \<in> {s1, s2}"
    using c a by (auto simp: redis_allow_up_def redis_allow_def redis_allow_body_def catch_eff_def bind_eff_def
        ret_def raise_exn_def Let_def split: sum.splits prod.splits)
  moreover have "member_ids s1 \<subseteq> insert member (member_ids s)" using pipeline_ids c by blast
  moreover have "member_ids s2 \<subseteq> insert member (member_ids s1)" using pipeline_ids a by blast
  ultimately show ?thesis by blast
qed

lemma distinct_all_fresh:
  assumes "fst ` set calls \<inter> member_ids s = {}" and "distinct (map fst calls)"
  shows "redis.all_fresh limit w calls s"
  using assms
proof (induction calls arbitrary: s)
  case (Cons c cs)
  obtain x k t where c: "c = (x, k, t)" by (cases c)
  have "fst ` set cs \<inter> member_ids (snd (redis_allow_up x k limit w t s)) = {}"
    using Cons.prems redis_allow_up_ids [of x k limit w t s] by (auto simp: c)
  then show ?case
    using Cons by (auto simp: c intro: redis_fresh_ids)
qed simp

section \<open>Properties\<close>

text \<open>
  The in-memory limiter bounds every window: whatever calls arrive, in the order of their times
  and from any clients, two requests of one client that are admitted with \<open>limit\<close> or more
  admissions from the first to the one before the second are more than a window apart. So no window
  ever holds more than \<open>limit\<close> admitted requests of a client.
\<close>

theorem memory_limiter_window:
  assumes "0 \<le> w" and "in_order 0 calls"
    and "log = admitted key (run_limiter (\<lambda>_ :: unit. \<lambda>k t. memory_allow k limit w t) calls [])"
    and "j < length log" and "int i + limit \<le> int j"
  shows "log ! j - log ! i > w * TICKS"
proof -
  have fresh: "memory.all_fresh limit w cs s" for cs s
    by (induction cs arbitrary: s) auto
  have "memory_window.spread limit w log"
    unfolding assms(3) by (rule memory.run_window) (use assms fresh in \<open>auto simp: memory_events_def dict_get_or_def\<close>)
  then show ?thesis
    using assms(4,5) by (simp add: memory_window.spread_def memory_expired_def)
qed

definition example_calls :: "(unit \<times> string \<times> int) list" where
  "example_calls = [((), ''a'', 0), ((), ''a'', 10), ((), ''b'', 20), ((), ''a'', 30), ((), ''a'', 60000001)]"

theorem memory_limiter_window_witness:
  "admitted ''a'' (run_limiter (\<lambda>_ :: unit. \<lambda>k t. memory_allow k 2 60 t) example_calls []) = [0, 10, 60000001]
   \<and> (60000001 :: int) - 0 > 60 * TICKS"
proof -
  have log: "[0, 10, 60000001] = admitted ''a'' (run_limiter (\<lambda>_ :: unit. \<lambda>k t. memory_allow k 2 60 t) example_calls [])"
    by code_simp
  have ord: "in_order 0 example_calls" by code_simp
  have "60 * TICKS < [0, 10, 60000001] ! 2 - [0, 10, 60000001] ! 0"
    by (rule memory_limiter_window [OF _ ord log]) simp_all
  then show ?thesis
    by (simp add: log [symmetric])
qed

text \<open>
  C12. The in-memory limiter refuses no one too much: the answer to each call is \<open>admitted\<close>
  exactly when fewer than \<open>limit\<close> of the client's own earlier admissions are at most a window old,
  and the number of requests it reports as remaining is the limit less those and the new one.
\<close>

theorem memory_limiter_exact:
  assumes "0 \<le> w" and "in_order 0 calls" and "n < length calls"
    and "trace = run_limiter (\<lambda>_ :: unit. \<lambda>k t. memory_allow k limit w t) calls []"
    and "trace ! n = (k, t, ok, rem)"
    and "m = int (length (filter (\<lambda>e. t - e \<le> w * TICKS) (admitted k (take n trace))))"
  shows "(ok \<longleftrightarrow> m < limit) \<and> rem = (if ok then max (limit - (m + 1)) 0 else 0)"
proof -
  have fresh: "memory.all_fresh limit w cs s" for cs s
    by (induction cs arbitrary: s) auto
  have start: "memory.tracks w 0 (\<lambda>_. []) []"
    by (rule memory.tracks_empty) (simp_all add: memory_events_def dict_get_or_def)
  have "(ok, rem) = fst (memory_window.spec_allow limit w t (admitted k (take n trace)))"
    using memory.run_exact [OF start assms(2) fresh _ assms(1,3) assms(5) [unfolded assms(4)]] assms(4) by simp
  then show ?thesis
    by (auto simp: memory_window.spec_allow_def memory_window.live_def Let_def memory_expired_def assms(6)
        linorder_not_less not_le split: if_splits)
qed

theorem memory_limiter_exact_witness:
  "run_limiter (\<lambda>_ :: unit. \<lambda>k t. memory_allow k 2 60 t) example_calls [] ! 3 = (''a'', 30, False, 0)
   \<and> \<not> (2 :: int) < 2"
proof -
  let ?tr = "run_limiter (\<lambda>_ :: unit. \<lambda>k t. memory_allow k 2 60 t) example_calls []"
  have ord: "in_order 0 example_calls" and n: "3 < length example_calls"
    and at: "?tr ! 3 = (''a'', 30, False, 0)"
    and m: "2 = int (length (filter (\<lambda>e. 30 - e \<le> 60 * TICKS) (admitted ''a'' (take 3 ?tr))))"
    by code_simp+
  show ?thesis
    using memory_limiter_exact [OF _ ord n refl at m] at by simp
qed

text \<open>
  C13. The Redis limiter, on a server that answers, with ids no two calls share and one caller at a
  time, bounds every window too: admissions \<open>limit\<close> or more apart in a client's sequence are at
  least a window apart in time. The expiry it sets on a key never drops an event still counted.
\<close>

theorem redis_limiter_window:
  assumes "0 \<le> w" and "in_order 0 calls" and "redis_up s" and "rd_zsets s = []"
    and "distinct (map fst calls)"
    and "log = admitted key (run_limiter (\<lambda>m k t. redis_allow_up m k limit w t) calls s)"
    and "j < length log" and "int i + limit \<le> int j"
  shows "log ! j - log ! i \<ge> w * TICKS"
proof -
  have ok: "redis_ok w s" using assms(3,4) by (simp add: redis_ok_def)
  have none: "redis_events s k = []" for k by (simp add: redis_events_def redis_members_def assms(4))
  have fresh: "redis.all_fresh limit w calls s"
    by (rule distinct_all_fresh [OF _ assms(5)]) (simp add: assms(4) member_ids_def)
  have "redis_window.spread limit w log"
    unfolding assms(6) by (rule redis.run_window [OF ok none assms(2) fresh assms(1)])
  then show ?thesis
    using assms(7,8) by (fastforce simp: redis_window.spread_def redis_expired_def)
qed

definition example_redis_calls :: "(string \<times> string \<times> int) list" where
  "example_redis_calls = [(''0:aa'', ''a'', 0), (''10:bb'', ''a'', 10), (''60000000:cc'', ''a'', 60000000)]"

definition empty_redis :: redis where
  "empty_redis = \<lparr>rd_faults = [], rd_zsets = []\<rparr>"

theorem redis_limiter_window_witness:
  "admitted ''a'' (run_limiter (\<lambda>m k t. redis_allow_up m k 2 60 t) example_redis_calls empty_redis) = [0, 10, 60000000]
   \<and> (60000000 :: int) - 0 \<ge> 60 * TICKS"
proof -
  have log: "[0, 10, 60000000] = admitted ''a'' (run_limiter (\<lambda>m k t. redis_allow_up m k 2 60 t) example_redis_calls empty_redis)"
    by code_simp
  have pre: "in_order 0 example_redis_calls" "redis_up empty_redis" "rd_zsets empty_redis = []"
    "distinct (map fst example_redis_calls)" by code_simp+
  have "60 * TICKS \<le> [0, 10, 60000000] ! 2 - [0, 10, 60000000] ! 0"
    by (rule redis_limiter_window [OF _ pre log]) simp_all
  then show ?thesis
    by (simp add: log [symmetric])
qed

text \<open>What each pipeline does: it raises the fault that is next, or runs.\<close>

lemma redis_check_cases:
  assumes "redis_check k w now s = (res, s')"
  shows "rd_faults s' = drop 1 (rd_faults s) \<and> (\<forall>e. res = Inl e \<longrightarrow> Some e \<in> set (take 1 (rd_faults s)))"
  using assms by (auto simp: redis_check_def pipeline_def Let_def split: list.splits option.splits)

lemma redis_add_cases:
  assumes "redis_add k m w now s = (res, s')"
  shows "(\<forall>e. res = Inl e \<longrightarrow> Some e \<in> set (take 1 (rd_faults s)))
    \<and> (\<forall>n. res = Inr n \<longrightarrow> (\<exists>z. map_of (rd_zsets s') k = Some z \<and> (m, now) \<in> set (zs_members z)))"
  using assms
  by (auto simp: redis_add_def pipeline_def Let_def split: list.splits option.splits)

lemma redis_allow_body_cases:
  assumes "redis_allow_body m key limit w now s = (res, s')"
  shows "(\<forall>e. res = Inl e \<longrightarrow> Some e \<in> set (take 2 (rd_faults s)))
    \<and> (\<forall>n. res = Inr (True, n) \<longrightarrow>
         (\<exists>z. map_of (rd_zsets s') (RATE_LIMIT_PREFIX @ key) = Some z \<and> (m, now) \<in> set (zs_members z)))"
proof -
  obtain r1 s1 where check: "redis_check (RATE_LIMIT_PREFIX @ key) w now s = (r1, s1)" by fastforce
  obtain r2 s2 where add: "redis_add (RATE_LIMIT_PREFIX @ key) m w now s1 = (r2, s2)" by fastforce
  have second: "set (take 1 (rd_faults s1)) \<subseteq> set (take 2 (rd_faults s))"
    and first: "set (take 1 (rd_faults s)) \<subseteq> set (take 2 (rd_faults s))"
    using redis_check_cases [OF check] by (cases "rd_faults s"; cases "tl (rd_faults s)"; auto)+
  show ?thesis
    using assms check add redis_check_cases [OF check] redis_add_cases [OF add] first second
    by (auto simp: redis_allow_body_def bind_eff_def ret_def Let_def split: sum.splits if_splits)
qed

text \<open>
  A Redis that fails never lets a request through in fail-closed mode: a call then raises
  \<open>RateLimitUnavailable\<close> with the text of a fault one of its two pipelines met, and an admission it
  answers is recorded under the client's key. In fail-open mode it never raises, and an admission
  that is not recorded is one where a pipeline failed, reported with the whole limit left.
\<close>

theorem redis_limiter_failure:
  assumes "redis_allow fail_open member key limit w now s = (res, s')"
  shows "case res of
      Inl e \<Rightarrow> \<not> fail_open \<and> (\<exists>f. Some f \<in> set (take 2 (rd_faults s)) \<and> e = RateLimitUnavailable (exn_text f))
    | Inr (ok, left) \<Rightarrow> ok \<longrightarrow>
        (\<exists>z. map_of (rd_zsets s') (RATE_LIMIT_PREFIX @ key) = Some z \<and> (member, now) \<in> set (zs_members z))
        \<or> fail_open \<and> left = limit \<and> (\<exists>f. Some f \<in> set (take 2 (rd_faults s)))"
proof -
  obtain r s1 where body: "redis_allow_body member key limit w now s = (r, s1)" by fastforce
  show ?thesis
    using assms redis_allow_body_cases [OF body]
    by (auto simp: redis_allow_def catch_eff_def raise_exn_def ret_def body split: sum.splits if_splits)
qed

theorem redis_limiter_failure_witness:
  "\<exists>f. Some f \<in> set (take 2 [None, Some (OtherError ''timeout'')]) \<and>
     RateLimitUnavailable ''timeout'' = RateLimitUnavailable (exn_text f)"
proof -
  have "redis_allow False ''0:aa'' ''a'' 2 60 0 \<lparr>rd_faults = [None, Some (OtherError ''timeout'')], rd_zsets = []\<rparr>
      = (Inl (RateLimitUnavailable ''timeout''),
         snd (redis_allow False ''0:aa'' ''a'' 2 60 0 \<lparr>rd_faults = [None, Some (OtherError ''timeout'')], rd_zsets = []\<rparr>))"
    by (simp add: prod_eq_iff) code_simp
  from redis_limiter_failure [OF this] show ?thesis by simp
qed

fun redis_adds :: "string list \<Rightarrow> string \<Rightarrow> int \<Rightarrow> int \<Rightarrow> redis \<Rightarrow> redis" where
  "redis_adds [] key w now s = s"
| "redis_adds (m # ms) key w now s =
     redis_adds ms key w now (snd (redis_add (RATE_LIMIT_PREFIX @ key) m w now s))"

fun redis_checks :: "nat \<Rightarrow> string \<Rightarrow> int \<Rightarrow> int \<Rightarrow> redis \<Rightarrow> int list \<times> redis" where
  "redis_checks 0 key w now s = ([], s)"
| "redis_checks (Suc n) key w now s =
     (case redis_check (RATE_LIMIT_PREFIX @ key) w now s of
        (Inl e, s1) \<Rightarrow> ([], s1)
      | (Inr c, s1) \<Rightarrow> (case redis_checks n key w now s1 of (cs, s2) \<Rightarrow> (c # cs, s2)))"

lemma redis_checks_idle:
  assumes "redis_ok w s" and "redis_members s key = []" and "0 \<le> now"
  shows "fst (redis_checks n key w now s) = replicate n 0
    \<and> redis_ok w (snd (redis_checks n key w now s)) \<and> redis_members (snd (redis_checks n key w now s)) key = []
    \<and> (0 < n \<longrightarrow> zs_members (zset_at now (snd (redis_checks n key w now s)) (RATE_LIMIT_PREFIX @ key)) = [])"
  using assms
proof (induction n arbitrary: s)
  case (Suc n)
  have timed: "redis_window.timed now (redis_events s key)"
    using Suc.prems by (simp add: redis_events_def redis_window.timed_def)
  have none: "redis_left w now s key = []" using Suc.prems by (simp add: redis_left_def)
  note checked = redis_checked_facts [OF Suc.prems(1) timed]
  show ?case
    using Suc.IH [OF checked(3) _ Suc.prems(3)] checked none redis_check_up [OF Suc.prems(1) timed]
    by (cases n) (auto split: prod.splits)
qed simp

lemma redis_adds_all:
  assumes "redis_ok w s" and "distinct ms" and "set ms \<inter> fst ` set (redis_members s key) = {}" and "0 \<le> w"
    and "zs_members (zset_at now s (RATE_LIMIT_PREFIX @ key)) = redis_members s key"
    and "\<forall>e \<in> set (redis_events s key). e \<le> now"
  shows "redis_members (redis_adds ms key w now s) key = redis_members s key @ map (\<lambda>m. (m, now)) ms"
  using assms
proof (induction ms arbitrary: s)
  case (Cons m ms)
  have fresh: "redis_fresh m key s" using Cons.prems(3) by (simp add: redis_fresh_def)
  note added = redis_add_up [OF Cons.prems(1) fresh Cons.prems(4,5,6)]
  have "zs_members (zset_at now (redis_added m w now s key) (RATE_LIMIT_PREFIX @ key))
      = redis_members (redis_added m w now s key) key"
    using Cons.prems(4) by (simp add: zset_at_def redis_added_def redis_members_def TICKS_def)
  moreover have "set ms \<inter> fst ` set (redis_members (redis_added m w now s key) key) = {}"
    using Cons.prems(2,3) added(2) by auto
  moreover have "\<forall>e \<in> set (redis_events (redis_added m w now s key) key). e \<le> now"
    using Cons.prems(6) added(2) by (auto simp: redis_events_def)
  ultimately show ?case
    using Cons.IH [OF added(4) _ _ Cons.prems(4)] Cons.prems(2) added(1,2) by simp
qed simp

section \<open>The loop of the in-memory limiter, and what it keeps\<close>

definition suffix_of :: "'a list \<Rightarrow> 'a list \<Rightarrow> bool" where
  "suffix_of xs ys = (\<exists>zs. ys = zs @ xs)"

lemma pop_expired_dropWhile: "pop_expired w now b = Some (dropWhile (memory_expired w now) b)"
proof (induction b)
  case (Cons e b)
  then show ?case
    using while_option_unfold [of "\<lambda>bucket. bucket \<noteq> [] \<and> memory_expired w now (hd bucket)" tl "e # b"]
    by (simp add: pop_expired_def)
qed (simp add: pop_expired_def while_option_unfold)

text \<open>The state of a new limiter after calls of any clients at any times.\<close>

definition memory_run :: "int \<Rightarrow> int \<Rightarrow> (string \<times> int) list \<Rightarrow> memory_limiter" where
  "memory_run limit w calls = fold (\<lambda>(k, t) s. snd (memory_allow k limit w t s)) calls []"

definition memory_small :: "int \<Rightarrow> string set \<Rightarrow> memory_limiter \<Rightarrow> bool" where
  "memory_small limit clients s = (distinct (map fst s) \<and> fst ` set s = clients
     \<and> (\<forall>(k, b) \<in> set s. int (length b) \<le> max 0 limit))"

lemma memory_small_bucket: "memory_small limit clients s \<Longrightarrow> int (length (dict_get_or s k [])) \<le> max 0 limit"
  by (auto simp: memory_small_def dict_get_or_def dict_get_def split: option.splits dest!: map_of_SomeD)

lemma memory_small_allow:
  assumes "memory_small limit clients s"
  shows "memory_small limit (insert k clients) (snd (memory_allow k limit w t s))"
proof -
  let ?b = "dropWhile (memory_expired w t) (dict_get_or s k [])"
  obtain b where b: "snd (memory_allow k limit w t s) = dict_set k b s"
      "b = (if int (length ?b) \<ge> limit then ?b else ?b @ [t])"
    by (simp add: memory_allow_def Let_def)
  have "int (length ?b) \<le> max 0 limit"
    using memory_small_bucket [OF assms, of k] length_dropWhile_le [of "memory_expired w t" "dict_get_or s k []"] by linarith
  then have "int (length b) \<le> max 0 limit" by (simp add: b(2))
  then show ?thesis
    using assms set_dict_set [of k b s]
    by (force simp: memory_small_def b(1) distinct_dict_set keys_dict_set)
qed

lemma memory_run_small: "memory_small limit (fst ` set calls) (memory_run limit w calls)"
proof (induction calls rule: rev_induct)
  case (snoc c calls)
  then show ?case
    using memory_small_allow [OF snoc.IH, of "fst c" w "snd c"]
    by (simp add: memory_run_def split_beta)
qed (simp add: memory_run_def memory_small_def)

text \<open>
  C33. The loop of the in-memory limiter always ends, and its memory is bounded for each client but not over clients: after any
  calls, whatever their times, the loop that drops the expired events of a client stops, what it leaves
  decides the answer and is what is stored, no client has more than \<open>limit\<close> events stored, and there is one entry for
  every client that ever called, since none is ever removed.
\<close>

theorem memory_limiter_loop_ends:
  "let s = memory_run limit w calls in
   (\<exists>bucket. pop_expired w now (dict_get_or s key []) = Some bucket
      \<and> suffix_of bucket (dict_get_or s key []) \<and> \<not> (bucket \<noteq> [] \<and> memory_expired w now (hd bucket))
      \<and> memory_allow key limit w now s =
          (if int (length bucket) \<ge> limit then ((False, 0), dict_set key bucket s)
           else ((True, max (limit - int (length bucket) - 1) 0), dict_set key (bucket @ [now]) s))
      \<and> int (length bucket) \<le> max 0 limit)
   \<and> length s = card (fst ` set calls)"
proof -
  let ?s = "memory_run limit w calls"
  let ?b = "dict_get_or ?s key []"
  note small = memory_run_small [of limit calls w]
  have "length ?s = card (fst ` set calls)"
    using small distinct_card [of "map fst ?s"] by (simp add: memory_small_def)
  moreover have "suffix_of (dropWhile P ?b) ?b" for P
    unfolding suffix_of_def by (metis takeWhile_dropWhile_id)
  moreover have "int (length (dropWhile (memory_expired w now) ?b)) \<le> max 0 limit"
    using memory_small_bucket [OF small, of key] length_dropWhile_le [of "memory_expired w now" ?b] by linarith
  moreover have "\<not> (dropWhile (memory_expired w now) ?b \<noteq> [] \<and> memory_expired w now (hd (dropWhile (memory_expired w now) ?b)))"
    using hd_dropWhile [of "memory_expired w now" ?b] by blast
  ultimately show ?thesis
    by (simp add: Let_def pop_expired_dropWhile memory_allow_def algebra_simps)
qed



end
