(* ===== verification/Redis_Client.thy ===== *)
theory Redis_Client
  imports Py_Prelude
begin

text \<open>
  \<open>apps/api/redis_client.py\<close> and the server behind it: a dictionary of texts with an optional time to live,
  which may raise on each command in turn (\<open>kv_faults\<close>). The process environment is an argument.
\<close>

section \<open>Client and server\<close>

definition int_env :: "(string \<times> string) list \<Rightarrow> string \<Rightarrow> string \<Rightarrow> int result" where
  "int_env env name d = py_int (dict_get_or env name d)"

definition redis_connect_kwargs :: "(string \<times> string) list \<Rightarrow> pydict result" where
  "redis_connect_kwargs env =
     (let host = dict_get_or env ''REDIS_HOST'' ''localhost'' in
      bind_res (int_env env ''REDIS_PORT'' ''6379'') (\<lambda>port.
      bind_res (int_env env ''REDIS_DB'' ''0'') (\<lambda>db.
        let pw = dict_get_or env ''REDIS_PASSWORD'' [];
            kwargs = [(''host'', PStr host), (''port'', PInt port), (''db'', PInt db),
              (''password'', if pw = [] then PNone else PStr pw), (''decode_responses'', PBool True),
              (''socket_connect_timeout'', PInt 2), (''socket_timeout'', PInt 2)];
            ca_cert = strip (dict_get_or env ''REDIS_SSL_CA_CERT'' []) in
        Inr (if lower (dict_get_or env ''REDIS_TLS_ENABLED'' ''false'') = ''true''
             then kwargs @ [(''ssl'', PBool True), (''ssl_cert_reqs'', PStr ''CERT_REQUIRED'')]
               @ (if ca_cert \<noteq> [] then [(''ssl_ca_certs'', PStr ca_cert)] else [])
             else kwargs))))"

record kv =
  kv_faults :: "exn option list"
  kv_now :: int
  kv_data :: "(string \<times> string \<times> int option) list"

definition kv_command :: "(kv \<Rightarrow> 'a \<times> kv) \<Rightarrow> (kv, 'a) eff" where
  "kv_command f s =
     (let s' = s\<lparr>kv_faults := drop 1 (kv_faults s)\<rparr> in
      case kv_faults s of Some e # _ \<Rightarrow> (Inl e, s') | _ \<Rightarrow> (case f s' of (x, t) \<Rightarrow> (Inr x, t)))"

definition kv_lookup :: "kv \<Rightarrow> string \<Rightarrow> string option" where
  "kv_lookup s key = (case map_of (kv_data s) key of
     None \<Rightarrow> None
   | Some (v, None) \<Rightarrow> Some v
   | Some (v, Some t) \<Rightarrow> if kv_now s < t then Some v else None)"

definition kv_ping :: "(kv, unit) eff" where
  "kv_ping = kv_command (\<lambda>s. ((), s))"

definition kv_setex :: "string \<Rightarrow> int \<Rightarrow> string \<Rightarrow> (kv, unit) eff" where
  "kv_setex key ttl v = kv_command (\<lambda>s. ((), s\<lparr>kv_data := dict_set key (v, Some (kv_now s + ttl)) (kv_data s)\<rparr>))"

text \<open>\<open>SET\<close> stores without a time to live, whatever the key had.\<close>

definition kv_set :: "string \<Rightarrow> string \<Rightarrow> (kv, unit) eff" where
  "kv_set key v = kv_command (\<lambda>s. ((), s\<lparr>kv_data := dict_set key (v, None) (kv_data s)\<rparr>))"

definition kv_get :: "string \<Rightarrow> (kv, string option) eff" where
  "kv_get key = kv_command (\<lambda>s. (kv_lookup s key, s))"

definition kv_delete :: "string \<Rightarrow> (kv, unit) eff" where
  "kv_delete key = kv_command (\<lambda>s. ((), s\<lparr>kv_data := dict_pop key (kv_data s)\<rparr>))"

text \<open>\<open>TTL\<close>: the seconds left, \<open>-1\<close> for a key without a time to live, \<open>-2\<close> for no key.\<close>

definition kv_time_left :: "string \<Rightarrow> (kv, int) eff" where
  "kv_time_left key = kv_command (\<lambda>s. (case map_of (kv_data s) key of
     None \<Rightarrow> - 2
   | Some (v, None) \<Rightarrow> - 1
   | Some (v, Some t) \<Rightarrow> if kv_now s < t then t - kv_now s else - 2, s))"

definition get_redis_client :: "(string \<times> string) list \<Rightarrow> (kv, unit) eff" where
  "get_redis_client env = bind_eff (lift_res (redis_connect_kwargs env)) (\<lambda>_. kv_ping)"

definition redis_live_enabled :: "(string \<times> string) list \<Rightarrow> bool" where
  "redis_live_enabled env = (lower (dict_get_or env ''BOUNDARY_LAYER_REDIS_LIVE'' ''false'') = ''true'')"

section \<open>Commands that succeed\<close>

lemma kv_command_up: "kv_faults s = [] \<Longrightarrow> kv_command f s = (case f s of (x, t) \<Rightarrow> (Inr x, t))"
  by (cases s) (simp add: kv_command_def)

lemma kv_ping_up: "kv_faults s = [] \<Longrightarrow> kv_ping s = (Inr (), s)"
  by (simp add: kv_ping_def kv_command_up)

lemma kv_get_up: "kv_faults s = [] \<Longrightarrow> kv_get key s = (Inr (kv_lookup s key), s)"
  by (simp add: kv_get_def kv_command_up)

lemma kv_set_up:
  "kv_faults s = [] \<Longrightarrow> kv_set key v s = (Inr (), s\<lparr>kv_data := dict_set key (v, None) (kv_data s)\<rparr>)"
  by (simp add: kv_set_def kv_command_up)

lemma kv_setex_up:
  "kv_faults s = [] \<Longrightarrow> kv_setex key ttl v s = (Inr (), s\<lparr>kv_data := dict_set key (v, Some (kv_now s + ttl)) (kv_data s)\<rparr>)"
  by (simp add: kv_setex_def kv_command_up)

lemmas kv_ops = kv_ping_up kv_get_up kv_set_up kv_setex_up

end
