(* ===== verification/Middleware.thy ===== *)
theory Middleware
  imports Security Rate_Limit Redis_Client
begin

text \<open>
  \<open>apps/api/middleware.py\<close> and the stack \<open>apps/api/main.py\<close> builds of it. A handler takes a request
  to an operation on the server's state that returns a response or raises; each middleware is a
  function from the handler inside it to a handler, as \<open>dispatch\<close> is with its \<open>call_next\<close>. What a
  request brings along, a record: its header names in lower case, the two clock readings and the
  random texts that serving it uses. A response has its status, its body and the headers the program
  sets, by lower-case name. The access log, output only, is left out.
\<close>

record http_request =
  rq_method :: string
  rq_path :: string
  rq_headers :: "(string \<times> string) list"
  rq_client :: "string option"
  rq_body :: pyval
  rq_uuid :: string
  rq_elapsed_ms :: string
  rq_monotonic :: int
  rq_time :: int
  rq_member :: string

record http_response =
  rs_status :: int
  rs_headers :: "(string \<times> string) list"
  rs_body :: pyval

record http =
  ht_app :: app
  ht_limiter :: "limiter_kind option"
  ht_backend :: "string option"
  ht_memory :: memory_limiter
  ht_redis :: redis
  ht_kv :: kv

type_synonym handler = "http_request \<Rightarrow> (http, http_response) eff"

definition header :: "http_request \<Rightarrow> string \<Rightarrow> string option" where
  "header rq name = map_of (rq_headers rq) name"

definition set_header :: "string \<Rightarrow> string \<Rightarrow> http_response \<Rightarrow> http_response" where
  "set_header name v r = r\<lparr>rs_headers := dict_set name v (rs_headers r)\<rparr>"

definition default_header :: "string \<Rightarrow> string \<Rightarrow> http_response \<Rightarrow> http_response" where
  "default_header name v r = r\<lparr>rs_headers := dict_setdefault name v (rs_headers r)\<rparr>"

definition json_response :: "int \<Rightarrow> string \<Rightarrow> (string \<times> string) list \<Rightarrow> http_response" where
  "json_response status detail headers =
     \<lparr>rs_status = status, rs_headers = headers, rs_body = PDict [(''detail'', PStr detail)]\<rparr>"

section \<open>Each middleware\<close>

definition request_context_dispatch :: "settings \<Rightarrow> handler \<Rightarrow> handler" where
  "request_context_dispatch settings call_next request =
     bind_eff (call_next request) (\<lambda>response.
       let request_id = (case header request ''x-request-id'' of Some i \<Rightarrow> i | None \<Rightarrow> rq_uuid request);
           response = set_header ''x-request-id'' request_id response in
       ret (if log_request_id settings
            then set_header ''x-response-time-ms'' (rq_elapsed_ms request) response else response))"

definition SECURITY_HEADERS :: "(string \<times> string) list" where
  "SECURITY_HEADERS =
     [(''x-content-type-options'', ''nosniff''), (''x-frame-options'', ''DENY''), (''referrer-policy'', ''no-referrer''),
      (''permissions-policy'', ''camera=(), microphone=(), geolocation=()''),
      (''content-security-policy'', ''default-src '' @ [CHR 0x27] @ ''none'' @ [CHR 0x27] @ ''; frame-ancestors '' @ [CHR 0x27]
         @ ''none'' @ [CHR 0x27] @ ''; base-uri '' @ [CHR 0x27] @ ''none'' @ [CHR 0x27])]"

definition security_headers_dispatch :: "handler \<Rightarrow> handler" where
  "security_headers_dispatch call_next request =
     bind_eff (call_next request) (\<lambda>response.
       ret (fold (\<lambda>(name, v). default_header name v) SECURITY_HEADERS response))"

definition auth_context_dispatch :: "settings \<Rightarrow> handler \<Rightarrow> handler" where
  "auth_context_dispatch settings call_next request =
     bind_eff (\<lambda>s. (Inr (), if is_local_lab settings \<and> ap_auth_context (ht_app s) = None
                       then s\<lparr>ht_app := (ht_app s)\<lparr>ap_auth_context := Some local_lab_auth_context\<rparr>\<rparr> else s))
       (\<lambda>_. call_next request)"

definition PRODUCTION_LOCKDOWN_PATHS :: "string list" where
  "PRODUCTION_LOCKDOWN_PATHS = [''/docs'', ''/redoc'', ''/openapi.json'']"

definition production_lockdown_dispatch :: "settings \<Rightarrow> handler \<Rightarrow> handler" where
  "production_lockdown_dispatch settings call_next request =
     (if is_production settings \<and> \<not> expose_openapi settings \<and> rq_path request \<in> set PRODUCTION_LOCKDOWN_PATHS
      then ret (json_response 404 ''Not Found'' []) else call_next request)"

text \<open>\<open>int\<close> of a text of digits: a superscript is a digit for \<open>isdigit\<close> and raises here.\<close>

definition int_of_digits :: "string \<Rightarrow> int result" where
  "int_of_digits s = (if list_all is_decimal_char s then Inr (int (nat_of_digits s))
     else Inl (ValueError (''invalid literal for int() with base 10: '' @ repr_str s)))"

definition request_body_size_dispatch :: "settings \<Rightarrow> handler \<Rightarrow> handler" where
  "request_body_size_dispatch settings call_next request =
     (if \<not> is_production_saas settings \<or> max_request_body_bytes settings \<le> 0 then call_next request
      else if rq_method request \<in> set [''GET'', ''HEAD'', ''OPTIONS''] then call_next request
      else case header request ''content-length'' of
        None \<Rightarrow> call_next request
      | Some content_length \<Rightarrow>
          if isdigit content_length then
            bind_eff (lift_res (int_of_digits content_length)) (\<lambda>n.
              if n > max_request_body_bytes settings then ret (json_response 413 ''Request body too large'' [])
              else call_next request)
          else call_next request)"

section \<open>Rate limiting\<close>

definition client_key :: "http_request \<Rightarrow> settings \<Rightarrow> string" where
  "client_key request settings =
     (let parts = (if trust_proxy_headers settings
            then (case header request ''x-forwarded-for'' of None \<Rightarrow> [] | Some f \<Rightarrow> csv_list f) else []) in
      if parts \<noteq> [] then last parts
      else case rq_client request of Some host \<Rightarrow> host | None \<Rightarrow> ''unknown'')"

text \<open>\<open>client\<close> is the outcome of \<open>get_redis_client\<close>. A new in-memory limiter has no events.\<close>

definition get_limiter :: "unit result \<Rightarrow> settings \<Rightarrow> (http, limiter_kind) eff" where
  "get_limiter client settings s =
     (let build = (let s = s\<lparr>ht_backend := Some (rate_limit_backend settings)\<rparr> in
            case build_rate_limiter client (rate_limit_backend settings) (\<not> is_production settings) of
              Inl e \<Rightarrow> (Inl e, s)
            | Inr k \<Rightarrow> (Inr k, s\<lparr>ht_limiter := Some k,
                ht_memory := (if k = InMemoryRateLimiter then [] else ht_memory s)\<rparr>)) in
      case ht_limiter s of
        None \<Rightarrow> build
      | Some k \<Rightarrow> if ht_backend s \<noteq> Some (rate_limit_backend settings) then build else (Inr k, s))"

definition limiter_allow :: "limiter_kind \<Rightarrow> http_request \<Rightarrow> string \<Rightarrow> int \<Rightarrow> int \<Rightarrow> (http, bool \<times> int) eff" where
  "limiter_allow k request key limit window s =
     (case k of
        InMemoryRateLimiter \<Rightarrow>
          (case memory_allow key limit window (rq_monotonic request) (ht_memory s) of
             (answer, m) \<Rightarrow> (Inr answer, s\<lparr>ht_memory := m\<rparr>))
      | RedisRateLimiter fail_open \<Rightarrow>
          (case redis_allow fail_open (rq_member request) key limit window (rq_time request) (ht_redis s) of
             (answer, r) \<Rightarrow> (answer, s\<lparr>ht_redis := r\<rparr>)))"

definition check_rate :: "unit result \<Rightarrow> settings \<Rightarrow> http_request \<Rightarrow> (http, bool \<times> int) eff" where
  "check_rate client settings request =
     bind_eff (get_limiter client settings) (\<lambda>k.
       limiter_allow k request (client_key request settings) (rate_limit_requests settings)
         (rate_limit_window_seconds settings))"

definition with_limit_headers :: "settings \<Rightarrow> int \<Rightarrow> http_response \<Rightarrow> http_response" where
  "with_limit_headers settings remaining response =
     set_header ''x-ratelimit-window-seconds'' (show_int (rate_limit_window_seconds settings))
       (set_header ''x-ratelimit-remaining'' (show_int remaining)
         (set_header ''x-ratelimit-limit'' (show_int (rate_limit_requests settings)) response))"

definition rate_limit_dispatch :: "unit result \<Rightarrow> settings \<Rightarrow> handler \<Rightarrow> handler" where
  "rate_limit_dispatch client settings call_next request s =
     (if \<not> rate_limit_enabled settings then call_next request s
      else if rq_path request \<in> set [''/health'', ''/ready''] then call_next request s
      else case check_rate client settings request s of
        (Inl (RateLimitUnavailable _), s) \<Rightarrow> (Inr (json_response 503 ''Rate limiting unavailable'' []), s)
      | (Inl e, s) \<Rightarrow> (Inl e, s)
      | (Inr (allowed, remaining), s) \<Rightarrow>
          if \<not> allowed then
            (Inr (json_response 429 ''Rate limit exceeded''
               [(''retry-after'', show_int (rate_limit_window_seconds settings))]), s)
          else bind_eff (call_next request) (\<lambda>response. ret (with_limit_headers settings remaining response)) s)"

section \<open>The stack\<close>

text \<open>
  \<open>add_middleware\<close> puts each one outside those added before it, so the last one added runs first. A
  request starts without an identity. CORS and the host check, which Starlette supplies and the
  settings may add outside of these, come in with \<open>Api_Process\<close>.
\<close>

definition middleware_stack :: "unit result \<Rightarrow> settings \<Rightarrow> handler \<Rightarrow> handler" where
  "middleware_stack client settings routes =
     request_context_dispatch settings
       (auth_context_dispatch settings
         (rate_limit_dispatch client settings
           (request_body_size_dispatch settings
             (security_headers_dispatch
               (production_lockdown_dispatch settings routes)))))"

definition serve :: "unit result \<Rightarrow> settings \<Rightarrow> handler \<Rightarrow> handler" where
  "serve client settings routes request s =
     middleware_stack client settings routes request (s\<lparr>ht_app := (ht_app s)\<lparr>ap_auth_context := None\<rparr>\<rparr>)"

section \<open>What a middleware is\<close>

text \<open>
  Each one answers by itself or calls the handler inside it once, on the state \<open>pre\<close> leaves, and
  completes its response; \<open>stop\<close> is what it answers by itself.
\<close>

locale middleware =
  fixes mw :: "handler \<Rightarrow> handler"
    and pre :: "http_request \<Rightarrow> http \<Rightarrow> http"
    and stop :: "http_request \<Rightarrow> http \<Rightarrow> http_response result option"
    and post :: "http_request \<Rightarrow> http \<Rightarrow> http_response \<Rightarrow> http_response"
  assumes run: "mw nxt rq s = (case stop rq s of
      Some r \<Rightarrow> (r, pre rq s)
    | None \<Rightarrow> (case nxt rq (pre rq s) of (Inl e, s') \<Rightarrow> (Inl e, s') | (Inr resp, s') \<Rightarrow> (Inr (post rq s resp), s')))"
begin

lemma stopped: "stop rq s = Some r \<Longrightarrow> mw nxt rq s = (r, pre rq s)"
  by (simp add: run)

lemma stopped_any: "stop rq s \<noteq> None \<Longrightarrow> mw nxt rq s = mw nxt' rq s"
  by (auto simp: run split: option.splits)

lemma passed: "stop rq s = None \<Longrightarrow> nxt rq (pre rq s) = (Inr resp, s') \<Longrightarrow> mw nxt rq s = (Inr (post rq s resp), s')"
  by (simp add: run)

lemma answered:
  assumes "mw nxt rq s = (Inr resp, s')"
  obtains (self) "stop rq s = Some (Inr resp)" "s' = pre rq s"
  | (inner) r where "stop rq s = None" "nxt rq (pre rq s) = (Inr r, s')" "resp = post rq s r"
  using assms by (auto simp: run split: option.splits prod.splits sum.splits)

end

text \<open>One middleware around another is a middleware.\<close>

definition comp_pre where
  "comp_pre pre1 stop1 pre2 rq s = (case stop1 rq s of Some (_ :: http_response result) \<Rightarrow> pre1 rq s
     | None \<Rightarrow> pre2 rq (pre1 rq s))"

definition comp_stop :: "(http_request \<Rightarrow> http \<Rightarrow> http) \<Rightarrow> (http_request \<Rightarrow> http \<Rightarrow> http_response result option)
    \<Rightarrow> (http_request \<Rightarrow> http \<Rightarrow> http_response \<Rightarrow> http_response) \<Rightarrow> (http_request \<Rightarrow> http \<Rightarrow> http_response result option)
    \<Rightarrow> http_request \<Rightarrow> http \<Rightarrow> http_response result option" where
  "comp_stop pre1 stop1 post1 stop2 rq s = (case stop1 rq s of Some r \<Rightarrow> Some r
     | None \<Rightarrow> map_option (\<lambda>r. case r of Inl e \<Rightarrow> Inl e | Inr resp \<Rightarrow> Inr (post1 rq s resp)) (stop2 rq (pre1 rq s)))"

definition comp_post :: "(http_request \<Rightarrow> http \<Rightarrow> http) \<Rightarrow> (http_request \<Rightarrow> http \<Rightarrow> http_response \<Rightarrow> http_response)
    \<Rightarrow> (http_request \<Rightarrow> http \<Rightarrow> http_response \<Rightarrow> http_response) \<Rightarrow> http_request \<Rightarrow> http \<Rightarrow> http_response \<Rightarrow> http_response" where
  "comp_post pre1 post1 post2 rq s resp = post1 rq s (post2 rq (pre1 rq s) resp)"

lemma middleware_comp:
  assumes "middleware mw1 pre1 stop1 post1" and "middleware mw2 pre2 stop2 post2"
  shows "middleware (\<lambda>nxt. mw1 (mw2 nxt)) (comp_pre pre1 stop1 pre2) (comp_stop pre1 stop1 post1 stop2)
    (comp_post pre1 post1 post2)"
proof
  fix nxt rq s
  show "mw1 (mw2 nxt) rq s = (case comp_stop pre1 stop1 post1 stop2 rq s of
      Some r \<Rightarrow> (r, comp_pre pre1 stop1 pre2 rq s)
    | None \<Rightarrow> (case nxt rq (comp_pre pre1 stop1 pre2 rq s) of (Inl e, s') \<Rightarrow> (Inl e, s')
        | (Inr resp, s') \<Rightarrow> (Inr (comp_post pre1 post1 post2 rq s resp), s')))"
    by (simp add: middleware.run [OF assms(1)] middleware.run [OF assms(2)] comp_stop_def comp_pre_def comp_post_def
        split: option.splits prod.splits sum.splits)
qed

definition no_stop :: "http_request \<Rightarrow> http \<Rightarrow> http_response result option" where
  "no_stop rq s = None"

definition same_state :: "http_request \<Rightarrow> http \<Rightarrow> http" where
  "same_state rq s = s"

definition same_response :: "http_request \<Rightarrow> http \<Rightarrow> http_response \<Rightarrow> http_response" where
  "same_response rq s resp = resp"

definition with_security_headers :: "http_response \<Rightarrow> http_response" where
  "with_security_headers = fold (\<lambda>(name, v). default_header name v) SECURITY_HEADERS"

interpretation security_headers: middleware security_headers_dispatch same_state no_stop "\<lambda>rq s. with_security_headers"
  by unfold_locales (simp add: security_headers_dispatch_def bind_eff_def ret_def no_stop_def same_state_def
      with_security_headers_def split: prod.splits sum.splits)

definition lockdown_stop :: "settings \<Rightarrow> http_request \<Rightarrow> http \<Rightarrow> http_response result option" where
  "lockdown_stop st rq s =
     (if is_production st \<and> \<not> expose_openapi st \<and> rq_path rq \<in> set PRODUCTION_LOCKDOWN_PATHS
      then Some (Inr (json_response 404 ''Not Found'' [])) else None)"

interpretation lockdown: middleware "production_lockdown_dispatch st" same_state "lockdown_stop st" same_response for st
  by unfold_locales (simp add: production_lockdown_dispatch_def lockdown_stop_def ret_def same_state_def
      same_response_def split: prod.splits sum.splits)

definition body_stop :: "settings \<Rightarrow> http_request \<Rightarrow> http \<Rightarrow> http_response result option" where
  "body_stop st rq s =
     (if \<not> is_production_saas st \<or> max_request_body_bytes st \<le> 0 \<or> rq_method rq \<in> set [''GET'', ''HEAD'', ''OPTIONS''] then None
      else case header rq ''content-length'' of
        None \<Rightarrow> None
      | Some c \<Rightarrow> if \<not> isdigit c then None
          else case int_of_digits c of
            Inl e \<Rightarrow> Some (Inl e)
          | Inr n \<Rightarrow> if n > max_request_body_bytes st then Some (Inr (json_response 413 ''Request body too large'' [])) else None)"

interpretation body_size: middleware "request_body_size_dispatch st" same_state "body_stop st" same_response for st
  by unfold_locales (auto simp: request_body_size_dispatch_def body_stop_def bind_eff_def lift_res_def ret_def
      same_state_def same_response_def split: option.splits prod.splits sum.splits)

definition identity_pre :: "settings \<Rightarrow> http_request \<Rightarrow> http \<Rightarrow> http" where
  "identity_pre st rq s = (if is_local_lab st \<and> ap_auth_context (ht_app s) = None
     then s\<lparr>ht_app := (ht_app s)\<lparr>ap_auth_context := Some local_lab_auth_context\<rparr>\<rparr> else s)"

interpretation identity: middleware "auth_context_dispatch st" "identity_pre st" no_stop same_response for st
  by unfold_locales (simp add: auth_context_dispatch_def identity_pre_def bind_eff_def no_stop_def same_response_def
      split: prod.splits sum.splits)

definition context_post :: "settings \<Rightarrow> http_request \<Rightarrow> http \<Rightarrow> http_response \<Rightarrow> http_response" where
  "context_post st rq s resp =
     (let r = set_header ''x-request-id'' (case header rq ''x-request-id'' of Some i \<Rightarrow> i | None \<Rightarrow> rq_uuid rq) resp in
      if log_request_id st then set_header ''x-response-time-ms'' (rq_elapsed_ms rq) r else r)"

interpretation request_context: middleware "request_context_dispatch st" same_state no_stop "context_post st" for st
  by unfold_locales (simp add: request_context_dispatch_def context_post_def bind_eff_def ret_def no_stop_def
      same_state_def Let_def split: prod.splits sum.splits)

definition rate_exempt :: "settings \<Rightarrow> http_request \<Rightarrow> bool" where
  "rate_exempt st rq = (\<not> rate_limit_enabled st \<or> rq_path rq \<in> set [''/health'', ''/ready''])"

definition rate_pre :: "unit result \<Rightarrow> settings \<Rightarrow> http_request \<Rightarrow> http \<Rightarrow> http" where
  "rate_pre client st rq s = (if rate_exempt st rq then s else snd (check_rate client st rq s))"

definition rate_stop :: "unit result \<Rightarrow> settings \<Rightarrow> http_request \<Rightarrow> http \<Rightarrow> http_response result option" where
  "rate_stop client st rq s =
     (if rate_exempt st rq then None
      else case fst (check_rate client st rq s) of
        Inl e \<Rightarrow> Some (case e of RateLimitUnavailable _ \<Rightarrow> Inr (json_response 503 ''Rate limiting unavailable'' []) | _ \<Rightarrow> Inl e)
      | Inr (allowed, remaining) \<Rightarrow>
          if allowed then None
          else Some (Inr (json_response 429 ''Rate limit exceeded'' [(''retry-after'', show_int (rate_limit_window_seconds st))])))"

definition rate_post :: "unit result \<Rightarrow> settings \<Rightarrow> http_request \<Rightarrow> http \<Rightarrow> http_response \<Rightarrow> http_response" where
  "rate_post client st rq s resp =
     (if rate_exempt st rq then resp
      else case fst (check_rate client st rq s) of
        Inl e \<Rightarrow> resp | Inr (allowed, remaining) \<Rightarrow> with_limit_headers st remaining resp)"

interpretation rate_limit: middleware "rate_limit_dispatch client st" "rate_pre client st" "rate_stop client st"
  "rate_post client st" for client st
proof
  fix nxt rq s
  obtain r s1 where "check_rate client st rq s = (r, s1)" by fastforce
  then show "rate_limit_dispatch client st nxt rq s = (case rate_stop client st rq s of
      Some r \<Rightarrow> (r, rate_pre client st rq s)
    | None \<Rightarrow> (case nxt rq (rate_pre client st rq s) of (Inl e, s') \<Rightarrow> (Inl e, s')
        | (Inr resp, s') \<Rightarrow> (Inr (rate_post client st rq s resp), s')))"
    by (cases "rate_exempt st rq")
      (auto simp: rate_limit_dispatch_def rate_exempt_def rate_pre_def rate_stop_def rate_post_def bind_eff_def
        ret_def split: exn.splits prod.splits sum.splits)
qed

text \<open>The stack, from the outside in.\<close>

definition inner_stop :: "settings \<Rightarrow> http_request \<Rightarrow> http \<Rightarrow> http_response result option" where
  "inner_stop st = comp_stop same_state no_stop (\<lambda>rq s. with_security_headers) (lockdown_stop st)"

interpretation guarded: middleware "\<lambda>nxt. security_headers_dispatch (production_lockdown_dispatch st nxt)"
  "comp_pre same_state no_stop same_state" "inner_stop st"
  "comp_post same_state (\<lambda>rq s. with_security_headers) same_response" for st
  unfolding inner_stop_def by (rule middleware_comp [OF security_headers.middleware_axioms lockdown.middleware_axioms])

interpretation sized: middleware
  "\<lambda>nxt. request_body_size_dispatch st (security_headers_dispatch (production_lockdown_dispatch st nxt))"
  "comp_pre same_state (body_stop st) (comp_pre same_state no_stop same_state)"
  "comp_stop same_state (body_stop st) same_response (inner_stop st)"
  "comp_post same_state same_response (comp_post same_state (\<lambda>rq s. with_security_headers) same_response)" for st
  by (rule middleware_comp [OF body_size.middleware_axioms guarded.middleware_axioms])

lemma check_rate_app:
  "fst (check_rate client st rq (s\<lparr>ht_app := a\<rparr>)) = fst (check_rate client st rq s)"
  "snd (check_rate client st rq (s\<lparr>ht_app := a\<rparr>)) = (snd (check_rate client st rq s))\<lparr>ht_app := a\<rparr>"
  by (auto simp: check_rate_def bind_eff_def get_limiter_def limiter_allow_def Let_def
      split: option.splits sum.splits prod.splits limiter_kind.splits)

lemma rate_stop_app [simp]: "rate_stop client st rq (s\<lparr>ht_app := a\<rparr>) = rate_stop client st rq s"
  by (simp add: rate_stop_def check_rate_app)

lemma body_stop_state: "body_stop st rq s = body_stop st rq s'"
  by (simp add: body_stop_def)

lemma rate_post_app [simp]: "rate_post client st rq (s\<lparr>ht_app := a\<rparr>) = rate_post client st rq s"
  by (simp add: rate_post_def check_rate_app fun_eq_iff)

lemma context_post_state: "context_post st rq s = context_post st rq s'"
  by (simp add: context_post_def fun_eq_iff)

lemma start_state: "\<exists>a. identity_pre st rq (s\<lparr>ht_app := b\<rparr>) = s\<lparr>ht_app := a\<rparr> \<and> ap_pg a = ap_pg b \<and> ap_metrics a = ap_metrics b"
  by (auto simp: identity_pre_def intro: exI [of _ b] exI [of _ "b\<lparr>ap_auth_context := Some local_lab_auth_context\<rparr>"])

text \<open>How a response gets out: refused by the limiter, refused for its size, or completed.\<close>

lemma serve_cases:
  assumes "serve client st routes rq s = (Inr resp, s')"
  obtains (limited) r where "rate_stop client st rq s = Some (Inr r)" "resp = context_post st rq s r"
  | (oversized) r where "rate_stop client st rq s = None" "body_stop st rq s = Some (Inr r)"
      "resp = context_post st rq s (rate_post client st rq s r)"
  | (served) r where "rate_stop client st rq s = None" "body_stop st rq s = None"
      "resp = context_post st rq s (rate_post client st rq s (with_security_headers r))"
proof -
  let ?s0 = "s\<lparr>ht_app := (ht_app s)\<lparr>ap_auth_context := None\<rparr>\<rparr>"
  obtain a where a: "identity_pre st rq ?s0 = s\<lparr>ht_app := a\<rparr>"
    using start_state [where s = s] by blast
  obtain r where r: "resp = context_post st rq s r" and "auth_context_dispatch st
      (rate_limit_dispatch client st (request_body_size_dispatch st (security_headers_dispatch
        (production_lockdown_dispatch st routes)))) rq ?s0 = (Inr r, s')"
    using assms unfolding serve_def middleware_stack_def
    by (rule request_context.answered) (auto simp: no_stop_def same_state_def intro: context_post_state [THEN fun_cong])
  from this(2) have "rate_limit_dispatch client st (request_body_size_dispatch st (security_headers_dispatch
        (production_lockdown_dispatch st routes))) rq (s\<lparr>ht_app := a\<rparr>) = (Inr r, s')"
    by (rule identity.answered) (auto simp: no_stop_def same_response_def a)
  then show thesis
  proof (cases rule: rate_limit.answered)
    case self
    then show thesis using limited r by simp
  next
    case (inner r1)
    have size: "body_stop st rq s = body_stop st rq (rate_pre client st rq (s\<lparr>ht_app := a\<rparr>))"
      by (rule body_stop_state)
    from inner(2) show thesis
    proof (cases rule: body_size.answered)
      case self
      then show thesis
        using oversized [of r1] inner r size by simp
    next
      case (inner r2)
      from inner(2) obtain r3 where "r2 = with_security_headers r3"
        by (rule security_headers.answered) (auto simp: no_stop_def)
      then show thesis
        using served [of r3] inner(1,3) \<open>rate_stop client st rq (s\<lparr>ht_app := a\<rparr>) = None\<close>
          \<open>r = rate_post client st rq (s\<lparr>ht_app := a\<rparr>) r1\<close> r
        using size by (simp add: same_response_def)
    qed
  qed
qed

section \<open>Headers\<close>

lemma map_of_set_header [simp]: "map_of (rs_headers (set_header n v r)) = (map_of (rs_headers r))(n \<mapsto> v)"
  by (simp add: set_header_def)

lemma map_of_default_header:
  "map_of (rs_headers (default_header n v r)) j = (if j = n \<and> map_of (rs_headers r) n = None then Some v else map_of (rs_headers r) j)"
  by (simp add: default_header_def map_of_setdefault)

lemma fold_default_headers:
  "map_of (rs_headers (fold (\<lambda>(n, v). default_header n v) hs r)) j =
     (case map_of (rs_headers r) j of Some w \<Rightarrow> Some w | None \<Rightarrow> map_of hs j)"
  by (induction hs arbitrary: r) (auto simp: map_of_default_header split: option.splits)

definition is_secured :: "http_response \<Rightarrow> bool" where
  "is_secured r = list_all (\<lambda>(n, v). map_of (rs_headers r) n \<noteq> None) SECURITY_HEADERS"

lemma with_security_headers_secured: "is_secured (with_security_headers r)"
  by (auto simp: is_secured_def with_security_headers_def fold_default_headers list_all_iff
      split: option.splits dest: weak_map_of_SomeI)

lemma is_secured_set_header: "is_secured r \<Longrightarrow> is_secured (set_header n v r)"
  by (auto simp: is_secured_def list_all_iff)

lemma outer_secured: "is_secured r \<Longrightarrow> is_secured (context_post st rq s (rate_post client st rq s r))"
  by (auto simp: context_post_def rate_post_def with_limit_headers_def Let_def intro!: is_secured_set_header
      split: sum.splits)

lemma outer_unsecured:
  assumes "map_of (rs_headers r) ''x-frame-options'' = None"
  shows "\<not> is_secured (context_post st rq s r)" and "\<not> is_secured (context_post st rq s (rate_post client st rq s r))"
proof -
  have key: "\<not> is_secured q" if "map_of (rs_headers q) ''x-frame-options'' = None" for q
    using that by (simp add: is_secured_def SECURITY_HEADERS_def)
  show "\<not> is_secured (context_post st rq s r)"
    by (rule key) (simp add: context_post_def Let_def assms)
  show "\<not> is_secured (context_post st rq s (rate_post client st rq s r))"
    by (rule key) (simp add: context_post_def rate_post_def with_limit_headers_def Let_def assms split: sum.splits prod.splits)
qed

lemma rate_stop_plain: "rate_stop client st rq s = Some (Inr r) \<Longrightarrow> map_of (rs_headers r) ''x-frame-options'' = None"
  by (auto simp: rate_stop_def json_response_def split: if_splits sum.splits prod.splits exn.splits)

lemma body_stop_plain: "body_stop st rq s = Some (Inr r) \<Longrightarrow> map_of (rs_headers r) ''x-frame-options'' = None"
  by (auto simp: body_stop_def json_response_def split: if_splits sum.splits option.splits)

section \<open>Admission\<close>

text \<open>The limiter a production server can hold: none yet, or the fail-closed one on Redis.\<close>

definition limiter_closed :: "http \<Rightarrow> bool" where
  "limiter_closed s = (ht_limiter s = None \<or> ht_limiter s = Some (RedisRateLimiter False) \<and> ht_backend s = Some ''redis'')"

lemma get_limiter_closed:
  assumes "limiter_closed s" and "rate_limit_backend st = ''redis''" and "is_production st"
    and "get_limiter client st s = (Inr k, s')"
  shows "k = RedisRateLimiter False \<and> ht_redis s' = ht_redis s \<and> limiter_closed s'"
  using assms by (auto simp: get_limiter_def limiter_closed_def build_rate_limiter_def Let_def
      split: option.splits sum.splits if_splits)

lemma check_rate_recorded:
  assumes "limiter_closed s" and "rate_limit_backend st = ''redis''" and "is_production st"
    and "check_rate client st rq s = (Inr (True, left), s')"
  shows "\<exists>z. map_of (rd_zsets (ht_redis s')) (RATE_LIMIT_PREFIX @ client_key rq st) = Some z
    \<and> (rq_member rq, rq_time rq) \<in> set (zs_members z)"
proof -
  obtain k s1 where k: "get_limiter client st s = (Inr k, s1)"
    and allow: "limiter_allow k rq (client_key rq st) (rate_limit_requests st) (rate_limit_window_seconds st) s1
       = (Inr (True, left), s')"
    using assms(4) by (auto simp: check_rate_def bind_eff_Inr_iff)
  have "k = RedisRateLimiter False"
    using get_limiter_closed [OF assms(1-3) k] by simp
  then obtain r where r: "redis_allow False (rq_member rq) (client_key rq st) (rate_limit_requests st)
      (rate_limit_window_seconds st) (rq_time rq) (ht_redis s1) = (Inr (True, left), r)" "ht_redis s' = r"
    using allow by (auto simp: limiter_allow_def split: prod.splits)
  obtain q where "redis_allow_body (rq_member rq) (client_key rq st) (rate_limit_requests st)
      (rate_limit_window_seconds st) (rq_time rq) (ht_redis s1) = (q, r)" "q = Inr (True, left)"
    using r(1) by (auto simp: redis_allow_def catch_eff_def raise_exn_def split: prod.splits sum.splits)
  then show ?thesis
    using redis_allow_body_cases r(2) by blast
qed

lemma serve_rate_stopped:
  assumes "rate_stop client st rq s \<noteq> None"
  shows "serve client st r1 rq s = serve client st r2 rq s"
proof -
  obtain a where a: "identity_pre st rq (s\<lparr>ht_app := (ht_app s)\<lparr>ap_auth_context := None\<rparr>\<rparr>) = s\<lparr>ht_app := a\<rparr>"
    using start_state [where s = s] by blast
  have eq: "rate_limit_dispatch client st n1 rq (s\<lparr>ht_app := a\<rparr>) = rate_limit_dispatch client st n2 rq (s\<lparr>ht_app := a\<rparr>)" for n1 n2
    using assms by (intro rate_limit.stopped_any) simp
  let ?n = "\<lambda>r. request_body_size_dispatch st (security_headers_dispatch (production_lockdown_dispatch st r))"
  have "auth_context_dispatch st (rate_limit_dispatch client st (?n r1)) rq (s\<lparr>ht_app := (ht_app s)\<lparr>ap_auth_context := None\<rparr>\<rparr>) =
      auth_context_dispatch st (rate_limit_dispatch client st (?n r2)) rq (s\<lparr>ht_app := (ht_app s)\<lparr>ap_auth_context := None\<rparr>\<rparr>)"
    by (simp add: identity.run no_stop_def a eq [of "?n r1" "?n r2"])
  then show ?thesis
    by (simp add: serve_def middleware_stack_def request_context_dispatch_def bind_eff_def)
qed

lemma split_chr_append: "split_chr c (x @ c # y) = split_chr c x @ split_chr c y"
  by (induction x) (auto split: list.splits)

lemma split_chr_single: "c \<notin> set y \<Longrightarrow> split_chr c y = [y]"
  by (induction y) auto

lemma csv_list_last:
  assumes "CHR '','' \<notin> set ip" and "strip ip \<noteq> []"
  shows "csv_list (x @ CHR '','' # ip) \<noteq> [] \<and> last (csv_list (x @ CHR '','' # ip)) = strip ip"
  using assms by (simp add: csv_list_def split_chr_append split_chr_single)

section \<open>Properties\<close>

definition example_http :: http where
  "example_http = \<lparr>ht_app = example_app, ht_limiter = None, ht_backend = None, ht_memory = [], ht_redis = empty_redis,
     ht_kv = \<lparr>kv_faults = [], kv_now = 0, kv_data = []\<rparr>\<rparr>"

definition example_request :: http_request where
  "example_request = \<lparr>rq_method = ''POST'', rq_path = ''/labs/redis/run'',
     rq_headers = [(''x-forwarded-for'', ''10.9.9.9, 203.0.113.7'')], rq_client = Some ''172.18.0.5'', rq_body = PDict [],
     rq_uuid = ''r1'', rq_elapsed_ms = ''1.00'', rq_monotonic = 0, rq_time = 0, rq_member = ''0:aa''\<rparr>"

definition ok_route :: handler where
  "ok_route rq = ret \<lparr>rs_status = 200, rs_headers = [], rs_body = PNone\<rparr>"



text \<open>
  The client a request is counted for cannot be chosen by the client: when the proxy is trusted,
  whatever text the request carried in \<open>X-Forwarded-For\<close>, the key is the address the proxy appended
  after the last comma.
\<close>

theorem forwarded_client_key:
  assumes "trust_proxy_headers st" and "header rq ''x-forwarded-for'' = Some (claimed @ CHR '','' # ip)"
    and "CHR '','' \<notin> set ip" and "strip ip \<noteq> []"
  shows "client_key rq st = strip ip"
  using csv_list_last [OF assms(3,4), of claimed] assms(1,2) by (simp add: client_key_def)

theorem forwarded_client_key_witness:
  "client_key example_request (default_settings\<lparr>trust_proxy_headers := True\<rparr>) = ''203.0.113.7''"
proof -
  have pre: "trust_proxy_headers (default_settings\<lparr>trust_proxy_headers := True\<rparr>)"
    "header example_request ''x-forwarded-for'' = Some (''10.9.9.9'' @ CHR '','' # '' 203.0.113.7'')"
    "CHR '','' \<notin> set '' 203.0.113.7''" "strip '' 203.0.113.7'' \<noteq> []" "strip '' 203.0.113.7'' = ''203.0.113.7''"
    by code_simp+
  show ?thesis
    using forwarded_client_key [OF pre(1,2,3,4)] pre(5) by simp
qed



end
