(* ===== verification/Lab_Capacity.thy ===== *)
theory Lab_Capacity
  imports Py_Prelude
begin

text \<open>
  What every lab returns, and the two labs that simulate load: \<open>labs/circuit_breaker.py\<close> and
  \<open>labs/sse_exhaustion.py\<close>. A result has the seven public fields and, in \<open>lr_internal\<close>, the
  keys that start with an underscore, in the order they are written. The contract the two share, to
  admit what fits and account for the rest, is a locale, which the write-storm lab is an instance of too.
\<close>

record lab_result =
  lr_lab :: string
  lr_mode :: string
  lr_blocked :: bool
  lr_risk :: string
  lr_control :: string
  lr_events :: "string list"
  lr_summary :: string
  lr_internal :: pydict

definition internal_int :: "lab_result \<Rightarrow> string \<Rightarrow> int" where
  "internal_int r k = (case map_of (lr_internal r) k of Some (PInt i) \<Rightarrow> i | _ \<Rightarrow> 0)"

definition internal_bool :: "lab_result \<Rightarrow> string \<Rightarrow> bool" where
  "internal_bool r k = (case map_of (lr_internal r) k of Some (PBool b) \<Rightarrow> b | _ \<Rightarrow> False)"

definition internal_str :: "lab_result \<Rightarrow> string \<Rightarrow> string" where
  "internal_str r k = (case map_of (lr_internal r) k of Some (PStr b) \<Rightarrow> b | _ \<Rightarrow> [])"

section \<open>Circuit breaker\<close>

definition MAX_REQUESTED_WORK_UNITS :: int where "MAX_REQUESTED_WORK_UNITS = 1000"
definition SAFE_CAPACITY :: int where "SAFE_CAPACITY = 100"
definition CRITICAL_CAPACITY :: int where "CRITICAL_CAPACITY = 200"
definition SAFE_P99_LATENCY_MS :: int where "SAFE_P99_LATENCY_MS = 500"

definition validate_requested_work_units :: "int \<Rightarrow> unit result" where
  "validate_requested_work_units n =
     (if n < 1 \<or> n > MAX_REQUESTED_WORK_UNITS
      then Inl (ValueError ''requested_work_units must be between 1 and 1000'') else Inr ())"

definition simulate_p99_latency_ms :: "int \<Rightarrow> int" where
  "simulate_p99_latency_ms accepted = 100 + accepted * 2"

definition simulate_failures_vulnerable :: "int \<Rightarrow> int" where
  "simulate_failures_vulnerable n = (if n \<le> CRITICAL_CAPACITY then 0 else n - CRITICAL_CAPACITY)"

definition breaker_internal :: "int \<Rightarrow> int \<Rightarrow> int \<Rightarrow> int \<Rightarrow> int \<Rightarrow> int \<Rightarrow> int \<Rightarrow> pydict" where
  "breaker_internal state requested accepted shed failures queue p99 =
     [(''_circuit_breaker_state'', PInt state), (''_requested_work_units'', PInt requested),
      (''_accepted_work_units'', PInt accepted), (''_shed_work_units'', PInt shed),
      (''_simulated_failures'', PInt failures), (''_queue_depth'', PInt queue), (''_p99_latency_ms'', PInt p99)]"

definition breaker_vulnerable :: "string \<Rightarrow> int \<Rightarrow> lab_result" where
  "breaker_vulnerable mode requested =
     (let accepted = requested; queue_depth = accepted; p99 = simulate_p99_latency_ms accepted;
          failures = simulate_failures_vulnerable requested in
      \<lparr>lr_lab = ''circuit-breaker'', lr_mode = mode, lr_blocked = False,
       lr_risk = ''Cascading inference failure from unbounded work acceptance under load'',
       lr_control = ''none'',
       lr_events = [''Requested work units: '' @ show_int requested,
          ''Accepted all requested work units: '' @ show_int accepted,
          ''No circuit breaker applied'', ''Queue depth increased to '' @ show_int queue_depth,
          ''Simulated p99 latency: '' @ show_int p99 @ ''ms (safe threshold: '' @ show_int SAFE_P99_LATENCY_MS @ ''ms)'']
          @ (if p99 > SAFE_P99_LATENCY_MS then [''Simulated p99 latency exceeded safe threshold''] else [])
          @ (if failures > 0 then [''Simulated failure count: '' @ show_int failures @ '' (critical capacity: ''
               @ show_int CRITICAL_CAPACITY @ '')''] else [])
          @ [''Cascading failure risk recorded''],
       lr_summary = ''Vulnerable mode accepted all '' @ show_int accepted @ '' synthetic work units without backpressure.'',
       lr_internal = breaker_internal 0 requested accepted 0 failures queue_depth p99\<rparr>)"

definition breaker_hardened :: "string \<Rightarrow> int \<Rightarrow> lab_result" where
  "breaker_hardened mode requested =
     (let opened = requested > SAFE_CAPACITY;
          state = (if opened then 1 else 0);
          accepted = (if opened then SAFE_CAPACITY else requested);
          shed = (if opened then requested - SAFE_CAPACITY else 0);
          queue_depth = accepted; p99 = simulate_p99_latency_ms accepted in
      \<lparr>lr_lab = ''circuit-breaker'', lr_mode = mode, lr_blocked = opened,
       lr_risk = ''Cascading inference failure from unbounded work acceptance under load'',
       lr_control = ''circuit breaker and load shedding at safe capacity threshold'',
       lr_events = [''Requested work units: '' @ show_int requested,
          (if opened then ''Circuit breaker opened: requested work exceeded safe capacity''
           else ''Circuit breaker closed: requested work within safe capacity''),
          ''Accepted safe work units: '' @ show_int accepted, ''Shed excess work units: '' @ show_int shed,
          ''Set circuit breaker state metric: '' @ show_int state, ''Emitted mitigation metrics''],
       lr_summary = ''Hardened mode accepted '' @ show_int accepted @ '' work units, shed '' @ show_int shed
          @ '', circuit breaker state '' @ show_int state @ ''.'',
       lr_internal = breaker_internal state requested accepted shed 0 queue_depth p99\<rparr>)"

definition run_circuit_breaker_lab :: "string \<Rightarrow> int \<Rightarrow> lab_result result" where
  "run_circuit_breaker_lab mode requested_work_units =
     bind_res (validate_requested_work_units requested_work_units) (\<lambda>_.
       Inr (if mode = ''vulnerable'' then breaker_vulnerable mode requested_work_units
            else breaker_hardened mode requested_work_units))"

section \<open>Stream exhaustion\<close>

definition MAX_REQUESTED_STREAMS :: int where "MAX_REQUESTED_STREAMS = 1000"
definition MAX_STREAM_DURATION_SECONDS :: int where "MAX_STREAM_DURATION_SECONDS = 3600"
definition MAX_STREAMS_PER_TENANT :: int where "MAX_STREAMS_PER_TENANT = 50"
definition IDLE_TIMEOUT_SECONDS :: int where "IDLE_TIMEOUT_SECONDS = 30"
definition WORKER_PRESSURE_THRESHOLD :: int where "WORKER_PRESSURE_THRESHOLD = 100"

definition validate_requested_streams :: "int \<Rightarrow> unit result" where
  "validate_requested_streams n =
     (if n < 1 \<or> n > MAX_REQUESTED_STREAMS
      then Inl (ValueError ''requested_streams must be between 1 and 1000'') else Inr ())"

definition validate_stream_duration :: "int \<Rightarrow> unit result" where
  "validate_stream_duration n =
     (if n < 1 \<or> n > MAX_STREAM_DURATION_SECONDS
      then Inl (ValueError ''stream_duration_seconds must be between 1 and 3600'') else Inr ())"

definition simulate_orphaned_streams_vulnerable :: "int \<Rightarrow> int" where
  "simulate_orphaned_streams_vulnerable accepted = max 0 (accepted - MAX_STREAMS_PER_TENANT)"

definition simulate_memory_pressure_mb :: "int \<Rightarrow> int \<Rightarrow> int" where
  "simulate_memory_pressure_mb active duration = (active * duration) div 60"

definition sse_internal :: "int \<Rightarrow> int \<Rightarrow> int \<Rightarrow> int \<Rightarrow> int \<Rightarrow> int \<Rightarrow> int \<Rightarrow> bool \<Rightarrow> pydict" where
  "sse_internal requested accepted rejected active orphaned worker memory cleanup =
     [(''_requested_streams'', PInt requested), (''_accepted_streams'', PInt accepted),
      (''_rejected_streams'', PInt rejected), (''_active_streams'', PInt active),
      (''_orphaned_streams'', PInt orphaned), (''_worker_pressure'', PInt worker),
      (''_memory_pressure_mb'', PInt memory), (''_cleanup_applied'', PBool cleanup)]"

definition sse_vulnerable :: "string \<Rightarrow> int \<Rightarrow> int \<Rightarrow> lab_result" where
  "sse_vulnerable mode requested duration =
     (let accepted = requested; active = accepted; orphaned = simulate_orphaned_streams_vulnerable accepted;
          worker = active; memory = simulate_memory_pressure_mb active duration in
      \<lparr>lr_lab = ''sse-exhaustion'', lr_mode = mode, lr_blocked = False,
       lr_risk = ''Streaming resource exhaustion from unbounded SSE connections'', lr_control = ''none'',
       lr_events = [''Requested stream count: '' @ show_int requested, ''Stream duration seconds: '' @ show_int duration,
          ''Accepted all requested streams: '' @ show_int accepted, ''No stream cap applied'',
          ''No idle timeout applied'', ''No cleanup applied'',
          ''Simulated orphaned streams created: '' @ show_int orphaned,
          ''Simulated worker pressure: '' @ show_int worker @ '' (threshold: '' @ show_int WORKER_PRESSURE_THRESHOLD @ '')'',
          ''Simulated memory pressure: '' @ show_int memory @ '' MB'',
          ''Worker pressure risk recorded'', ''Memory pressure risk recorded''],
       lr_summary = ''Vulnerable mode accepted all '' @ show_int accepted
          @ '' synthetic SSE streams without caps or cleanup.'',
       lr_internal = sse_internal requested accepted 0 active orphaned worker memory False\<rparr>)"

definition sse_hardened :: "string \<Rightarrow> int \<Rightarrow> int \<Rightarrow> lab_result" where
  "sse_hardened mode requested duration =
     (let over = requested > MAX_STREAMS_PER_TENANT;
          accepted = (if over then MAX_STREAMS_PER_TENANT else requested);
          rejected = (if over then requested - MAX_STREAMS_PER_TENANT else 0);
          active = accepted; orphaned = 0; worker = active;
          memory = simulate_memory_pressure_mb active duration in
      \<lparr>lr_lab = ''sse-exhaustion'', lr_mode = mode, lr_blocked = over,
       lr_risk = ''Streaming resource exhaustion from unbounded SSE connections'',
       lr_control = ''tenant stream cap, idle timeout, and cleanup for synthetic SSE streams'',
       lr_events = [''Requested stream count: '' @ show_int requested, ''Stream duration seconds: '' @ show_int duration,
          ''Applied tenant stream cap: '' @ show_int MAX_STREAMS_PER_TENANT,
          ''Accepted allowed streams: '' @ show_int accepted, ''Rejected excess streams: '' @ show_int rejected,
          ''Applied idle timeout: '' @ show_int IDLE_TIMEOUT_SECONDS @ ''s'', ''Applied cleanup'',
          ''Simulated orphaned streams after cleanup: '' @ show_int orphaned, ''Emitted SSE mitigation metrics''],
       lr_summary = ''Hardened mode accepted '' @ show_int accepted @ '' streams, rejected '' @ show_int rejected
          @ '', and applied cleanup controls.'',
       lr_internal = sse_internal requested accepted rejected active orphaned worker memory True\<rparr>)"

definition run_sse_exhaustion_lab :: "string \<Rightarrow> int \<Rightarrow> int \<Rightarrow> lab_result result" where
  "run_sse_exhaustion_lab mode requested_streams stream_duration_seconds =
     bind_res (validate_requested_streams requested_streams) (\<lambda>_.
     bind_res (validate_stream_duration stream_duration_seconds) (\<lambda>_.
       Inr (if mode = ''vulnerable'' then sse_vulnerable mode requested_streams stream_duration_seconds
            else sse_hardened mode requested_streams stream_duration_seconds)))"

section \<open>Admission under a cap\<close>

text \<open>
  A lab that admits at most \<open>cap\<close> of what is requested when it is hardened, admits everything when
  it is vulnerable, refuses the rest, and validates the request first.
\<close>

locale capped_admission =
  fixes run :: "string \<Rightarrow> int \<Rightarrow> lab_result result"
    and admitted_of :: "lab_result \<Rightarrow> int"
    and refused_of :: "lab_result \<Rightarrow> int"
    and cap :: int
    and top :: int
  assumes accepts_iff: "(\<exists>r. run mode n = Inr r) \<longleftrightarrow> 1 \<le> n \<and> n \<le> top"
    and conserves: "run mode n = Inr r \<Longrightarrow> admitted_of r + refused_of r = n"
    and capped: "run mode n = Inr r \<Longrightarrow> mode \<noteq> ''vulnerable'' \<Longrightarrow> admitted_of r = min n cap"
    and uncapped: "run ''vulnerable'' n = Inr r \<Longrightarrow> refused_of r = 0"
    and cap_positive: "0 < cap"
begin

lemma admits_something:
  "run mode n = Inr r \<Longrightarrow> 1 \<le> admitted_of r \<and> admitted_of r \<le> n"
  using accepts_iff [of mode n] conserves [of mode n r] capped [of mode n r] uncapped [of n r] cap_positive
  by (cases "mode = ''vulnerable''") auto

text \<open>More demand never gets less through, and never less refused.\<close>

lemma monotone:
  assumes "run mode m = Inr q" and "run mode n = Inr r" and "m \<le> n"
  shows "admitted_of q \<le> admitted_of r" and "refused_of q \<le> refused_of r"
  using assms conserves [OF assms(1)] conserves [OF assms(2)] capped [OF assms(1)] capped [OF assms(2)]
    uncapped [of m q] uncapped [of n r]
  by (cases "mode = ''vulnerable''"; auto)+

lemma refuses_iff:
  assumes "run mode n = Inr r" and "mode \<noteq> ''vulnerable''"
  shows "0 < refused_of r \<longleftrightarrow> cap < n" and "refused_of r = max 0 (n - cap)"
  using capped [OF assms] conserves [OF assms(1)] by auto

end

lemma breaker_internal_simps [simp]:
  "internal_int (breaker_vulnerable mode n) ''_accepted_work_units'' = n"
  "internal_int (breaker_vulnerable mode n) ''_shed_work_units'' = 0"
  "internal_int (breaker_hardened mode n) ''_accepted_work_units'' = min n SAFE_CAPACITY"
  "internal_int (breaker_hardened mode n) ''_shed_work_units'' = max 0 (n - SAFE_CAPACITY)"
  "internal_int (breaker_hardened mode n) ''_circuit_breaker_state'' = (if n > SAFE_CAPACITY then 1 else 0)"
  "internal_int (breaker_hardened mode n) ''_simulated_failures'' = 0"
  "internal_int (breaker_hardened mode n) ''_p99_latency_ms'' = 100 + 2 * min n SAFE_CAPACITY"
  by (auto simp: breaker_vulnerable_def breaker_hardened_def breaker_internal_def internal_int_def Let_def
      simulate_p99_latency_ms_def)

lemma sse_internal_simps [simp]:
  "internal_int (sse_vulnerable mode n d) ''_accepted_streams'' = n"
  "internal_int (sse_vulnerable mode n d) ''_rejected_streams'' = 0"
  "internal_int (sse_hardened mode n d) ''_accepted_streams'' = min n MAX_STREAMS_PER_TENANT"
  "internal_int (sse_hardened mode n d) ''_rejected_streams'' = max 0 (n - MAX_STREAMS_PER_TENANT)"
  "internal_int (sse_hardened mode n d) ''_orphaned_streams'' = 0"
  "internal_bool (sse_hardened mode n d) ''_cleanup_applied''"
  "internal_int (sse_vulnerable mode n d) ''_orphaned_streams'' = max 0 (n - MAX_STREAMS_PER_TENANT)"
  "internal_int (sse_hardened mode n d) ''_memory_pressure_mb'' = (min n MAX_STREAMS_PER_TENANT * d) div 60"
  by (auto simp: sse_vulnerable_def sse_hardened_def sse_internal_def internal_int_def internal_bool_def Let_def
      simulate_orphaned_streams_vulnerable_def simulate_memory_pressure_mb_def)

lemma run_circuit_breaker_Inr:
  "run_circuit_breaker_lab mode n = Inr r \<longleftrightarrow> 1 \<le> n \<and> n \<le> MAX_REQUESTED_WORK_UNITS \<and>
     r = (if mode = ''vulnerable'' then breaker_vulnerable mode n else breaker_hardened mode n)"
  by (auto simp: run_circuit_breaker_lab_def validate_requested_work_units_def)

lemma run_sse_Inr:
  "run_sse_exhaustion_lab mode n d = Inr r \<longleftrightarrow> 1 \<le> n \<and> n \<le> MAX_REQUESTED_STREAMS \<and> 1 \<le> d \<and>
     d \<le> MAX_STREAM_DURATION_SECONDS \<and>
     r = (if mode = ''vulnerable'' then sse_vulnerable mode n d else sse_hardened mode n d)"
  by (auto simp: run_sse_exhaustion_lab_def validate_requested_streams_def validate_stream_duration_def)

interpretation breaker: capped_admission run_circuit_breaker_lab
  "\<lambda>r. internal_int r ''_accepted_work_units''" "\<lambda>r. internal_int r ''_shed_work_units''"
  SAFE_CAPACITY MAX_REQUESTED_WORK_UNITS
  by unfold_locales (auto simp: run_circuit_breaker_Inr SAFE_CAPACITY_def split: if_splits)

interpretation streams: capped_admission "\<lambda>mode n. run_sse_exhaustion_lab mode n 120"
  "\<lambda>r. internal_int r ''_accepted_streams''" "\<lambda>r. internal_int r ''_rejected_streams''"
  MAX_STREAMS_PER_TENANT MAX_REQUESTED_STREAMS
  by unfold_locales (auto simp: run_sse_Inr MAX_STREAMS_PER_TENANT_def MAX_STREAM_DURATION_SECONDS_def split: if_splits)

section \<open>Properties\<close>

text \<open>
  The circuit breaker accounts for every unit and keeps the system safe: on a valid request the
  units accepted and shed add up to those requested; in hardened mode no more than the safe capacity
  is accepted, the breaker is open (state 1, and the result blocked) exactly when something is shed,
  nothing fails, and the simulated latency stays within the safe threshold of 500 ms.
\<close>

theorem circuit_breaker_safe:
  assumes "run_circuit_breaker_lab mode n = Inr r"
  shows "internal_int r ''_accepted_work_units'' + internal_int r ''_shed_work_units'' = n
    \<and> (mode \<noteq> ''vulnerable'' \<longrightarrow>
        internal_int r ''_accepted_work_units'' \<le> SAFE_CAPACITY
        \<and> (lr_blocked r \<longleftrightarrow> 0 < internal_int r ''_shed_work_units'')
        \<and> internal_int r ''_circuit_breaker_state'' = (if lr_blocked r then 1 else 0)
        \<and> internal_int r ''_simulated_failures'' = 0
        \<and> internal_int r ''_p99_latency_ms'' \<le> SAFE_P99_LATENCY_MS)"
proof -
  have blocked: "lr_blocked (breaker_hardened mode n) \<longleftrightarrow> n > SAFE_CAPACITY"
    by (simp add: breaker_hardened_def Let_def)
  show ?thesis
    using assms breaker.conserves [OF assms] blocked
    by (auto simp: run_circuit_breaker_Inr SAFE_CAPACITY_def SAFE_P99_LATENCY_MS_def)
qed

theorem circuit_breaker_safe_witness:
  "lr_blocked (breaker_hardened ''hardened'' 250) \<longleftrightarrow> 0 < internal_int (breaker_hardened ''hardened'' 250) ''_shed_work_units''"
proof -
  have "run_circuit_breaker_lab ''hardened'' 250 = Inr (breaker_hardened ''hardened'' 250)"
    by (simp add: run_circuit_breaker_Inr MAX_REQUESTED_WORK_UNITS_def)
  from circuit_breaker_safe [OF this] show ?thesis by simp
qed

text \<open>
  The stream cap holds and leaks nothing: on a valid request streams accepted and rejected add up
  to those requested; in hardened mode at most 50 are accepted, the result is blocked exactly when
  some are rejected, no stream is left orphaned, cleanup ran, and the simulated memory is at most
  3000 MB; in vulnerable mode everything above the cap is orphaned.
\<close>

theorem sse_streams_capped:
  assumes "run_sse_exhaustion_lab mode n d = Inr r"
  shows "internal_int r ''_accepted_streams'' + internal_int r ''_rejected_streams'' = n
    \<and> (if mode = ''vulnerable'' then internal_int r ''_orphaned_streams'' = max 0 (n - 50)
       else internal_int r ''_accepted_streams'' \<le> 50
        \<and> (lr_blocked r \<longleftrightarrow> 0 < internal_int r ''_rejected_streams'')
        \<and> internal_int r ''_orphaned_streams'' = 0 \<and> internal_bool r ''_cleanup_applied''
        \<and> internal_int r ''_memory_pressure_mb'' \<le> 3000)"
proof -
  have blocked: "lr_blocked (sse_hardened mode n d) \<longleftrightarrow> n > MAX_STREAMS_PER_TENANT"
    by (simp add: sse_hardened_def Let_def)
  have "(min n 50 * d) div 60 \<le> 3000" if "1 \<le> n" "d \<le> 3600" "1 \<le> d"
  proof -
    have "min n 50 * d \<le> 50 * 3600" using that by (intro mult_mono) auto
    then show ?thesis by linarith
  qed
  then show ?thesis
    using assms blocked by (auto simp: run_sse_Inr MAX_STREAMS_PER_TENANT_def MAX_STREAM_DURATION_SECONDS_def)
qed

theorem sse_streams_capped_witness:
  "internal_int (sse_hardened ''hardened'' 250 120) ''_accepted_streams'' \<le> 50"
proof -
  have "run_sse_exhaustion_lab ''hardened'' 250 120 = Inr (sse_hardened ''hardened'' 250 120)"
    by (simp add: run_sse_Inr MAX_REQUESTED_STREAMS_def MAX_STREAM_DURATION_SECONDS_def)
  from sse_streams_capped [OF this] show ?thesis by simp
qed

end
