(* ===== verification/Lab_Data.thy ===== *)
theory Lab_Data
  imports Db Lab_Capacity
begin

text \<open>
  The two labs on PostgreSQL: \<open>labs/governance.py\<close> and \<open>labs/postgres_write_storm.py\<close>, each with
  its in-memory fallback and its live run on the database of \<open>Db\<close>. The host and port the module read
  from the environment, the random ids and the measured duration are arguments.
\<close>

section \<open>Prompt governance: the fallback\<close>

definition GOVERNANCE_RISK :: string where
  "GOVERNANCE_RISK = ''Incomplete prompt deletion leaves retrievable downstream artifacts''"

definition GOVERNANCE_CONTROL :: string where
  "GOVERNANCE_CONTROL = ''downstream dependency audit and cascade deletion evidence''"

record prompt_record =
  prec_prompt_id :: string
  prec_content :: string
  prec_request_records :: "string list"
  prec_log_records :: "string list"
  prec_tool_records :: "string list"
  prec_eval_queue :: "string list"
  prec_training_queue :: "string list"

definition build_sample_prompt :: prompt_record where
  "build_sample_prompt = \<lparr>prec_prompt_id = ''prompt-001'',
     prec_content = ''Summarize customer feedback for product team.'',
     prec_request_records = [''req-100'', ''req-101''], prec_log_records = [''log-200'', ''log-201''],
     prec_tool_records = [''tool-300''], prec_eval_queue = [''eval-400''], prec_training_queue = [''train-500'']\<rparr>"

text \<open>The dependent records by category, in the order both deletions go through them.\<close>

definition dependents :: "prompt_record \<Rightarrow> (string \<times> string list) list" where
  "dependents r = [(''request_records'', prec_request_records r), (''log_records'', prec_log_records r),
     (''tool_records'', prec_tool_records r), (''eval_queue'', prec_eval_queue r),
     (''training_queue'', prec_training_queue r)]"

record deletion =
  del_deleted :: "string list"
  del_orphaned :: "(string \<times> nat) list"
  del_audit_evidence :: "string list"

definition delete_vulnerable :: "prompt_record \<Rightarrow> deletion" where
  "delete_vulnerable r = \<lparr>del_deleted = [prec_prompt_id r],
     del_orphaned = map (\<lambda>(c, xs). (c, length xs)) (dependents r), del_audit_evidence = []\<rparr>"

definition delete_hardened :: "prompt_record \<Rightarrow> deletion" where
  "delete_hardened r = \<lparr>
     del_deleted = concat (map (\<lambda>(c, xs). map (\<lambda>x. c @ '':'' @ x) xs) (dependents r)) @ [''primary:'' @ prec_prompt_id r],
     del_orphaned = map (\<lambda>(c, xs). (c, 0)) (dependents r),
     del_audit_evidence = map (\<lambda>(c, xs). ''Checked '' @ c @ '': '' @
         (if xs = [] then ''0 records'' else show_nat (length xs) @ '' dependent records'')) (dependents r)
       @ [''Cascade deletion plan recorded in audit log entry audit-9001'']\<rparr>"

definition run_governance_fallback :: "string \<Rightarrow> lab_result" where
  "run_governance_fallback mode =
     (let r = build_sample_prompt;
          events = [''Using deterministic in-memory PostgreSQL fallback (live mode disabled)'',
            ''Prompt record loaded: '' @ prec_prompt_id r,
            ''Downstream records: requests='' @ show_nat (length (prec_request_records r)) @ '', logs=''
              @ show_nat (length (prec_log_records r)) @ '', tools='' @ show_nat (length (prec_tool_records r))
              @ '', eval='' @ show_nat (length (prec_eval_queue r)) @ '', training=''
              @ show_nat (length (prec_training_queue r))] in
      if mode = ''vulnerable'' then
        let result = delete_vulnerable r; orphan_count = sum_list (map snd (del_orphaned result)) in
        \<lparr>lr_lab = ''governance'', lr_mode = mode, lr_blocked = False, lr_risk = GOVERNANCE_RISK, lr_control = ''none'',
         lr_events = events @ [''Deleted primary prompt: '' @ prec_prompt_id r]
           @ [''Orphaned '' @ cat @ '': '' @ show_nat n @ '' records remain''. (cat, n) \<leftarrow> del_orphaned result, n > 0],
         lr_summary = ''Vulnerable deletion removed only the primary prompt; '' @ show_nat orphan_count
           @ '' downstream records orphaned.'',
         lr_internal = [(''_orphan_count'', PInt (int orphan_count))]\<rparr>
      else
        let result = delete_hardened r; n = show_nat (length (del_deleted result)) in
        \<lparr>lr_lab = ''governance'', lr_mode = mode, lr_blocked = True, lr_risk = GOVERNANCE_RISK,
         lr_control = GOVERNANCE_CONTROL,
         lr_events = events @ del_audit_evidence result @ [''Cascade deleted '' @ n @ '' total artifacts''],
         lr_summary = ''Hardened deletion audited all downstream queues and produced cascade evidence for '' @ n
           @ '' artifacts.'',
         lr_internal = [(''_orphan_count'', PInt 0), (''_audit_complete'', PBool True)]\<rparr>)"

section \<open>Prompt governance: live\<close>

definition connect_live :: "(pg, unit) eff" where
  "connect_live = catch_eff (bind_eff check_postgres_connection (\<lambda>_. init_db)) (\<lambda>e.
     raise_exn (RuntimeError (''PostgreSQL is unavailable but BOUNDARY_LAYER_POSTGRES_LIVE=true. ''
       @ ''Check POSTGRES_HOST and credentials. Error: '' @ exn_text e)))"

definition governance_live_vulnerable :: "string list \<Rightarrow> string \<Rightarrow> string \<Rightarrow> string \<Rightarrow> (pg, lab_result) eff" where
  "governance_live_vulnerable events mode prompt_id tenant_id =
     bind_eff (delete_primary_only prompt_id tenant_id) (\<lambda>_.
     bind_eff (count_orphan_records prompt_id tenant_id) (\<lambda>orphan_count.
     ret \<lparr>lr_lab = ''governance'', lr_mode = mode, lr_blocked = False, lr_risk = GOVERNANCE_RISK, lr_control = ''none'',
          lr_events = events @ [''Deleted primary prompt record only'',
            ''Detected '' @ show_int orphan_count @ '' orphaned downstream records''],
          lr_summary = ''Vulnerable deletion removed only the primary prompt request; '' @ show_int orphan_count
            @ '' downstream PostgreSQL records orphaned.'',
          lr_internal = [(''_orphan_count'', PInt orphan_count)]\<rparr>))"

definition governance_live_hardened ::
    "string \<Rightarrow> string list \<Rightarrow> string \<Rightarrow> string \<Rightarrow> string \<Rightarrow> (pg, lab_result) eff" where
  "governance_live_hardened uuid events mode prompt_id tenant_id =
     bind_eff (delete_all_prompt_lifecycle_records prompt_id tenant_id) (\<lambda>_.
     bind_eff (count_orphan_records prompt_id tenant_id) (\<lambda>orphan_count.
     bind_eff (insert_deletion_audit uuid prompt_id mode orphan_count (orphan_count = 0) tenant_id) (\<lambda>audit_id.
     ret \<lparr>lr_lab = ''governance'', lr_mode = mode, lr_blocked = True, lr_risk = GOVERNANCE_RISK,
          lr_control = GOVERNANCE_CONTROL,
          lr_events = events @ [''Deleted all prompt lifecycle downstream records'',
            ''Detected '' @ show_int orphan_count @ '' orphaned downstream records'',
            ''Inserted deletion audit record: '' @ audit_id,
            ''Deletion propagation completed across downstream tables''],
          lr_summary = ''Hardened deletion cascade completed in PostgreSQL with '' @ show_int orphan_count
            @ '' orphaned records remaining.'',
          lr_internal = [(''_orphan_count'', PInt orphan_count), (''_audit_complete'', PBool (orphan_count = 0))]\<rparr>)))"

definition run_governance_live :: "string \<Rightarrow> int \<Rightarrow> string \<Rightarrow> string \<Rightarrow> string \<Rightarrow> (pg, lab_result) eff" where
  "run_governance_live host port uuid mode tenant_id =
     bind_eff connect_live (\<lambda>_.
     bind_eff (reset_governance_lab_records tenant_id) (\<lambda>_.
     bind_eff (create_prompt_lifecycle_records tenant_id) (\<lambda>prompt_id.
       let events = [''Connected to live PostgreSQL at '' @ host @ '':'' @ show_int port,
             ''Resolved tenant context: '' @ tenant_id, ''Created prompt lifecycle records'',
             ''Primary prompt request stored: '' @ prompt_id] in
       if mode = ''vulnerable'' then governance_live_vulnerable events mode prompt_id tenant_id
       else governance_live_hardened uuid events mode prompt_id tenant_id)))"

definition run_governance_lab ::
    "(string \<times> string) list \<Rightarrow> string \<Rightarrow> int \<Rightarrow> string \<Rightarrow> string \<Rightarrow> string \<Rightarrow> (pg, lab_result) eff" where
  "run_governance_lab env host port uuid mode tenant_id =
     (if postgres_live_enabled env then run_governance_live host port uuid mode tenant_id
      else ret (run_governance_fallback mode))"

section \<open>Write storm\<close>

definition HARDENED_WRITE_BUDGET :: int where
  "HARDENED_WRITE_BUDGET = 50"

definition MAX_REQUESTED_WRITES :: int where
  "MAX_REQUESTED_WRITES = 1000"

definition WRITE_STORM_RISK :: string where
  "WRITE_STORM_RISK = ''PostgreSQL primary write-path saturation from runaway prompt logging''"

definition WRITE_STORM_CONTROL :: string where
  "WRITE_STORM_CONTROL = ''tenant write budget and backpressure on synthetic write batches''"

definition validate_requested_writes :: "int \<Rightarrow> unit result" where
  "validate_requested_writes n =
     (if n < 1 \<or> n > MAX_REQUESTED_WRITES
      then Inl (ValueError ''requested_writes must be between 1 and 1000'') else Inr ())"

definition storm_internal :: "int \<Rightarrow> int \<Rightarrow> pyval \<Rightarrow> pydict" where
  "storm_internal inserted blocked duration =
     [(''_inserted_count'', PInt inserted), (''_blocked_writes_count'', PInt blocked),
      (''_insert_duration_seconds'', duration), (''_insert_result'', PStr ''inserted'')]"

definition run_write_storm_fallback :: "string \<Rightarrow> int \<Rightarrow> lab_result" where
  "run_write_storm_fallback mode requested =
     (let events = [''Using deterministic in-memory PostgreSQL fallback (live mode disabled)'',
            ''Requested write batch size: '' @ show_int requested] in
      if mode = ''vulnerable'' then
        \<lparr>lr_lab = ''postgres-write-storm'', lr_mode = mode, lr_blocked = False, lr_risk = WRITE_STORM_RISK,
         lr_control = ''none'',
         lr_events = events @ [''Created synthetic write storm batch ('' @ show_int requested @ '' events)'',
           ''No write throttle applied'', ''Write pressure risk recorded''],
         lr_summary = ''Vulnerable mode inserted '' @ show_int requested @ '' synthetic write events without throttling.'',
         lr_internal = storm_internal requested 0 (PFloat ''0.001'')\<rparr>
      else
        let allowed = min requested HARDENED_WRITE_BUDGET; blocked = requested - allowed in
        \<lparr>lr_lab = ''postgres-write-storm'', lr_mode = mode, lr_blocked = True, lr_risk = WRITE_STORM_RISK,
         lr_control = WRITE_STORM_CONTROL,
         lr_events = events @ [''Applied tenant write budget: '' @ show_int HARDENED_WRITE_BUDGET,
           ''Inserted allowed records: '' @ show_int allowed, ''Blocked excess records: '' @ show_int blocked,
           ''Emitted write storm mitigation metrics''],
         lr_summary = ''Hardened mode capped inserts at '' @ show_int allowed @ '' and blocked '' @ show_int blocked
           @ '' excess synthetic write events.'',
         lr_internal = storm_internal allowed blocked (PFloat ''0.001'')\<rparr>)"

definition run_write_storm_live ::
    "string \<Rightarrow> int \<Rightarrow> string \<Rightarrow> pyval \<Rightarrow> string \<Rightarrow> int \<Rightarrow> string \<Rightarrow> (pg, lab_result) eff" where
  "run_write_storm_live host port batch_id duration mode requested tenant_id =
     bind_eff connect_live (\<lambda>_.
     bind_eff (reset_write_storm_events tenant_id) (\<lambda>_.
       let events = [''Connected to live PostgreSQL at '' @ host @ '':'' @ show_int port,
             ''Resolved tenant context: '' @ tenant_id, ''Requested write batch size: '' @ show_int requested,
             ''Created synthetic write storm batch''] in
       if mode = ''vulnerable'' then
         bind_eff (insert_write_storm_events requested batch_id tenant_id) (\<lambda>inserted.
         bind_eff (count_write_storm_events tenant_id) (\<lambda>total.
         ret \<lparr>lr_lab = ''postgres-write-storm'', lr_mode = mode, lr_blocked = False, lr_risk = WRITE_STORM_RISK,
              lr_control = ''none'',
              lr_events = events @ [''Inserted '' @ show_int inserted @ '' write_storm_events'',
                ''No write throttle applied'', ''Write pressure risk recorded'',
                ''PostgreSQL write_storm_events row count: '' @ show_int total],
              lr_summary = ''Vulnerable mode inserted '' @ show_int inserted
                @ '' synthetic PostgreSQL write events without throttling.'',
              lr_internal = storm_internal inserted 0 duration\<rparr>))
       else
         let allowed = min requested HARDENED_WRITE_BUDGET; blocked = requested - allowed in
         bind_eff (insert_write_storm_events allowed batch_id tenant_id) (\<lambda>inserted.
         bind_eff (count_write_storm_events tenant_id) (\<lambda>total.
         ret \<lparr>lr_lab = ''postgres-write-storm'', lr_mode = mode, lr_blocked = True, lr_risk = WRITE_STORM_RISK,
              lr_control = WRITE_STORM_CONTROL,
              lr_events = events @ [''Applied tenant write budget: '' @ show_int HARDENED_WRITE_BUDGET,
                ''Inserted allowed records: '' @ show_int inserted, ''Blocked excess records: '' @ show_int blocked,
                ''Emitted write storm mitigation metrics'',
                ''PostgreSQL write_storm_events row count: '' @ show_int total],
              lr_summary = ''Hardened mode inserted '' @ show_int inserted @ '' events and blocked '' @ show_int blocked
                @ '' excess synthetic writes.'',
              lr_internal = storm_internal inserted blocked duration\<rparr>))))"

definition run_postgres_write_storm_lab ::
    "(string \<times> string) list \<Rightarrow> string \<Rightarrow> int \<Rightarrow> string \<Rightarrow> pyval \<Rightarrow> string \<Rightarrow> int \<Rightarrow> string \<Rightarrow> (pg, lab_result) eff" where
  "run_postgres_write_storm_lab env host port batch_id duration mode requested_writes tenant_id =
     bind_eff (lift_res (validate_requested_writes requested_writes)) (\<lambda>_.
       if postgres_live_enabled env
       then run_write_storm_live host port batch_id duration mode requested_writes tenant_id
       else ret (run_write_storm_fallback mode requested_writes))"

section \<open>A fresh prompt and its children\<close>

lemma upsert_fresh: "key new \<notin> key ` set rs \<Longrightarrow> upsert key upd new rs = rs @ [new]"
  by (induction rs) auto

lemma find_upsert_self:
  assumes "\<And>r. key (upd r new) = key r"
  shows "\<exists>r. find (\<lambda>r. key r = key new) (upsert key upd new rs) = Some r \<and> (r = new \<or> (\<exists>old. r = upd old new))"
  by (induction rs) (auto simp: assms)

lemma pg_up_puts [simp]:
  "pg_up (put_child c r s) = pg_up s" "pg_up (put_prompt_request q s) = pg_up s"
  by (simp_all add: pg_up_def put_child_def put_prompt_request_def)

lemma connect_live_up: "pg_up s \<Longrightarrow> connect_live s = (Inr (), next_conn (next_conn s))"
  by (simp add: connect_live_def check_postgres_connection_def init_db_def bind_eff_def catch_eff_def
      get_connection_up ret_def)

lemma reset_governance_up:
  "pg_up s \<Longrightarrow> \<exists>s'. reset_governance_lab_records t s = (Inr (), s') \<and> pg_up s'"
  by (simp add: reset_governance_lab_records_def Let_def get_connection_up)
    (simp add: pg_up_def next_conn_def list_all_iff, blast dest: in_set_dropD)

text \<open>Resetting clears everything the tenant's own prompt or ids would clash with.\<close>

lemma reset_governance_clears:
  assumes "reset_governance_lab_records t s = (Inr (), s')" and "CHR 0x5C \<notin> set t"
    and "r \<in> set (children s' c)"
  shows "ch_prompt_request_id r \<noteq> governance_id_prefix t @ x" and "ch_id r \<noteq> governance_id_prefix t @ x"
  using get_connection_Inr [OF assms(1) [unfolded reset_governance_lab_records_def Let_def]] assms(3)
    like_own_prefix [OF governance_prefix_no_escape [OF assms(2)]]
  by auto

lemma create_lifecycle_up:
  assumes "pg_up s"
  shows "\<exists>s'. create_prompt_lifecycle_records t s = (Inr (governance_prompt_id t), s') \<and> pg_up s'"
  using assms
  by (simp add: create_prompt_lifecycle_records_def Let_def get_connection_up lifecycle_children_def)

lemma create_lifecycle_owner:
  assumes "create_prompt_lifecycle_records t s = (Inr p, s')"
  shows "prompt_owner s' p = Some t"
proof -
  define new where "new = \<lparr>pr_id = governance_prompt_id t, pr_tenant_id = t,
     pr_prompt_text = ''Summarize customer feedback for product team.'', pr_created_at = pg_now s, pr_deleted_at = None\<rparr>"
  define upd where "upd = (\<lambda>(old :: prompt_request) (new :: prompt_request). old\<lparr>pr_deleted_at := None, pr_prompt_text := pr_prompt_text new,
     pr_tenant_id := pr_tenant_id new\<rparr>)"
  have "prompt_requests s' = upsert pr_id upd new (prompt_requests s)" and p: "p = governance_prompt_id t"
    using get_connection_Inr [OF assms [unfolded create_prompt_lifecycle_records_def Let_def]]
    by (auto simp: put_prompt_request_def put_child_def lifecycle_children_def Let_def new_def upd_def)
  moreover obtain r where "find (\<lambda>r. pr_id r = pr_id new) (upsert pr_id upd new (prompt_requests s)) = Some r"
      and "r = new \<or> (\<exists>old. r = upd old new)"
    using find_upsert_self [of pr_id upd new "prompt_requests s"] by (auto simp: upd_def)
  ultimately show ?thesis
    by (auto simp: prompt_owner_def new_def upd_def)
qed

lemma create_lifecycle_children:
  assumes "create_prompt_lifecycle_records t s = (Inr p, s')"
    and "\<And>c r x. r \<in> set (children s c) \<Longrightarrow> ch_prompt_request_id r \<noteq> governance_id_prefix t @ x"
    and "\<And>c r x. r \<in> set (children s c) \<Longrightarrow> ch_id r \<noteq> governance_id_prefix t @ x"
  shows "all_live_children p s' = 5"
proof -
  have fresh: "governance_id_prefix t @ x \<notin> ch_id ` set (children s c)" for x c
    by (metis assms(3) imageE)
  have none: "filter (\<lambda>r. ch_prompt_request_id r = governance_prompt_id t \<and> ch_deleted_at r = None) (children s c) = []" for c
    using assms(2) by (auto simp: filter_empty_conv governance_prompt_id_def)
  show ?thesis
    using get_connection_Inr [OF assms(1) [unfolded create_prompt_lifecycle_records_def Let_def]]
    by (auto simp: put_prompt_request_def put_child_def lifecycle_children_def Let_def upsert_fresh fresh image_Un
        all_live_children_def all_child_tables_def live_children_def none)
qed

text \<open>
  What both live runs start with: the connection, the reset and the new records leave a prompt the
  tenant owns, with five live dependent records.
\<close>

definition governance_ready :: "string \<Rightarrow> pg \<Rightarrow> bool" where
  "governance_ready t s = (pg_up s \<and> lab_tables_wf s \<and> prompt_owner s (governance_prompt_id t) = Some t \<and>
     all_live_children (governance_prompt_id t) s = 5)"

lemma keeps_pair: "(\<And>s. P s \<Longrightarrow> P (snd (m s))) \<Longrightarrow> P s \<Longrightarrow> m s = (r, s') \<Longrightarrow> P s'"
  by (metis snd_conv)

lemma create_lifecycle_audit:
  assumes "create_prompt_lifecycle_records t s = (Inr p, s')"
  shows "deletion_audit s' = deletion_audit s"
  using get_connection_Inr [OF assms [unfolded create_prompt_lifecycle_records_def Let_def]]
  by (auto simp: put_prompt_request_def put_child_def lifecycle_children_def Let_def)

lemma reset_governance_audit:
  assumes "reset_governance_lab_records t s = (Inr (), s')"
  shows "set (deletion_audit s') \<subseteq> set (deletion_audit s)"
  using get_connection_Inr [OF assms [unfolded reset_governance_lab_records_def Let_def]] by auto

lemma governance_prepared:
  assumes "pg_up s" and "lab_tables_wf s" and "CHR 0x5C \<notin> set t"
  obtains s1 s2 where "reset_governance_lab_records t (next_conn (next_conn s)) = (Inr (), s1)"
    and "create_prompt_lifecycle_records t s1 = (Inr (governance_prompt_id t), s2)"
    and "governance_ready t s2" and "set (deletion_audit s2) \<subseteq> set (deletion_audit s)"
proof -
  obtain s1 where s1: "reset_governance_lab_records t (next_conn (next_conn s)) = (Inr (), s1)" "pg_up s1"
    using reset_governance_up [of "next_conn (next_conn s)" t] assms(1) by auto
  obtain s2 where s2: "create_prompt_lifecycle_records t s1 = (Inr (governance_prompt_id t), s2)" "pg_up s2"
    using create_lifecycle_up [OF s1(2), of t] by auto
  have "lab_tables_wf s2"
    using lab_ops_keep_wf(1) [of "next_conn (next_conn s)" t] lab_ops_keep_wf(2) [of s1 t] assms(2) s1(1) s2(1) by simp
  moreover have "all_live_children (governance_prompt_id t) s2 = 5"
    using create_lifecycle_children [OF s2(1)] reset_governance_clears [OF s1(1) assms(3)] by blast
  ultimately have "governance_ready t s2"
    using s2 create_lifecycle_owner [OF s2(1)] by (simp add: governance_ready_def)
  then show thesis
    using that s1(1) s2(1) create_lifecycle_audit [OF s2(1)] reset_governance_audit [OF s1(1)] by simp
qed

lemma bind_assoc_step: "m s = (Inr x, s') \<Longrightarrow> bind_eff m f s = f x s'"
  by (simp add: bind_eff_def)

lemma run_governance_live_steps:
  assumes "pg_up s" and "reset_governance_lab_records t (next_conn (next_conn s)) = (Inr (), s1)"
    and "create_prompt_lifecycle_records t s1 = (Inr p, s2)"
  shows "\<exists>events. run_governance_live host port uuid mode t s =
    (if mode = ''vulnerable'' then governance_live_vulnerable events mode p t s2
     else governance_live_hardened uuid events mode p t s2)"
  using assms by (auto simp: run_governance_live_def bind_assoc_step [OF connect_live_up] bind_assoc_step Let_def)

lemma bind_eff_pair:
  "bind_eff m (\<lambda>_. n) s = (Inr y, s') \<Longrightarrow> bind_eff m (\<lambda>_. bind_eff n f) s = f y s'"
  by (auto simp: bind_eff_def split: prod.splits sum.splits)

lemma governance_vulnerable_orphans:
  assumes "governance_ready t s"
  shows "\<exists>r s'. governance_live_vulnerable events mode (governance_prompt_id t) t s = (Inr r, s')
    \<and> internal_int r ''_orphan_count'' = 5 \<and> \<not> lr_blocked r"
proof -
  have "pg_up s" "lab_tables_wf s" "prompt_owner s (governance_prompt_id t) = Some t"
      "all_live_children (governance_prompt_id t) s = 5"
    using assms by (simp_all add: governance_ready_def)
  then show ?thesis
    unfolding governance_live_vulnerable_def
    by (simp add: bind_eff_pair [OF count_after_primary] ret_def internal_int_def)
qed

text \<open>The audit row of a deletion that left nothing behind.\<close>

definition complete_audit :: "string \<Rightarrow> string \<Rightarrow> string \<Rightarrow> audit_row \<Rightarrow> bool" where
  "complete_audit t uuid mode a = (da_id a = governance_id_prefix t @ ''audit-'' @ uuid \<and>
     da_prompt_request_id a = governance_prompt_id t \<and> da_mode a = mode \<and> da_orphan_count a = 0 \<and> da_complete a)"

lemma insert_deletion_audit_up:
  assumes "pg_up s" and "prompt_owner s p = Some t"
    and "governance_id_prefix t @ ''audit-'' @ uuid \<notin> da_id ` set (deletion_audit s)"
  shows "insert_deletion_audit uuid p mode n complete t s = (Inr (governance_id_prefix t @ ''audit-'' @ uuid),
    (next_conn (next_conn s))\<lparr>deletion_audit := deletion_audit s @
       [\<lparr>da_id = governance_id_prefix t @ ''audit-'' @ uuid, da_prompt_request_id = p, da_mode = mode,
         da_orphan_count = n, da_complete = complete, da_created_at = pg_now s\<rparr>]\<rparr>)"
  using assms
  by (simp add: insert_deletion_audit_def bind_assoc_step [OF verify_owner] get_connection_up insert_pk_def Let_def)

lemma mark_prompt_owner [simp]: "prompt_owner (mark_prompt_deleted p s) q = prompt_owner s q"
proof -
  have "find (\<lambda>r. pr_id r = q) (map (\<lambda>r. if pr_id r = p then r\<lparr>pr_deleted_at := d\<rparr> else r) rs) =
     map_option (\<lambda>r. if pr_id r = p then r\<lparr>pr_deleted_at := d\<rparr> else r) (find (\<lambda>r. pr_id r = q) rs)"
    for rs :: "prompt_request list" and d
    by (induction rs) auto
  then show ?thesis
    by (auto simp: prompt_owner_def mark_prompt_deleted_def option.map_comp o_def if_distrib
        intro: map_option_cong)
qed

lemma prompt_owner_frame [simp]:
  "prompt_owner (next_conn s) q = prompt_owner s q"
  "prompt_owner (mark_children_deleted p s) q = prompt_owner s q"
  by (simp_all add: prompt_owner_def)

lemma all_live_children_frame [simp]:
  "all_live_children q (next_conn s) = all_live_children q s"
  "all_live_children q (mark_prompt_deleted p s) = all_live_children q s"
  "all_live_children q (s\<lparr>deletion_audit := d\<rparr>) = all_live_children q s"
  "all_live_children p (mark_children_deleted p s) = 0"
  by (simp_all add: all_live_children_def live_children_cascade all_child_tables_def)
    (simp_all add: live_children_def)

lemma governance_hardened_audited:
  assumes "governance_ready t s"
    and "governance_id_prefix t @ ''audit-'' @ uuid \<notin> da_id ` set (deletion_audit s)"
  shows "\<exists>r s'. governance_live_hardened uuid events mode (governance_prompt_id t) t s = (Inr r, s')
    \<and> internal_int r ''_orphan_count'' = 0 \<and> internal_bool r ''_audit_complete'' \<and> lr_blocked r
    \<and> all_live_children (governance_prompt_id t) s' = 0
    \<and> (\<exists>a\<in>set (deletion_audit s'). complete_audit t uuid mode a)"
proof -
  have ready: "pg_up s" "lab_tables_wf s" "prompt_owner s (governance_prompt_id t) = Some t"
    using assms(1) by (simp_all add: governance_ready_def)
  then show ?thesis
    unfolding governance_live_hardened_def
    using assms(2)
    by (simp add: bind_eff_pair [OF count_after_cascade] bind_assoc_step [OF insert_deletion_audit_up] ret_def
        internal_int_def internal_bool_def complete_audit_def)
qed

section \<open>The write budget\<close>

lemma storm_internal_simps [simp]:
  "lr_internal r = storm_internal i b d \<Longrightarrow> internal_int r ''_inserted_count'' = i"
  "lr_internal r = storm_internal i b d \<Longrightarrow> internal_int r ''_blocked_writes_count'' = b"
  by (simp_all add: internal_int_def storm_internal_def)

definition write_allowance :: "string \<Rightarrow> int \<Rightarrow> int" where
  "write_allowance mode n = (if mode = ''vulnerable'' then n else min n HARDENED_WRITE_BUDGET)"

lemma write_allowance_positive: "1 \<le> n \<Longrightarrow> 0 < write_allowance mode n"
  by (simp add: write_allowance_def HARDENED_WRITE_BUDGET_def)

lemma fallback_internal:
  "lr_internal (run_write_storm_fallback mode n) =
     storm_internal (write_allowance mode n) (n - write_allowance mode n) (PFloat ''0.001'')"
  by (simp add: run_write_storm_fallback_def write_allowance_def Let_def)

lemma storm_lab_fallback_Inr:
  "\<not> postgres_live_enabled env \<Longrightarrow> run_postgres_write_storm_lab env h p b d mode n t s = (Inr r, s') \<longleftrightarrow>
     1 \<le> n \<and> n \<le> MAX_REQUESTED_WRITES \<and> r = run_write_storm_fallback mode n \<and> s' = s"
  by (auto simp: run_postgres_write_storm_lab_def validate_requested_writes_def bind_eff_def ret_def lift_res_def)

lemma not_live_by_default: "\<not> postgres_live_enabled []"
  by code_simp

interpretation storm: capped_admission "\<lambda>mode n. fst (run_postgres_write_storm_lab [] h p b d mode n t s)"
  "\<lambda>r. internal_int r ''_inserted_count''" "\<lambda>r. internal_int r ''_blocked_writes_count''"
  HARDENED_WRITE_BUDGET MAX_REQUESTED_WRITES for h p b d t s
proof -
  note Inr_iff = storm_lab_fallback_Inr [OF not_live_by_default]
  have fst_iff: "fst (run_postgres_write_storm_lab [] h p b d mode n t s) = Inr r \<longleftrightarrow>
      1 \<le> n \<and> n \<le> MAX_REQUESTED_WRITES \<and> r = run_write_storm_fallback mode n" for mode n r
    using Inr_iff [of h p b d mode n t s r] by (cases "run_postgres_write_storm_lab [] h p b d mode n t s") auto
  show "capped_admission (\<lambda>mode n. fst (run_postgres_write_storm_lab [] h p b d mode n t s))
     (\<lambda>r. internal_int r ''_inserted_count'') (\<lambda>r. internal_int r ''_blocked_writes_count'')
     HARDENED_WRITE_BUDGET MAX_REQUESTED_WRITES"
    by unfold_locales
      (auto simp: fst_iff storm_internal_simps [OF fallback_internal] write_allowance_def HARDENED_WRITE_BUDGET_def)
qed

text \<open>A live run inserts what the budget allows, reports it, and that is what the table then holds.\<close>

lemma storm_live_counted:
  assumes up: "pg_up s" and n: "1 \<le> n" and esc: "CHR 0x5C \<notin> set t"
    and own: "\<forall>r\<in>set (write_storm_events s). storm_match t r \<longrightarrow> ws_tenant_id r = t"
  shows "\<exists>r s'. run_write_storm_live h p b d mode n t s = (Inr r, s')
    \<and> lr_internal r = storm_internal (write_allowance mode n) (n - write_allowance mode n) d
    \<and> int (length (filter (\<lambda>r. ws_tenant_id r = t \<and> storm_match t r) (write_storm_events s'))) = write_allowance mode n"
proof -
  let ?k = "write_allowance mode n"
  let ?s0 = "next_conn (next_conn s)"
  have k: "0 < ?k" using n by (rule write_allowance_positive)
  obtain s3 where all: "bind_eff (reset_write_storm_events t) (\<lambda>_. bind_eff (insert_write_storm_events ?k b t)
      (\<lambda>_. count_write_storm_events t)) ?s0 = (Inr ?k, s3)"
    using storm_batch_counted [of ?s0 ?k t b] up k esc own by auto
  obtain s1 s2 where steps: "reset_write_storm_events t ?s0 = (Inr (), s1)" "pg_up s1"
      "insert_write_storm_events ?k b t s1 = (Inr ?k, s2)" "pg_up s2"
    using up k by (simp add: reset_storm_up insert_storm_up)
  then have count: "count_write_storm_events t s2 = (Inr ?k, s3)"
    using all by (simp add: bind_eff_def)
  then have "int (length (filter (\<lambda>r. ws_tenant_id r = t \<and> storm_match t r) (write_storm_events s3))) = ?k"
    using count_storm_up [OF steps(4), of t] by auto
  then show ?thesis
    using up steps count
    by (cases "mode = ''vulnerable''")
      (simp_all add: run_write_storm_live_def bind_assoc_step [OF connect_live_up] bind_assoc_step ret_def Let_def
        write_allowance_def)
qed

section \<open>Properties\<close>

definition live_env :: "(string \<times> string) list" where
  "live_env = [(''BOUNDARY_LAYER_POSTGRES_LIVE'', ''true'')]"

lemma live_env_live: "postgres_live_enabled live_env"
  by code_simp

text \<open>
  C17. The governance lab shows what it claims, on a working database whose primary keys are sound and
  for a tenant id without a backslash, whatever the tables held: the vulnerable run reports the five
  downstream records of the sample prompt as orphaned; the hardened run, with a fresh audit id, reports
  none, leaves no live dependent record in the database, and leaves a complete audit row for the
  prompt.
\<close>

theorem governance_lab_live:
  assumes "postgres_live_enabled env" and "pg_up s" and "lab_tables_wf s" and "CHR 0x5C \<notin> set t"
    and "governance_id_prefix t @ ''audit-'' @ uuid \<notin> da_id ` set (deletion_audit s)"
  shows "\<exists>r s'. run_governance_lab env host port uuid mode t s = (Inr r, s') \<and>
    (if mode = ''vulnerable'' then internal_int r ''_orphan_count'' = 5 \<and> \<not> lr_blocked r
     else internal_int r ''_orphan_count'' = 0 \<and> internal_bool r ''_audit_complete'' \<and> lr_blocked r
        \<and> all_live_children (governance_prompt_id t) s' = 0
        \<and> (\<exists>a\<in>set (deletion_audit s'). complete_audit t uuid mode a))"
proof -
  obtain s1 s2 where prep: "reset_governance_lab_records t (next_conn (next_conn s)) = (Inr (), s1)"
      "create_prompt_lifecycle_records t s1 = (Inr (governance_prompt_id t), s2)" "governance_ready t s2"
      "set (deletion_audit s2) \<subseteq> set (deletion_audit s)"
    using governance_prepared [OF assms(2-4)] by blast
  obtain events where run: "run_governance_live host port uuid mode t s =
      (if mode = ''vulnerable'' then governance_live_vulnerable events mode (governance_prompt_id t) t s2
       else governance_live_hardened uuid events mode (governance_prompt_id t) t s2)"
    using run_governance_live_steps [OF assms(2) prep(1,2)] by blast
  have "governance_id_prefix t @ ''audit-'' @ uuid \<notin> da_id ` set (deletion_audit s2)"
    using assms(5) prep(4) by blast
  then show ?thesis
    using governance_vulnerable_orphans [OF prep(3), of events mode] assms(1) run
      governance_hardened_audited [OF prep(3), of uuid events mode]
    by (cases "mode = ''vulnerable''") (simp_all add: run_governance_lab_def)
qed

theorem governance_lab_live_witness:
  "\<exists>r s'. run_governance_lab live_env ''db'' 5432 ''0123456789ab'' ''hardened'' ''acme'' (empty_pg 3) = (Inr r, s') \<and>
     internal_int r ''_orphan_count'' = 0"
  using governance_lab_live [OF live_env_live, of "empty_pg 3" "''acme''" "''0123456789ab''" "''db''" 5432 "''hardened''"]
  by (auto simp: pg_up_def empty_pg_def lab_tables_wf_iff)

text \<open>
  The write budget holds in the fallback and on the database: for a valid request the lab returns a
  result whose inserted and blocked writes add up to those requested, with at most fifty inserted in
  hardened mode, and on a live run the tenant's rows in the table are exactly as many as reported,
  when no row of another tenant lies under the tenant's own prefix.
\<close>

theorem write_storm_budget:
  assumes "1 \<le> n" and "n \<le> MAX_REQUESTED_WRITES" and "pg_up s" and "CHR 0x5C \<notin> set t"
    and "\<forall>r\<in>set (write_storm_events s). storm_match t r \<longrightarrow> ws_tenant_id r = t"
  shows "\<exists>r s'. run_postgres_write_storm_lab env h p b d mode n t s = (Inr r, s')
    \<and> internal_int r ''_inserted_count'' + internal_int r ''_blocked_writes_count'' = n
    \<and> internal_int r ''_inserted_count'' = (if mode = ''vulnerable'' then n else min n 50)
    \<and> (postgres_live_enabled env \<longrightarrow> int (length (filter (\<lambda>e. ws_tenant_id e = t \<and> storm_match t e)
          (write_storm_events s'))) = internal_int r ''_inserted_count'')"
proof -
  have allow: "write_allowance mode n = (if mode = ''vulnerable'' then n else min n 50)"
    by (simp add: write_allowance_def HARDENED_WRITE_BUDGET_def)
  show ?thesis
  proof (cases "postgres_live_enabled env")
    case True
    obtain r s' where r: "run_write_storm_live h p b d mode n t s = (Inr r, s')"
      "lr_internal r = storm_internal (write_allowance mode n) (n - write_allowance mode n) d"
      "int (length (filter (\<lambda>r. ws_tenant_id r = t \<and> storm_match t r) (write_storm_events s'))) = write_allowance mode n"
      using storm_live_counted [OF assms(3,1,4,5)] by blast
    have "run_postgres_write_storm_lab env h p b d mode n t s = (Inr r, s')"
      using True assms(1,2) r(1) by (simp add: run_postgres_write_storm_lab_def validate_requested_writes_def)
    then show ?thesis
      using storm_internal_simps [OF r(2)] r(3) unfolding allow by auto
  next
    case False
    then have "run_postgres_write_storm_lab env h p b d mode n t s = (Inr (run_write_storm_fallback mode n), s)"
      using assms(1,2) by (simp add: storm_lab_fallback_Inr)
    then show ?thesis
      using False by (simp add: storm_internal_simps [OF fallback_internal] allow)
  qed
qed

theorem write_storm_budget_witness:
  "\<exists>r s'. run_postgres_write_storm_lab live_env ''db'' 5432 ''b1'' (PFloat ''0.2'') ''hardened'' 120 ''acme'' (empty_pg 3) =
     (Inr r, s') \<and> internal_int r ''_inserted_count'' = 50 \<and> internal_int r ''_blocked_writes_count'' = 70"
  using write_storm_budget [of 120 "empty_pg 3" "''acme''" live_env "''db''" 5432 "''b1''" "PFloat ''0.2''" "''hardened''"]
  by (auto simp: pg_up_def empty_pg_def MAX_REQUESTED_WRITES_def)

end
