(* ===== verification/Py_Hash.thy ===== *)
theory Py_Hash
  imports Py_Prelude "HOL-Library.Word"
begin

text \<open>
  The parts of the standard library the session and cache labs use: UTF-8, \<open>hashlib.sha256\<close> and
  \<open>hmac\<close> with it, and the URL-safe base 64 of \<open>base64\<close>. A byte string is a list of characters, one
  for each byte. SHA-256 works on 32-bit words, where addition wraps around.
\<close>

unbundle bit_operations_syntax

section \<open>UTF-8\<close>

definition utf8_char :: "char \<Rightarrow> string" where
  "utf8_char c = (let n = (of_char c :: nat) in
     if n < 128 then [c] else [char_of (192 + n div 64), char_of (128 + n mod 64)])"

definition utf8_encode :: "string \<Rightarrow> string" where
  "utf8_encode s = concat (map utf8_char s)"

text \<open>Decoding, for the texts a \<^typ>\<open>string\<close> can hold: code points below 256.\<close>

fun utf8_decode :: "string \<Rightarrow> string result" where
  "utf8_decode [] = Inr []"
| "utf8_decode [c] = (if (of_char c :: nat) < 128 then Inr [c]
     else Inl (ValueError ''UnicodeDecodeError: unexpected end of data''))"
| "utf8_decode (c # d # s) =
     (let n = (of_char c :: nat); m = (of_char d :: nat) in
      if n < 128 then bind_res (utf8_decode (d # s)) (\<lambda>t. Inr (c # t))
      else if (n = 194 \<or> n = 195) \<and> 128 \<le> m \<and> m < 192
      then bind_res (utf8_decode s) (\<lambda>t. Inr (char_of ((n - 192) * 64 + (m - 128)) # t))
      else Inl (ValueError ''UnicodeDecodeError: invalid start byte''))"

section \<open>SHA-256\<close>

type_synonym w32 = "32 word"

definition rotr :: "nat \<Rightarrow> w32 \<Rightarrow> w32" where
  "rotr n x = drop_bit n x OR push_bit (32 - n) x"

definition sha_k :: "w32 list" where
  "sha_k =
     [1116352408, 1899447441, 3049323471, 3921009573, 961987163, 1508970993, 2453635748, 2870763221,
      3624381080, 310598401, 607225278, 1426881987, 1925078388, 2162078206, 2614888103, 3248222580,
      3835390401, 4022224774, 264347078, 604807628, 770255983, 1249150122, 1555081692, 1996064986,
      2554220882, 2821834349, 2952996808, 3210313671, 3336571891, 3584528711, 113926993, 338241895,
      666307205, 773529912, 1294757372, 1396182291, 1695183700, 1986661051, 2177026350, 2456956037,
      2730485921, 2820302411, 3259730800, 3345764771, 3516065817, 3600352804, 4094571909, 275423344,
      430227734, 506948616, 659060556, 883997877, 958139571, 1322822218, 1537002063, 1747873779,
      1955562222, 2024104815, 2227730452, 2361852424, 2428436474, 2756734187, 3204031479, 3329325298]"

definition sha_init :: "w32 list" where
  "sha_init =
     [1779033703, 3144134277, 1013904242, 2773480762, 1359893119, 2600822924, 528734635, 1541459225]"

definition byte_word :: "char \<Rightarrow> w32" where
  "byte_word c = of_char c"

fun words_of :: "string \<Rightarrow> w32 list" where
  "words_of (a # b # c # d # s) =
     (push_bit 24 (byte_word a) OR push_bit 16 (byte_word b) OR push_bit 8 (byte_word c) OR byte_word d) # words_of s"
| "words_of _ = []"

text \<open>The padded message: a 1 bit, zeros, and the length in bits as eight bytes.\<close>

definition be_bytes :: "nat \<Rightarrow> int \<Rightarrow> string" where
  "be_bytes k n = map (\<lambda>i. char_of (drop_bit (8 * i) n)) (rev [0..<k])"

definition sha_pad :: "string \<Rightarrow> string" where
  "sha_pad s = s @ [char_of (128 :: nat)] @ replicate ((119 - length s mod 64) mod 64) (char_of (0 :: nat))
     @ be_bytes 8 (8 * int (length s))"

text \<open>The message schedule: \<open>n\<close> more words after the sixteen (or more) last ones, newest first.\<close>

fun schedule :: "nat \<Rightarrow> w32 list \<Rightarrow> w32 list" where
  "schedule 0 ws = rev ws"
| "schedule (Suc n) ws =
     (let w15 = ws ! 14; w2 = ws ! 1;
          s0 = rotr 7 w15 XOR rotr 18 w15 XOR drop_bit 3 w15;
          s1 = rotr 17 w2 XOR rotr 19 w2 XOR drop_bit 10 w2 in
      schedule n ((ws ! 15 + s0 + ws ! 6 + s1) # ws))"

fun sha_round :: "w32 list \<Rightarrow> w32 \<Rightarrow> w32 list" where
  "sha_round [a, b, c, d, e, f, g, h] kw =
     (let s1 = rotr 6 e XOR rotr 11 e XOR rotr 25 e;
          ch = (e AND f) XOR (NOT e AND g);
          t1 = h + s1 + ch + kw;
          s0 = rotr 2 a XOR rotr 13 a XOR rotr 22 a;
          maj = (a AND b) XOR (a AND c) XOR (b AND c) in
      [t1 + s0 + maj, a, b, c, d + t1, e, f, g])"
| "sha_round st kw = st"

definition sha_block :: "w32 list \<Rightarrow> w32 list \<Rightarrow> w32 list" where
  "sha_block st ws =
     map2 (+) st (fold (\<lambda>(k, w) st. sha_round st (k + w)) (zip sha_k (schedule 48 (rev ws))) st)"

function sha_blocks :: "w32 list \<Rightarrow> w32 list \<Rightarrow> w32 list" where
  "sha_blocks st ws = (if ws = [] then st else sha_blocks (sha_block st (take 16 ws)) (drop 16 ws))"
  by pat_completeness auto

termination sha_blocks
  by (relation "measure (\<lambda>(st, ws). length ws)") auto

declare sha_blocks.simps [simp del]

definition word_bytes :: "w32 \<Rightarrow> string" where
  "word_bytes w = be_bytes 4 (uint w)"

definition sha256 :: "string \<Rightarrow> string" where
  "sha256 s = concat (map word_bytes (sha_blocks sha_init (words_of (sha_pad s))))"

definition hex :: "string \<Rightarrow> string" where
  "hex s = concat (map (\<lambda>c. let n = (of_char c :: nat) in [hex_digit (n div 16), hex_digit (n mod 16)]) s)"

definition sha256_hexdigest :: "string \<Rightarrow> string" where
  "sha256_hexdigest s = hex (sha256 s)"

definition xor_bytes :: "int \<Rightarrow> string \<Rightarrow> string" where
  "xor_bytes k s = map (\<lambda>c. char_of ((of_char c :: int) XOR k)) s"

definition hmac_sha256_hexdigest :: "string \<Rightarrow> string \<Rightarrow> string" where
  "hmac_sha256_hexdigest key msg =
     (let key = (if length key > 64 then sha256 key else key);
          block = key @ replicate (64 - length key) (char_of (0 :: nat)) in
      sha256_hexdigest (xor_bytes 0x5c block @ sha256 (xor_bytes 0x36 block @ msg)))"

section \<open>Base 64\<close>

definition b64_char :: "nat \<Rightarrow> char" where
  "b64_char n = (if n < 26 then char_of (65 + n) else if n < 52 then char_of (71 + n)
     else if n < 62 then char_of (n - 4) else if n = 62 then CHR ''-'' else CHR ''_'')"

text \<open>The value of a digit, once \<open>-\<close> and \<open>_\<close> stand for \<open>+\<close> and \<open>/\<close>.\<close>

definition b64_value :: "char \<Rightarrow> nat option" where
  "b64_value c = (let n = (of_char c :: nat) in
     if 65 \<le> n \<and> n \<le> 90 then Some (n - 65) else if 97 \<le> n \<and> n \<le> 122 then Some (n - 71)
     else if 48 \<le> n \<and> n \<le> 57 then Some (n + 4) else if n = 43 \<or> n = 45 then Some 62
     else if n = 47 \<or> n = 95 then Some 63 else None)"

fun urlsafe_b64encode :: "string \<Rightarrow> string" where
  "urlsafe_b64encode [] = []"
| "urlsafe_b64encode [a] = (let x = (of_char a :: nat) in [b64_char (x div 4), b64_char (x mod 4 * 16)] @ ''=='')"
| "urlsafe_b64encode [a, b] = (let x = (of_char a :: nat); y = (of_char b :: nat) in
     [b64_char (x div 4), b64_char (x mod 4 * 16 + y div 16), b64_char (y mod 16 * 4)] @ ''='')"
| "urlsafe_b64encode (a # b # c # s) =
     (let x = (of_char a :: nat); y = (of_char b :: nat); z = (of_char c :: nat) in
      [b64_char (x div 4), b64_char (x mod 4 * 16 + y div 16), b64_char (y mod 16 * 4 + z div 64), b64_char (z mod 64)]
      @ urlsafe_b64encode s)"

text \<open>
  \<open>binascii.a2b_base64\<close> without \<open>strict_mode\<close>: characters outside the alphabet are skipped, and
  padding where it completes a group of four ends the data. The position in the group, the bits left
  over and the padding seen since the last digit are arguments.
\<close>

fun a2b_base64 :: "nat \<Rightarrow> nat \<Rightarrow> nat \<Rightarrow> string \<Rightarrow> string result" where
  "a2b_base64 quad_pos leftchar pads [] =
     (if quad_pos = 0 then Inr []
      else if quad_pos = 1 then Inl (ValueError ''Invalid base64-encoded string'')
      else Inl (ValueError ''Incorrect padding''))"
| "a2b_base64 quad_pos leftchar pads (ch # s) =
     (if ch = CHR ''='' then
        (if quad_pos \<ge> 2 \<and> quad_pos + (pads + 1) \<ge> 4 then Inr []
         else a2b_base64 quad_pos leftchar (if quad_pos \<ge> 2 then pads + 1 else pads) s)
      else case b64_value ch of
        None \<Rightarrow> a2b_base64 quad_pos leftchar pads s
      | Some v \<Rightarrow>
          if quad_pos = 0 then a2b_base64 1 v 0 s
          else if quad_pos = 1 then
            bind_res (a2b_base64 2 (v mod 16) 0 s) (\<lambda>t. Inr (char_of (leftchar * 4 + v div 16) # t))
          else if quad_pos = 2 then
            bind_res (a2b_base64 3 (v mod 4) 0 s) (\<lambda>t. Inr (char_of (leftchar * 16 + v div 4) # t))
          else bind_res (a2b_base64 0 0 0 s) (\<lambda>t. Inr (char_of (leftchar * 64 + v) # t)))"

definition urlsafe_b64decode :: "string \<Rightarrow> string result" where
  "urlsafe_b64decode s = a2b_base64 0 0 0 s"

lemma b64_value_char: "n < 64 \<Longrightarrow> b64_value (b64_char n) = Some n"
  by (auto simp: b64_char_def b64_value_def Let_def of_char_of)

lemma b64_char_not_pad: "n < 64 \<Longrightarrow> b64_char n \<noteq> CHR ''=''"
proof
  assume "n < 64" and eq: "b64_char n = CHR ''=''"
  moreover have "b64_value CHR ''='' = None" by code_simp
  ultimately show False using b64_value_char [of n] by simp
qed

lemma a2b_digit:
  assumes "n < 64"
  shows "a2b_base64 0 l p (b64_char n # s) = a2b_base64 1 n 0 s"
    "a2b_base64 1 l p (b64_char n # s) = bind_res (a2b_base64 2 (n mod 16) 0 s) (\<lambda>t. Inr (char_of (l * 4 + n div 16) # t))"
    "a2b_base64 2 l p (b64_char n # s) = bind_res (a2b_base64 3 (n mod 4) 0 s) (\<lambda>t. Inr (char_of (l * 16 + n div 4) # t))"
    "a2b_base64 3 l p (b64_char n # s) = bind_res (a2b_base64 0 0 0 s) (\<lambda>t. Inr (char_of (l * 64 + n) # t))"
  using b64_char_not_pad [OF assms] b64_value_char [OF assms] by (simp_all add: a2b_base64.simps(2) [where ch = "b64_char n"])

text \<open>One group of the encoding carries its three bytes, two or one.\<close>

lemma b64_group:
  fixes x y z :: nat
  assumes "x < 256" and "y < 256" and "z < 256"
  shows "a2b_base64 0 0 0 ([b64_char (x div 4), b64_char (x mod 4 * 16 + y div 16), b64_char (y mod 16 * 4 + z div 64),
      b64_char (z mod 64)] @ s) = bind_res (a2b_base64 0 0 0 s) (\<lambda>t. Inr (char_of x # char_of y # char_of z # t))"
    and "a2b_base64 0 0 0 [b64_char (x div 4), b64_char (x mod 4 * 16 + y div 16), b64_char (y mod 16 * 4), CHR ''='']
      = Inr [char_of x, char_of y]"
    and "a2b_base64 0 0 0 [b64_char (x div 4), b64_char (x mod 4 * 16), CHR ''='', CHR ''=''] = Inr [char_of x]"
proof -
  have parts: "x mod 4 < 4" "y mod 16 < 16" "z mod 64 < 64" "y div 16 < 16" "z div 64 < 4" "x div 4 < 64"
    using assms by auto
  then have d: "x div 4 < 64" "x mod 4 * 16 + y div 16 < 64" "y mod 16 * 4 + z div 64 < 64" "z mod 64 < 64"
    "x mod 4 * 16 < 64" "y mod 16 * 4 < 64"
    by linarith+
  have e: "x div 4 * 4 + (x mod 4 * 16 + y div 16) div 16 = x" "x div 4 * 4 + x mod 4 * 16 div 16 = x"
    "(x mod 4 * 16 + y div 16) mod 16 * 16 + (y mod 16 * 4 + z div 64) div 4 = y"
    "(x mod 4 * 16 + y div 16) mod 16 * 16 + y mod 16 * 4 div 4 = y"
    "(y mod 16 * 4 + z div 64) mod 4 * 64 + z mod 64 = z"
    using parts by simp_all
  show "a2b_base64 0 0 0 ([b64_char (x div 4), b64_char (x mod 4 * 16 + y div 16), b64_char (y mod 16 * 4 + z div 64),
      b64_char (z mod 64)] @ s) = bind_res (a2b_base64 0 0 0 s) (\<lambda>t. Inr (char_of x # char_of y # char_of z # t))"
    by (cases "a2b_base64 0 0 0 s") (simp_all only: append.simps a2b_digit [OF d(1)] a2b_digit [OF d(2)] a2b_digit [OF d(3)]
        a2b_digit [OF d(4)] bind_res_simps e)
  show "a2b_base64 0 0 0 [b64_char (x div 4), b64_char (x mod 4 * 16 + y div 16), b64_char (y mod 16 * 4), CHR ''='']
      = Inr [char_of x, char_of y]"
    by (simp only: a2b_digit [OF d(1)] a2b_digit [OF d(2)] a2b_digit [OF d(6)] e) (simp add: e(1,4))
  show "a2b_base64 0 0 0 [b64_char (x div 4), b64_char (x mod 4 * 16), CHR ''='', CHR ''=''] = Inr [char_of x]"
    by (simp only: a2b_digit [OF d(1)] a2b_digit [OF d(5)] e) simp
qed

text \<open>Encoding and decoding again gives back the bytes.\<close>

lemma b64_roundtrip: "urlsafe_b64decode (urlsafe_b64encode s) = Inr s"
  unfolding urlsafe_b64decode_def
proof (induction s rule: urlsafe_b64encode.induct)
  case (2 a)
  then show ?case using b64_group(3) [of "of_char a" 0 0] by (simp add: Let_def del: a2b_base64.simps)
next
  case (3 a b)
  then show ?case using b64_group(2) [of "of_char a" "of_char b" 0] by (simp add: Let_def del: a2b_base64.simps)
next
  case (4 a b c s)
  then show ?case
    using b64_group(1) [of "of_char a" "of_char b" "of_char c"] by (simp add: Let_def del: a2b_base64.simps)
qed simp

section \<open>Sizes\<close>

lemma sha_round_length: "length st = 8 \<Longrightarrow> length (sha_round st kw) = 8"
  by (cases "(st, kw)" rule: sha_round.cases) (simp_all add: Let_def)

lemma sha_rounds_length: "length st = 8 \<Longrightarrow> length (fold (\<lambda>(k, w) st. sha_round st (k + w)) kws st) = 8"
  by (induction kws arbitrary: st) (auto simp: sha_round_length)

lemma sha_block_length: "length st = 8 \<Longrightarrow> length (sha_block st ws) = 8"
  by (simp add: sha_block_def sha_rounds_length)

lemma sha_blocks_length: "length st = 8 \<Longrightarrow> length (sha_blocks st ws) = 8"
proof (induction st ws rule: sha_blocks.induct)
  case (1 st ws)
  then show ?case by (simp add: sha_blocks.simps [of st ws] sha_block_length)
qed

lemma length_concat_const: "(\<And>x. length (f x) = k) \<Longrightarrow> length (concat (map f xs)) = k * length xs"
  by (induction xs) simp_all

lemma sha256_length [simp]: "length (sha256 s) = 32"
  using sha_blocks_length [of sha_init "words_of (sha_pad s)"]
  by (simp add: sha256_def length_concat_const [of word_bytes 4] word_bytes_def be_bytes_def sha_init_def)

lemma sha256_hexdigest_length [simp]: "length (sha256_hexdigest s) = 64"
  by (simp add: sha256_hexdigest_def hex_def length_concat_const [where k = 2] Let_def)

lemma hex_digitE:
  assumes "c \<in> set (hex s)"
  obtains n where "n < 16" and "c = hex_digit n"
proof -
  obtain d where "c = hex_digit ((of_char d :: nat) div 16) \<or> c = hex_digit ((of_char d :: nat) mod 16)"
    using assms by (auto simp: hex_def Let_def)
  then show thesis
    using that [of "of_char d div 16"] that [of "of_char d mod 16"] less_mult_imp_div_less [of "of_char d" 16 16]
    by auto
qed

section \<open>ASCII\<close>

definition ascii :: "string \<Rightarrow> bool" where
  "ascii s = list_all (\<lambda>c. (of_char c :: nat) < 128) s"

lemma ascii_simps [simp]:
  "ascii []" "ascii (c # s) \<longleftrightarrow> (of_char c :: nat) < 128 \<and> ascii s" "ascii (s @ t) \<longleftrightarrow> ascii s \<and> ascii t"
  by (simp_all add: ascii_def)

lemma utf8_encode_ascii: "ascii s \<Longrightarrow> utf8_encode s = s"
  by (induction s) (auto simp: utf8_encode_def utf8_char_def)

lemma utf8_decode_ascii: "ascii s \<Longrightarrow> utf8_decode s = Inr s"
  by (induction s rule: utf8_decode.induct) auto

lemma b64_char_ascii: "(of_char (b64_char n) :: nat) < 128"
  by (auto simp: b64_char_def of_char_of)

lemma urlsafe_b64encode_ascii: "ascii (urlsafe_b64encode s)"
  by (induction s rule: urlsafe_b64encode.induct) (simp_all add: Let_def b64_char_ascii)

lemma hex_digit_ascii: "(of_char (hex_digit n) :: nat) < 128 \<or> n \<ge> 16"
  by (auto simp: hex_digit_def of_char_of)

lemma hex_ascii: "ascii (hex s)"
proof -
  have "(of_char c :: nat) < 128" if "c \<in> set (hex s)" for c
  proof -
    obtain n where "n < 16" "c = hex_digit n"
      using \<open>c \<in> set (hex s)\<close> by (rule hex_digitE)
    then show ?thesis using hex_digit_ascii [of n] by auto
  qed
  then show ?thesis by (simp add: ascii_def list_all_iff)
qed

lemma hex_no_colon: "CHR '':'' \<notin> set (hex s)"
proof
  assume "CHR '':'' \<in> set (hex s)"
  then obtain n where "n < 16" "CHR '':'' = hex_digit n" by (rule hex_digitE)
  moreover have "list_all (\<lambda>n. hex_digit n \<noteq> CHR '':'') [0..<16]" by code_simp
  ultimately show False by (auto simp: list_all_iff)
qed

end
