(* ===== verification/Py_Json.thy ===== *)
theory Py_Json
  imports Py_Prelude
begin

text \<open>
  The standard library's \<open>json\<close>: \<open>dumps\<close> with its default separators and escapes, with and without
  \<open>sort_keys\<close>, and \<open>loads\<close>. A float literal is read as the text \<open>repr\<close> gives for it, by the argument
  \<open>fr\<close>. A text is limited to code points below 256, so an escape above that is an error here, and
  nesting is not limited. The parser counts down a fuel; \<open>loads\<close> starts it above twice the length of the
  text, and \<open>parse_fuel\<close> shows that more would make no difference.
\<close>

section \<open>Writing\<close>

abbreviation quote_chr :: char where "quote_chr \<equiv> CHR 0x22"
abbreviation backslash :: char where "backslash \<equiv> CHR 0x5C"

definition json_char :: "char \<Rightarrow> string" where
  "json_char c = (let n = (of_char c :: nat) in
     if c = quote_chr then [backslash, quote_chr] else if c = backslash then [backslash, backslash]
     else if n = 10 then [backslash, CHR ''n''] else if n = 13 then [backslash, CHR ''r'']
     else if n = 9 then [backslash, CHR ''t''] else if n = 8 then [backslash, CHR ''b'']
     else if n = 12 then [backslash, CHR ''f'']
     else if n < 32 \<or> n > 126 then [backslash, CHR ''u'', CHR ''0'', CHR ''0'', hex_digit (n div 16), hex_digit (n mod 16)]
     else [c])"

definition json_string :: "string \<Rightarrow> string" where
  "json_string s = [quote_chr] @ concat (map json_char s) @ [quote_chr]"

definition json_float :: "string \<Rightarrow> string" where
  "json_float r = (if r = ''nan'' then ''NaN'' else if r = ''inf'' then ''Infinity''
     else if r = ''-inf'' then ''-Infinity'' else r)"

fun json_dumps :: "pyval \<Rightarrow> string" where
  "json_dumps PNone = ''null''"
| "json_dumps (PBool b) = (if b then ''true'' else ''false'')"
| "json_dumps (PInt i) = show_int i"
| "json_dumps (PFloat r) = json_float r"
| "json_dumps (PStr s) = json_string s"
| "json_dumps (PList xs) = ''['' @ join '', '' (map json_dumps xs) @ '']''"
| "json_dumps (PDict d) = ''{'' @ join '', '' (map (\<lambda>(k, v). json_string k @ '': '' @ json_dumps v) d) @ ''}''"

text \<open>\<open>sort_keys=True\<close>: the items of every dictionary by their key, code point by code point.\<close>

fun str_le :: "string \<Rightarrow> string \<Rightarrow> bool" where
  "str_le [] t = True"
| "str_le (c # s) [] = False"
| "str_le (c # s) (d # t) = ((of_char c :: nat) < of_char d \<or> c = d \<and> str_le s t)"

fun insort_item :: "string \<times> 'v \<Rightarrow> (string \<times> 'v) list \<Rightarrow> (string \<times> 'v) list" where
  "insort_item p [] = [p]"
| "insort_item p (q # qs) = (if str_le (fst p) (fst q) then p # q # qs else q # insort_item p qs)"

definition sort_items :: "(string \<times> 'v) list \<Rightarrow> (string \<times> 'v) list" where
  "sort_items d = foldr insort_item d []"

fun sort_keys :: "pyval \<Rightarrow> pyval" where
  "sort_keys (PList xs) = PList (map sort_keys xs)"
| "sort_keys (PDict d) = PDict (sort_items (map (\<lambda>(k, v). (k, sort_keys v)) d))"
| "sort_keys v = v"

definition json_dumps_sorted :: "pyval \<Rightarrow> string" where
  "json_dumps_sorted v = json_dumps (sort_keys v)"

section \<open>Reading\<close>

definition json_error :: exn where
  "json_error = ValueError ''JSONDecodeError''"

definition json_ws :: "string \<Rightarrow> string" where
  "json_ws s = dropWhile (\<lambda>c. let n = (of_char c :: nat) in n = 32 \<or> n = 9 \<or> n = 10 \<or> n = 13) s"

definition hex_value :: "char \<Rightarrow> nat option" where
  "hex_value c = (let n = (of_char c :: nat) in
     if 48 \<le> n \<and> n \<le> 57 then Some (n - 48) else if 97 \<le> n \<and> n \<le> 102 then Some (n - 87)
     else if 65 \<le> n \<and> n \<le> 70 then Some (n - 55) else None)"

definition hex4 :: "char \<Rightarrow> char \<Rightarrow> char \<Rightarrow> char \<Rightarrow> nat option" where
  "hex4 a b c d = (case (hex_value a, hex_value b, hex_value c, hex_value d) of
     (Some w, Some x, Some y, Some z) \<Rightarrow> Some (((w * 16 + x) * 16 + y) * 16 + z) | _ \<Rightarrow> None)"

definition json_unescape :: "char \<Rightarrow> char option" where
  "json_unescape e = (if e = quote_chr \<or> e = backslash \<or> e = CHR ''/'' then Some e
     else if e = CHR ''b'' then Some (CHR 0x08) else if e = CHR ''f'' then Some (CHR 0x0C)
     else if e = CHR ''n'' then Some (CHR 0x0A) else if e = CHR ''r'' then Some (CHR 0x0D)
     else if e = CHR ''t'' then Some (CHR 0x09) else None)"

definition cons_parsed :: "char \<Rightarrow> (string \<times> string) result \<Rightarrow> (string \<times> string) result" where
  "cons_parsed c r = bind_res r (\<lambda>(s, rest). Inr (c # s, rest))"

text \<open>The body of a string, after its opening quote.\<close>

fun parse_str :: "string \<Rightarrow> (string \<times> string) result" where
  "parse_str [] = Inl json_error"
| "parse_str (c # s) =
     (if c = quote_chr then Inr ([], s)
      else if c = backslash then
        (case s of
           [] \<Rightarrow> Inl json_error
         | e # t \<Rightarrow>
             if e = CHR ''u'' then
               (case t of
                  h1 # h2 # h3 # h4 # u \<Rightarrow>
                    (case hex4 h1 h2 h3 h4 of
                       None \<Rightarrow> Inl json_error
                     | Some n \<Rightarrow> if n < 256 then cons_parsed (char_of n) (parse_str u)
                         else Inl (OtherError ''code point outside the model''))
                | _ \<Rightarrow> Inl json_error)
             else (case json_unescape e of None \<Rightarrow> Inl json_error | Some x \<Rightarrow> cons_parsed x (parse_str t)))
      else if (of_char c :: nat) < 32 then Inl json_error
      else cons_parsed c (parse_str s))"

definition starts :: "char \<Rightarrow> string \<Rightarrow> bool" where
  "starts c s = (case s of [] \<Rightarrow> False | d # _ \<Rightarrow> d = c)"

definition digits_of :: "string \<Rightarrow> string" where
  "digits_of s = takeWhile is_decimal_char s"

definition int_part :: "string \<Rightarrow> string" where
  "int_part s = (if starts CHR ''0'' s then ''0'' else digits_of s)"

definition frac_part :: "string \<Rightarrow> string" where
  "frac_part s = (if starts CHR ''.'' s \<and> digits_of (tl s) \<noteq> [] then CHR ''.'' # digits_of (tl s) else [])"

definition exp_part :: "string \<Rightarrow> string" where
  "exp_part s = (case s of
     c # t \<Rightarrow> if c = CHR ''e'' \<or> c = CHR ''E'' then
         let sign = (case t of d # _ \<Rightarrow> if d = CHR ''+'' \<or> d = CHR ''-'' then [d] else [] | [] \<Rightarrow> []);
             ds = digits_of (drop (length sign) t) in
         if ds = [] then [] else [c] @ sign @ ds
       else []
   | [] \<Rightarrow> [])"

text \<open>\<open>int\<close> refuses a text of more than 4300 digits.\<close>

definition parse_number :: "(string \<Rightarrow> string) \<Rightarrow> string \<Rightarrow> (pyval \<times> string) result" where
  "parse_number fr s =
     (let sign = (if starts CHR ''-'' s then ''-'' else []); t = drop (length sign) s;
          ip = int_part t; t1 = drop (length ip) t;
          fp = frac_part t1; t2 = drop (length fp) t1;
          ep = exp_part t2; rest = drop (length ep) t2 in
      if ip = [] then Inl json_error
      else if fp = [] \<and> ep = [] then
        (if length ip > 4300 then Inl (ValueError ''Exceeds the limit (4300 digits) for integer string conversion'')
         else Inr (PInt (if sign = [] then int (nat_of_digits ip) else - int (nat_of_digits ip)), rest))
      else Inr (PFloat (fr (sign @ ip @ fp @ ep)), rest))"

definition expect :: "char \<Rightarrow> string \<Rightarrow> string result" where
  "expect c s = (case s of [] \<Rightarrow> Inl json_error | d # t \<Rightarrow> if d = c then Inr t else Inl json_error)"

definition parse_word :: "string \<Rightarrow> (pyval \<times> string) option" where
  "parse_word s =
     (if startswith s ''null'' then Some (PNone, drop 4 s) else if startswith s ''true'' then Some (PBool True, drop 4 s)
      else if startswith s ''false'' then Some (PBool False, drop 5 s) else if startswith s ''NaN'' then Some (PFloat ''nan'', drop 3 s)
      else if startswith s ''Infinity'' then Some (PFloat ''inf'', drop 8 s)
      else if startswith s ''-Infinity'' then Some (PFloat ''-inf'', drop 9 s) else None)"

text \<open>A key in quotes and the colon after it.\<close>

definition parse_key :: "string \<Rightarrow> (string \<times> string) result" where
  "parse_key s =
     bind_res (expect quote_chr s) (\<lambda>t.
     bind_res (parse_str t) (\<lambda>(k, t1).
     bind_res (expect CHR '':'' (json_ws t1)) (\<lambda>t2. Inr (k, json_ws t2))))"

fun parse_value :: "(string \<Rightarrow> string) \<Rightarrow> nat \<Rightarrow> string \<Rightarrow> (pyval \<times> string) result"
and parse_elements :: "(string \<Rightarrow> string) \<Rightarrow> nat \<Rightarrow> string \<Rightarrow> pyval list \<Rightarrow> (pyval \<times> string) result"
and parse_members :: "(string \<Rightarrow> string) \<Rightarrow> nat \<Rightarrow> string \<Rightarrow> pydict \<Rightarrow> (pyval \<times> string) result" where
  "parse_value fr 0 s = Inl json_error"
| "parse_value fr (Suc n) s =
     (case s of
        [] \<Rightarrow> Inl json_error
      | c # t \<Rightarrow>
          if c = quote_chr then bind_res (parse_str t) (\<lambda>(x, rest). Inr (PStr x, rest))
          else if c = CHR ''['' then
            (let u = json_ws t in if starts CHR '']'' u then Inr (PList [], tl u) else parse_elements fr n u [])
          else if c = CHR ''{'' then
            (let u = json_ws t in if starts CHR ''}'' u then Inr (PDict [], tl u) else parse_members fr n u [])
          else case parse_word s of Some r \<Rightarrow> Inr r | None \<Rightarrow> parse_number fr s)"
| "parse_elements fr 0 s acc = Inl json_error"
| "parse_elements fr (Suc n) s acc =
     (case parse_value fr n s of
        Inl e \<Rightarrow> Inl e
      | Inr (v, rest) \<Rightarrow>
          (case json_ws rest of
             [] \<Rightarrow> Inl json_error
           | c # u \<Rightarrow> if c = CHR '']'' then Inr (PList (acc @ [v]), u)
               else if c = CHR '','' then parse_elements fr n (json_ws u) (acc @ [v])
               else Inl json_error))"
| "parse_members fr 0 s acc = Inl json_error"
| "parse_members fr (Suc n) s acc =
     (case parse_key s of
        Inl e \<Rightarrow> Inl e
      | Inr (k, t) \<Rightarrow>
          (case parse_value fr n t of
             Inl e \<Rightarrow> Inl e
           | Inr (v, rest) \<Rightarrow>
               (case json_ws rest of
                  [] \<Rightarrow> Inl json_error
                | c # u \<Rightarrow> if c = CHR ''}'' then Inr (PDict (dict_set k v acc), u)
                    else if c = CHR '','' then parse_members fr n (json_ws u) (dict_set k v acc)
                    else Inl json_error)))"

definition json_loads :: "(string \<Rightarrow> string) \<Rightarrow> string \<Rightarrow> pyval result" where
  "json_loads fr s =
     bind_res (parse_value fr (Suc (2 * length s)) (json_ws s)) (\<lambda>(v, rest).
       if json_ws rest = [] then Inr v else Inl json_error)"

section \<open>The fuel is enough\<close>

lemma json_ws_length: "length (json_ws s) \<le> length s"
  by (simp add: json_ws_def length_dropWhile_le)

lemma parse_str_length: "parse_str s = Inr (x, rest) \<Longrightarrow> length rest < length s"
  by (induction s arbitrary: x rest rule: parse_str.induct)
    (fastforce simp: cons_parsed_def bind_res_Inr_iff split: if_splits list.splits option.splits)+

lemma expect_length: "expect c s = Inr t \<Longrightarrow> length t < length s"
  by (auto simp: expect_def split: list.splits if_splits)

lemma parse_word_length: "parse_word s = Some (v, rest) \<Longrightarrow> length rest < length s"
  by (cases s) (auto simp: parse_word_def startswith_def split: if_splits)

lemma parse_number_length:
  assumes "parse_number fr s = Inr (v, rest)"
  shows "length rest < length s"
proof -
  define t where "t = drop (length (if starts CHR ''-'' s then ''-'' else [] :: string)) s"
  have ip: "int_part t \<noteq> []" and rest: "length rest \<le> length t - length (int_part t)"
    using assms by (auto simp: parse_number_def t_def Let_def split: if_splits)
  have "t \<noteq> []" using ip by (cases t) (auto simp: int_part_def digits_of_def starts_def)
  moreover have "length t \<le> length s" by (simp add: t_def)
  ultimately have "0 < length (int_part t)" "0 < length t" "length t \<le> length s"
    using ip by simp_all
  with rest show ?thesis by linarith
qed

lemma ws_less: "length t < k \<Longrightarrow> length (json_ws t) < k"
  using json_ws_length [of t] by linarith

lemma ws_Cons: "json_ws t = c # u \<Longrightarrow> length u < length t"
  using json_ws_length [of t] by simp

lemma ws_tl: "json_ws t = c # u \<Longrightarrow> length (json_ws u) < length t"
  using ws_Cons [of t c u] by (rule ws_less)

lemma starts_Cons: "starts c s \<longleftrightarrow> (\<exists>t. s = c # t)"
  by (auto simp: starts_def split: list.splits)

lemma parse_key_length: "parse_key s = Inr (k, t) \<Longrightarrow> length t < length s"
  by (auto simp: parse_key_def bind_res_Inr_iff dest!: expect_length parse_str_length)
    (meson json_ws_length le_less_trans less_trans)

text \<open>Whatever is read, something of the text is used up.\<close>

lemma parse_length:
  "(parse_value fr n s = Inr (v, rest) \<longrightarrow> length rest < length s)
   \<and> (parse_elements fr n s acc = Inr (v, rest) \<longrightarrow> length rest < length s)
   \<and> (parse_members fr n s d = Inr (v, rest) \<longrightarrow> length rest < length s)"
proof (induction n arbitrary: s v rest acc d)
  case (Suc n)
  have val: "length r < length s" if "parse_value fr n s = Inr (w, r)" for s w r
    using Suc.IH that by blast
  have els: "length r < length s" if "parse_elements fr n s acc = Inr (w, r)" for s acc w r
    using Suc.IH that by blast
  have mem: "length r < length s" if "parse_members fr n s d = Inr (w, r)" for s d w r
    using Suc.IH that by blast
  have "length rest < length s" if run: "parse_value fr (Suc n) s = Inr (v, rest)"
  proof (cases s)
    case (Cons c t)
    have ws: "length (json_ws t) < length s" using Cons by (simp add: ws_less)
    show ?thesis
      using run Cons els [of "json_ws t" "[]"] mem [of "json_ws t" "[]"] ws parse_str_length [of t] ws_Cons [of t]
        parse_number_length [of fr s] parse_word_length [of s]
      by (auto simp: bind_res_Inr_iff Let_def starts_Cons split: if_splits option.splits)
  qed (use run in simp)
  moreover have "length rest < length s" if run: "parse_elements fr (Suc n) s acc = Inr (v, rest)"
    using run val els ws_Cons ws_tl
    by (fastforce split: sum.splits prod.splits list.splits if_splits dest: less_trans)
  moreover have "length rest < length s" if run: "parse_members fr (Suc n) s d = Inr (v, rest)"
    using run val mem ws_Cons ws_tl parse_key_length [of s]
    by (fastforce split: sum.splits prod.splits list.splits if_splits dest: less_trans)
  ultimately show ?case by blast
qed simp

lemmas parse_value_length = parse_length [THEN conjunct1, rule_format]

text \<open>With enough fuel for the text, one more unit changes nothing.\<close>

lemma parse_fuel_step:
  "(2 * length s < n \<longrightarrow> parse_value fr (Suc n) s = parse_value fr n s)
   \<and> (Suc (2 * length s) < n \<longrightarrow> parse_elements fr (Suc n) s acc = parse_elements fr n s acc)
   \<and> (2 * length s < n \<longrightarrow> parse_members fr (Suc n) s d = parse_members fr n s d)"
proof (induction n arbitrary: s acc d)
  case (Suc n)
  have val: "parse_value fr (Suc n) s = parse_value fr n s" if "2 * length s < n" for s
    using Suc.IH that by blast
  have els: "parse_elements fr (Suc n) s acc = parse_elements fr n s acc" if "Suc (2 * length s) < n" for s acc
    using Suc.IH that by blast
  have mem: "parse_members fr (Suc n) s d = parse_members fr n s d" if "2 * length s < n" for s d
    using Suc.IH that by blast
  have "parse_value fr (Suc (Suc n)) s = parse_value fr (Suc n) s" if n: "2 * length s < Suc n"
  proof (cases s)
    case (Cons c t)
    have "Suc (2 * length (json_ws t)) < n" "2 * length (json_ws t) < n"
      using n Cons json_ws_length [of t] by simp_all
    then show ?thesis
      using Cons els [of "json_ws t"] mem [of "json_ws t"]
      by (simp only: Cons parse_value.simps(2) list.case Let_def simp_thms)
  qed simp
  moreover have "parse_elements fr (Suc (Suc n)) s acc = parse_elements fr (Suc n) s acc"
    if n: "Suc (2 * length s) < Suc n"
  proof -
    have next_ok: "Suc (2 * length (json_ws u)) < n" if "parse_value fr n s = Inr (v, rest)" "json_ws rest = c # u" for v rest c u
      using parse_value_length [OF that(1)] ws_tl [OF that(2)] n by linarith
    have "parse_value fr (Suc n) s = parse_value fr n s" using n by (intro val) simp
    then show ?thesis
      using els next_ok
      by (simp only: parse_elements.simps(2)) (auto split: sum.splits list.splits)
  qed
  moreover have "parse_members fr (Suc (Suc n)) s d = parse_members fr (Suc n) s d" if n: "2 * length s < Suc n"
  proof -
    have val_ok: "parse_value fr (Suc n) t = parse_value fr n t" if "parse_key s = Inr (k, t)" for k t
      using parse_key_length [OF that] n by (intro val) simp
    have next_ok: "2 * length (json_ws u) < n"
      if "parse_key s = Inr (k, t)" "parse_value fr n t = Inr (v, rest)" "json_ws rest = c # u" for k t v rest c u
      using parse_key_length [OF that(1)] parse_value_length [OF that(2)] ws_tl [OF that(3)] n by linarith
    show ?thesis
      using mem next_ok val_ok
      by (simp only: parse_members.simps(2)) (auto split: sum.splits list.splits)
  qed
  ultimately show ?case by blast
qed simp

lemma parse_fuel:
  assumes "2 * length s < n" and "n \<le> m"
  shows "parse_value fr m s = parse_value fr n s"
  using assms(2)
proof (induction m rule: dec_induct)
  case (step k)
  then show ?case using parse_fuel_step [of s k fr] assms(1) by simp
qed simp

section \<open>Reading back what was written\<close>

lemma hex_value_digit: "n < 16 \<Longrightarrow> hex_value (hex_digit n) = Some n"
  by (auto simp: hex_digit_def hex_value_def Let_def of_char_of)

lemma parse_str_char: "parse_str (json_char c @ s) = cons_parsed c (parse_str s)"
proof -
  let ?n = "of_char c :: nat"
  have zero: "hex_value CHR ''0'' = Some 0" by code_simp
  have "?n div 16 < 16" "?n mod 16 < 16"
    using less_mult_imp_div_less [of ?n 16 16] by simp_all
  then have hex: "hex4 CHR ''0'' CHR ''0'' (hex_digit (?n div 16)) (hex_digit (?n mod 16)) = Some ?n"
    by (simp add: hex4_def zero hex_value_digit)
  have codes: "?n = 12 \<longleftrightarrow> c = CHR 0x0C" "?n = 8 \<longleftrightarrow> c = CHR 0x08" "?n = 9 \<longleftrightarrow> c = CHR 0x09" "?n = 13 \<longleftrightarrow> c = CHR 0x0D"
    "?n = 10 \<longleftrightarrow> c = CHR 0x0A"
    using of_char_eq_iff [of c "CHR 0x0C", where ?'a = nat] of_char_eq_iff [of c "CHR 0x08", where ?'a = nat]
      of_char_eq_iff [of c "CHR 0x09", where ?'a = nat] of_char_eq_iff [of c "CHR 0x0D", where ?'a = nat]
      of_char_eq_iff [of c "CHR 0x0A", where ?'a = nat] by simp_all
  show ?thesis
    by (auto simp: json_char_def Let_def json_unescape_def hex codes split: if_splits)
qed

lemma parse_str_string: "parse_str (concat (map json_char s) @ [quote_chr] @ rest) = Inr (s, rest)"
  by (induction s) (simp_all add: parse_str_char cons_parsed_def)

lemma json_string_Cons: "json_string s @ rest = quote_chr # (concat (map json_char s) @ [quote_chr] @ rest)"
  by (simp add: json_string_def)

lemma json_ws_stop: "\<not> is_space c \<Longrightarrow> json_ws (c # s) = c # s"
  by (auto simp: json_ws_def is_space_def Let_def)

text \<open>What may follow a number: nothing that would make it longer.\<close>

definition stops :: "string \<Rightarrow> bool" where
  "stops s = (case s of [] \<Rightarrow> True | c # _ \<Rightarrow> \<not> is_decimal_char c \<and> c \<noteq> CHR ''.'' \<and> c \<noteq> CHR ''e'' \<and> c \<noteq> CHR ''E'')"

lemma digits_of_append: "list_all is_decimal_char ds \<Longrightarrow> stops rest \<Longrightarrow> digits_of (ds @ rest) = ds"
  unfolding digits_of_def by (cases rest) (auto simp: stops_def list_all_iff takeWhile_append)

lemma show_nat_hd: "n \<noteq> 0 \<Longrightarrow> hd (show_nat n) \<noteq> CHR ''0''"
proof (induction n rule: show_nat.induct)
  case (1 n)
  have zero: "digit 0 = CHR ''0''" by code_simp
  show ?case
  proof (cases "n < 10")
    case True
    then show ?thesis
      using 1 digit_inject [of n 0] zero by (simp add: show_nat.simps [of n])
  next
    case False
    then have "hd (show_nat (n div 10)) \<noteq> CHR ''0''" and "show_nat (n div 10) \<noteq> []"
      using 1 by (auto simp: show_nat.simps [of "n div 10"] div_eq_0_iff)
    then show ?thesis using False by (simp add: show_nat.simps [of n])
  qed
qed

lemma show_nat_nonempty [simp]: "show_nat n \<noteq> []"
  by (simp add: show_nat.simps [of n])

lemma int_part_show_nat: "stops rest \<Longrightarrow> int_part (show_nat n @ rest) = show_nat n"
proof (cases "n = 0")
  case True
  have "show_nat 0 = ''0''" by code_simp
  then show ?thesis using True by (simp add: int_part_def starts_def)
next
  case False
  assume rest: "stops rest"
  have "\<not> starts CHR ''0'' (show_nat n @ rest)"
    using show_nat_hd [OF False] by (cases "show_nat n") (auto simp: starts_def)
  moreover have "digits_of (show_nat n @ rest) = show_nat n"
    using rest show_nat_digits by (intro digits_of_append) (auto simp: list_all_iff)
  ultimately show ?thesis by (simp add: int_part_def)
qed

lemma stops_parts: "stops rest \<Longrightarrow> frac_part rest = [] \<and> exp_part rest = []"
  by (cases rest) (auto simp: stops_def frac_part_def exp_part_def starts_def)

lemma parse_number_show_nat:
  assumes "stops rest" and "length (show_nat n) \<le> 4300"
  shows "parse_number fr (show_nat n @ rest) = Inr (PInt (int n), rest)"
    and "parse_number fr (CHR ''-'' # show_nat n @ rest) = Inr (PInt (- int n), rest)"
proof -
  have "is_decimal_char (hd (show_nat n))"
    using show_nat_digits [of "hd (show_nat n)" n] by simp
  moreover have "\<not> is_decimal_char CHR ''-''" by code_simp
  ultimately have "\<not> starts CHR ''-'' (show_nat n @ rest)"
    by (cases "show_nat n") (auto simp: starts_def)
  then show "parse_number fr (show_nat n @ rest) = Inr (PInt (int n), rest)"
    using assms stops_parts [OF assms(1)] by (simp add: parse_number_def Let_def int_part_show_nat)
  show "parse_number fr (CHR ''-'' # show_nat n @ rest) = Inr (PInt (- int n), rest)"
    using assms stops_parts [OF assms(1)] by (simp add: parse_number_def Let_def int_part_show_nat starts_def)
qed

text \<open>
  The values that come back as they were: no float, integers that \<open>int\<close> reads, and no key twice.
\<close>

fun json_plain :: "pyval \<Rightarrow> bool" where
  "json_plain (PFloat r) = False"
| "json_plain (PInt i) = (length (show_nat (nat (abs i))) \<le> 4300)"
| "json_plain (PList xs) = list_all json_plain xs"
| "json_plain (PDict d) = (distinct (map fst d) \<and> list_all (\<lambda>(k, v). json_plain v) d)"
| "json_plain v = True"

text \<open>How a written value starts.\<close>

definition value_start :: "char \<Rightarrow> bool" where
  "value_start c = (c \<in> {quote_chr, CHR ''['', CHR ''{'', CHR ''n'', CHR ''t'', CHR ''f'', CHR ''-''} \<or> is_decimal_char c)"

lemma json_dumps_start: "json_plain v \<Longrightarrow> \<exists>c t. json_dumps v = c # t \<and> value_start c"
proof (cases v)
  case (PInt i)
  then show ?thesis
    using show_nat_digits [of "hd (show_nat (nat i))" "nat i"]
    by (cases "show_nat (nat i)") (auto simp: show_int_def value_start_def)
qed (auto simp: value_start_def json_string_def)

lemma value_start_not_space: "value_start c \<Longrightarrow> \<not> is_space c \<and> c \<noteq> CHR '']'' \<and> c \<noteq> CHR ''}''"
  by (auto simp: value_start_def is_space_def is_decimal_char_def Let_def)

lemma startswith_Cons: "startswith (c # s) (d # p) \<longleftrightarrow> c = d \<and> startswith s p"
  by (auto simp: startswith_def)

lemma decimal_not_letter: "is_decimal_char c \<Longrightarrow> c \<notin> {CHR ''n'', CHR ''t'', CHR ''f'', CHR ''N'', CHR ''I'', CHR ''-''}"
  by (auto simp: is_decimal_char_def Let_def)

lemma parse_word_number:
  "is_decimal_char c \<Longrightarrow> parse_word (c # s) = None"
  "is_decimal_char d \<Longrightarrow> parse_word (CHR ''-'' # d # u) = None"
  using decimal_not_letter [of c] decimal_not_letter [of d]
  by (simp_all add: parse_word_def startswith_Cons)

lemma decimal_not_special: "is_decimal_char c \<Longrightarrow> c \<noteq> quote_chr \<and> c \<noteq> CHR ''['' \<and> c \<noteq> CHR ''{''"
  by (auto simp: is_decimal_char_def Let_def)

lemma parse_int:
  assumes "stops rest" and "length (show_nat (nat (abs i))) \<le> 4300"
  shows "parse_value fr (Suc n) (show_int i @ rest) = Inr (PInt i, rest)"
proof -
  obtain d u where d: "show_nat (nat (abs i)) = d # u" "is_decimal_char d"
    using show_nat_digits [of _ "nat (abs i)"] by (cases "show_nat (nat (abs i))") auto
  show ?thesis
  proof (cases "i < 0")
    case True
    then have "show_int i @ rest = CHR ''-'' # show_nat (nat (- i)) @ rest" by (simp add: show_int_def)
    moreover have "parse_word (CHR ''-'' # show_nat (nat (- i)) @ rest) = None"
      using d True by (simp add: parse_word_number(2))
    ultimately show ?thesis
      using parse_number_show_nat(2) [OF assms(1), of "nat (- i)"] assms(2) True by simp
  next
    case False
    then have eq: "show_int i @ rest = show_nat (nat i) @ rest" and du: "show_nat (nat i) = d # u"
      using d by (auto simp: show_int_def)
    have "parse_word (d # u @ rest) = None" using d by (simp add: parse_word_number(1))
    then show ?thesis
      using parse_number_show_nat(1) [OF assms(1), of "nat i" fr] assms(2) False decimal_not_special [OF d(2)] eq du by simp
  qed
qed

definition reads :: "(string \<Rightarrow> string) \<Rightarrow> pyval \<Rightarrow> bool" where
  "reads fr v = (\<forall>rest n. stops rest \<longrightarrow> 2 * length (json_dumps v) < n \<longrightarrow>
     parse_value fr n (json_dumps v @ rest) = Inr (v, rest))"

lemma readsD: "reads fr v \<Longrightarrow> stops rest \<Longrightarrow> 2 * length (json_dumps v) < n \<Longrightarrow>
    parse_value fr n (json_dumps v @ rest) = Inr (v, rest)"
  by (simp add: reads_def)

lemma stops_after: "stops (CHR '','' # s)" "stops (CHR '']'' # s)" "stops (CHR ''}'' # s)"
  by (simp_all add: stops_def is_decimal_char_def)

lemma ws_after: "json_ws (CHR '','' # s) = CHR '','' # s" "json_ws (CHR '']'' # s) = CHR '']'' # s"
  "json_ws (CHR ''}'' # s) = CHR ''}'' # s" "json_ws (CHR '':'' # s) = CHR '':'' # s"
  by (simp_all add: json_ws_stop is_space_def)

lemma ws_space: "json_ws (CHR '' '' # s) = json_ws s"
  by (simp add: json_ws_def)

lemma ws_dumps: "json_plain v \<Longrightarrow> json_ws (json_dumps v @ s) = json_dumps v @ s"
  using json_dumps_start [of v] value_start_not_space by (auto simp: json_ws_stop)

lemma ws_string: "json_ws (json_string k @ s) = json_string k @ s"
  by (simp add: json_string_def json_ws_def)

lemma parse_elements_written:
  assumes "list_all (\<lambda>v. json_plain v \<and> reads fr v) (x # xs)"
    and "Suc (2 * length (join '', '' (map json_dumps (x # xs)))) < n"
  shows "parse_elements fr n (join '', '' (map json_dumps (x # xs)) @ CHR '']'' # rest) acc = Inr (PList (acc @ x # xs), rest)"
  using assms
proof (induction xs arbitrary: x n acc)
  case Nil
  then obtain m where "n = Suc m" by (cases n) auto
  then show ?case
    using Nil readsD [of fr x "CHR '']'' # rest" m] by (simp add: stops_after ws_after)
next
  case (Cons y ys)
  let ?more = "join '', '' (map json_dumps (y # ys)) @ CHR '']'' # rest"
  obtain m where m: "n = Suc m" using Cons.prems by (cases n) auto
  have head: "parse_value fr m (json_dumps x @ '', '' @ ?more) = Inr (x, '', '' @ ?more)"
    using Cons.prems m by (intro readsD) (simp_all add: stops_after)
  have "json_ws ?more = ?more"
    using Cons.prems(1) ws_dumps [of y] by (cases ys) auto
  then have "json_ws (CHR '' '' # ?more) = ?more"
    by (simp only: ws_space)
  moreover have "parse_elements fr m ?more (acc @ [x]) = Inr (PList ((acc @ [x]) @ y # ys), rest)"
    using Cons.prems m by (intro Cons.IH) simp_all
  ultimately show ?case
    using head by (simp add: m ws_after)
qed

definition json_item :: "string \<times> pyval \<Rightarrow> string" where
  "json_item p = json_string (fst p) @ '': '' @ json_dumps (snd p)"

lemma json_dumps_dict: "json_dumps (PDict d) = ''{'' @ join '', '' (map json_item d) @ ''}''"
proof -
  have "(\<lambda>(k, v). json_string k @ '': '' @ json_dumps v) = json_item"
    by (auto simp: json_item_def fun_eq_iff)
  then show ?thesis by (simp only: json_dumps.simps)
qed

lemma parse_key_written: "json_plain v \<Longrightarrow> parse_key (json_item (k, v) @ s) = Inr (k, json_dumps v @ s)"
  using parse_str_string [of k "'': '' @ json_dumps v @ s"]
  by (simp add: json_item_def parse_key_def json_string_def expect_def ws_after ws_space ws_dumps)

lemma parse_members_written:
  assumes "list_all (\<lambda>(k, v). json_plain v \<and> reads fr v) (x # xs)" and "distinct (map fst (acc @ x # xs))"
    and "2 * length (join '', '' (map json_item (x # xs))) < n"
  shows "parse_members fr n (join '', '' (map json_item (x # xs)) @ CHR ''}'' # rest) acc = Inr (PDict (acc @ x # xs), rest)"
  using assms
proof (induction xs arbitrary: x n acc)
  case Nil
  obtain k v where x: "x = (k, v)" by fastforce
  obtain m where m: "n = Suc m" using Nil by (cases n) auto
  have "2 * length (json_dumps v) < m"
    using Nil m by (simp add: x json_item_def json_string_def)
  then have "parse_value fr m (json_dumps v @ CHR ''}'' # rest) = Inr (v, CHR ''}'' # rest)"
    using Nil by (intro readsD) (simp_all add: x stops_after)
  then show ?case
    using Nil by (simp add: x m parse_key_written ws_after dict_set_fresh)
next
  case (Cons y ys)
  obtain k v where x: "x = (k, v)" by fastforce
  let ?more = "join '', '' (map json_item (y # ys)) @ CHR ''}'' # rest"
  obtain m where m: "n = Suc m" using Cons.prems by (cases n) auto
  have "2 * length (json_dumps v) < m"
    using Cons.prems m by (simp add: x json_item_def json_string_def)
  then have head: "parse_value fr m (json_dumps v @ '', '' @ ?more) = Inr (v, '', '' @ ?more)"
    using Cons.prems by (intro readsD) (simp_all add: x stops_after)
  have "json_ws ?more = ?more"
    using ws_string [of "fst y"] by (cases ys) (simp_all add: json_item_def)
  then have "json_ws (CHR '' '' # ?more) = ?more"
    by (simp only: ws_space)
  moreover have "parse_members fr m ?more (acc @ [x]) = Inr (PDict ((acc @ [x]) @ y # ys), rest)"
    using Cons.prems m by (intro Cons.IH) (simp_all add: x json_item_def)
  ultimately show ?case
    using head Cons.prems by (simp add: x m parse_key_written ws_after dict_set_fresh)
qed

lemma readsI:
  assumes "\<And>rest n. stops rest \<Longrightarrow> 2 * length (json_dumps v) < Suc n \<Longrightarrow> parse_value fr (Suc n) (json_dumps v @ rest) = Inr (v, rest)"
  shows "reads fr v"
  unfolding reads_def
proof (intro allI impI)
  fix rest n
  assume "stops rest" and n: "2 * length (json_dumps v) < n"
  moreover from n obtain m where "n = Suc m" by (cases n) auto
  ultimately show "parse_value fr n (json_dumps v @ rest) = Inr (v, rest)"
    using assms [of rest m] by simp
qed

lemma reads_list:
  assumes "list_all (\<lambda>v. json_plain v \<and> reads fr v) xs"
  shows "reads fr (PList xs)"
proof (rule readsI)
  fix rest n
  assume n: "2 * length (json_dumps (PList xs)) < Suc n"
  show "parse_value fr (Suc n) (json_dumps (PList xs) @ rest) = Inr (PList xs, rest)"
  proof (cases xs)
    case Nil
    then show ?thesis by (simp add: ws_after starts_def)
  next
    case (Cons x ys)
    let ?body = "join '', '' (map json_dumps (x # ys)) @ CHR '']'' # rest"
    obtain c t where c: "json_dumps x = c # t" "value_start c"
      using json_dumps_start [of x] assms Cons by auto
    have body: "?body = c # t @ (case ys of [] \<Rightarrow> [] | _ \<Rightarrow> '', '' @ join '', '' (map json_dumps ys)) @ CHR '']'' # rest"
      using c(1) by (cases ys) simp_all
    have "json_ws ?body = ?body" "\<not> starts CHR '']'' ?body"
      unfolding body using value_start_not_space [OF c(2)] by (simp_all add: json_ws_stop starts_def)
    moreover have "parse_elements fr n ?body [] = Inr (PList ([] @ x # ys), rest)"
      using assms n Cons by (intro parse_elements_written) simp_all
    moreover have "json_dumps (PList xs) @ rest = CHR ''['' # ?body"
      using Cons by simp
    ultimately show ?thesis
      by (simp only: parse_value.simps(2) list.case Let_def Cons if_True if_False) simp
  qed
qed

lemma reads_dict:
  assumes "list_all (\<lambda>(k, v). json_plain v \<and> reads fr v) d" and "distinct (map fst d)"
  shows "reads fr (PDict d)"
proof (rule readsI)
  fix rest n
  assume n: "2 * length (json_dumps (PDict d)) < Suc n"
  show "parse_value fr (Suc n) (json_dumps (PDict d) @ rest) = Inr (PDict d, rest)"
  proof (cases d)
    case Nil
    then show ?thesis by (simp add: ws_after starts_def)
  next
    case (Cons x xs)
    let ?body = "join '', '' (map json_item (x # xs)) @ CHR ''}'' # rest"
    obtain t where body: "?body = quote_chr # t"
      by (cases xs) (auto simp: json_item_def json_string_def)
    have "json_ws ?body = ?body" "\<not> starts CHR ''}'' ?body"
      unfolding body by (simp_all add: json_ws_def starts_def)
    moreover have "parse_members fr n ?body [] = Inr (PDict ([] @ x # xs), rest)"
      using assms n Cons by (intro parse_members_written) (simp_all only: json_dumps_dict append.simps, auto)
    moreover have "json_dumps (PDict d) @ rest = CHR ''{'' # ?body"
      using Cons by (simp only: json_dumps_dict) simp
    ultimately show ?thesis
      by (simp only: parse_value.simps(2) list.case Let_def Cons if_True if_False) simp
  qed
qed

lemma reads_plain: "json_plain v \<Longrightarrow> reads fr v"
proof (induction v rule: json_dumps.induct)
  case (3 i)
  then show ?case by (auto intro!: readsI simp: parse_int simp del: parse_value.simps)
next
  case (6 xs)
  then show ?case by (intro reads_list) (auto simp: list_all_iff)
next
  case (7 d)
  then show ?case by (intro reads_dict) (auto simp: list_all_iff)
next
  case (5 s)
  show ?case
    by (rule readsI) (simp add: json_string_def parse_str_string [simplified])
qed (auto intro!: readsI simp: parse_word_def startswith_Cons startswith_def)

text \<open>Every plain value is read back from what \<open>dumps\<close> wrote.\<close>

lemma json_roundtrip:
  assumes "json_plain v"
  shows "json_loads fr (json_dumps v) = Inr v"
proof -
  have "parse_value fr (Suc (2 * length (json_dumps v))) (json_dumps v @ []) = Inr (v, [])"
    by (rule readsD [OF reads_plain [OF assms]]) (simp_all add: stops_def)
  then show ?thesis
    using ws_dumps [OF assms, of "[]"] by (simp add: json_loads_def json_ws_def [of "[]"])
qed

end
