(* ===== verification/Lab_Sessions.thy ===== *)
theory Lab_Sessions
  imports Tenancy Lab_Capacity Redis_Client Py_Hash Py_Json
begin

text \<open>
  The two labs on Redis: \<open>labs/redis_state.py\<close> and \<open>labs/prompt_cache_isolation.py\<close>. The environment,
  the random id, the host and port for messages, the session secret and, for \<open>json.loads\<close>, the reading
  of floats are arguments.
\<close>

section \<open>Connecting\<close>

definition connect_redis :: "(string \<times> string) list \<Rightarrow> string \<Rightarrow> int \<Rightarrow> (kv, unit) eff" where
  "connect_redis env host port = catch_eff (get_redis_client env) (\<lambda>e.
     raise_exn (RuntimeError (''Redis is unavailable but BOUNDARY_LAYER_REDIS_LIVE=true. Check REDIS_HOST='' @ host
       @ '' REDIS_PORT='' @ show_int port @ ''. Error: '' @ exn_text e)))"

section \<open>Session tokens\<close>

definition REDIS_TTL_SECONDS :: int where
  "REDIS_TTL_SECONDS = 300"

definition ORIGINAL_SESSION :: pydict where
  "ORIGINAL_SESSION = [(''user_id'', PStr ''user-42''), (''role'', PStr ''viewer''), (''tenant_id'', PStr ''tenant-a'')]"

definition REDIS_RISK :: string where
  "REDIS_RISK = ''Session privilege escalation via unsigned Redis state tampering''"

definition HMAC_CONTROL :: string where
  "HMAC_CONTROL = ''HMAC session integrity verification''"

definition encode_session_vulnerable :: "pyval \<Rightarrow> string" where
  "encode_session_vulnerable payload = urlsafe_b64encode (utf8_encode (json_dumps_sorted payload))"

definition read_token :: "(string \<Rightarrow> string) \<Rightarrow> string \<Rightarrow> pyval result" where
  "read_token fr token =
     bind_res (urlsafe_b64decode (utf8_encode token)) (\<lambda>raw.
     bind_res (utf8_decode raw) (json_loads fr))"

definition decode_session_vulnerable :: "(string \<Rightarrow> string) \<Rightarrow> string \<Rightarrow> pyval result" where
  "decode_session_vulnerable fr token = read_token fr token"

definition session_sig :: "string \<Rightarrow> pyval \<Rightarrow> string" where
  "session_sig secret payload = hmac_sha256_hexdigest (utf8_encode secret) (utf8_encode (json_dumps_sorted payload))"

definition sign_session_hardened :: "string \<Rightarrow> pyval \<Rightarrow> string" where
  "sign_session_hardened secret payload =
     urlsafe_b64encode (utf8_encode (json_dumps
       (PDict [(''payload'', payload), (''sig'', PStr (session_sig secret payload))])))"

text \<open>\<open>v[k]\<close> for a string \<open>k\<close>: a dictionary without it raises \<open>KeyError\<close>, any other value \<open>TypeError\<close>.\<close>

definition subscript :: "pyval \<Rightarrow> string \<Rightarrow> pyval result" where
  "subscript v k = (case v of
     PDict d \<Rightarrow> (case dict_get d k of Some x \<Rightarrow> Inr x | None \<Rightarrow> Inl (KeyError (repr_str k)))
   | _ \<Rightarrow> Inl (OtherError ''TypeError: indices must be integers''))"

definition hmac_compare_digest :: "pyval \<Rightarrow> string \<Rightarrow> bool result" where
  "hmac_compare_digest sig expected = (case sig of
     PStr s \<Rightarrow> if ascii (s @ expected) then Inr (s = expected)
       else Inl (OtherError ''TypeError: comparing strings with non-ASCII characters is not supported'')
   | _ \<Rightarrow> Inl (OtherError ''TypeError: unsupported operand types''))"

definition check_envelope :: "(string \<Rightarrow> string) \<Rightarrow> string \<Rightarrow> string \<Rightarrow> (pyval option \<times> bool) result" where
  "check_envelope fr secret token =
     bind_res (read_token fr token) (\<lambda>envelope.
     bind_res (subscript envelope ''payload'') (\<lambda>payload.
     bind_res (subscript envelope ''sig'') (\<lambda>sig.
     bind_res (hmac_compare_digest sig (session_sig secret payload)) (\<lambda>same.
       Inr (if same then (Some payload, True) else (None, False))))))"

definition verify_session_hardened :: "(string \<Rightarrow> string) \<Rightarrow> string \<Rightarrow> string \<Rightarrow> (pyval option \<times> bool) result" where
  "verify_session_hardened fr secret token =
     (case check_envelope fr secret token of
        Inl (KeyError _) \<Rightarrow> Inr (None, False)
      | Inl (ValueError _) \<Rightarrow> Inr (None, False)
      | r \<Rightarrow> r)"

section \<open>Session tampering lab\<close>

definition redis_blocked :: "string \<Rightarrow> string list \<Rightarrow> string \<Rightarrow> lab_result" where
  "redis_blocked mode events summary =
     \<lparr>lr_lab = ''redis'', lr_mode = mode, lr_blocked = True, lr_risk = REDIS_RISK, lr_control = HMAC_CONTROL,
      lr_events = events, lr_summary = summary, lr_internal = []\<rparr>"

definition redis_accepted :: "string \<Rightarrow> string \<Rightarrow> string list \<Rightarrow> string \<Rightarrow> lab_result" where
  "redis_accepted mode control events summary =
     \<lparr>lr_lab = ''redis'', lr_mode = mode, lr_blocked = False, lr_risk = REDIS_RISK, lr_control = control,
      lr_events = events, lr_summary = summary, lr_internal = []\<rparr>"

definition run_redis_lab_fallback :: "(string \<Rightarrow> string) \<Rightarrow> string \<Rightarrow> string \<Rightarrow> string \<Rightarrow> lab_result result" where
  "run_redis_lab_fallback fr secret mode tenant_id =
     (let events = [''Using deterministic in-memory Redis fallback (live mode disabled)'',
            ''Resolved tenant context: '' @ tenant_id];
          tampered = PDict (dict_set ''role'' (PStr ''admin'') ORIGINAL_SESSION);
          tampered_token = encode_session_vulnerable tampered in
      if mode = ''vulnerable'' then
        let token = encode_session_vulnerable (PDict ORIGINAL_SESSION) in
        bind_res (decode_session_vulnerable fr tampered_token) (\<lambda>decoded.
        bind_res (subscript decoded ''role'') (\<lambda>role.
          Inr (redis_accepted mode ''none'' (events @ [''Stored unsigned session token: '' @ take 24 token @ ''...'',
                ''Attacker rewrote session blob in Redis with elevated role'',
                ''Server accepted tampered session role='' @ py_str role])
              (''Vulnerable mode accepted a tampered session blob; role escalated from viewer to '' @ py_str role @ ''.''))))
      else
        let token = sign_session_hardened secret (PDict ORIGINAL_SESSION);
            events = events @ [''Stored HMAC-signed session token: '' @ take 24 token @ ''...'',
              ''Attacker attempted to replace session with unsigned blob''] in
        bind_res (verify_session_hardened fr secret tampered_token) (\<lambda>(payload, valid).
          Inr (if \<not> valid
            then redis_blocked mode (events @ [''HMAC verification rejected tampered session payload''])
              ''Hardened mode rejected tampered session; privilege escalation blocked.''
            else redis_accepted mode HMAC_CONTROL (events @ [''Unexpected: tampered session accepted''])
              ''Tampered session was incorrectly accepted.'')))"

definition redis_key :: "string \<Rightarrow> string \<Rightarrow> string" where
  "redis_key uuid tenant_id = build_tenant_redis_key tenant_id ''redis'' (''session:'' @ uuid)"

text \<open>What both modes do with the server: store the session, overwrite it, read it back.\<close>

definition tamper_stored :: "string \<Rightarrow> string \<Rightarrow> string \<Rightarrow> (kv, string) eff" where
  "tamper_stored key token tampered_token =
     bind_eff (kv_setex key REDIS_TTL_SECONDS token) (\<lambda>_.
     bind_eff (kv_set key tampered_token) (\<lambda>_.
     bind_eff (kv_get key) (\<lambda>stored.
       case stored of
         None \<Rightarrow> raise_exn (RuntimeError (''Expected Redis key missing after tamper simulation: '' @ key))
       | Some v \<Rightarrow> ret v)))"

definition run_redis_lab_live ::
    "(string \<Rightarrow> string) \<Rightarrow> string \<Rightarrow> (string \<times> string) list \<Rightarrow> string \<Rightarrow> int \<Rightarrow> string \<Rightarrow> string \<Rightarrow> string
      \<Rightarrow> (kv, lab_result) eff" where
  "run_redis_lab_live fr secret env host port uuid mode tenant_id =
     (let tampered = PDict (dict_set ''tenant_id'' (PStr tenant_id) (dict_set ''role'' (PStr ''admin'') ORIGINAL_SESSION));
          tampered_token = encode_session_vulnerable tampered;
          key = redis_key uuid tenant_id;
          events = [''Connected to live Redis at '' @ host @ '':'' @ show_int port,
            ''Applied tenant-scoped storage namespace: '' @ tenant_id, ''Using namespaced key: '' @ key] in
      bind_eff (connect_redis env host port) (\<lambda>_.
        if mode = ''vulnerable'' then
          bind_eff (tamper_stored key (encode_session_vulnerable (PDict ORIGINAL_SESSION)) tampered_token) (\<lambda>stored.
          bind_eff (lift_res (bind_res (decode_session_vulnerable fr stored) (\<lambda>d. subscript d ''role''))) (\<lambda>role.
            ret (redis_accepted mode ''none'' (events @ [''Stored unsigned session payload in Redis with TTL'',
                  ''Attacker overwrote Redis value with tampered unsigned blob'',
                  ''Server accepted tampered session role='' @ py_str role])
                (''Vulnerable mode accepted a tampered Redis session blob; role escalated from viewer to ''
                  @ py_str role @ ''.''))))
        else
          bind_eff (tamper_stored key (sign_session_hardened secret (PDict ORIGINAL_SESSION)) tampered_token) (\<lambda>stored.
          let events = events @ [''Stored HMAC-signed session payload in Redis with TTL'',
                ''Attacker overwrote Redis value with unsigned tampered blob''] in
          bind_eff (lift_res (verify_session_hardened fr secret stored)) (\<lambda>(payload, valid).
            if \<not> valid
            then ret (redis_blocked mode (events @ [''HMAC verification rejected tampered Redis session payload''])
              ''Hardened mode rejected tampered Redis session; privilege escalation blocked.'')
            else bind_eff (lift_res (subscript (case payload of Some p \<Rightarrow> p | None \<Rightarrow> PNone) ''role'')) (\<lambda>role.
              ret (redis_accepted mode HMAC_CONTROL
                (events @ [''Unexpected: tampered session accepted role='' @ py_str role])
                ''Tampered Redis session was incorrectly accepted.''))))))"

definition run_redis_lab ::
    "(string \<Rightarrow> string) \<Rightarrow> string \<Rightarrow> (string \<times> string) list \<Rightarrow> string \<Rightarrow> int \<Rightarrow> string \<Rightarrow> string \<Rightarrow> string
      \<Rightarrow> (kv, lab_result) eff" where
  "run_redis_lab fr secret env host port uuid mode tenant_id =
     (if redis_live_enabled env then run_redis_lab_live fr secret env host port uuid mode tenant_id
      else lift_res (run_redis_lab_fallback fr secret mode tenant_id))"

section \<open>Prompt cache lab\<close>

definition CACHE_KEY_PREFIX :: string where
  "CACHE_KEY_PREFIX = ''boundary_layer:lab:prompt_cache:''"

definition MAX_TENANT_LEN :: nat where "MAX_TENANT_LEN = 64"
definition MAX_PREFIX_LEN :: nat where "MAX_PREFIX_LEN = 256"

definition CACHE_RISK :: string where
  "CACHE_RISK = ''Cross-tenant prompt-prefix cache bleed via shared cache keys''"

definition CACHE_CONTROL :: string where
  "CACHE_CONTROL = ''per-tenant cache namespace isolation''"

definition validate_tenant :: "string \<Rightarrow> string \<Rightarrow> unit result" where
  "validate_tenant tenant field_name =
     (if tenant = [] \<or> strip tenant = [] then Inl (ValueError (field_name @ '' must be a non-empty string''))
      else if length tenant > MAX_TENANT_LEN then Inl (ValueError (field_name @ '' must be at most 64 characters''))
      else Inr ())"

definition validate_prompt_prefix :: "string \<Rightarrow> unit result" where
  "validate_prompt_prefix prompt_prefix =
     (if prompt_prefix = [] \<or> strip prompt_prefix = [] then Inl (ValueError ''prompt_prefix must be a non-empty string'')
      else if length prompt_prefix > MAX_PREFIX_LEN then Inl (ValueError ''prompt_prefix must be at most 256 characters'')
      else Inr ())"

definition hash_prompt_prefix :: "string \<Rightarrow> string" where
  "hash_prompt_prefix prompt_prefix = take 16 (sha256_hexdigest (utf8_encode prompt_prefix))"

definition global_cache_key :: "string \<Rightarrow> string" where
  "global_cache_key prompt_prefix = CACHE_KEY_PREFIX @ ''global:'' @ hash_prompt_prefix prompt_prefix"

definition tenant_cache_key :: "bool \<Rightarrow> string \<Rightarrow> string \<Rightarrow> string" where
  "tenant_cache_key tenant_scoped_redis tenant_id prompt_prefix =
     (if tenant_scoped_redis then build_tenant_redis_key tenant_id ''prompt_cache'' (hash_prompt_prefix prompt_prefix)
      else CACHE_KEY_PREFIX @ tenant_id @ '':'' @ hash_prompt_prefix prompt_prefix)"

definition cache_payload :: "string \<Rightarrow> string \<Rightarrow> string" where
  "cache_payload tenant_id prompt_prefix =
     json_dumps (PDict [(''tenant_id'', PStr tenant_id), (''prompt_prefix'', PStr prompt_prefix), (''synthetic'', PBool True)])"

definition cache_internal :: "string \<Rightarrow> string \<Rightarrow> string \<Rightarrow> string \<Rightarrow> string \<Rightarrow> string \<Rightarrow> bool \<Rightarrow> bool \<Rightarrow> bool \<Rightarrow> pydict" where
  "cache_internal tenant_a tenant_b key_a key_b key_mode hit_type cross bleed isolation =
     [(''_metrics_tenant_a'', PStr tenant_a), (''_metrics_tenant_b'', PStr tenant_b),
      (''_tenant_a_cache_key'', PStr key_a), (''_tenant_b_cache_key'', PStr key_b), (''_cache_key_mode'', PStr key_mode),
      (''_tenant_b_hit_type'', PStr hit_type), (''_cache_hit_cross_tenant'', PBool cross),
      (''_cache_bleed_detected'', PBool bleed), (''_isolation_applied'', PBool isolation)]"

definition cache_vulnerable :: "string \<Rightarrow> string \<Rightarrow> string \<Rightarrow> string \<Rightarrow> string list \<Rightarrow> string \<Rightarrow> bool \<Rightarrow> lab_result" where
  "cache_vulnerable mode tenant_a tenant_b key events summary cache_hit =
     \<lparr>lr_lab = ''prompt-cache-isolation'', lr_mode = mode, lr_blocked = False, lr_risk = CACHE_RISK, lr_control = ''none'',
      lr_events = events @ [''Tenant A wrote shared cache key: '' @ key, ''Tenant B queried same shared cache key: '' @ key,
          ''No tenant namespace applied'']
        @ (if cache_hit then [''Cross-tenant cache hit detected''] else []) @ [''Cache bleed risk recorded''],
      lr_summary = summary,
      lr_internal = cache_internal tenant_a tenant_b key key ''global'' (if cache_hit then ''cross_tenant'' else ''miss'')
        cache_hit cache_hit False\<rparr>"

definition cache_hardened :: "string \<Rightarrow> string \<Rightarrow> string \<Rightarrow> string \<Rightarrow> string \<Rightarrow> string list \<Rightarrow> string \<Rightarrow> bool \<Rightarrow> lab_result" where
  "cache_hardened mode tenant_a tenant_b key_a key_b events summary cache_hit =
     \<lparr>lr_lab = ''prompt-cache-isolation'', lr_mode = mode, lr_blocked = True, lr_risk = CACHE_RISK, lr_control = CACHE_CONTROL,
      lr_events = events @ [''Tenant A wrote tenant-scoped cache key: '' @ key_a,
          ''Tenant B queried tenant-scoped cache key: '' @ key_b, ''Tenant namespace isolation applied'']
        @ (if \<not> cache_hit then [''No cross-tenant cache hit detected''] else []) @ [''Cache bleed prevented''],
      lr_summary = summary,
      lr_internal = cache_internal tenant_a tenant_b key_a key_b ''tenant_scoped''
        (if cache_hit then ''tenant_scoped'' else ''miss'') False False True\<rparr>"

definition run_cache_fallback :: "string \<Rightarrow> string \<Rightarrow> string \<Rightarrow> string \<Rightarrow> bool \<Rightarrow> lab_result" where
  "run_cache_fallback mode tenant_a tenant_b prompt_prefix tenant_scoped_redis =
     (let events = [''Using deterministic in-memory Redis fallback (live mode disabled)'']; store = [] in
      if mode = ''vulnerable'' then
        let key = global_cache_key prompt_prefix;
            store = dict_set key (cache_payload tenant_a prompt_prefix) store in
        cache_vulnerable mode tenant_a tenant_b key events
          (''Vulnerable mode allowed Tenant B to hit Tenant A'' @ [CHR 0x27] @ ''s shared prompt cache entry.'')
          (dict_get store key \<noteq> None)
      else
        let key_a = tenant_cache_key tenant_scoped_redis tenant_a prompt_prefix;
            key_b = tenant_cache_key tenant_scoped_redis tenant_b prompt_prefix;
            store = dict_set key_a (cache_payload tenant_a prompt_prefix) store in
        cache_hardened mode tenant_a tenant_b key_a key_b events
          ''Hardened mode prevented cross-tenant prompt cache bleed using tenant namespaces.''
          (dict_get store key_b \<noteq> None))"

definition run_cache_live ::
    "(string \<times> string) list \<Rightarrow> string \<Rightarrow> int \<Rightarrow> string \<Rightarrow> string \<Rightarrow> string \<Rightarrow> string \<Rightarrow> bool \<Rightarrow> (kv, lab_result) eff" where
  "run_cache_live env host port mode tenant_a tenant_b prompt_prefix tenant_scoped_redis =
     bind_eff (connect_redis env host port) (\<lambda>_.
       let events = [''Connected to live Redis at '' @ host @ '':'' @ show_int port];
           payload = cache_payload tenant_a prompt_prefix in
       if mode = ''vulnerable'' then
         let key = global_cache_key prompt_prefix in
         bind_eff (kv_setex key REDIS_TTL_SECONDS payload) (\<lambda>_.
         bind_eff (kv_get key) (\<lambda>stored.
           ret (cache_vulnerable mode tenant_a tenant_b key events
             (''Vulnerable mode allowed Tenant B to hit Tenant A'' @ [CHR 0x27] @ ''s shared Redis cache entry.'')
             (stored \<noteq> None))))
       else
         let key_a = tenant_cache_key tenant_scoped_redis tenant_a prompt_prefix;
             key_b = tenant_cache_key tenant_scoped_redis tenant_b prompt_prefix in
         bind_eff (kv_setex key_a REDIS_TTL_SECONDS payload) (\<lambda>_.
         bind_eff (kv_get key_b) (\<lambda>stored.
           ret (cache_hardened mode tenant_a tenant_b key_a key_b events
             ''Hardened mode prevented cross-tenant prompt cache bleed in Redis.'' (stored \<noteq> None)))))"

definition run_prompt_cache_isolation_lab ::
    "(string \<times> string) list \<Rightarrow> string \<Rightarrow> int \<Rightarrow> string \<Rightarrow> string \<Rightarrow> string \<Rightarrow> string \<Rightarrow> bool \<Rightarrow> (kv, lab_result) eff" where
  "run_prompt_cache_isolation_lab env host port mode tenant_a tenant_b prompt_prefix tenant_scoped_redis =
     bind_eff (lift_res (bind_res (validate_tenant tenant_a ''tenant_a'') (\<lambda>_.
       bind_res (validate_tenant tenant_b ''tenant_b'') (\<lambda>_. validate_prompt_prefix prompt_prefix)))) (\<lambda>_.
     if redis_live_enabled env
     then run_cache_live env host port mode tenant_a tenant_b prompt_prefix tenant_scoped_redis
     else ret (run_cache_fallback mode tenant_a tenant_b prompt_prefix tenant_scoped_redis))"

section \<open>Signed sessions\<close>

lemma hex_digit_below: "n < 16 \<Longrightarrow> (of_char (hex_digit n) :: nat) < 128"
  using hex_digit_ascii [of n] by auto

lemma json_char_ascii: "ascii (json_char c)"
proof -
  let ?n = "of_char c :: nat"
  have "?n div 16 < 16" "?n mod 16 < 16" using less_mult_imp_div_less [of ?n 16 16] by simp_all
  from this [THEN hex_digit_below] show ?thesis by (simp add: json_char_def Let_def)
qed

lemma ascii_concat: "(\<And>x. ascii (f x)) \<Longrightarrow> ascii (concat (map f xs))"
  by (induction xs) simp_all

lemma ascii_join: "ascii sep \<Longrightarrow> list_all ascii xs \<Longrightarrow> ascii (join sep xs)"
  by (induction sep xs rule: join.induct) simp_all

lemma json_string_ascii: "ascii (json_string s)"
  by (simp add: json_string_def ascii_concat json_char_ascii)

lemma show_nat_ascii: "ascii (show_nat n)"
  using show_nat_digits [of _ n] by (force simp: ascii_def list_all_iff is_decimal_char_def Let_def)

lemma json_dumps_ascii: "json_plain v \<Longrightarrow> ascii (json_dumps v)"
proof (induction v rule: json_dumps.induct)
  case (3 i)
  then show ?case using show_nat_ascii [of "nat i"] show_nat_ascii [of "nat (- i)"] by (simp add: show_int_def)
next
  case (6 xs)
  then show ?case by (auto simp: list_all_iff intro!: ascii_join)
next
  case (7 d)
  have "ascii (join '', '' (map (\<lambda>(k, v). json_string k @ '': '' @ json_dumps v) d))"
    using 7 by (intro ascii_join) (auto simp: list_all_iff json_string_ascii)
  then show ?case by simp
qed (simp_all add: json_string_ascii)

lemma read_token_encoded: "json_plain v \<Longrightarrow> read_token fr (urlsafe_b64encode (utf8_encode (json_dumps v))) = Inr v"
  using json_dumps_ascii [of v]
  by (simp add: read_token_def utf8_encode_ascii urlsafe_b64encode_ascii b64_roundtrip utf8_decode_ascii json_roundtrip)

lemma set_insort_item: "set (insort_item p d) = insert p (set d)"
  by (induction d) auto

lemma distinct_insort_item: "distinct (map fst (p # d)) \<Longrightarrow> distinct (map fst (insort_item p d))"
  by (induction d) (auto simp: set_insort_item)

lemma set_sort_items: "set (sort_items d) = set d"
  by (induction d) (simp_all add: sort_items_def set_insort_item)

lemma distinct_sort_items: "distinct (map fst d) \<Longrightarrow> distinct (map fst (sort_items d))"
proof (induction d)
  case (Cons p d)
  then show ?case
    using set_sort_items [of d] distinct_insort_item [of p "sort_items d"] by (auto simp: sort_items_def)
qed (simp add: sort_items_def)

lemma json_plain_sort_keys: "json_plain v \<Longrightarrow> json_plain (sort_keys v)"
proof (induction v rule: sort_keys.induct)
  case (2 d)
  have "distinct (map fst (map (\<lambda>(k, v). (k, sort_keys v)) d))"
    using 2(2) by (simp add: case_prod_beta comp_def)
  then show ?case
    using 2 by (auto simp: set_sort_items list_all_iff distinct_sort_items)
qed (auto simp: list_all_iff)

lemma read_unsigned: "json_plain v \<Longrightarrow> read_token fr (encode_session_vulnerable v) = Inr (sort_keys v)"
  unfolding encode_session_vulnerable_def json_dumps_sorted_def by (intro read_token_encoded json_plain_sort_keys)

lemma session_sig_ascii: "ascii (session_sig secret p)"
  by (simp add: session_sig_def hmac_sha256_hexdigest_def sha256_hexdigest_def hex_ascii Let_def)

section \<open>Token laws\<close>

lemma sort_keys_role: "sort_keys (PDict [(''user_id'', PStr u), (''role'', PStr r), (''tenant_id'', PStr t)])
    = PDict [(''role'', PStr r), (''tenant_id'', PStr t), (''user_id'', PStr u)]"
  by (simp add: sort_items_def)

lemma verify_signed:
  assumes "json_plain p"
  shows "verify_session_hardened fr secret (sign_session_hardened secret p) = Inr (Some p, True)"
proof -
  have "json_plain (PDict [(''payload'', p), (''sig'', PStr (session_sig secret p))])" using assms by simp
  from read_token_encoded [OF this, of fr] show ?thesis
    by (simp add: verify_session_hardened_def check_envelope_def sign_session_hardened_def subscript_def dict_get_def
        hmac_compare_digest_def session_sig_ascii bind_res_def)
qed

lemma subscript_Inr: "subscript v k = Inr x \<longleftrightarrow> (\<exists>d. v = PDict d \<and> dict_get d k = Some x)"
  by (cases v) (simp_all add: subscript_def split: option.splits)

lemma compare_digest_True: "ascii e \<Longrightarrow> hmac_compare_digest sig e = Inr True \<longleftrightarrow> sig = PStr e"
  by (cases sig) (auto simp: hmac_compare_digest_def)

lemma verify_Some: "verify_session_hardened fr secret token = Inr (Some p, b) \<longleftrightarrow> check_envelope fr secret token = Inr (Some p, b)"
  by (simp add: verify_session_hardened_def split: sum.splits exn.splits)

lemma if_pair_True: "(if b then (Some x, True) else (None, False)) = (Some y, True) \<longleftrightarrow> b \<and> x = y"
  by simp

lemma verify_accepts_iff:
  "verify_session_hardened fr secret token = Inr (Some p, True) \<longleftrightarrow>
     (\<exists>d. read_token fr token = Inr (PDict d) \<and> dict_get d ''payload'' = Some p
        \<and> dict_get d ''sig'' = Some (PStr (session_sig secret p)))"
proof -
  have "verify_session_hardened fr secret token = Inr (Some p, True) \<longleftrightarrow>
     (\<exists>d sig. read_token fr token = Inr (PDict d) \<and> dict_get d ''payload'' = Some p \<and> dict_get d ''sig'' = Some sig
        \<and> hmac_compare_digest sig (session_sig secret p) = Inr True)"
    unfolding verify_Some check_envelope_def bind_res_Inr_iff subscript_Inr sum.inject if_pair_True ex_bool_eq by auto
  then show ?thesis by (simp add: compare_digest_True [OF session_sig_ascii])
qed

lemma verify_unsigned:
  assumes "read_token fr token = Inr (PDict d)" and "dict_get d ''payload'' = None"
  shows "verify_session_hardened fr secret token = Inr (None, False)"
  using assms by (simp add: verify_session_hardened_def check_envelope_def subscript_def bind_res_def)

section \<open>The server\<close>

definition kv_hit :: "kv \<Rightarrow> string \<Rightarrow> int \<Rightarrow> string option" where
  "kv_hit s key t = kv_lookup (s\<lparr>kv_now := t\<rparr>) key"

definition kv_store :: "string \<Rightarrow> string \<Rightarrow> int \<Rightarrow> kv \<Rightarrow> kv" where
  "kv_store key v t s = s\<lparr>kv_data := dict_set key (v, Some (t + REDIS_TTL_SECONDS)) (kv_data s)\<rparr>"

definition kv_ttl :: "kv \<Rightarrow> int" where
  "kv_ttl s = REDIS_TTL_SECONDS"

lemma kv_hit_eq: "kv_hit s key t = (case map_of (kv_data s) key of
     None \<Rightarrow> None | Some (v, None) \<Rightarrow> Some v | Some (v, Some u) \<Rightarrow> if t < u then Some v else None)"
  by (simp add: kv_hit_def kv_lookup_def split: option.splits)

interpretation kv_cache: ttl_cache kv_hit kv_store kv_ttl
  by unfold_locales (simp_all add: kv_hit_eq kv_store_def kv_ttl_def)

lemma kv_lookup_hit: "kv_lookup s key = kv_hit s key (kv_now s)"
  by (simp add: kv_hit_def)

lemma kv_setex_store:
  "kv_faults s = [] \<Longrightarrow> kv_setex key REDIS_TTL_SECONDS v s = (Inr (), kv_store key v (kv_now s) s)"
  by (simp add: kv_ops kv_store_def)

lemma kv_store_up [simp]: "kv_faults (kv_store key v t s) = kv_faults s" "kv_now (kv_store key v t s) = kv_now s"
  by (simp_all add: kv_store_def)

lemma lookup_store:
  "kv_lookup (kv_store key v (kv_now s) s) j = (if j = key then Some v else kv_lookup s j)"
  using kv_cache.hit_store [of key v "kv_now s" s j "kv_now s"] by (simp add: kv_lookup_hit kv_ttl_def REDIS_TTL_SECONDS_def)

lemma connect_redis_up:
  assumes "kv_faults s = []" and "redis_connect_kwargs env = Inr kw"
  shows "connect_redis env host port s = (Inr (), s)"
  using assms by (simp add: connect_redis_def catch_eff_def get_redis_client_def kv_ops)

text \<open>After the overwriting \<open>SET\<close> the key holds the attacker's value and has no time to live.\<close>

lemma tamper_stored_up:
  assumes "kv_faults s = []"
  shows "tamper_stored key token tampered s
    = (Inr tampered, s\<lparr>kv_data := dict_set key (tampered, None) (dict_set key (token, Some (kv_now s + REDIS_TTL_SECONDS)) (kv_data s))\<rparr>)"
  using assms by (simp add: tamper_stored_def bind_eff_def kv_ops kv_lookup_def ret_def)

section \<open>Sessions: properties\<close>

lemma tampered_read:
  "read_token fr (encode_session_vulnerable (PDict [(''user_id'', PStr u), (''role'', PStr r), (''tenant_id'', PStr t)]))
    = Inr (PDict [(''role'', PStr r), (''tenant_id'', PStr t), (''user_id'', PStr u)])"
  using read_unsigned [of "PDict [(''user_id'', PStr u), (''role'', PStr r), (''tenant_id'', PStr t)]" fr]
  by (simp only: sort_keys_role) simp

text \<open>
  A signed session comes back as it went in: whatever JSON payload without floats is signed, verification
  with the same secret returns that payload and accepts it. The unsigned encoding gives back the payload with its keys sorted.
\<close>

theorem session_roundtrip:
  assumes "json_plain p"
  shows "verify_session_hardened fr secret (sign_session_hardened secret p) = Inr (Some p, True)
    \<and> decode_session_vulnerable fr (encode_session_vulnerable p) = Inr (sort_keys p)"
  using assms by (simp add: verify_signed read_unsigned decode_session_vulnerable_def)

theorem session_roundtrip_witness:
  "json_plain (PDict ORIGINAL_SESSION)
   \<and> verify_session_hardened id ''k'' (sign_session_hardened ''k'' (PDict ORIGINAL_SESSION)) = Inr (Some (PDict ORIGINAL_SESSION), True)"
proof -
  have "json_plain (PDict ORIGINAL_SESSION)" by code_simp
  with session_roundtrip [OF this, of id "''k''"] show ?thesis by blast
qed

text \<open>
  C19. A session is accepted exactly when the token decodes to an envelope whose signature is the HMAC of the
  payload it carries, under the server's secret; then that payload is what is returned.
\<close>

theorem session_accepted_iff:
  "verify_session_hardened fr secret token = Inr (Some p, True) \<longleftrightarrow>
     (\<exists>d. read_token fr token = Inr (PDict d) \<and> dict_get d ''payload'' = Some p
        \<and> dict_get d ''sig'' = Some (PStr (hmac_sha256_hexdigest (utf8_encode secret) (utf8_encode (json_dumps_sorted p)))))"
  using verify_accepts_iff [of fr secret token p] by (simp only: session_sig_def)

definition redis_role :: "string \<Rightarrow> string" where
  "redis_role mode = (if mode = ''vulnerable'' then ''none'' else HMAC_CONTROL)"

text \<open>
  With the server up, the live lab writes exactly one key, the tenant's own, blocks the tampered session in every
  mode but the vulnerable one, and leaves the key with the attacker's blob and no expiry: the five-minute
  time to live of the first write is gone after the second.
\<close>

theorem redis_lab_live_effect:
  assumes "kv_faults s = []" and "redis_connect_kwargs env = Inr kw" and "redis_live_enabled env"
  shows "\<exists>r v. run_redis_lab fr secret env host port uuid mode t s
      = (Inr r, s\<lparr>kv_data := dict_set (redis_key uuid t) (v, None) (kv_data s)\<rparr>)
    \<and> (lr_blocked r \<longleftrightarrow> mode \<noteq> ''vulnerable'') \<and> lr_control r = redis_role mode
    \<and> v = encode_session_vulnerable (PDict [(''user_id'', PStr ''user-42''), (''role'', PStr ''admin''), (''tenant_id'', PStr t)])"
proof -
  let ?p = "PDict [(''user_id'', PStr ''user-42''), (''role'', PStr ''admin''), (''tenant_id'', PStr t)]"
  have p: "PDict (dict_set ''tenant_id'' (PStr t) (dict_set ''role'' (PStr ''admin'') ORIGINAL_SESSION)) = ?p"
    by (simp add: ORIGINAL_SESSION_def)
  note rd = tampered_read [of fr "''user-42''" "''admin''" t]
  have v: "verify_session_hardened fr secret (encode_session_vulnerable ?p) = Inr (None, False)"
    by (rule verify_unsigned [OF rd]) (simp add: dict_get_def)
  show ?thesis
    unfolding run_redis_lab_def run_redis_lab_live_def Let_def p
    using assms
    by (simp add: bind_eff_def connect_redis_up tamper_stored_up lift_res_def bind_res_def decode_session_vulnerable_def rd v
        subscript_def dict_get_def ret_def redis_accepted_def redis_blocked_def dict_set_twice redis_role_def)
qed

theorem redis_lab_live_effect_witness:
  "\<exists>s. kv_faults s = [] \<and> kv_data s = [] \<and>
    (\<exists>r v. run_redis_lab id ''k'' [(''BOUNDARY_LAYER_REDIS_LIVE'', ''TRUE'')] ''h'' 6379 ''0123'' ''hardened'' ''acme'' s
      = (Inr r, s\<lparr>kv_data := [(redis_key ''0123'' ''acme'', v, None)]\<rparr>) \<and> lr_blocked r)"
proof -
  let ?env = "[(''BOUNDARY_LAYER_REDIS_LIVE'', ''TRUE'')]"
  let ?s = "\<lparr>kv_faults = [], kv_now = 0, kv_data = []\<rparr>"
  have live: "redis_live_enabled ?env" by code_simp
  have "\<not> isl (redis_connect_kwargs ?env)" by code_simp
  then obtain kw where kw: "redis_connect_kwargs ?env = Inr kw" by (cases "redis_connect_kwargs ?env") auto
  have "kv_faults ?s = []" by simp
  from redis_lab_live_effect [OF this kw live, of id "''k''" "''h''" 6379 "''0123''" "''hardened''" "''acme''"]
  show ?thesis by (intro exI [of _ ?s]) auto
qed

section \<open>Prompt cache: properties\<close>

lemma hash_length: "length (hash_prompt_prefix p) = 16"
  by (simp add: hash_prompt_prefix_def)

lemma cache_key_inject:
  "tenant_cache_key False t p = tenant_cache_key False t' p' \<longleftrightarrow> t = t' \<and> hash_prompt_prefix p = hash_prompt_prefix p'"
  by (auto simp: tenant_cache_key_def hash_length)

definition cache_tenants_apart :: "bool \<Rightarrow> string \<Rightarrow> string \<Rightarrow> bool" where
  "cache_tenants_apart scoped a b =
     (if scoped then colon_free (normalize_lab_tenant_id (Some a)) \<and> colon_free (normalize_lab_tenant_id (Some b))
        \<and> normalize_lab_tenant_id (Some a) \<noteq> normalize_lab_tenant_id (Some b)
      else a \<noteq> b)"

lemma cache_keys_apart:
  assumes "cache_tenants_apart scoped a b"
  shows "tenant_cache_key scoped a p \<noteq> tenant_cache_key scoped b q"
proof (cases scoped)
  case True
  then show ?thesis
    using assms redis_scope.names_differ [OF _ _ _ redis_key_in_scope redis_key_in_scope]
    by (simp add: cache_tenants_apart_def tenant_cache_key_def)
next
  case False
  then show ?thesis using assms by (simp add: cache_tenants_apart_def cache_key_inject)
qed

lemma cache_hardened_report [simp]:
  "lr_blocked (cache_hardened mode a b ka kb events summary h)"
  "dict_get (lr_internal (cache_hardened mode a b ka kb events summary h)) ''_tenant_b_hit_type''
    = Some (PStr (if h then ''tenant_scoped'' else ''miss''))"
  by (simp_all add: cache_hardened_def cache_internal_def dict_get_def)

lemma run_cache_live_hardened:
  assumes "kv_faults s = []" and "redis_connect_kwargs env = Inr kw" and "mode \<noteq> ''vulnerable''"
  shows "run_cache_live env host port mode a b p scoped s =
    (let key_a = tenant_cache_key scoped a p; key_b = tenant_cache_key scoped b p;
         s' = kv_store key_a (cache_payload a p) (kv_now s) s in
     (Inr (cache_hardened mode a b key_a key_b [''Connected to live Redis at '' @ host @ '':'' @ show_int port]
        ''Hardened mode prevented cross-tenant prompt cache bleed in Redis.'' (kv_lookup s' key_b \<noteq> None)), s'))"
  using assms by (simp add: run_cache_live_def bind_eff_def connect_redis_up kv_setex_store kv_get_up ret_def Let_def)

text \<open>
  C20. In hardened mode the cache entry that tenant A writes is invisible to every other tenant: with the
  server up, all a tenant kept apart from A can look up, with any prompt, is what it could look up before,
  and the lab reports a hit for tenant B only when B had an entry of its own. Tenants are kept apart
  when their ids differ or, with scoped keys, when their normalised ids differ and have no colon.
\<close>

theorem prompt_cache_isolated:
  assumes "kv_faults s = []" and "redis_connect_kwargs env = Inr kw" and "mode \<noteq> ''vulnerable''"
    and "cache_tenants_apart scoped a b"
  shows "\<exists>r s'. run_cache_live env host port mode a b p scoped s = (Inr r, s')
    \<and> lr_blocked r \<and> kv_lookup s' (tenant_cache_key scoped a p) = Some (cache_payload a p)
    \<and> (\<forall>q. kv_lookup s' (tenant_cache_key scoped b q) = kv_lookup s (tenant_cache_key scoped b q))
    \<and> dict_get (lr_internal r) ''_tenant_b_hit_type''
        = Some (PStr (if kv_lookup s (tenant_cache_key scoped b p) = None then ''miss'' else ''tenant_scoped''))"
  using run_cache_live_hardened [OF assms(1-3)] cache_keys_apart [OF assms(4), THEN not_sym]
  by (simp add: Let_def lookup_store)

definition cache_example :: kv where
  "cache_example = \<lparr>kv_faults = [], kv_now = 0, kv_data = []\<rparr>"

theorem prompt_cache_isolated_witness:
  "cache_tenants_apart True ''acme'' '' globex'' \<and> (\<exists>r s'.
    run_cache_live [] ''h'' 6379 ''hardened'' ''acme'' '' globex'' ''summarize'' True cache_example = (Inr r, s') \<and> lr_blocked r)"
proof -
  have apart: "cache_tenants_apart True ''acme'' '' globex''" by code_simp
  have "\<not> isl (redis_connect_kwargs [])" by code_simp
  then obtain kw where kw: "redis_connect_kwargs [] = Inr kw" by (cases "redis_connect_kwargs []") auto
  have "kv_faults cache_example = []" by (simp add: cache_example_def)
  from prompt_cache_isolated [OF this kw _ apart, of "''hardened''" "''h''" 6379 "''summarize''"] apart
  show ?thesis by auto
qed

text \<open>
  The vulnerable run reports a cross-tenant hit whatever the tenants are, the same one twice included, and the shared key
  it uses is the unscoped key of a tenant called \<open>global\<close>.
\<close>

lemma vulnerable_always_cross:
  "dict_get (lr_internal (run_cache_fallback ''vulnerable'' a b p scoped)) ''_tenant_b_hit_type'' = Some (PStr ''cross_tenant'')"
  by (simp add: run_cache_fallback_def Let_def cache_vulnerable_def cache_internal_def dict_get_def)

lemma global_key_is_a_tenants: "global_cache_key p = tenant_cache_key False ''global'' p"
  by (simp add: global_cache_key_def tenant_cache_key_def)

end
