(* ===== verification/Api_Main.thy ===== *)
theory Api_Main
  imports Middleware Lab_Data Lab_Injection Lab_Sessions
begin

text \<open>
  \<open>apps/api/main.py\<close> with \<open>apps/api/readiness.py\<close> and \<open>apps/api/lifespan.py\<close>: the endpoints, what each lab
  handler checks, runs, counts and answers, and the table of routes that the middleware stack wraps. What
  serving a request reads from outside is a record: the token library and its keys, the process
  environment, the hosts the labs print, random ids, the measured duration, pydantic's conversions of
  a JSON value to a field and its list of errors, and the text exposition of the metrics.
\<close>

record 'k api_env =
  ae_jwt :: "'k jwt_env"
  ae_environ :: "(string \<times> string) list"
  ae_pg_host :: string
  ae_pg_port :: int
  ae_redis_host :: string
  ae_redis_port :: int
  ae_secret :: string
  ae_float :: "string \<Rightarrow> string"
  ae_audit_id :: string
  ae_denial_id :: string
  ae_lab_id :: string
  ae_duration :: pyval
  ae_int :: "pyval \<Rightarrow> int option"
  ae_bool :: "pyval \<Rightarrow> bool option"
  ae_str :: "pyval \<Rightarrow> string option"
  ae_errors :: "pyval \<Rightarrow> pyval"
  ae_render :: "metric_log \<Rightarrow> string"

definition on_app :: "(app, 'a) eff \<Rightarrow> (http, 'a) eff" where
  "on_app m s = (case m (ht_app s) of (r, a) \<Rightarrow> (r, s\<lparr>ht_app := a\<rparr>))"

definition on_db :: "(pg, 'a) eff \<Rightarrow> (http, 'a) eff" where
  "on_db m = on_app (on_pg m)"

definition on_kv :: "(kv, 'a) eff \<Rightarrow> (http, 'a) eff" where
  "on_kv m s = (case m (ht_kv s) of (r, k) \<Rightarrow> (r, s\<lparr>ht_kv := k\<rparr>))"

section \<open>Request bodies\<close>

text \<open>A field of a pydantic model: its default when it is missing, else converted and checked.\<close>

definition body_field :: "pyval \<Rightarrow> string \<Rightarrow> (pyval \<Rightarrow> 'a option) \<Rightarrow> 'a option \<Rightarrow> ('a \<Rightarrow> bool) \<Rightarrow> 'a option" where
  "body_field body name conv dflt ok = (case body of
     PDict d \<Rightarrow> (case dict_get d name of
         None \<Rightarrow> dflt
       | Some v \<Rightarrow> (case conv v of Some x \<Rightarrow> if ok x then Some x else None | None \<Rightarrow> None))
   | _ \<Rightarrow> None)"

definition mode_ok :: "string \<Rightarrow> bool" where
  "mode_ok mode = (mode = ''vulnerable'' \<or> mode = ''hardened'')"

record lab_request =
  q_mode :: string

record file_upload_lab_request = lab_request +
  q_file_type :: string
  q_contains_hidden_instruction :: bool
  q_contains_active_content :: bool
  q_egress_attempted :: bool

record write_storm_lab_request = lab_request +
  q_requested_writes :: int

record circuit_breaker_lab_request = lab_request +
  q_requested_work_units :: int

record sse_exhaustion_lab_request = lab_request +
  q_requested_streams :: int
  q_stream_duration_seconds :: int

record prompt_cache_isolation_lab_request = lab_request +
  q_tenant_a :: string
  q_tenant_b :: string
  q_prompt_prefix :: string

definition DEFAULT_FILE_TYPE :: string where "DEFAULT_FILE_TYPE = ''pdf''"
definition DEFAULT_REQUESTED_WRITES :: int where "DEFAULT_REQUESTED_WRITES = 250"
definition DEFAULT_REQUESTED_WORK_UNITS :: int where "DEFAULT_REQUESTED_WORK_UNITS = 250"
definition DEFAULT_REQUESTED_STREAMS :: int where "DEFAULT_REQUESTED_STREAMS = 250"
definition DEFAULT_STREAM_DURATION_SECONDS :: int where "DEFAULT_STREAM_DURATION_SECONDS = 120"
definition DEFAULT_TENANT_A :: string where "DEFAULT_TENANT_A = ''tenant-a''"
definition DEFAULT_TENANT_B :: string where "DEFAULT_TENANT_B = ''tenant-b''"
definition DEFAULT_PROMPT_PREFIX :: string where
  "DEFAULT_PROMPT_PREFIX = ''summarize confidential acquisition plan''"

definition read_mode :: "'k api_env \<Rightarrow> pyval \<Rightarrow> string option" where
  "read_mode env body = body_field body ''mode'' (ae_str env) None mode_ok"

definition read_lab_request :: "'k api_env \<Rightarrow> pyval \<Rightarrow> lab_request option" where
  "read_lab_request env body =
     (case read_mode env body of Some m \<Rightarrow> Some \<lparr>q_mode = m\<rparr> | None \<Rightarrow> None)"

definition read_file_upload :: "'k api_env \<Rightarrow> pyval \<Rightarrow> file_upload_lab_request option" where
  "read_file_upload env body =
     (case (read_mode env body, body_field body ''file_type'' (ae_str env) (Some DEFAULT_FILE_TYPE) (\<lambda>_. True),
            body_field body ''contains_hidden_instruction'' (ae_bool env) (Some True) (\<lambda>_. True),
            body_field body ''contains_active_content'' (ae_bool env) (Some True) (\<lambda>_. True),
            body_field body ''egress_attempted'' (ae_bool env) (Some True) (\<lambda>_. True)) of
        (Some m, Some f, Some h, Some a, Some e) \<Rightarrow>
          Some \<lparr>q_mode = m, q_file_type = f, q_contains_hidden_instruction = h, q_contains_active_content = a,
            q_egress_attempted = e\<rparr>
      | _ \<Rightarrow> None)"

definition read_write_storm :: "'k api_env \<Rightarrow> pyval \<Rightarrow> write_storm_lab_request option" where
  "read_write_storm env body =
     (case (read_mode env body, body_field body ''requested_writes'' (ae_int env) (Some DEFAULT_REQUESTED_WRITES)
              (\<lambda>n. 1 \<le> n \<and> n \<le> MAX_REQUESTED_WRITES)) of
        (Some m, Some n) \<Rightarrow> Some \<lparr>q_mode = m, q_requested_writes = n\<rparr>
      | _ \<Rightarrow> None)"

definition read_circuit_breaker :: "'k api_env \<Rightarrow> pyval \<Rightarrow> circuit_breaker_lab_request option" where
  "read_circuit_breaker env body =
     (case (read_mode env body, body_field body ''requested_work_units'' (ae_int env) (Some DEFAULT_REQUESTED_WORK_UNITS)
              (\<lambda>n. 1 \<le> n \<and> n \<le> MAX_REQUESTED_WORK_UNITS)) of
        (Some m, Some n) \<Rightarrow> Some \<lparr>q_mode = m, q_requested_work_units = n\<rparr>
      | _ \<Rightarrow> None)"

definition read_sse_exhaustion :: "'k api_env \<Rightarrow> pyval \<Rightarrow> sse_exhaustion_lab_request option" where
  "read_sse_exhaustion env body =
     (case (read_mode env body, body_field body ''requested_streams'' (ae_int env) (Some DEFAULT_REQUESTED_STREAMS)
              (\<lambda>n. 1 \<le> n \<and> n \<le> MAX_REQUESTED_STREAMS),
            body_field body ''stream_duration_seconds'' (ae_int env) (Some DEFAULT_STREAM_DURATION_SECONDS)
              (\<lambda>n. 1 \<le> n \<and> n \<le> MAX_STREAM_DURATION_SECONDS)) of
        (Some m, Some n, Some d) \<Rightarrow> Some \<lparr>q_mode = m, q_requested_streams = n, q_stream_duration_seconds = d\<rparr>
      | _ \<Rightarrow> None)"

definition length_within :: "nat \<Rightarrow> string \<Rightarrow> bool" where
  "length_within n s = (1 \<le> length s \<and> length s \<le> n)"

definition read_prompt_cache :: "'k api_env \<Rightarrow> pyval \<Rightarrow> prompt_cache_isolation_lab_request option" where
  "read_prompt_cache env body =
     (case (read_mode env body,
            body_field body ''tenant_a'' (ae_str env) (Some DEFAULT_TENANT_A) (length_within MAX_TENANT_LEN),
            body_field body ''tenant_b'' (ae_str env) (Some DEFAULT_TENANT_B) (length_within MAX_TENANT_LEN),
            body_field body ''prompt_prefix'' (ae_str env) (Some DEFAULT_PROMPT_PREFIX) (length_within MAX_PREFIX_LEN)) of
        (Some m, Some a, Some b, Some p) \<Rightarrow> Some \<lparr>q_mode = m, q_tenant_a = a, q_tenant_b = b, q_prompt_prefix = p\<rparr>
      | _ \<Rightarrow> None)"

section \<open>Metrics of a lab run\<close>

text \<open>\<open>result.get(key)\<close> and its truth; \<open>if_set\<close> is an \<open>if\<close> around one recording call.\<close>

definition internal_truth :: "lab_result \<Rightarrow> string \<Rightarrow> bool" where
  "internal_truth r k = (case dict_get (lr_internal r) k of Some v \<Rightarrow> truthy v | None \<Rightarrow> False)"

definition if_set :: "bool \<Rightarrow> (metric_log \<Rightarrow> metric_log) \<Rightarrow> metric_log \<Rightarrow> metric_log" where
  "if_set b f log = (if b then f log else log)"

definition when_present :: "lab_result \<Rightarrow> string \<Rightarrow> (int \<Rightarrow> metric_log \<Rightarrow> metric_log) \<Rightarrow> metric_log \<Rightarrow> metric_log" where
  "when_present r k f log = (case dict_get (lr_internal r) k of Some (PInt i) \<Rightarrow> f i log | _ \<Rightarrow> log)"

definition when_positive :: "lab_result \<Rightarrow> string \<Rightarrow> (int \<Rightarrow> metric_log \<Rightarrow> metric_log) \<Rightarrow> metric_log \<Rightarrow> metric_log" where
  "when_positive r k f log = (if internal_int r k > 0 then f (internal_int r k) log else log)"

definition get_str_or :: "lab_result \<Rightarrow> string \<Rightarrow> string \<Rightarrow> string" where
  "get_str_or r k d = (case dict_get (lr_internal r) k of Some (PStr s) \<Rightarrow> s | _ \<Rightarrow> d)"

definition file_upload_metrics :: "string \<Rightarrow> lab_result \<Rightarrow> metric_log \<Rightarrow> metric_log" where
  "file_upload_metrics mode result =
     (let file_type = get_str_or result ''_file_type'' DEFAULT_FILE_TYPE;
          extraction_result = get_str_or result ''_extraction_result'' [] in
      if_set (mode = ''hardened'' \<and> lr_blocked result) record_file_injection_blocked
      \<circ> if_set (internal_truth result ''_content_wrapped'') (record_file_upload_untrusted_content_wrapped mode)
      \<circ> if_set (internal_truth result ''_hidden_instruction_detected'') (record_file_upload_hidden_instruction_detected mode file_type)
      \<circ> if_set (internal_truth result ''_active_content_blocked'') (record_file_upload_active_content_blocked mode file_type)
      \<circ> if_set (internal_truth result ''_egress_blocked'') (record_file_upload_egress_blocked mode)
      \<circ> if_set (internal_truth result ''_sandbox_applied'') (record_file_upload_sandbox_applied mode)
      \<circ> if_set (extraction_result \<noteq> []) (record_file_upload_extraction mode file_type extraction_result))"

definition governance_metrics :: "string \<Rightarrow> lab_result \<Rightarrow> metric_log \<Rightarrow> metric_log" where
  "governance_metrics mode result =
     if_set (dict_get (lr_internal result) ''_audit_complete'' \<noteq> None)
       (record_governance_deletion_audit mode (internal_truth result ''_audit_complete''))
     \<circ> when_positive result ''_orphan_count'' record_prompt_deletion_orphans"

definition write_storm_metrics :: "string \<Rightarrow> lab_result \<Rightarrow> metric_log \<Rightarrow> metric_log" where
  "write_storm_metrics mode result =
     (\<lambda>log. case dict_get (lr_internal result) ''_insert_duration_seconds'' of
        None \<Rightarrow> log | Some PNone \<Rightarrow> log
      | Some duration \<Rightarrow> observe_postgres_write_storm_insert_duration mode duration log)
     \<circ> when_positive result ''_blocked_writes_count'' (record_postgres_write_storm_blocked_writes mode)
     \<circ> when_positive result ''_inserted_count''
         (record_postgres_write_storm_events mode (get_str_or result ''_insert_result'' ''inserted''))"

definition circuit_breaker_metrics :: "string \<Rightarrow> lab_result \<Rightarrow> metric_log \<Rightarrow> metric_log" where
  "circuit_breaker_metrics mode result =
     when_present result ''_circuit_breaker_state'' set_circuit_breaker_state
     \<circ> when_present result ''_p99_latency_ms'' (set_inference_p99_latency_ms mode)
     \<circ> when_present result ''_queue_depth'' (set_inference_queue_depth mode)
     \<circ> when_positive result ''_simulated_failures'' (record_inference_simulated_failures mode)
     \<circ> when_positive result ''_shed_work_units'' (record_inference_shed_work_units mode)
     \<circ> when_positive result ''_accepted_work_units'' (record_inference_requests mode ''accepted'')
     \<circ> when_positive result ''_requested_work_units'' (record_inference_requests mode ''requested'')"

definition sse_metrics :: "string \<Rightarrow> lab_result \<Rightarrow> metric_log \<Rightarrow> metric_log" where
  "sse_metrics mode result =
     if_set (internal_truth result ''_cleanup_applied'') (record_sse_cleanup_applied mode)
     \<circ> when_present result ''_memory_pressure_mb'' (set_sse_memory_pressure_mb mode)
     \<circ> when_present result ''_worker_pressure'' (set_sse_worker_pressure mode)
     \<circ> when_present result ''_orphaned_streams'' (set_sse_orphaned_streams mode)
     \<circ> when_present result ''_active_streams'' (set_sse_active_streams mode)
     \<circ> when_positive result ''_rejected_streams'' (record_sse_rejected_streams mode)
     \<circ> when_positive result ''_accepted_streams'' (record_sse_streams mode ''accepted'')
     \<circ> when_positive result ''_requested_streams'' (record_sse_streams mode ''requested'')"

definition prompt_cache_metrics :: "string \<Rightarrow> lab_result \<Rightarrow> metric_log \<Rightarrow> metric_log" where
  "prompt_cache_metrics mode result =
     (let tenant_a = get_str_or result ''_metrics_tenant_a'' DEFAULT_TENANT_A;
          tenant_b = get_str_or result ''_metrics_tenant_b'' DEFAULT_TENANT_B;
          hit_type = get_str_or result ''_tenant_b_hit_type'' [] in
      if_set (internal_truth result ''_isolation_applied'') (record_prompt_cache_isolation_applied mode)
      \<circ> if_set (internal_truth result ''_cache_bleed_detected'') (record_prompt_cache_cross_tenant_bleed mode)
      \<circ> if_set (hit_type \<noteq> []) (record_prompt_cache_hit mode tenant_b hit_type)
      \<circ> record_prompt_cache_request mode tenant_b ''lookup''
      \<circ> record_prompt_cache_request mode tenant_a ''write'')"

definition lab_metrics :: "string \<Rightarrow> string \<Rightarrow> lab_result \<Rightarrow> metric_log \<Rightarrow> metric_log" where
  "lab_metrics lab_id mode result =
     (let blocked = mode = ''hardened'' \<and> lr_blocked result in
      if lab_id = ''tool-router'' \<and> blocked then record_tool_injection_blocked
      else if lab_id = ''redis'' \<and> blocked then record_redis_tamper_rejected
      else if lab_id = ''authz'' \<and> blocked then record_authz_denied
      else if lab_id = ''file-upload'' then file_upload_metrics mode result
      else if lab_id = ''governance'' then governance_metrics mode result
      else if lab_id = ''postgres-write-storm'' then write_storm_metrics mode result
      else if lab_id = ''circuit-breaker'' then circuit_breaker_metrics mode result
      else if lab_id = ''sse-exhaustion'' then sse_metrics mode result
      else if lab_id = ''prompt-cache-isolation'' then prompt_cache_metrics mode result
      else (\<lambda>log. log))"

definition record_lab_metrics :: "string \<Rightarrow> string \<Rightarrow> lab_result \<Rightarrow> (http, unit) eff" where
  "record_lab_metrics lab_id mode result =
     on_app (metric (lab_metrics lab_id mode result \<circ> record_lab_run lab_id mode (lr_blocked result)))"

section \<open>Lab handlers\<close>

definition RUN_LAB_INTERNAL_KEYS :: "string list" where
  "RUN_LAB_INTERNAL_KEYS = [''_orphan_count'', ''_audit_complete'', ''_inserted_count'', ''_blocked_writes_count'',
     ''_insert_duration_seconds'', ''_insert_result'']"

definition WRITE_STORM_INTERNAL_KEYS :: "string list" where
  "WRITE_STORM_INTERNAL_KEYS =
     [''_inserted_count'', ''_blocked_writes_count'', ''_insert_duration_seconds'', ''_insert_result'']"

definition CIRCUIT_BREAKER_INTERNAL_KEYS :: "string list" where
  "CIRCUIT_BREAKER_INTERNAL_KEYS = [''_circuit_breaker_state'', ''_requested_work_units'', ''_accepted_work_units'',
     ''_shed_work_units'', ''_simulated_failures'', ''_queue_depth'', ''_p99_latency_ms'']"

definition SSE_EXHAUSTION_INTERNAL_KEYS :: "string list" where
  "SSE_EXHAUSTION_INTERNAL_KEYS = [''_requested_streams'', ''_accepted_streams'', ''_rejected_streams'', ''_active_streams'',
     ''_orphaned_streams'', ''_worker_pressure'', ''_memory_pressure_mb'', ''_cleanup_applied'']"

definition PROMPT_CACHE_INTERNAL_KEYS :: "string list" where
  "PROMPT_CACHE_INTERNAL_KEYS = [''_metrics_tenant_a'', ''_metrics_tenant_b'', ''_tenant_a_cache_key'', ''_tenant_b_cache_key'',
     ''_cache_key_mode'', ''_tenant_b_hit_type'', ''_cache_hit_cross_tenant'', ''_cache_bleed_detected'', ''_isolation_applied'']"

definition FILE_UPLOAD_INTERNAL_KEYS :: "string list" where
  "FILE_UPLOAD_INTERNAL_KEYS = [''_file_type'', ''_extraction_result'', ''_sandbox_applied'', ''_egress_blocked'',
     ''_active_content_blocked'', ''_hidden_instruction_detected'', ''_content_wrapped'', ''_context_insertion_allowed'']"

definition strip_internal_keys :: "lab_result \<Rightarrow> string list \<Rightarrow> lab_result" where
  "strip_internal_keys result keys = result\<lparr>lr_internal := fold dict_pop keys (lr_internal result)\<rparr>"

definition resolve_lab_context :: "settings \<Rightarrow> (http, lab_request_context) eff" where
  "resolve_lab_context settings s = (resolve_lab_request_context (ap_auth_context (ht_app s)) settings, s)"

text \<open>The end of every handler: count the run and drop the internal keys.\<close>

definition finish_lab :: "string \<Rightarrow> string \<Rightarrow> string list \<Rightarrow> lab_result \<Rightarrow> (http, lab_result) eff" where
  "finish_lab lab_id mode keys result =
     bind_eff (record_lab_metrics lab_id mode result) (\<lambda>_. ret (strip_internal_keys result keys))"

text \<open>\<open>LAB_RUNNERS\<close>: a runner called with the mode and, unless it is left out, the tenant.\<close>

definition LAB_RUNNERS :: "'k api_env \<Rightarrow> (string \<times> (string \<Rightarrow> string option \<Rightarrow> (http, lab_result) eff)) list" where
  "LAB_RUNNERS env =
     [(''tool-router'', \<lambda>mode t. ret (run_tool_router_lab mode)),
      (''redis'', \<lambda>mode t. on_kv (run_redis_lab (ae_float env) (ae_secret env) (ae_environ env) (ae_redis_host env)
         (ae_redis_port env) (ae_lab_id env) mode (case t of Some tenant \<Rightarrow> tenant | None \<Rightarrow> LOCAL_LAB_TENANT_ID))),
      (''authz'', \<lambda>mode t. lift_res (run_authz_lab mode)),
      (''file-upload'', \<lambda>mode t. lift_res (run_file_upload_lab mode DEFAULT_FILE_TYPE True True True)),
      (''governance'', \<lambda>mode t. on_db (run_governance_lab (ae_environ env) (ae_pg_host env) (ae_pg_port env)
         (ae_lab_id env) mode (case t of Some tenant \<Rightarrow> tenant | None \<Rightarrow> LOCAL_LAB_TENANT_ID))),
      (''postgres-write-storm'', \<lambda>mode t. on_db (run_postgres_write_storm_lab (ae_environ env) (ae_pg_host env)
         (ae_pg_port env) (ae_lab_id env) (ae_duration env) mode DEFAULT_REQUESTED_WRITES
         (case t of Some tenant \<Rightarrow> tenant | None \<Rightarrow> LOCAL_LAB_TENANT_ID))),
      (''circuit-breaker'', \<lambda>mode t. lift_res (run_circuit_breaker_lab mode DEFAULT_REQUESTED_WORK_UNITS)),
      (''sse-exhaustion'', \<lambda>mode t. lift_res (run_sse_exhaustion_lab mode DEFAULT_REQUESTED_STREAMS
         DEFAULT_STREAM_DURATION_SECONDS))]"

definition is_type_error :: "exn \<Rightarrow> bool" where
  "is_type_error e = (case e of OtherError t \<Rightarrow> startswith t ''TypeError'' | _ \<Rightarrow> False)"

text \<open>The \<open>except\<close> clauses of the handlers: \<open>ValueError\<close> to 422, \<open>RuntimeError\<close> to 503.\<close>

definition value_422 :: "exn \<Rightarrow> (http, 'a) eff" where
  "value_422 e = (case e of ValueError m \<Rightarrow> raise_exn (HTTPException 422 (PStr m) []) | _ \<Rightarrow> raise_exn e)"

definition runtime_503 :: "exn \<Rightarrow> (http, 'a) eff" where
  "runtime_503 e = (case e of RuntimeError m \<Rightarrow> raise_exn (HTTPException 503 (PStr m) []) | _ \<Rightarrow> raise_exn e)"

definition run_lab ::
    "'k api_env \<Rightarrow> settings \<Rightarrow> string \<Rightarrow> lab_request \<Rightarrow> lab_request_context \<Rightarrow> (http, lab_result) eff" where
  "run_lab env settings lab_id request lab_context =
     bind_eff (lift_res (enforce_vulnerable_allowed (q_mode request) settings)) (\<lambda>_.
       case dict_get (LAB_RUNNERS env) lab_id of
         None \<Rightarrow> raise_exn (HTTPException 404 (PStr (''Lab not found: '' @ lab_id)) [])
       | Some runner \<Rightarrow>
           bind_eff (catch_eff (runner (q_mode request) (Some (lc_tenant_id lab_context)))
               (\<lambda>e. if is_type_error e then runner (q_mode request) None else runtime_503 e))
             (finish_lab lab_id (q_mode request) RUN_LAB_INTERNAL_KEYS))"

definition run_named_lab :: "'k api_env \<Rightarrow> settings \<Rightarrow> string \<Rightarrow> lab_request \<Rightarrow> (http, lab_result) eff" where
  "run_named_lab env settings lab_id request =
     bind_eff (resolve_lab_context settings) (run_lab env settings lab_id request)"

definition run_file_upload :: "settings \<Rightarrow> file_upload_lab_request \<Rightarrow> (http, lab_result) eff" where
  "run_file_upload settings request =
     bind_eff (resolve_lab_context settings) (\<lambda>lab_context.
     bind_eff (lift_res (enforce_vulnerable_allowed (q_mode request) settings)) (\<lambda>_.
       if q_file_type request \<notin> set ALLOWED_FILE_TYPES
       then raise_exn (HTTPException 422 (PStr (''file_type must be one of: '' @ join '', '' ALLOWED_FILE_TYPES)) [])
       else bind_eff (catch_eff (lift_res (run_file_upload_lab (q_mode request) (q_file_type request)
             (q_contains_hidden_instruction request) (q_contains_active_content request) (q_egress_attempted request)))
             value_422)
         (finish_lab ''file-upload'' (q_mode request) FILE_UPLOAD_INTERNAL_KEYS)))"

definition run_postgres_write_storm :: "'k api_env \<Rightarrow> settings \<Rightarrow> write_storm_lab_request \<Rightarrow> (http, lab_result) eff" where
  "run_postgres_write_storm env settings request =
     bind_eff (resolve_lab_context settings) (\<lambda>lab_context.
     bind_eff (lift_res (enforce_vulnerable_allowed (q_mode request) settings)) (\<lambda>_.
     bind_eff (catch_eff (on_db (run_postgres_write_storm_lab (ae_environ env) (ae_pg_host env) (ae_pg_port env)
         (ae_lab_id env) (ae_duration env) (q_mode request) (q_requested_writes request) (lc_tenant_id lab_context)))
         runtime_503)
       (finish_lab ''postgres-write-storm'' (q_mode request) WRITE_STORM_INTERNAL_KEYS)))"

definition run_circuit_breaker :: "settings \<Rightarrow> circuit_breaker_lab_request \<Rightarrow> (http, lab_result) eff" where
  "run_circuit_breaker settings request =
     bind_eff (resolve_lab_context settings) (\<lambda>lab_context.
     bind_eff (lift_res (enforce_vulnerable_allowed (q_mode request) settings)) (\<lambda>_.
     bind_eff (catch_eff (lift_res (run_circuit_breaker_lab (q_mode request) (q_requested_work_units request))) value_422)
       (finish_lab ''circuit-breaker'' (q_mode request) CIRCUIT_BREAKER_INTERNAL_KEYS)))"

definition run_sse_exhaustion :: "settings \<Rightarrow> sse_exhaustion_lab_request \<Rightarrow> (http, lab_result) eff" where
  "run_sse_exhaustion settings request =
     bind_eff (resolve_lab_context settings) (\<lambda>lab_context.
     bind_eff (lift_res (enforce_vulnerable_allowed (q_mode request) settings)) (\<lambda>_.
     bind_eff (catch_eff (lift_res (run_sse_exhaustion_lab (q_mode request) (q_requested_streams request)
         (q_stream_duration_seconds request))) value_422)
       (finish_lab ''sse-exhaustion'' (q_mode request) SSE_EXHAUSTION_INTERNAL_KEYS)))"

definition run_prompt_cache_isolation ::
    "'k api_env \<Rightarrow> settings \<Rightarrow> prompt_cache_isolation_lab_request \<Rightarrow> (http, lab_result) eff" where
  "run_prompt_cache_isolation env settings request =
     bind_eff (lift_res (enforce_vulnerable_allowed (q_mode request) settings)) (\<lambda>_.
     bind_eff (resolve_lab_context settings) (\<lambda>lab_context.
     bind_eff (on_app (resolve_request_tenant (ae_denial_id env) settings (Some (lc_auth_context lab_context))
         (Some (q_tenant_a request)))) (\<lambda>tenant_a.
     bind_eff (catch_eff (on_kv (run_prompt_cache_isolation_lab (ae_environ env) (ae_redis_host env) (ae_redis_port env)
         (q_mode request) tenant_a (q_tenant_b request) (q_prompt_prefix request) (is_production_saas settings)))
         (\<lambda>e. catch_eff (value_422 e) runtime_503))
       (finish_lab ''prompt-cache-isolation'' (q_mode request) PROMPT_CACHE_INTERNAL_KEYS))))"

section \<open>Readiness\<close>

definition check_postgres :: "(string \<times> string) list \<Rightarrow> (http, bool \<times> string) eff" where
  "check_postgres env s =
     (if \<not> postgres_live_enabled env then (Inr (True, ''skipped (live mode disabled)''), s)
      else case on_db (get_connection (\<lambda>d. (Inr (), d))) s of
        (Inl e, s) \<Rightarrow> (Inr (False, exn_text e), s)
      | (Inr _, s) \<Rightarrow> (Inr (True, ''connected''), s))"

definition check_redis :: "(string \<times> string) list \<Rightarrow> (http, bool \<times> string) eff" where
  "check_redis env s =
     (if \<not> redis_live_enabled env then (Inr (True, ''skipped (live mode disabled)''), s)
      else case on_kv (bind_eff (get_redis_client env) (\<lambda>_. kv_ping)) s of
        (Inl e, s) \<Rightarrow> (Inr (False, exn_text e), s)
      | (Inr _, s) \<Rightarrow> (Inr (True, ''connected''), s))"

definition evaluate_readiness :: "(string \<times> string) list \<Rightarrow> (http, bool \<times> (string \<times> bool \<times> string) list) eff" where
  "evaluate_readiness env =
     bind_eff (check_postgres env) (\<lambda>(postgres_ok, postgres_detail).
     bind_eff (check_redis env) (\<lambda>(redis_ok, redis_detail).
       ret (postgres_ok \<and> redis_ok, [(''postgres'', postgres_ok, postgres_detail), (''redis'', redis_ok, redis_detail)])))"

definition sanitize_checks :: "settings \<Rightarrow> (string \<times> bool \<times> string) list \<Rightarrow> (string \<times> bool \<times> string) list" where
  "sanitize_checks current raw_checks =
     (if \<not> is_production current then raw_checks
      else map (\<lambda>(name, ok, detail). (name, ok, if ok then ''ok'' else ''unavailable'')) raw_checks)"

section \<open>Endpoints\<close>

definition respond :: "pyval \<Rightarrow> http_response" where
  "respond v = \<lparr>rs_status = 200, rs_headers = [], rs_body = v\<rparr>"

definition health :: "settings \<Rightarrow> handler" where
  "health current request = ret (respond (PDict [(''status'', PStr ''ok''), (''service'', PStr ''boundary-layer-api''),
     (''version'', PStr (app_version current)), (''environment'', PStr (boundary_layer_env current))]))"

definition metrics_access :: "settings \<Rightarrow> http_request \<Rightarrow> (http, unit) eff" where
  "metrics_access settings request =
     lift_res (verify_metrics_access (header request ''authorization'') (header request ''x-metrics-token'') settings)"

definition ready_payload :: "settings \<Rightarrow> bool \<Rightarrow> (string \<times> bool \<times> string) list \<Rightarrow> pyval" where
  "ready_payload current is_ready checks =
     PDict [(''status'', PStr (if is_ready then ''ready'' else ''not_ready'')), (''service'', PStr ''boundary-layer-api''),
       (''checks'', PDict (map (\<lambda>(name, ok, detail). (name, PDict [(''ok'', PBool ok), (''detail'', PStr detail)]))
         (sanitize_checks current checks)))]"

definition ready :: "'k api_env \<Rightarrow> settings \<Rightarrow> handler" where
  "ready env current request =
     bind_eff (metrics_access current request) (\<lambda>_.
     bind_eff (evaluate_readiness (ae_environ env)) (\<lambda>(is_ready, checks).
       if \<not> is_ready then raise_exn (HTTPException 503 (ready_payload current is_ready checks) [])
       else ret (respond (ready_payload current is_ready checks))))"

definition metrics_endpoint :: "'k api_env \<Rightarrow> settings \<Rightarrow> handler" where
  "metrics_endpoint env current request =
     bind_eff (metrics_access current request) (\<lambda>_ s.
       (Inr (respond (PStr (ae_render env (ap_metrics (ht_app s))))), s))"

definition api_access :: "'k api_env \<Rightarrow> settings \<Rightarrow> http_request \<Rightarrow> (http, unit) eff" where
  "api_access env settings request =
     on_app (verify_api_access (ae_audit_id env) (ae_jwt env) (header request ''authorization'')
       (header request ''x-api-key'') settings)"

definition lab_entry :: "string \<Rightarrow> string \<Rightarrow> string \<Rightarrow> pyval" where
  "lab_entry i name descr = PDict [(''id'', PStr i), (''name'', PStr name), (''path'', PStr (''/labs/'' @ i @ ''/run'')),
     (''description'', PStr descr)]"

definition LABS :: "pyval list" where
  "LABS =
     [lab_entry ''tool-router'' ''Tool Router Injection Lab''
        ''Poisoned retrieved content influences simulated tool requests.'',
      lab_entry ''redis'' ''Redis State Tampering Lab'' ''Predictable or unsigned session values can be modified.'',
      lab_entry ''authz'' ''Flat AuthN/AuthZ Lab'' ''Broad tokens access restricted tools without scope checks.'',
      lab_entry ''file-upload'' ''File Upload Injection Lab''
        ''Unsafe extraction versus sandboxed extraction with content wrapping.'',
      lab_entry ''governance'' ''Prompt Governance Tracker'' ''Incomplete prompt deletion leaves downstream records.'',
      lab_entry ''postgres-write-storm'' ''PostgreSQL Write Storm Lab''
        ''Runaway prompt logging writes overload the PostgreSQL writer.'',
      lab_entry ''circuit-breaker'' ''Circuit Breaker Simulation Lab''
        ''Unbounded inference work cascades without backpressure controls.'',
      lab_entry ''sse-exhaustion'' ''SSE Exhaustion Simulation Lab'' ''Unbounded SSE streams exhaust workers and memory.'',
      lab_entry ''prompt-cache-isolation'' ''Prompt Cache Isolation Lab''
        ''Shared prompt-prefix cache keys can bleed across tenant boundaries.'']"

definition list_labs :: "'k api_env \<Rightarrow> settings \<Rightarrow> handler" where
  "list_labs env settings request =
     bind_eff (api_access env settings request) (\<lambda>_. ret (respond (PDict [(''labs'', PList LABS)])))"

text \<open>\<open>LabResponse\<close>: seven fields, any other key of the result ignored.\<close>

definition lab_response :: "lab_result \<Rightarrow> pyval" where
  "lab_response r = PDict [(''lab'', PStr (lr_lab r)), (''mode'', PStr (lr_mode r)), (''blocked'', PBool (lr_blocked r)),
     (''risk'', PStr (lr_risk r)), (''control'', PStr (lr_control r)), (''events'', PList (map PStr (lr_events r))),
     (''summary'', PStr (lr_summary r))]"

text \<open>A lab's route: the access check runs first, then the body is validated, then the handler runs.\<close>

definition post_lab :: "'k api_env \<Rightarrow> settings \<Rightarrow> ('k api_env \<Rightarrow> pyval \<Rightarrow> 'b option) \<Rightarrow> ('b \<Rightarrow> (http, lab_result) eff) \<Rightarrow> handler" where
  "post_lab env settings read run request =
     bind_eff (api_access env settings request) (\<lambda>_.
       case read env (rq_body request) of
         None \<Rightarrow> raise_exn (HTTPException 422 (ae_errors env (rq_body request)) [])
       | Some body \<Rightarrow> bind_eff (run body) (\<lambda>r. ret (respond (lab_response r))))"

definition lab_routes :: "'k api_env \<Rightarrow> settings \<Rightarrow> (string \<times> handler) list" where
  "lab_routes env settings =
     [(''/labs/tool-router/run'', post_lab env settings read_lab_request (run_named_lab env settings ''tool-router'')),
      (''/labs/redis/run'', post_lab env settings read_lab_request (run_named_lab env settings ''redis'')),
      (''/labs/authz/run'', post_lab env settings read_lab_request (run_named_lab env settings ''authz'')),
      (''/labs/file-upload/run'', post_lab env settings read_file_upload (run_file_upload settings)),
      (''/labs/governance/run'', post_lab env settings read_lab_request (run_named_lab env settings ''governance'')),
      (''/labs/postgres-write-storm/run'', post_lab env settings read_write_storm (run_postgres_write_storm env settings)),
      (''/labs/circuit-breaker/run'', post_lab env settings read_circuit_breaker (run_circuit_breaker settings)),
      (''/labs/sse-exhaustion/run'', post_lab env settings read_sse_exhaustion (run_sse_exhaustion settings)),
      (''/labs/prompt-cache-isolation/run'',
        post_lab env settings read_prompt_cache (run_prompt_cache_isolation env settings))]"

text \<open>FastAPI answers an \<open>HTTPException\<close> with its status and detail; other exceptions pass on.\<close>

definition handle_http :: "handler \<Rightarrow> handler" where
  "handle_http h request = catch_eff (h request) (\<lambda>e. case e of
     HTTPException status detail headers \<Rightarrow>
       ret \<lparr>rs_status = status, rs_headers = headers, rs_body = PDict [(''detail'', detail)]\<rparr>
   | _ \<Rightarrow> raise_exn e)"

text \<open>
  The application's table of routes. What the framework answers when no route matches (404, 405, the
  redirect of a trailing slash, the generated documentation) is the argument \<open>unmatched\<close>.
\<close>

definition endpoint :: "'k api_env \<Rightarrow> settings \<Rightarrow> string \<Rightarrow> string \<Rightarrow> handler option" where
  "endpoint env settings meth path =
     (if meth = ''GET'' then
        dict_get [(''/health'', health settings), (''/ready'', ready env settings),
          (''/metrics'', metrics_endpoint env settings), (''/labs'', list_labs env settings)] path
      else if meth = ''POST'' then dict_get (lab_routes env settings) path
      else None)"

definition routes :: "handler \<Rightarrow> 'k api_env \<Rightarrow> settings \<Rightarrow> handler" where
  "routes unmatched env settings request =
     (case endpoint env settings (rq_method request) (rq_path request) of
        Some h \<Rightarrow> handle_http h request
      | None \<Rightarrow> unmatched request)"

definition api :: "handler \<Rightarrow> unit result \<Rightarrow> 'k api_env \<Rightarrow> settings \<Rightarrow> handler" where
  "api unmatched client env settings = serve client settings (routes unmatched env settings)"

section \<open>Start-up\<close>

text \<open>\<open>migrate\<close> is the outcome of importing and running Alembic, \<open>None\<close> when it is not installed.\<close>

definition lifespan_migrations :: "(pg, unit) eff option \<Rightarrow> settings \<Rightarrow> (pg, unit) eff" where
  "lifespan_migrations migrate settings =
     (if \<not> run_migrations settings then ret ()
      else case migrate of
        None \<Rightarrow> raise_exn (RuntimeError ''Alembic is required when BOUNDARY_LAYER_RUN_MIGRATIONS=true'')
      | Some m \<Rightarrow> m)"

definition lifespan_start :: "(pg, unit) eff option \<Rightarrow> settings \<Rightarrow> (pg, unit) eff" where
  "lifespan_start migrate settings =
     bind_eff (lifespan_migrations migrate settings) (\<lambda>_.
       if is_production_saas settings then
         catch_eff init_tenancy_schema (\<lambda>e.
           raise_exn (RuntimeError ''Tenancy schema initialization failed in production-saas profile''))
       else ret ())"

end
