(* ===== verification/Middleware_Stack.thy ===== *)
theory Middleware_Stack
  imports Middleware
begin

text \<open>
  What the whole middleware stack does to a request: it leaves the data of the application alone, answers by
  itself only with a refusal, and keeps the status and the body of a response from inside.
\<close>

definition same_data :: "http \<Rightarrow> http \<Rightarrow> bool" where
  "same_data s t = (ht_kv s = ht_kv t \<and> ap_pg (ht_app s) = ap_pg (ht_app t) \<and> ap_metrics (ht_app s) = ap_metrics (ht_app t))"

lemma same_data_refl [simp]: "same_data s s"
  by (simp add: same_data_def)

lemma same_data_trans: "same_data s t \<Longrightarrow> same_data t u \<Longrightarrow> same_data s u"
  by (simp add: same_data_def)

text \<open>The body of a refusal: \<open>detail\<close> and nothing else.\<close>

definition is_detail :: "pyval \<Rightarrow> bool" where
  "is_detail v = (case v of PDict d \<Rightarrow> map fst d = [''detail''] | _ \<Rightarrow> False)"

locale transparent_middleware = middleware +
  assumes pre_data: "same_data (pre rq s) s"
    and stop_refuses: "stop rq s = Some (Inr r) \<Longrightarrow> is_detail (rs_body r)"
    and post_same: "rs_status (post rq s r) = rs_status r" "rs_body (post rq s r) = rs_body r"
begin

lemma answered_inside:
  assumes "mw nxt rq s = (Inr resp, s')" and "\<not> is_detail (rs_body resp)"
  obtains r where "stop rq s = None" "nxt rq (pre rq s) = (Inr r, s')" "rs_status r = rs_status resp" "rs_body r = rs_body resp"
  using assms(1)
proof (cases rule: answered)
  case self
  then show ?thesis using stop_refuses assms(2) by blast
next
  case (inner r)
  then show ?thesis using that [of r] assms(2) post_same by simp
qed

text \<open>What the handler inside keeps of the data, the middleware keeps.\<close>

lemma keeps:
  assumes "\<And>s t. same_data s t \<Longrightarrow> I s \<Longrightarrow> I t" and "\<And>s. I s \<Longrightarrow> I (snd (nxt rq s))" and "I s"
  shows "I (snd (mw nxt rq s))"
proof -
  have "I (pre rq s)" using assms(1,3) pre_data by (auto simp: same_data_def)
  then show ?thesis using assms(2) [of "pre rq s"] by (auto simp: run split: option.splits prod.splits sum.splits)
qed

end

lemma comp_stop_Inr:
  "comp_stop pre1 stop1 post1 stop2 rq s = Some (Inr r) \<longleftrightarrow> stop1 rq s = Some (Inr r)
    \<or> stop1 rq s = None \<and> (\<exists>x. stop2 rq (pre1 rq s) = Some (Inr x) \<and> r = post1 rq s x)"
proof -
  have "(case z of Inl e \<Rightarrow> Inl e | Inr x \<Rightarrow> Inr (post1 rq s x)) = Inr r \<longleftrightarrow> (\<exists>x. z = Inr x \<and> r = post1 rq s x)"
    for z :: "http_response result"
    by (cases z) auto
  then show ?thesis by (auto simp: comp_stop_def split: option.splits)
qed

lemma transparent_comp:
  assumes "transparent_middleware mw1 pre1 stop1 post1" and "transparent_middleware mw2 pre2 stop2 post2"
  shows "transparent_middleware (\<lambda>nxt. mw1 (mw2 nxt)) (comp_pre pre1 stop1 pre2) (comp_stop pre1 stop1 post1 stop2)
    (comp_post pre1 post1 post2)"
proof (intro transparent_middleware.intro transparent_middleware_axioms.intro)
  note t1 = assms(1) and t2 = assms(2)
  note m1 = transparent_middleware.axioms(1) [OF t1] and m2 = transparent_middleware.axioms(1) [OF t2]
  show "middleware (\<lambda>nxt. mw1 (mw2 nxt)) (comp_pre pre1 stop1 pre2) (comp_stop pre1 stop1 post1 stop2) (comp_post pre1 post1 post2)"
    by (rule middleware_comp [OF m1 m2])
  fix rq s r
  show "same_data (comp_pre pre1 stop1 pre2 rq s) s"
    using transparent_middleware.pre_data [OF t1, of rq s] transparent_middleware.pre_data [OF t2, of rq "pre1 rq s"]
    by (auto simp: comp_pre_def intro: same_data_trans split: option.splits)
  show "is_detail (rs_body r)" if "comp_stop pre1 stop1 post1 stop2 rq s = Some (Inr r)"
    using that transparent_middleware.stop_refuses [OF t1] transparent_middleware.stop_refuses [OF t2]
    by (auto simp: comp_stop_Inr transparent_middleware.post_same [OF t1])
  show "rs_status (comp_post pre1 post1 post2 rq s r) = rs_status r" "rs_body (comp_post pre1 post1 post2 rq s r) = rs_body r"
    by (simp_all add: comp_post_def transparent_middleware.post_same [OF t1] transparent_middleware.post_same [OF t2])
qed

section \<open>Each layer\<close>

lemma headers_same [simp]:
  "rs_status (set_header n v r) = rs_status r" "rs_body (set_header n v r) = rs_body r"
  "rs_status (default_header n v r) = rs_status r" "rs_body (default_header n v r) = rs_body r"
  by (simp_all add: set_header_def default_header_def)

lemma fold_headers_same:
  "rs_status (fold (\<lambda>(n, v). default_header n v) hs r) = rs_status r"
  "rs_body (fold (\<lambda>(n, v). default_header n v) hs r) = rs_body r"
  by (induction hs arbitrary: r) auto

lemma json_response_detail [simp]: "is_detail (rs_body (json_response c d h))"
  by (simp add: json_response_def is_detail_def)

lemma check_rate_data: "same_data (snd (check_rate client st rq s)) s"
  by (auto simp: same_data_def check_rate_def bind_eff_def get_limiter_def limiter_allow_def Let_def
      split: option.splits sum.splits prod.splits limiter_kind.splits)

interpretation security_headers: transparent_middleware security_headers_dispatch same_state no_stop "\<lambda>rq s. with_security_headers"
  by unfold_locales (simp_all add: same_state_def no_stop_def with_security_headers_def fold_headers_same)

interpretation lockdown: transparent_middleware "production_lockdown_dispatch st" same_state "lockdown_stop st" same_response for st
  by unfold_locales (auto simp: same_state_def lockdown_stop_def same_response_def split: if_splits)

interpretation body_size: transparent_middleware "request_body_size_dispatch st" same_state "body_stop st" same_response for st
  by unfold_locales (auto simp: same_state_def body_stop_def same_response_def split: if_splits option.splits sum.splits)

interpretation identity: transparent_middleware "auth_context_dispatch st" "identity_pre st" no_stop same_response for st
  by unfold_locales (auto simp: identity_pre_def same_data_def no_stop_def same_response_def)

interpretation request_context: transparent_middleware "request_context_dispatch st" same_state no_stop "context_post st" for st
  by unfold_locales (simp_all add: same_state_def no_stop_def context_post_def Let_def)

interpretation rate_limit: transparent_middleware "rate_limit_dispatch client st" "rate_pre client st" "rate_stop client st"
  "rate_post client st" for client st
  by unfold_locales (auto simp: rate_pre_def check_rate_data rate_stop_def rate_post_def with_limit_headers_def
      split: if_splits sum.splits prod.splits exn.splits)

section \<open>The stack\<close>

definition stack_pre :: "unit result \<Rightarrow> settings \<Rightarrow> http_request \<Rightarrow> http \<Rightarrow> http" where
  "stack_pre client st = comp_pre same_state no_stop (comp_pre (identity_pre st) no_stop (comp_pre (rate_pre client st)
     (rate_stop client st) (comp_pre same_state (body_stop st) (comp_pre same_state no_stop same_state))))"

definition stack_stop :: "unit result \<Rightarrow> settings \<Rightarrow> http_request \<Rightarrow> http \<Rightarrow> http_response result option" where
  "stack_stop client st = comp_stop same_state no_stop (context_post st) (comp_stop (identity_pre st) no_stop same_response
     (comp_stop (rate_pre client st) (rate_stop client st) (rate_post client st)
       (comp_stop same_state (body_stop st) same_response (inner_stop st))))"

definition stack_post :: "unit result \<Rightarrow> settings \<Rightarrow> http_request \<Rightarrow> http \<Rightarrow> http_response \<Rightarrow> http_response" where
  "stack_post client st = comp_post same_state (context_post st) (comp_post (identity_pre st) same_response
     (comp_post (rate_pre client st) (rate_post client st)
       (comp_post same_state same_response (comp_post same_state (\<lambda>rq s. with_security_headers) same_response))))"

interpretation stack: transparent_middleware "middleware_stack client st" "stack_pre client st" "stack_stop client st"
  "stack_post client st" for client st
  unfolding middleware_stack_def [abs_def] stack_pre_def stack_stop_def stack_post_def inner_stop_def
  by (intro transparent_comp request_context.transparent_middleware_axioms identity.transparent_middleware_axioms
      rate_limit.transparent_middleware_axioms body_size.transparent_middleware_axioms
      security_headers.transparent_middleware_axioms lockdown.transparent_middleware_axioms)

text \<open>A response whose body is not a refusal came from the routes, run on the same data.\<close>

lemma serve_inside:
  assumes "serve client st routes rq s = (Inr resp, s')" and "\<not> is_detail (rs_body resp)"
  obtains r s1 where "routes rq s1 = (Inr r, s')" "rs_status r = rs_status resp" "rs_body r = rs_body resp" "same_data s1 s"
proof -
  let ?s = "s\<lparr>ht_app := (ht_app s)\<lparr>ap_auth_context := None\<rparr>\<rparr>"
  have "same_data (stack_pre client st rq ?s) s"
    using stack.pre_data [of client st rq ?s] by (simp add: same_data_def)
  moreover obtain r where "routes rq (stack_pre client st rq ?s) = (Inr r, s')" "rs_status r = rs_status resp"
    "rs_body r = rs_body resp"
    using stack.answered_inside [OF assms(1) [unfolded serve_def] assms(2)] by blast
  ultimately show thesis by (intro that)
qed

lemma serve_keeps:
  assumes "\<And>s t. same_data s t \<Longrightarrow> I s \<Longrightarrow> I t" and "\<And>s. I s \<Longrightarrow> I (snd (routes rq s))" and "I s"
  shows "I (snd (serve client st routes rq s))"
proof -
  have "I (s\<lparr>ht_app := (ht_app s)\<lparr>ap_auth_context := None\<rparr>\<rparr>)"
    by (rule assms(1) [OF _ assms(3)]) (simp add: same_data_def)
  from stack.keeps [where I = I and nxt = routes and rq = rq, OF assms(1,2) this] show ?thesis
    unfolding serve_def .
qed

end
