(* ===== verification/Api_Laws.thy ===== *)
theory Api_Laws
  imports Api_Main Middleware_Stack
begin

text \<open>
  What the lab handlers of \<open>apps/api/main.py\<close> have in common, as the locale \<open>lab_handler\<close>, interpreted on
  each of them, and the properties of the whole application that follow.
\<close>

named_theorems yields_rules
named_theorems keeps_rules

section \<open>What an operation returns\<close>

definition yields :: "('s, 'a) eff \<Rightarrow> ('a \<Rightarrow> bool) \<Rightarrow> bool" where
  "yields m P = (\<forall>s x s'. m s = (Inr x, s') \<longrightarrow> P x)"

lemma yieldsD: "yields m P \<Longrightarrow> m s = (Inr x, s') \<Longrightarrow> P x"
  by (auto simp: yields_def)

lemma yields_simple [yields_rules]:
  "P x \<Longrightarrow> yields (ret x) P" "yields (raise_exn e) P" "(\<And>x. r = Inr x \<Longrightarrow> P x) \<Longrightarrow> yields (lift_res r) P"
  by (auto simp: yields_def ret_def raise_exn_def lift_res_def)

lemma yields_bind [yields_rules]: "(\<And>x. yields (f x) P) \<Longrightarrow> yields (bind_eff m f) P"
  by (auto simp: yields_def bind_eff_Inr_iff)

lemma yields_catch [yields_rules]: "yields m P \<Longrightarrow> (\<And>e. yields (h e) P) \<Longrightarrow> yields (catch_eff m h) P"
  by (auto simp: yields_def catch_eff_def split: prod.splits sum.splits)

lemma yields_if [yields_rules]:
  "(b \<Longrightarrow> yields m P) \<Longrightarrow> (\<not> b \<Longrightarrow> yields n P) \<Longrightarrow> yields (if b then m else n) P"
  by simp

lemma yields_case [yields_rules]:
  "(x = None \<Longrightarrow> yields m P) \<Longrightarrow> (\<And>y. x = Some y \<Longrightarrow> yields (f y) P)
    \<Longrightarrow> yields (case x of None \<Rightarrow> m | Some y \<Rightarrow> f y) P"
  "(\<And>a b. p = (a, b) \<Longrightarrow> yields (g a b) P) \<Longrightarrow> yields (case p of (a, b) \<Rightarrow> g a b) P"
  by (auto split: option.splits prod.splits)

lemma yields_on [yields_rules]:
  "yields m P \<Longrightarrow> yields (on_db m) P" "yields k P \<Longrightarrow> yields (on_kv k) P"
  by (auto simp: yields_def on_db_def on_app_def on_pg_def on_kv_def split: prod.splits)

lemma yields_clauses [yields_rules]: "yields (value_422 e) P" "yields (runtime_503 e) P"
  by (auto simp: yields_def value_422_def runtime_503_def raise_exn_def split: exn.splits)

section \<open>Results of the labs\<close>

text \<open>The id of the lab, the mode of the request, and internal keys among those the handler strips.\<close>

definition lab_ok :: "string \<Rightarrow> string \<Rightarrow> string list \<Rightarrow> lab_result \<Rightarrow> bool" where
  "lab_ok lab mode keys r = (lr_lab r = lab \<and> lr_mode r = mode \<and> set (map fst (lr_internal r)) \<subseteq> set keys)"

lemma tool_router_ok: "lab_ok ''tool-router'' mode RUN_LAB_INTERNAL_KEYS (run_tool_router_lab mode)"
  by (simp add: lab_ok_def run_tool_router_lab_def route_context_def Let_def split: prod.splits option.splits)

lemma authz_ok: "run_authz_lab mode = Inr r \<Longrightarrow> lab_ok ''authz'' mode RUN_LAB_INTERNAL_KEYS r"
  by (auto simp: lab_ok_def run_authz_lab_def Let_def bind_res_Inr_iff split: if_splits prod.splits)

lemma redis_results_ok:
  "lab_ok ''redis'' mode keys (redis_blocked mode ev sm)" "lab_ok ''redis'' mode keys (redis_accepted mode c ev sm)"
  by (simp_all add: lab_ok_def redis_blocked_def redis_accepted_def)

lemma redis_ok: "yields (run_redis_lab fr secret env host port uuid mode t) (lab_ok ''redis'' mode keys)"
  unfolding run_redis_lab_def run_redis_lab_live_def run_redis_lab_fallback_def Let_def
  by (intro yields_rules) (auto simp: redis_results_ok bind_res_Inr_iff split: prod.splits if_splits)

lemma governance_ok:
  "yields (run_governance_lab env host port uuid mode t) (lab_ok ''governance'' mode RUN_LAB_INTERNAL_KEYS)"
  unfolding run_governance_lab_def run_governance_live_def governance_live_vulnerable_def governance_live_hardened_def Let_def
  by (intro yields_rules) (simp_all add: lab_ok_def RUN_LAB_INTERNAL_KEYS_def run_governance_fallback_def Let_def split: prod.splits)

lemma write_storm_ok:
  "yields (run_postgres_write_storm_lab env host port b d mode n t)
     (lab_ok ''postgres-write-storm'' mode WRITE_STORM_INTERNAL_KEYS)"
  unfolding run_postgres_write_storm_lab_def run_write_storm_live_def Let_def
  by (intro yields_rules) (simp_all add: lab_ok_def WRITE_STORM_INTERNAL_KEYS_def run_write_storm_fallback_def
      storm_internal_def Let_def)

lemma circuit_breaker_ok:
  "run_circuit_breaker_lab mode n = Inr r \<Longrightarrow> lab_ok ''circuit-breaker'' mode CIRCUIT_BREAKER_INTERNAL_KEYS r"
  by (auto simp: lab_ok_def run_circuit_breaker_lab_def bind_res_Inr_iff breaker_vulnerable_def breaker_hardened_def
      breaker_internal_def CIRCUIT_BREAKER_INTERNAL_KEYS_def Let_def split: if_splits)

lemma sse_ok:
  "run_sse_exhaustion_lab mode n d = Inr r \<Longrightarrow> lab_ok ''sse-exhaustion'' mode SSE_EXHAUSTION_INTERNAL_KEYS r"
  by (auto simp: lab_ok_def run_sse_exhaustion_lab_def bind_res_Inr_iff sse_vulnerable_def sse_hardened_def
      sse_internal_def SSE_EXHAUSTION_INTERNAL_KEYS_def Let_def split: if_splits)

lemma file_upload_ok:
  "run_file_upload_lab mode f h a e = Inr r \<Longrightarrow> lab_ok ''file-upload'' mode FILE_UPLOAD_INTERNAL_KEYS r"
  by (auto simp: lab_ok_def run_file_upload_lab_def bind_res_Inr_iff upload_vulnerable_def upload_hardened_def
      upload_internal_def FILE_UPLOAD_INTERNAL_KEYS_def Let_def split: if_splits)

lemma prompt_cache_results_ok:
  "lab_ok ''prompt-cache-isolation'' mode PROMPT_CACHE_INTERNAL_KEYS (cache_vulnerable mode a b key ev sm h)"
  "lab_ok ''prompt-cache-isolation'' mode PROMPT_CACHE_INTERNAL_KEYS (cache_hardened mode a b ka kb ev sm h)"
  by (simp_all add: lab_ok_def cache_vulnerable_def cache_hardened_def cache_internal_def PROMPT_CACHE_INTERNAL_KEYS_def)

lemma prompt_cache_ok:
  "yields (run_prompt_cache_isolation_lab env host port mode a b p scoped)
     (lab_ok ''prompt-cache-isolation'' mode PROMPT_CACHE_INTERNAL_KEYS)"
  unfolding run_prompt_cache_isolation_lab_def run_cache_live_def run_cache_fallback_def Let_def
  by (intro yields_rules) (simp_all add: prompt_cache_results_ok)

section \<open>Counting a run\<close>

definition runs_labels :: "string \<Rightarrow> string \<Rightarrow> bool \<Rightarrow> labels" where
  "runs_labels lab mode blocked =
     [(''lab'', lab), (''mode'', mode), (''result'', if blocked then ''blocked'' else ''allowed'')]"

definition lab_runs :: "string \<Rightarrow> string \<Rightarrow> bool \<Rightarrow> http \<Rightarrow> int" where
  "lab_runs lab mode blocked s =
     counter_total ''boundary_layer_lab_runs_total'' (runs_labels lab mode blocked) (ap_metrics (ht_app s))"

text \<open>What every recording call keeps true of the log, so do the guarded and composed ones.\<close>

definition log_inv :: "(metric_log \<Rightarrow> bool) \<Rightarrow> (metric_log \<Rightarrow> metric_log) \<Rightarrow> bool" where
  "log_inv I f = (\<forall>log. I log \<longrightarrow> I (f log))"

lemma log_inv_rules:
  "log_inv I f \<Longrightarrow> log_inv I g \<Longrightarrow> log_inv I (f \<circ> g)" "log_inv I (\<lambda>log. log)"
  "log_inv I f \<Longrightarrow> log_inv I (if_set b f)"
  "(\<And>i. log_inv I (h i)) \<Longrightarrow> log_inv I (when_present r k h)"
  "(\<And>i. log_inv I (h i)) \<Longrightarrow> log_inv I (when_positive r k h)"
  "log_inv I f \<Longrightarrow> log_inv I g \<Longrightarrow> log_inv I (if b then f else g)"
  by (auto simp: log_inv_def if_set_def when_present_def when_positive_def split: option.splits pyval.splits)

lemma log_inv_observe:
  "(\<And>v. log_inv I (f v)) \<Longrightarrow> log_inv I (\<lambda>log. case d of None \<Rightarrow> log | Some PNone \<Rightarrow> log | Some v \<Rightarrow> f v log)"
  by (auto simp: log_inv_def split: option.splits pyval.splits)

lemmas lab_metric_groups = file_upload_metrics_def governance_metrics_def write_storm_metrics_def circuit_breaker_metrics_def
  sse_metrics_def prompt_cache_metrics_def

lemmas recording_defs =
  record_tool_injection_blocked_def record_redis_tamper_rejected_def record_authz_denied_def
  record_file_injection_blocked_def record_file_upload_extraction_def record_file_upload_sandbox_applied_def
  record_file_upload_egress_blocked_def record_file_upload_active_content_blocked_def
  record_file_upload_hidden_instruction_detected_def record_file_upload_untrusted_content_wrapped_def
  record_governance_deletion_audit_def record_prompt_deletion_orphans_def record_postgres_write_storm_events_def
  record_postgres_write_storm_blocked_writes_def observe_postgres_write_storm_insert_duration_def
  record_inference_requests_def record_inference_shed_work_units_def record_inference_simulated_failures_def
  set_circuit_breaker_state_def set_inference_queue_depth_def set_inference_p99_latency_ms_def record_sse_streams_def
  record_sse_rejected_streams_def set_sse_active_streams_def set_sse_orphaned_streams_def set_sse_worker_pressure_def
  set_sse_memory_pressure_mb_def record_sse_cleanup_applied_def record_prompt_cache_request_def
  record_prompt_cache_hit_def record_prompt_cache_cross_tenant_bleed_def record_prompt_cache_isolation_applied_def

text \<open>No recording call but \<open>record_lab_run\<close> touches the counter of lab runs, and all of them are typed.\<close>

lemma recordings_inert:
  fixes lbl :: labels and n :: int
  defines "keep \<equiv> log_inv (\<lambda>log. counter_total ''boundary_layer_lab_runs_total'' lbl log = n)"
  shows
    "keep record_tool_injection_blocked" "keep record_redis_tamper_rejected" "keep record_authz_denied"
    "keep record_file_injection_blocked" "keep (record_file_upload_extraction m t x)"
    "keep (record_file_upload_sandbox_applied m)" "keep (record_file_upload_egress_blocked m)"
    "keep (record_file_upload_active_content_blocked m t)"
    "keep (record_file_upload_hidden_instruction_detected m t)"
    "keep (record_file_upload_untrusted_content_wrapped m)" "keep (record_governance_deletion_audit m c)"
    "keep (record_prompt_deletion_orphans i)" "keep (record_postgres_write_storm_events m x i)"
    "keep (record_postgres_write_storm_blocked_writes m i)" "keep (observe_postgres_write_storm_insert_duration m v)"
    "keep (record_inference_requests m x i)" "keep (record_inference_shed_work_units m i)"
    "keep (record_inference_simulated_failures m i)" "keep (set_circuit_breaker_state i)"
    "keep (set_inference_queue_depth m i)" "keep (set_inference_p99_latency_ms m i)"
    "keep (record_sse_streams m x i)" "keep (record_sse_rejected_streams m i)" "keep (set_sse_active_streams m i)"
    "keep (set_sse_orphaned_streams m i)" "keep (set_sse_worker_pressure m i)"
    "keep (set_sse_memory_pressure_mb m i)" "keep (record_sse_cleanup_applied m)"
    "keep (record_prompt_cache_request m t x)" "keep (record_prompt_cache_hit m t x)"
    "keep (record_prompt_cache_cross_tenant_bleed m)" "keep (record_prompt_cache_isolation_applied m)"
  by (simp_all add: keep_def log_inv_def recording_defs counter_total_def inc_by_def set_gauge_def)

lemma recordings_typed:
  defines "keep \<equiv> log_inv metrics_ok"
  shows
    "keep record_tool_injection_blocked" "keep record_redis_tamper_rejected" "keep record_authz_denied"
    "keep record_file_injection_blocked" "keep (record_file_upload_extraction m t x)"
    "keep (record_file_upload_sandbox_applied m)" "keep (record_file_upload_egress_blocked m)"
    "keep (record_file_upload_active_content_blocked m t)"
    "keep (record_file_upload_hidden_instruction_detected m t)"
    "keep (record_file_upload_untrusted_content_wrapped m)" "keep (record_governance_deletion_audit m c)"
    "keep (record_prompt_deletion_orphans i)" "keep (record_postgres_write_storm_events m x i)"
    "keep (record_postgres_write_storm_blocked_writes m i)" "keep (observe_postgres_write_storm_insert_duration m v)"
    "keep (record_inference_requests m x i)" "keep (record_inference_shed_work_units m i)"
    "keep (record_inference_simulated_failures m i)" "keep (set_circuit_breaker_state i)"
    "keep (set_inference_queue_depth m i)" "keep (set_inference_p99_latency_ms m i)"
    "keep (record_sse_streams m x i)" "keep (record_sse_rejected_streams m i)" "keep (set_sse_active_streams m i)"
    "keep (set_sse_orphaned_streams m i)" "keep (set_sse_worker_pressure m i)"
    "keep (set_sse_memory_pressure_mb m i)" "keep (record_sse_cleanup_applied m)"
    "keep (record_prompt_cache_request m t x)" "keep (record_prompt_cache_hit m t x)"
    "keep (record_prompt_cache_cross_tenant_bleed m)" "keep (record_prompt_cache_isolation_applied m)"
  by (simp_all add: keep_def log_inv_def)

lemma lab_metrics_inert:
  "log_inv (\<lambda>log. counter_total ''boundary_layer_lab_runs_total'' lbl log = n) (lab_metrics lab mode r)"
  unfolding lab_metrics_def lab_metric_groups Let_def by (intro log_inv_rules log_inv_observe recordings_inert)

lemma lab_metrics_typed: "log_inv metrics_ok (lab_metrics lab mode r)"
  unfolding lab_metrics_def lab_metric_groups Let_def by (intro log_inv_rules log_inv_observe recordings_typed)

lemma lab_metrics_runs:
  "counter_total ''boundary_layer_lab_runs_total'' lbl (lab_metrics lab mode r log)
    = counter_total ''boundary_layer_lab_runs_total'' lbl log"
  using lab_metrics_inert by (simp add: log_inv_def)

lemma lab_metrics_ok: "metrics_ok log \<Longrightarrow> metrics_ok (lab_metrics lab mode r log)"
  using lab_metrics_typed by (simp add: log_inv_def)

definition counted :: "string \<Rightarrow> string \<Rightarrow> lab_result \<Rightarrow> http \<Rightarrow> http" where
  "counted lab mode r s = s\<lparr>ht_app := (ht_app s)\<lparr>ap_metrics :=
     lab_metrics lab mode r (record_lab_run lab mode (lr_blocked r) (ap_metrics (ht_app s)))\<rparr>\<rparr>"

lemma finish_lab_eq: "finish_lab lab mode keys r s = (Inr (strip_internal_keys r keys), counted lab mode r s)"
  by (simp add: finish_lab_def record_lab_metrics_def on_app_def metric_def bind_eff_def ret_def counted_def)

lemma pop_all: "set (map fst d) \<subseteq> set keys \<Longrightarrow> fold dict_pop keys d = []"
proof (induction keys arbitrary: d)
  case (Cons k keys)
  have "set (map fst (dict_pop k d)) \<subseteq> set keys" using Cons.prems by (auto simp: dict_pop_def)
  then show ?case using Cons.IH by simp
qed simp

lemma counted_runs:
  "lab_runs lab mode (lr_blocked r) (counted lab mode r s) = lab_runs lab mode (lr_blocked r) s + 1"
  by (simp add: lab_runs_def counted_def lab_metrics_runs record_lab_run_def runs_labels_def Let_def)

lemma counted_other:
  "lbl \<noteq> runs_labels lab mode (lr_blocked r) \<Longrightarrow>
   counter_total ''boundary_layer_lab_runs_total'' lbl (ap_metrics (ht_app (counted lab mode r s)))
     = counter_total ''boundary_layer_lab_runs_total'' lbl (ap_metrics (ht_app s))"
  by (auto simp: counted_def lab_metrics_runs record_lab_run_def runs_labels_def Let_def)

lemma counted_ok: "metrics_ok (ap_metrics (ht_app s)) \<Longrightarrow> metrics_ok (ap_metrics (ht_app (counted lab mode r s)))"
  by (simp add: counted_def lab_metrics_ok)

lemma counted_frame [simp]:
  "ht_kv (counted lab mode r s) = ht_kv s" "ap_pg (ht_app (counted lab mode r s)) = ap_pg (ht_app s)"
  "ap_auth_context (ht_app (counted lab mode r s)) = ap_auth_context (ht_app s)"
  by (simp_all add: counted_def)

section \<open>What an operation keeps\<close>

definition keeps :: "('s \<Rightarrow> bool) \<Rightarrow> ('s, 'a) eff \<Rightarrow> bool" where
  "keeps I m = (\<forall>s. I s \<longrightarrow> I (snd (m s)))"

lemma keepsD: "keeps I m \<Longrightarrow> I s \<Longrightarrow> m s = (r, s') \<Longrightarrow> I s'"
  by (metis keeps_def snd_conv)

lemma keeps_simple [keeps_rules]: "keeps I (ret x)" "keeps I (raise_exn e)" "keeps I (lift_res r)"
  by (simp_all add: keeps_def ret_def raise_exn_def lift_res_def)

lemma keeps_bind [keeps_rules]: "keeps I m \<Longrightarrow> (\<And>x. keeps I (f x)) \<Longrightarrow> keeps I (bind_eff m f)"
  by (auto simp: keeps_def bind_eff_def split: prod.splits sum.splits)

lemma keeps_catch [keeps_rules]: "keeps I m \<Longrightarrow> (\<And>e. keeps I (h e)) \<Longrightarrow> keeps I (catch_eff m h)"
  by (auto simp: keeps_def catch_eff_def split: prod.splits sum.splits)

lemma keeps_cases [keeps_rules]:
  "keeps I m \<Longrightarrow> keeps I n \<Longrightarrow> keeps I (if b then m else n)"
  "keeps I m \<Longrightarrow> (\<And>y. keeps I (f y)) \<Longrightarrow> keeps I (case x of None \<Rightarrow> m | Some y \<Rightarrow> f y)"
  "(\<And>a b. keeps I (g a b)) \<Longrightarrow> keeps I (case p of (a, b) \<Rightarrow> g a b)"
  by (auto split: option.splits prod.splits)

lemma keeps_clauses [keeps_rules]: "keeps I (value_422 e)" "keeps I (runtime_503 e)"
  by (auto simp: keeps_def value_422_def runtime_503_def raise_exn_def split: exn.splits)

lemma keeps_on_app [keeps_rules]: "keeps I m \<Longrightarrow> keeps (\<lambda>s. I (ht_app s)) (on_app m)"
  by (auto simp: keeps_def on_app_def split: prod.splits)

lemma keeps_elsewhere [keeps_rules]:
  "keeps (\<lambda>a. J (ap_metrics a)) (on_pg m)" "keeps (\<lambda>s. J (ap_metrics (ht_app s))) (on_db m)"
  "keeps (\<lambda>s. I (ht_app s)) (on_kv k)" "keeps (\<lambda>s. I (ht_app s)) (resolve_lab_context st)"
  "keeps (\<lambda>a. J (ap_metrics a)) (attach_auth_context ctx)"
  by (auto simp: keeps_def on_pg_def on_db_def on_app_def on_kv_def resolve_lab_context_def attach_auth_context_def
      split: prod.splits)

lemma keeps_metric [keeps_rules]: "log_inv J f \<Longrightarrow> keeps (\<lambda>a. J (ap_metrics a)) (metric f)"
  by (simp add: keeps_def metric_def log_inv_def)

section \<open>Access\<close>

text \<open>What the recordings of the access check and of the audit trail keep of the log.\<close>

definition access_inert :: "(metric_log \<Rightarrow> bool) \<Rightarrow> bool" where
  "access_inert J = (\<forall>a b. log_inv J (record_auth_decision a b) \<and> log_inv J (record_tenant_access_denied_metric a)
     \<and> log_inv J (record_audit_event_metric a b))"

lemma access_inert_rules:
  "access_inert J \<Longrightarrow> log_inv J (record_auth_decision a b)" "access_inert J \<Longrightarrow> log_inv J (record_tenant_access_denied_metric a)"
  "access_inert J \<Longrightarrow> log_inv J (record_audit_event_metric a b)"
  by (simp_all add: access_inert_def)

lemma access_inert_runs: "access_inert (\<lambda>log. counter_total ''boundary_layer_lab_runs_total'' lbl log = n)"
  by (simp add: access_inert_def log_inv_def record_auth_decision_def record_tenant_access_denied_metric_def
      record_audit_event_metric_def)

lemma access_inert_typed: "access_inert metrics_ok"
  by (simp add: access_inert_def log_inv_def)

lemma audit_decision_inert: "access_inert J \<Longrightarrow> log_inv J (audit_decision action)"
  unfolding audit_decision_def by (intro log_inv_rules access_inert_rules) (auto simp: log_inv_def)

lemma audit_keeps:
  "access_inert J \<Longrightarrow> keeps (\<lambda>a. J (ap_metrics a)) (record_auth_audit_event uuid st action res t sub md)"
  unfolding record_auth_audit_event_def by (intro keeps_rules access_inert_rules audit_decision_inert)

lemma on_auth_failure_keeps: "access_inert J \<Longrightarrow> keeps (\<lambda>a. J (ap_metrics a)) (on_auth_failure uuid st e)"
  by (cases e) (auto simp: on_auth_failure_def intro!: keeps_rules audit_keeps)

lemma api_access_keeps:
  assumes "access_inert J"
  shows "keeps (\<lambda>s. J (ap_metrics (ht_app s))) (api_access env st rq)"
  unfolding api_access_def verify_api_access_def verify_production_saas_access_def authenticate_def
  by (intro keeps_rules keeps_on_app [where I = "\<lambda>a. J (ap_metrics a)"] audit_keeps on_auth_failure_keeps assms)

lemma resolve_tenant_keeps:
  assumes "access_inert J"
  shows "keeps (\<lambda>s. J (ap_metrics (ht_app s))) (on_app (resolve_request_tenant uuid st ctx t))"
  unfolding resolve_request_tenant_def record_tenant_access_denied_def Let_def
  by (intro keeps_rules keeps_on_app [where I = "\<lambda>a. J (ap_metrics a)"] audit_keeps access_inert_rules assms)

section \<open>Handlers\<close>

text \<open>Exactly one run more: of this lab, in this mode, with this outcome.\<close>

definition counted_once :: "string \<Rightarrow> string \<Rightarrow> bool \<Rightarrow> http \<Rightarrow> http \<Rightarrow> bool" where
  "counted_once lab mode blocked s s' = (\<forall>lbl. counter_total ''boundary_layer_lab_runs_total'' lbl (ap_metrics (ht_app s'))
     = counter_total ''boundary_layer_lab_runs_total'' lbl (ap_metrics (ht_app s))
       + (if lbl = runs_labels lab mode blocked then 1 else 0))"

lemma counted_once_counted:
  "ap_metrics (ht_app s) = ap_metrics (ht_app s0) \<Longrightarrow> counted_once lab mode (lr_blocked r) s0 (counted lab mode r s)"
  by (auto simp: counted_once_def counted_def lab_metrics_runs record_lab_run_def runs_labels_def Let_def)

definition silent :: "(http, 'a) eff \<Rightarrow> bool" where
  "silent m = (\<forall>c. keeps (\<lambda>s. ap_metrics (ht_app s) = c) m)"

lemma silentI: "(\<And>c. keeps (\<lambda>s. ap_metrics (ht_app s) = c) m) \<Longrightarrow> silent m"
  by (simp add: silent_def)

lemma silentD: "silent m \<Longrightarrow> m s = (r, s') \<Longrightarrow> ap_metrics (ht_app s') = ap_metrics (ht_app s)"
  by (auto simp: silent_def dest: keepsD)

lemma silent_on:
  "silent (ret x)" "silent (raise_exn e)" "silent (lift_res r)" "silent (on_db m)" "silent (on_kv k)" "silent (value_422 e)" "silent (runtime_503 e)"
  "silent c \<Longrightarrow> (\<And>e. silent (h e)) \<Longrightarrow> silent (catch_eff c h)"
  "silent c \<Longrightarrow> silent d \<Longrightarrow> silent (if b then c else d)"
  by (auto simp: silent_def intro!: keeps_rules keeps_elsewhere(3) [where I = "\<lambda>a. ap_metrics a = _"])

text \<open>What every handler answers with, from what the lab it runs returns.\<close>

definition lab_answer :: "string \<Rightarrow> string \<Rightarrow> lab_result \<Rightarrow> http \<Rightarrow> http \<Rightarrow> bool" where
  "lab_answer lab mode r s s' = (lr_lab r = lab \<and> lr_mode r = mode \<and> lr_internal r = [] \<and> counted_once lab mode (lr_blocked r) s s')"

lemma finish_answers:
  assumes "bind_eff m (finish_lab lab mode keys) s = (Inr r, s')" and "yields m (lab_ok lab mode keys)" and "silent m"
  shows "lab_answer lab mode r s s'"
proof -
  obtain r0 s0 where m: "m s = (Inr r0, s0)" and r: "r = strip_internal_keys r0 keys" "s' = counted lab mode r0 s0"
    using assms(1) by (auto simp: bind_eff_Inr_iff finish_lab_eq)
  have "lab_ok lab mode keys r0" by (rule yieldsD [OF assms(2) m])
  moreover have "counted_once lab mode (lr_blocked r0) s s'"
    unfolding r(2) by (intro counted_once_counted silentD [OF assms(3) m])
  ultimately show ?thesis
    by (auto simp: r(1) lab_answer_def lab_ok_def strip_internal_keys_def pop_all)
qed

text \<open>The laws of a handler, for the settings in force.\<close>

locale lab_handler =
  fixes run :: "settings \<Rightarrow> 'b \<Rightarrow> (http, lab_result) eff"
    and mode_of :: "'b \<Rightarrow> string"
    and lab :: string
  assumes refuses: "enforce_vulnerable_allowed (mode_of b) st = Inl e \<Longrightarrow> \<exists>e'. run st b s = (Inl e', s)"
    and answers: "run st b s = (Inr r, s') \<Longrightarrow> lab_answer lab (mode_of b) r s s'"
    and typed: "keeps (\<lambda>s. metrics_ok (ap_metrics (ht_app s))) (run st b)"
begin

lemma refused_403:
  assumes "enforce_vulnerable_allowed (mode_of b) st = Inl e"
    and "read env (rq_body rq) = Some b"
  shows "snd (post_lab env st read (run st) rq s) = snd (api_access env st rq s)"
    and "\<exists>e. fst (post_lab env st read (run st) rq s) = Inl e"
  using refuses [OF assms(1), of "snd (api_access env st rq s)"] assms(2)
  by (auto simp: post_lab_def bind_eff_def split: prod.splits sum.splits)

lemma post_answers:
  assumes "post_lab env st read (run st) rq s = (Inr resp, s')"
  obtains b r s1 where "api_access env st rq s = (Inr (), s1)" "read env (rq_body rq) = Some b"
    "run st b s1 = (Inr r, s')" "resp = respond (lab_response r)" "lab_answer lab (mode_of b) r s s'"
proof -
  obtain b r s1 where b: "api_access env st rq s = (Inr (), s1)" "read env (rq_body rq) = Some b"
    "run st b s1 = (Inr r, s')" "resp = respond (lab_response r)"
    using assms by (auto simp: post_lab_def bind_eff_Inr_iff ret_def raise_exn_def split: option.splits)
  have "counter_total ''boundary_layer_lab_runs_total'' lbl (ap_metrics (ht_app s1))
      = counter_total ''boundary_layer_lab_runs_total'' lbl (ap_metrics (ht_app s))" for lbl
    using keepsD [OF api_access_keeps [OF access_inert_runs] refl b(1)] .
  then have "lab_answer lab (mode_of b) r s s'"
    using answers [OF b(3)] by (simp add: lab_answer_def counted_once_def)
  with b show thesis by (rule that)
qed

lemma post_typed: "keeps (\<lambda>s. metrics_ok (ap_metrics (ht_app s))) (post_lab env st read (run st) rq)"
  unfolding post_lab_def [abs_def] by (intro keeps_rules api_access_keeps access_inert_typed typed)

end

lemma enforce_first:
  "enforce_vulnerable_allowed m st = Inl e \<Longrightarrow>
   \<exists>e'. bind_eff (resolve_lab_context st) (\<lambda>c. bind_eff (lift_res (enforce_vulnerable_allowed m st)) (f c)) s = (Inl e', s)"
  by (auto simp: bind_eff_def resolve_lab_context_def raise_exn_def split: sum.splits)

lemma finish_typed: "keeps (\<lambda>s. metrics_ok (ap_metrics (ht_app s))) (finish_lab lab mode keys r)"
  by (simp add: keeps_def finish_lab_eq counted_ok)

section \<open>The nine handlers\<close>

lemma silent_keeps: "silent m \<Longrightarrow> keeps (\<lambda>s. metrics_ok (ap_metrics (ht_app s))) m"
  unfolding keeps_def by (metis prod.collapse silentD)

lemma plain_lab_handler:
  assumes eq: "\<And>st b. run st b = bind_eff (resolve_lab_context st)
      (\<lambda>c. bind_eff (lift_res (enforce_vulnerable_allowed (mode_of b) st))
        (\<lambda>_. bind_eff (core st b c) (finish_lab lab (mode_of b) keys)))"
    and "\<And>st b c. yields (core st b c) (lab_ok lab (mode_of b) keys)"
    and "\<And>st b c. silent (core st b c)"
  shows "lab_handler run mode_of lab"
proof
  fix st :: settings and b s s' e r
  show "\<exists>e'. run st b s = (Inl e', s)" if "enforce_vulnerable_allowed (mode_of b) st = Inl e"
    unfolding eq using that by (rule enforce_first)
  show "lab_answer lab (mode_of b) r s s'" if "run st b s = (Inr r, s')"
  proof -
    from that obtain c where "bind_eff (core st b c) (finish_lab lab (mode_of b) keys) s = (Inr r, s')"
      unfolding eq bind_eff_Inr_iff [of "resolve_lab_context st"] bind_eff_Inr_iff [of "lift_res _"]
      by (auto simp: resolve_lab_context_def lift_res_def)
    then show ?thesis by (rule finish_answers) (rule assms)+
  qed
  show "keeps (\<lambda>s. metrics_ok (ap_metrics (ht_app s))) (run st b)"
    unfolding eq
    by (intro keeps_rules finish_typed keeps_elsewhere(4) [where I = "\<lambda>a. metrics_ok (ap_metrics a)"] silent_keeps assms)
qed

lemma named_lab_handler:
  assumes "dict_get (LAB_RUNNERS env) lab = Some runner"
    and "\<And>mode t. yields (runner mode t) (lab_ok lab mode RUN_LAB_INTERNAL_KEYS)"
    and "\<And>mode t. silent (runner mode t)"
  shows "lab_handler (\<lambda>st. run_named_lab env st lab) q_mode lab"
proof (rule plain_lab_handler)
  show "run_named_lab env st lab b = bind_eff (resolve_lab_context st)
      (\<lambda>c. bind_eff (lift_res (enforce_vulnerable_allowed (q_mode b) st))
        (\<lambda>_. bind_eff (catch_eff (runner (q_mode b) (Some (lc_tenant_id c)))
            (\<lambda>e. if is_type_error e then runner (q_mode b) None else runtime_503 e))
          (finish_lab lab (q_mode b) RUN_LAB_INTERNAL_KEYS)))" for st b
    by (simp add: run_named_lab_def run_lab_def [abs_def] assms(1))
qed (intro yields_rules silent_on assms)+

interpretation tool_router_h: lab_handler "\<lambda>st. run_named_lab env st ''tool-router''" q_mode "''tool-router''" for env
  by (rule named_lab_handler [where runner = "\<lambda>mode t. ret (run_tool_router_lab mode)"])
    (auto simp: LAB_RUNNERS_def dict_get_def intro: yields_rules tool_router_ok silent_on)

interpretation redis_h: lab_handler "\<lambda>st. run_named_lab env st ''redis''" q_mode "''redis''" for env
  by (rule named_lab_handler) (auto simp: LAB_RUNNERS_def dict_get_def intro: yields_rules redis_ok silent_on)

interpretation authz_h: lab_handler "\<lambda>st. run_named_lab env st ''authz''" q_mode "''authz''" for env
  by (rule named_lab_handler) (auto simp: LAB_RUNNERS_def dict_get_def intro: yields_rules authz_ok silent_on)

interpretation governance_h: lab_handler "\<lambda>st. run_named_lab env st ''governance''" q_mode "''governance''" for env
  by (rule named_lab_handler) (auto simp: LAB_RUNNERS_def dict_get_def intro: yields_rules governance_ok silent_on)

lemma run_file_upload_eq:
  "run_file_upload st b = bind_eff (resolve_lab_context st) (\<lambda>c. bind_eff (lift_res (enforce_vulnerable_allowed (q_mode b) st))
     (\<lambda>_. bind_eff (if q_file_type b \<notin> set ALLOWED_FILE_TYPES
         then raise_exn (HTTPException 422 (PStr (''file_type must be one of: '' @ join '', '' ALLOWED_FILE_TYPES)) [])
         else catch_eff (lift_res (run_file_upload_lab (q_mode b) (q_file_type b) (q_contains_hidden_instruction b)
           (q_contains_active_content b) (q_egress_attempted b))) value_422)
       (finish_lab ''file-upload'' (q_mode b) FILE_UPLOAD_INTERNAL_KEYS)))"
  unfolding run_file_upload_def if_distrib [of "\<lambda>m. bind_eff m _"] bind_eff_raise ..

interpretation file_upload_h: lab_handler run_file_upload q_mode "''file-upload''"
  by (rule plain_lab_handler [OF run_file_upload_eq]) (auto intro!: yields_rules silent_on dest: file_upload_ok)

interpretation write_storm_h: lab_handler "run_postgres_write_storm env" q_mode "''postgres-write-storm''" for env
  by (rule plain_lab_handler [OF run_postgres_write_storm_def]) (intro yields_rules silent_on write_storm_ok)+

interpretation circuit_breaker_h: lab_handler run_circuit_breaker q_mode "''circuit-breaker''"
  by (rule plain_lab_handler [OF run_circuit_breaker_def]) (auto intro!: yields_rules silent_on dest: circuit_breaker_ok)

interpretation sse_h: lab_handler run_sse_exhaustion q_mode "''sse-exhaustion''"
  by (rule plain_lab_handler [OF run_sse_exhaustion_def]) (auto intro!: yields_rules silent_on dest: sse_ok)

interpretation prompt_cache_h: lab_handler "run_prompt_cache_isolation env" q_mode "''prompt-cache-isolation''" for env
proof
  fix st :: settings and b :: prompt_cache_isolation_lab_request and s s' e r
  let ?core = "\<lambda>t. catch_eff (on_kv (run_prompt_cache_isolation_lab (ae_environ env) (ae_redis_host env) (ae_redis_port env)
      (q_mode b) t (q_tenant_b b) (q_prompt_prefix b) (is_production_saas st))) (\<lambda>e. catch_eff (value_422 e) runtime_503)"
  let ?fin = "finish_lab ''prompt-cache-isolation'' (q_mode b) PROMPT_CACHE_INTERNAL_KEYS"
  show "\<exists>e'. run_prompt_cache_isolation env st b s = (Inl e', s)" if "enforce_vulnerable_allowed (q_mode b) st = Inl e"
    using that by (simp add: run_prompt_cache_isolation_def raise_exn_def)
  show "lab_answer ''prompt-cache-isolation'' (q_mode b) r s s'" if "run_prompt_cache_isolation env st b s = (Inr r, s')"
  proof -
    from that obtain c :: lab_request_context and t s1 where t: "on_app (resolve_request_tenant (ae_denial_id env) st (Some (lc_auth_context c))
          (Some (q_tenant_a b))) s = (Inr t, s1)" and fin: "bind_eff (?core t) ?fin s1 = (Inr r, s')"
      unfolding run_prompt_cache_isolation_def bind_eff_Inr_iff [of "resolve_lab_context st"] bind_eff_Inr_iff [of "lift_res _"]
        bind_eff_Inr_iff [of "on_app _"]
      by (auto simp: resolve_lab_context_def lift_res_def)
    have "s1 = s" using t resolve_request_tenant_Inr(1) by (fastforce simp: on_app_def split: prod.splits)
    moreover have "lab_answer ''prompt-cache-isolation'' (q_mode b) r s1 s'"
      using fin by (rule finish_answers) (intro yields_rules silent_on prompt_cache_ok)+
    ultimately show ?thesis by simp
  qed
  show "keeps (\<lambda>s. metrics_ok (ap_metrics (ht_app s))) (run_prompt_cache_isolation env st b)"
    unfolding run_prompt_cache_isolation_def
    by (intro keeps_rules finish_typed keeps_elsewhere(3,4) [where I = "\<lambda>a. metrics_ok (ap_metrics a)"]
        resolve_tenant_keeps access_inert_typed)
qed

section \<open>The routes\<close>

lemma routes_lab:
  assumes "rq_method rq = ''POST''" and "dict_get (lab_routes env st) (rq_path rq) = Some h"
  shows "routes unmatched env st rq = handle_http h rq"
  using assms by (simp add: routes_def endpoint_def)

lemma handle_http_inside:
  assumes "handle_http h rq s = (Inr resp, s')" and "\<not> is_detail (rs_body resp)"
  shows "h rq s = (Inr resp, s')"
  using assms
  by (auto simp: handle_http_def catch_eff_def ret_def raise_exn_def is_detail_def split: prod.splits sum.splits exn.splits)

lemma handle_http_keeps: "(\<And>s. I s \<Longrightarrow> I (snd (h rq s))) \<Longrightarrow> I s \<Longrightarrow> I (snd (handle_http h rq s))"
  by (auto simp: handle_http_def catch_eff_def ret_def raise_exn_def split: prod.splits sum.splits exn.splits) (metis snd_conv)+

lemma lab_response_inject:
  "lab_response r = lab_response r' \<longleftrightarrow> lr_lab r = lr_lab r' \<and> lr_mode r = lr_mode r' \<and> lr_blocked r = lr_blocked r'
     \<and> lr_risk r = lr_risk r' \<and> lr_control r = lr_control r' \<and> map PStr (lr_events r) = map PStr (lr_events r')
     \<and> lr_summary r = lr_summary r'"
  by (auto simp: lab_response_def)

lemma lab_response_not_detail [simp]: "\<not> is_detail (lab_response r)"
  by (simp add: lab_response_def is_detail_def)

text \<open>The answers of a lab's route, for each of the nine.\<close>

definition lab_of_path :: "string \<Rightarrow> string option" where
  "lab_of_path path = dict_get (map (\<lambda>l. (''/labs/'' @ l @ ''/run'', l))
     [''tool-router'', ''redis'', ''authz'', ''file-upload'', ''governance'', ''postgres-write-storm'', ''circuit-breaker'',
      ''sse-exhaustion'', ''prompt-cache-isolation'']) path"

lemma lab_of_path_simps:
  "lab_of_path ''/labs/tool-router/run'' = Some ''tool-router''" "lab_of_path ''/labs/redis/run'' = Some ''redis''"
  "lab_of_path ''/labs/authz/run'' = Some ''authz''" "lab_of_path ''/labs/file-upload/run'' = Some ''file-upload''"
  "lab_of_path ''/labs/governance/run'' = Some ''governance''"
  "lab_of_path ''/labs/postgres-write-storm/run'' = Some ''postgres-write-storm''"
  "lab_of_path ''/labs/circuit-breaker/run'' = Some ''circuit-breaker''"
  "lab_of_path ''/labs/sse-exhaustion/run'' = Some ''sse-exhaustion''"
  "lab_of_path ''/labs/prompt-cache-isolation/run'' = Some ''prompt-cache-isolation''"
  by code_simp+

lemma lab_routes_cases:
  assumes "(path, h) \<in> set (lab_routes env st)"
  obtains (plain) lab where "lab \<in> {''tool-router'', ''redis'', ''authz'', ''governance''}" "lab_of_path path = Some lab"
      "h = post_lab env st read_lab_request (run_named_lab env st lab)"
  | (file_upload) "lab_of_path path = Some ''file-upload''" "h = post_lab env st read_file_upload (run_file_upload st)"
  | (write_storm) "lab_of_path path = Some ''postgres-write-storm''"
      "h = post_lab env st read_write_storm (run_postgres_write_storm env st)"
  | (circuit_breaker) "lab_of_path path = Some ''circuit-breaker''"
      "h = post_lab env st read_circuit_breaker (run_circuit_breaker st)"
  | (sse) "lab_of_path path = Some ''sse-exhaustion''" "h = post_lab env st read_sse_exhaustion (run_sse_exhaustion st)"
  | (prompt_cache) "lab_of_path path = Some ''prompt-cache-isolation''"
      "h = post_lab env st read_prompt_cache (run_prompt_cache_isolation env st)"
  using assms
  by (simp only: lab_routes_def set_simps insert_iff empty_iff prod.inject) (elim disjE conjE, simp_all add: lab_of_path_simps)

lemma read_modes:
  "read_lab_request env b = Some q1 \<Longrightarrow> read_mode env b = Some (q_mode q1)"
  "read_file_upload env b = Some q2 \<Longrightarrow> read_mode env b = Some (q_mode q2)"
  "read_write_storm env b = Some q3 \<Longrightarrow> read_mode env b = Some (q_mode q3)"
  "read_circuit_breaker env b = Some q4 \<Longrightarrow> read_mode env b = Some (q_mode q4)"
  "read_sse_exhaustion env b = Some q5 \<Longrightarrow> read_mode env b = Some (q_mode q5)"
  "read_prompt_cache env b = Some q6 \<Longrightarrow> read_mode env b = Some (q_mode q6)"
  by (auto simp: read_lab_request_def read_file_upload_def read_write_storm_def read_circuit_breaker_def
      read_sse_exhaustion_def read_prompt_cache_def split: option.splits)

lemma read_mode_ok: "read_mode env b = Some m \<Longrightarrow> mode_ok m"
  by (auto simp: read_mode_def body_field_def split: pyval.splits option.splits if_splits)

text \<open>What a lab's route answers with, when it answers with a result.\<close>

definition route_answer :: "'k api_env \<Rightarrow> settings \<Rightarrow> http_request \<Rightarrow> string \<Rightarrow> http \<Rightarrow> http_response \<Rightarrow> http \<Rightarrow> bool" where
  "route_answer env st rq lab s resp s' = (\<exists>r m s1. api_access env st rq s = (Inr (), s1)
     \<and> read_mode env (rq_body rq) = Some m \<and> enforce_vulnerable_allowed m st = Inr ()
     \<and> resp = respond (lab_response r) \<and> lab_answer lab m r s s')"

context lab_handler
begin

lemma route_answers:
  assumes "post_lab env st read (run st) rq s = (Inr resp, s')"
    and "\<And>q. read env (rq_body rq) = Some q \<Longrightarrow> read_mode env (rq_body rq) = Some (mode_of q)"
  shows "route_answer env st rq lab s resp s'"
proof -
  obtain q r s1 where q: "api_access env st rq s = (Inr (), s1)" "read env (rq_body rq) = Some q" "run st q s1 = (Inr r, s')"
    "resp = respond (lab_response r)" "lab_answer lab (mode_of q) r s s'"
    using assms(1) by (rule post_answers)
  have "enforce_vulnerable_allowed (mode_of q) st = Inr ()"
    using refuses [of q st _ s1] q(3) by (cases "enforce_vulnerable_allowed (mode_of q) st") auto
  then show ?thesis using q assms(2) by (auto simp: route_answer_def)
qed

end

lemma plain_handler:
  assumes "lab \<in> {''tool-router'', ''redis'', ''authz'', ''governance''}"
  shows "lab_handler (\<lambda>st. run_named_lab env st lab) q_mode lab"
proof -
  consider "lab = ''tool-router''" | "lab = ''redis''" | "lab = ''authz''" | "lab = ''governance''" using assms by auto
  then show ?thesis
    by cases (simp_all add: tool_router_h.lab_handler_axioms redis_h.lab_handler_axioms authz_h.lab_handler_axioms
        governance_h.lab_handler_axioms)
qed

lemma lab_route_answers:
  assumes "dict_get (lab_routes env st) path = Some h" and "h rq s = (Inr resp, s')" and "lab_of_path path = Some lab"
  shows "route_answer env st rq lab s resp s'"
  using assms(1) [unfolded dict_get_def, THEN map_of_SomeD]
proof (cases rule: lab_routes_cases)
  case (plain l)
  show ?thesis
    using lab_handler.route_answers [OF plain_handler [OF plain(1)], of env st read_lab_request] assms plain read_modes(1)
    by fastforce
next
  case file_upload
  then show ?thesis using file_upload_h.route_answers [of env st read_file_upload] assms read_modes(2) by fastforce
next
  case write_storm
  then show ?thesis using write_storm_h.route_answers [of env st read_write_storm] assms read_modes(3) by fastforce
next
  case circuit_breaker
  then show ?thesis using circuit_breaker_h.route_answers [of env st read_circuit_breaker] assms read_modes(4) by fastforce
next
  case sse
  then show ?thesis using sse_h.route_answers [of env st read_sse_exhaustion] assms read_modes(5) by fastforce
next
  case prompt_cache
  then show ?thesis using prompt_cache_h.route_answers [of env st read_prompt_cache] assms read_modes(6) by fastforce
qed

lemma lab_path_route:
  assumes "lab_of_path path = Some lab"
  obtains h where "dict_get (lab_routes env st) path = Some h"
proof -
  have "(path, lab) \<in> set (map (\<lambda>l. (''/labs/'' @ l @ ''/run'', l)) [''tool-router'', ''redis'', ''authz'', ''file-upload'',
      ''governance'', ''postgres-write-storm'', ''circuit-breaker'', ''sse-exhaustion'', ''prompt-cache-isolation''])"
    using assms unfolding lab_of_path_def dict_get_def by (rule map_of_SomeD)
  then have "path \<in> set (map fst (lab_routes env st))"
    unfolding lab_routes_def by (simp only: list.map set_simps insert_iff empty_iff prod.inject fst_conv) (elim disjE conjE, simp_all)
  then show thesis using that by (auto simp: dict_get_def dest!: weak_map_of_SomeI)
qed

section \<open>The application\<close>

text \<open>A lab result seen by a client came from the lab's route, run on the data the request found.\<close>

lemma api_lab_answer:
  assumes "rq_method rq = ''POST''" and "lab_of_path (rq_path rq) = Some lab"
    and "api unmatched client env st rq s = (Inr resp, s')" and "rs_body resp = lab_response r"
  obtains s1 resp1 where "same_data s1 s" "route_answer env st rq lab s1 resp1 s'" "rs_status resp1 = rs_status resp"
    "rs_body resp1 = lab_response r"
proof -
  obtain h where h: "dict_get (lab_routes env st) (rq_path rq) = Some h" by (rule lab_path_route [OF assms(2)])
  obtain r1 s1 where r1: "routes unmatched env st rq s1 = (Inr r1, s')" "rs_status r1 = rs_status resp"
      "rs_body r1 = rs_body resp" "same_data s1 s"
    by (rule serve_inside [OF assms(3) [unfolded api_def]]) (simp_all add: assms(4))
  have "h rq s1 = (Inr r1, s')"
    by (rule handle_http_inside [OF r1(1) [unfolded routes_lab [OF assms(1) h]]]) (simp add: r1(3) assms(4))
  from that [OF r1(4) lab_route_answers [OF h this assms(2)] r1(2)] show thesis
    using r1(3) assms(4) by simp
qed

lemma api_lab_facts:
  assumes "rq_method rq = ''POST''" and "lab_of_path (rq_path rq) = Some lab"
    and "api unmatched client env st rq s = (Inr resp, s')" and "rs_body resp = lab_response r"
  obtains s1 s2 where "same_data s1 s" "api_access env st rq s1 = (Inr (), s2)" "rs_status resp = 200" "lr_lab r = lab"
    "read_mode env (rq_body rq) = Some (lr_mode r)" "enforce_vulnerable_allowed (lr_mode r) st = Inr ()"
    "counted_once lab (lr_mode r) (lr_blocked r) s s'"
proof -
  obtain s1 resp1 where s1: "same_data s1 s" "route_answer env st rq lab s1 resp1 s'" "rs_status resp1 = rs_status resp"
    "rs_body resp1 = lab_response r"
    using assms by (rule api_lab_answer)
  then obtain r0 m s2 where r0: "api_access env st rq s1 = (Inr (), s2)" "read_mode env (rq_body rq) = Some m"
      "enforce_vulnerable_allowed m st = Inr ()" "resp1 = respond (lab_response r0)" "lab_answer lab m r0 s1 s'"
    by (auto simp: route_answer_def)
  have eq: "lr_lab r = lr_lab r0" "lr_mode r = lr_mode r0" "lr_blocked r = lr_blocked r0"
    using s1(4) r0(4) by (simp_all add: respond_def lab_response_inject)
  show thesis
    by (rule that [OF s1(1) r0(1)]) (use r0 s1 eq in \<open>auto simp: lab_answer_def respond_def counted_once_def same_data_def\<close>)
qed

text \<open>In \<open>production-saas\<close> whoever is given a lab result has passed the gate.\<close>

lemma api_lab_authorised:
  assumes "is_production_saas st" and "rq_method rq = ''POST''" and "lab_of_path (rq_path rq) = Some lab"
    and "api unmatched client env st rq s = (Inr resp, s')" and "rs_body resp = lab_response r"
  shows "\<exists>token ctx m. parse_authorization_header (header rq ''authorization'') = Some token
    \<and> build_auth_context_from_token (ae_jwt env) token st = Inr ctx
    \<and> m \<in> set (membership_rows (ac_tenant_id ctx) (ac_subject ctx) (ap_pg (ht_app s))) \<and> tm_status m = ''active''
    \<and> (has_role ctx ''lab_runner'' \<or> has_role ctx ''tenant_admin'' \<or> has_role ctx ''platform_admin'')"
proof -
  obtain s1 s2 where s1: "same_data s1 s" "api_access env st rq s1 = (Inr (), s2)"
    using assms(2-5) by (rule api_lab_facts)
  from s1(2) obtain a where "verify_api_access (ae_audit_id env) (ae_jwt env) (header rq ''authorization'')
      (header rq ''x-api-key'') st (ht_app s1) = (Inr (), a)"
    by (auto simp: api_access_def on_app_def split: prod.splits)
  from saas_granted [OF assms(1) this] obtain token ctx m where
    "parse_authorization_header (header rq ''authorization'') = Some token"
    "build_auth_context_from_token (ae_jwt env) token st = Inr ctx"
    "m \<in> set (membership_rows (ac_tenant_id ctx) (ac_subject ctx) (ap_pg (ht_app s1)))" "tm_status m = ''active''"
    "\<exists>r \<in> set [''lab_runner'', ''tenant_admin'', ''platform_admin'']. has_role ctx r"
    by metis
  with s1(1) show ?thesis by (auto simp: same_data_def)
qed

subsection \<open>Metrics stay typed\<close>

abbreviation typed :: "http \<Rightarrow> bool" where
  "typed s \<equiv> metrics_ok (ap_metrics (ht_app s))"

lemma typed_on_kv: "keeps typed (on_kv k)"
  by (rule keeps_elsewhere(3) [where I = "\<lambda>a. metrics_ok (ap_metrics a)"])

lemma evaluate_readiness_typed: "keeps typed (evaluate_readiness env)"
proof -
  have "keeps typed (check_postgres env)"
    using keepsD [OF keeps_elsewhere(2) [of metrics_ok]]
    by (auto simp: keeps_def check_postgres_def split: prod.splits sum.splits)
  moreover have "keeps typed (check_redis env)"
    using keepsD [OF typed_on_kv] by (auto simp: keeps_def check_redis_def split: prod.splits sum.splits)
  ultimately show ?thesis unfolding evaluate_readiness_def by (intro keeps_rules)
qed

lemma endpoint_typed:
  assumes "endpoint env st meth path = Some h"
  shows "keeps typed (h rq)"
proof -
  consider (health) "h = health st" | (ready) "h = ready env st" | (metrics) "h = metrics_endpoint env st"
    | (labs) "h = list_labs env st" | (lab) "(path, h) \<in> set (lab_routes env st)"
    using assms unfolding endpoint_def dict_get_def by (auto dest!: map_of_SomeD split: if_splits)
  then show ?thesis
  proof cases
    case lab
    then show ?thesis
      by (cases rule: lab_routes_cases)
        (auto intro: lab_handler.post_typed [OF plain_handler] file_upload_h.post_typed write_storm_h.post_typed
          circuit_breaker_h.post_typed sse_h.post_typed prompt_cache_h.post_typed)
  next
    case metrics
    have "keeps typed (\<lambda>s. (Inr (f s), s))" for f :: "http \<Rightarrow> http_response" by (simp add: keeps_def)
    then show ?thesis unfolding metrics metrics_endpoint_def metrics_access_def by (intro keeps_rules)
  qed (simp_all add: health_def ready_def list_labs_def metrics_access_def keeps_rules evaluate_readiness_typed
      api_access_keeps [OF access_inert_typed])
qed

lemma api_typed:
  assumes "keeps typed (unmatched rq)"
  shows "keeps typed (api unmatched client env st rq)"
proof -
  have "typed (snd (routes unmatched env st rq s))" if "typed s" for s
  proof (cases "endpoint env st (rq_method rq) (rq_path rq)")
    case None
    then show ?thesis using assms that by (simp add: routes_def keeps_def)
  next
    case (Some h)
    have "typed (snd (h rq s))" if "typed s" for s using endpoint_typed [OF Some] that by (simp add: keeps_def)
    then show ?thesis using Some that handle_http_keeps [where I = typed] by (simp add: routes_def)
  qed
  then show ?thesis unfolding keeps_def api_def
    by (intro allI impI serve_keeps [where I = typed]) (auto simp: same_data_def)
qed

subsection \<open>What a refused request leaves\<close>

definition lab_rows :: "pg \<Rightarrow> prompt_request list \<times> (child_table \<Rightarrow> child_row list) \<times> audit_row list \<times> storm_event list" where
  "lab_rows d = (prompt_requests d, children d, deletion_audit d, write_storm_events d)"

text \<open>What the labs store: the keys on Redis and the rows of their tables.\<close>

definition lab_data :: "http \<Rightarrow> kv \<times> prompt_request list \<times> (child_table \<Rightarrow> child_row list) \<times> audit_row list \<times> storm_event list" where
  "lab_data s = (ht_kv s, lab_rows (ap_pg (ht_app s)))"

lemma lab_rows_tables: "pg_tables d = pg_tables d' \<Longrightarrow> lab_rows d = lab_rows d'"
  by (cases d; cases d') (simp add: pg_tables_def lab_rows_def)

abbreviation rows_are :: "prompt_request list \<times> (child_table \<Rightarrow> child_row list) \<times> audit_row list \<times> storm_event list \<Rightarrow> app \<Rightarrow> bool" where
  "rows_are c a \<equiv> lab_rows (ap_pg a) = c"

lemma audit_insert_rows: "lab_rows (snd (insert_audit_event uuid action res t sub rt ri md d)) = lab_rows d"
  by (auto simp: insert_audit_event_def get_connection_def Let_def lab_rows_def insert_pk_def next_conn_def
      split: list.splits option.splits sum.splits prod.splits if_splits)

lemma rows_on_pg: "(\<And>d. lab_rows (snd (m d)) = lab_rows d) \<Longrightarrow> keeps (rows_are c) (on_pg m)"
  by (auto simp: keeps_def on_pg_def split: prod.splits) (metis snd_conv)

lemma rows_elsewhere: "keeps (rows_are c) (metric f)" "keeps (rows_are c) (attach_auth_context ctx)"
  by (simp_all add: keeps_def metric_def attach_auth_context_def)

lemma membership_rows_kept: "lab_rows (snd (require_active_membership t sub st d)) = lab_rows d"
  using require_active_membership_frame [of t sub st d] by (metis lab_rows_tables prod.collapse)

lemma audit_rows_kept: "keeps (rows_are c) (record_auth_audit_event uuid st action res t sub md)"
  unfolding record_auth_audit_event_def by (intro keeps_rules rows_elsewhere rows_on_pg audit_insert_rows)

lemma failure_rows_kept: "keeps (rows_are c) (on_auth_failure uuid st e)"
  by (cases e) (auto simp: on_auth_failure_def intro!: keeps_rules audit_rows_kept)

lemma access_rows_kept: "keeps (rows_are c) (verify_api_access uuid env authorization key st)"
  unfolding verify_api_access_def verify_production_saas_access_def authenticate_def
  by (intro keeps_rules rows_elsewhere rows_on_pg membership_rows_kept audit_rows_kept failure_rows_kept)

lemma access_lab_data: "lab_data (snd (api_access env st rq s)) = lab_data s"
  using access_rows_kept [of "lab_rows (ap_pg (ht_app s))" "ae_audit_id env" "ae_jwt env"]
  by (auto simp: api_access_def on_app_def lab_data_def keeps_def split: prod.splits) (metis snd_conv)

context lab_handler
begin

lemma route_refuses:
  assumes "read_mode env (rq_body rq) = Some m" and "enforce_vulnerable_allowed m st = Inl e"
    and "\<And>q. read env (rq_body rq) = Some q \<Longrightarrow> read_mode env (rq_body rq) = Some (mode_of q)"
  shows "lab_data (snd (post_lab env st read (run st) rq s)) = lab_data s"
proof (cases "read env (rq_body rq)")
  case None
  then have "snd (post_lab env st read (run st) rq s) = snd (api_access env st rq s)"
    by (auto simp: post_lab_def bind_eff_def raise_exn_def split: prod.splits sum.splits)
  then show ?thesis by (simp add: access_lab_data)
next
  case (Some q)
  then have "enforce_vulnerable_allowed (mode_of q) st = Inl e" using assms by auto
  from refused_403(1) [where read = read, OF this Some] show ?thesis by (simp add: access_lab_data)
qed

end

lemma lab_route_refuses:
  assumes "(path, h) \<in> set (lab_routes env st)" and "read_mode env (rq_body rq) = Some m"
    and "enforce_vulnerable_allowed m st = Inl e"
  shows "lab_data (snd (h rq s)) = lab_data s"
  using assms(1)
proof (cases rule: lab_routes_cases)
  case (plain lab)
  show ?thesis
    unfolding plain(3) by (rule lab_handler.route_refuses [OF plain_handler [OF plain(1)] assms(2,3)]) (rule read_modes(1))
next
  case file_upload
  show ?thesis unfolding file_upload(2) by (rule file_upload_h.route_refuses [OF assms(2,3)]) (rule read_modes(2))
next
  case write_storm
  show ?thesis unfolding write_storm(2) by (rule write_storm_h.route_refuses [OF assms(2,3)]) (rule read_modes(3))
next
  case circuit_breaker
  show ?thesis unfolding circuit_breaker(2) by (rule circuit_breaker_h.route_refuses [OF assms(2,3)]) (rule read_modes(4))
next
  case sse
  show ?thesis unfolding sse(2) by (rule sse_h.route_refuses [OF assms(2,3)]) (rule read_modes(5))
next
  case prompt_cache
  show ?thesis unfolding prompt_cache(2) by (rule prompt_cache_h.route_refuses [OF assms(2,3)]) (rule read_modes(6))
qed

lemma same_lab_data: "same_data s t \<Longrightarrow> lab_data s = lab_data t"
  by (simp add: same_data_def lab_data_def)

lemma api_refuses:
  assumes "rq_method rq = ''POST''" and "lab_of_path (rq_path rq) = Some lab"
    and "read_mode env (rq_body rq) = Some m" and "enforce_vulnerable_allowed m st = Inl e"
  shows "lab_data (snd (api unmatched client env st rq s)) = lab_data s"
proof -
  obtain h where h: "dict_get (lab_routes env st) (rq_path rq) = Some h" by (rule lab_path_route [OF assms(2)])
  then have mem: "(rq_path rq, h) \<in> set (lab_routes env st)" by (simp add: dict_get_def map_of_SomeD)
  have kept: "lab_data (snd (routes unmatched env st rq t)) = lab_data t" for t
    unfolding routes_lab [OF assms(1) h]
    by (rule handle_http_keeps [where I = "\<lambda>u. lab_data u = lab_data t", OF _ refl])
      (simp add: lab_route_refuses [OF mem assms(3,4)])
  show ?thesis
    unfolding api_def by (rule serve_keeps [where I = "\<lambda>u. lab_data u = lab_data s"]) (auto simp: kept dest: same_lab_data)
qed

end
