(* ===== verification/Api_Live.thy ===== *)
theory Api_Live
  imports Api_Laws
begin

text \<open>
  That the application answers: with no live backends and no access control, every well-formed lab request
  is run to the end and answered with its result.
\<close>

definition offline :: "'k api_env \<Rightarrow> bool" where
  "offline env = (\<not> postgres_live_enabled (ae_environ env) \<and> \<not> redis_live_enabled (ae_environ env))"

text \<open>What a body must satisfy beyond its model: an allowed file type, a second tenant and a prefix that are not blank.\<close>

definition lab_accepts :: "'k api_env \<Rightarrow> string \<Rightarrow> pyval \<Rightarrow> bool" where
  "lab_accepts env lab body =
     (if lab = ''file-upload'' then
        (case read_file_upload env body of Some q \<Rightarrow> q_file_type q \<in> set ALLOWED_FILE_TYPES | None \<Rightarrow> False)
      else if lab = ''postgres-write-storm'' then read_write_storm env body \<noteq> None
      else if lab = ''circuit-breaker'' then read_circuit_breaker env body \<noteq> None
      else if lab = ''sse-exhaustion'' then read_sse_exhaustion env body \<noteq> None
      else if lab = ''prompt-cache-isolation'' then
        (case read_prompt_cache env body of Some q \<Rightarrow> strip (q_tenant_b q) \<noteq> [] \<and> strip (q_prompt_prefix q) \<noteq> [] | None \<Rightarrow> False)
      else read_lab_request env body \<noteq> None)"

section \<open>The labs without a backend\<close>

definition returns :: "('s, 'a) eff \<Rightarrow> bool" where
  "returns m = (\<forall>s. \<exists>x s'. m s = (Inr x, s'))"

lemma returnsE:
  assumes "returns m"
  obtains x s' where "m s = (Inr x, s')"
  using assms unfolding returns_def by blast

lemma returns_rules:
  "returns (ret x)" "returns (lift_res (Inr x))"
  by (simp_all add: returns_def ret_def lift_res_def)

lemma returns_bind: "returns m \<Longrightarrow> (\<And>x. returns (f x)) \<Longrightarrow> returns (bind_eff m f)"
  unfolding returns_def bind_eff_Inr_iff by metis

lemma returns_catch: "returns m \<Longrightarrow> returns (catch_eff m h)"
  unfolding returns_def catch_eff_def by (metis (no_types, lifting) case_prod_conv sum.case(2))

lemma returns_on: "returns k \<Longrightarrow> returns (on_kv k)" "returns d \<Longrightarrow> returns (on_db d)"
  unfolding returns_def on_kv_def on_db_def on_app_def on_pg_def by (metis (no_types, lifting) case_prod_conv)+

lemma finish_returns: "returns (finish_lab lab mode keys r)"
  by (simp add: returns_def finish_lab_eq)

lemma redis_offline: "\<not> redis_live_enabled e \<Longrightarrow> returns (run_redis_lab fr secret e host port uuid mode t)"
proof -
  have p: "PDict (dict_set ''role'' (PStr ''admin'') ORIGINAL_SESSION)
      = PDict [(''user_id'', PStr ''user-42''), (''role'', PStr ''admin''), (''tenant_id'', PStr ''tenant-a'')]"
    by (simp add: ORIGINAL_SESSION_def)
  note rd = tampered_read [of fr "''user-42''" "''admin''" "''tenant-a''"]
  have v: "verify_session_hardened fr secret (encode_session_vulnerable
      (PDict [(''user_id'', PStr ''user-42''), (''role'', PStr ''admin''), (''tenant_id'', PStr ''tenant-a'')])) = Inr (None, False)"
    by (rule verify_unsigned [OF rd]) (simp add: dict_get_def)
  have "\<exists>r. run_redis_lab_fallback fr secret mode t = Inr r"
    unfolding run_redis_lab_fallback_def Let_def p
    by (simp add: decode_session_vulnerable_def rd v subscript_def dict_get_def)
  then show "\<not> redis_live_enabled e \<Longrightarrow> ?thesis" by (auto simp: run_redis_lab_def returns_def lift_res_def)
qed

lemma authz_returns: "\<exists>r. run_authz_lab mode = Inr r"
  by (cases "mode = ''vulnerable''")
    (simp_all add: run_authz_lab_def Let_def check_access_hardened_def broad_token_def dict_get_or_def str_in_def
      REQUIRED_SCOPE_def)

lemma data_labs_offline:
  assumes "\<not> postgres_live_enabled e"
  shows "returns (run_governance_lab e host port uuid mode t)"
    and "1 \<le> n \<and> n \<le> MAX_REQUESTED_WRITES \<Longrightarrow> returns (run_postgres_write_storm_lab e host port b d mode n t)"
  using assms by (auto simp: run_governance_lab_def run_postgres_write_storm_lab_def validate_requested_writes_def
      intro!: returns_rules)

lemma capacity_labs_return:
  "1 \<le> n \<and> n \<le> MAX_REQUESTED_WORK_UNITS \<Longrightarrow> \<exists>r. run_circuit_breaker_lab mode n = Inr r"
  "1 \<le> n \<and> n \<le> MAX_REQUESTED_STREAMS \<and> 1 \<le> d \<and> d \<le> MAX_STREAM_DURATION_SECONDS \<Longrightarrow> \<exists>r. run_sse_exhaustion_lab mode n d = Inr r"
  by (auto simp: run_circuit_breaker_lab_def validate_requested_work_units_def run_sse_exhaustion_lab_def
      validate_requested_streams_def validate_stream_duration_def)

lemma file_upload_returns: "f \<in> set ALLOWED_FILE_TYPES \<Longrightarrow> \<exists>r. run_file_upload_lab mode f h a e = Inr r"
  by (simp add: run_file_upload_lab_def validate_file_type_def Let_def)

lemma prompt_cache_offline:
  assumes "\<not> redis_live_enabled e" and "strip a \<noteq> []" "strip b \<noteq> []" "strip p \<noteq> []"
    and "length a \<le> MAX_TENANT_LEN" "length b \<le> MAX_TENANT_LEN" "length p \<le> MAX_PREFIX_LEN"
  shows "returns (run_prompt_cache_isolation_lab e host port mode a b p scoped)"
proof -
  have "validate_tenant a ''tenant_a'' = Inr ()" "validate_tenant b ''tenant_b'' = Inr ()" "validate_prompt_prefix p = Inr ()"
    using assms by (auto simp: validate_tenant_def validate_prompt_prefix_def)
  then show ?thesis using assms(1) by (simp add: run_prompt_cache_isolation_lab_def returns_rules)
qed

section \<open>The handlers\<close>

lemma fields_within:
  "read_write_storm env b = Some q3 \<Longrightarrow> 1 \<le> q_requested_writes q3 \<and> q_requested_writes q3 \<le> MAX_REQUESTED_WRITES"
  "read_circuit_breaker env b = Some q4 \<Longrightarrow> 1 \<le> q_requested_work_units q4 \<and> q_requested_work_units q4 \<le> MAX_REQUESTED_WORK_UNITS"
  "read_sse_exhaustion env b = Some q5 \<Longrightarrow> 1 \<le> q_requested_streams q5 \<and> q_requested_streams q5 \<le> MAX_REQUESTED_STREAMS
     \<and> 1 \<le> q_stream_duration_seconds q5 \<and> q_stream_duration_seconds q5 \<le> MAX_STREAM_DURATION_SECONDS"
  "read_prompt_cache env b = Some q6 \<Longrightarrow> length (q_tenant_a q6) \<le> MAX_TENANT_LEN \<and> length (q_tenant_b q6) \<le> MAX_TENANT_LEN
     \<and> length (q_prompt_prefix q6) \<le> MAX_PREFIX_LEN"
  by (auto simp: read_write_storm_def read_circuit_breaker_def read_sse_exhaustion_def read_prompt_cache_def body_field_def
      length_within_def DEFAULT_REQUESTED_WRITES_def MAX_REQUESTED_WRITES_def DEFAULT_REQUESTED_WORK_UNITS_def
      MAX_REQUESTED_WORK_UNITS_def DEFAULT_REQUESTED_STREAMS_def MAX_REQUESTED_STREAMS_def DEFAULT_STREAM_DURATION_SECONDS_def
      MAX_STREAM_DURATION_SECONDS_def DEFAULT_TENANT_A_def DEFAULT_TENANT_B_def DEFAULT_PROMPT_PREFIX_def MAX_TENANT_LEN_def
      MAX_PREFIX_LEN_def split: option.splits pyval.splits if_splits)

lemma context_returns: "\<not> is_production_saas st \<Longrightarrow> returns (resolve_lab_context st)"
  by (auto simp: returns_def resolve_lab_context_def resolve_lab_request_context_def Let_def)

lemmas handler_returns = returns_rules returns_bind returns_catch returns_on finish_returns

lemma resolve_tenant_local:
  assumes "\<not> is_production_saas st" and "strip (ac_tenant_id ctx) \<noteq> []" and "length (ac_tenant_id ctx) \<le> MAX_TENANT_LEN"
    and "length a \<le> MAX_TENANT_LEN"
  obtains t where "resolve_request_tenant uuid st (Some ctx) (Some a) s = (Inr t, s)" "strip t \<noteq> []" "length t \<le> MAX_TENANT_LEN"
proof -
  have "length (strip a) \<le> length a"
    using length_dropWhile_le by (metis (no_types) length_rev strip_def lstrip_def rstrip_def le_trans)
  then show thesis
    using that [of "strip a"] that [of "ac_tenant_id ctx"] assms
    by (cases "strip a = []") (simp_all add: resolve_request_tenant_def Let_def ret_def)
qed

text \<open>Every handler returns on an accepted body, without a backend and without identities.\<close>

lemma named_returns:
  assumes "offline env" and "\<not> is_production_saas st" and "enforce_vulnerable_allowed (q_mode b) st = Inr ()"
    and "lab \<in> {''tool-router'', ''redis'', ''authz'', ''governance''}"
  shows "returns (run_named_lab env st lab b)"
proof -
  obtain r where r: "run_authz_lab (q_mode b) = Inr r" using authz_returns by blast
  consider "lab = ''tool-router''" | "lab = ''redis''" | "lab = ''authz''" | "lab = ''governance''" using assms(4) by auto
  then show ?thesis
    using assms(1)
    by cases (simp_all add: run_named_lab_def run_lab_def [abs_def] assms(3) LAB_RUNNERS_def dict_get_def offline_def
        handler_returns context_returns [OF assms(2)] redis_offline data_labs_offline r)
qed

lemma handlers_return:
  assumes "offline env" and "\<not> is_production_saas st"
  shows "enforce_vulnerable_allowed (q_mode b2) st = Inr () \<Longrightarrow> q_file_type b2 \<in> set ALLOWED_FILE_TYPES \<Longrightarrow>
      returns (run_file_upload st b2)"
    and "enforce_vulnerable_allowed (q_mode b3) st = Inr () \<Longrightarrow> read_write_storm env x = Some b3 \<Longrightarrow>
      returns (run_postgres_write_storm env st b3)"
    and "enforce_vulnerable_allowed (q_mode b4) st = Inr () \<Longrightarrow> read_circuit_breaker env x = Some b4 \<Longrightarrow>
      returns (run_circuit_breaker st b4)"
    and "enforce_vulnerable_allowed (q_mode b5) st = Inr () \<Longrightarrow> read_sse_exhaustion env x = Some b5 \<Longrightarrow>
      returns (run_sse_exhaustion st b5)"
proof -
  note ctx = context_returns [OF assms(2)]
  show "returns (run_file_upload st b2)"
    if "enforce_vulnerable_allowed (q_mode b2) st = Inr ()" "q_file_type b2 \<in> set ALLOWED_FILE_TYPES"
    using that file_upload_returns [OF that(2)] by (auto simp: run_file_upload_def intro!: handler_returns ctx)
      (metis returns_rules(2))
  show "returns (run_postgres_write_storm env st b3)"
    if "enforce_vulnerable_allowed (q_mode b3) st = Inr ()" "read_write_storm env x = Some b3"
    using that assms(1) fields_within(1) [OF that(2)]
    by (auto simp: run_postgres_write_storm_def offline_def intro!: handler_returns ctx data_labs_offline)
  show "returns (run_circuit_breaker st b4)"
    if "enforce_vulnerable_allowed (q_mode b4) st = Inr ()" "read_circuit_breaker env x = Some b4"
    using that capacity_labs_return(1) [OF fields_within(2) [OF that(2)]]
    by (auto simp: run_circuit_breaker_def intro!: handler_returns ctx) (metis returns_rules(2))
  show "returns (run_sse_exhaustion st b5)"
    if "enforce_vulnerable_allowed (q_mode b5) st = Inr ()" "read_sse_exhaustion env x = Some b5"
    using that capacity_labs_return(2) [OF fields_within(3) [OF that(2)]]
    by (auto simp: run_sse_exhaustion_def intro!: handler_returns ctx) (metis returns_rules(2))
qed

lemma prompt_cache_returns:
  assumes "offline env" and "\<not> is_production_saas st" and "enforce_vulnerable_allowed (q_mode b) st = Inr ()"
    and "read_prompt_cache env x = Some b" and "strip (q_tenant_b b) \<noteq> []" "strip (q_prompt_prefix b) \<noteq> []"
    and "ap_auth_context (ht_app s) = Some local_lab_auth_context"
  shows "\<exists>r s'. run_prompt_cache_isolation env st b s = (Inr r, s')"
proof -
  obtain c where c: "resolve_lab_context st s = (Inr c, s)" "lc_auth_context c = local_lab_auth_context"
    using assms(2,7) by (cases "is_local_lab st") (simp_all add: resolve_lab_context_def resolve_lab_request_context_def Let_def)
  note lens = fields_within(4) [OF assms(4)]
  have "strip (ac_tenant_id local_lab_auth_context) \<noteq> []" "length (ac_tenant_id local_lab_auth_context) \<le> MAX_TENANT_LEN"
    by code_simp+
  then obtain t where t: "resolve_request_tenant (ae_denial_id env) st (Some local_lab_auth_context) (Some (q_tenant_a b)) (ht_app s)
      = (Inr t, ht_app s)" "strip t \<noteq> []" "length t \<le> MAX_TENANT_LEN"
    using resolve_tenant_local [OF assms(2)] lens by metis
  let ?fin = "bind_eff (catch_eff (on_kv (run_prompt_cache_isolation_lab (ae_environ env) (ae_redis_host env) (ae_redis_port env)
      (q_mode b) t (q_tenant_b b) (q_prompt_prefix b) (is_production_saas st))) (\<lambda>e. catch_eff (value_422 e) runtime_503))
      (finish_lab ''prompt-cache-isolation'' (q_mode b) PROMPT_CACHE_INTERNAL_KEYS)"
  have "returns ?fin"
    using assms(1,5,6) t(2,3) lens by (intro handler_returns prompt_cache_offline) (auto simp: offline_def)
  then have "\<exists>r s'. ?fin s = (Inr r, s')" unfolding returns_def by (rule spec)
  moreover have "run_prompt_cache_isolation env st b s = ?fin s"
    by (simp add: run_prompt_cache_isolation_def assms(3) bind_eff_def [of "resolve_lab_context st"] c
        bind_eff_def [of "on_app _"] on_app_def t(1))
  ultimately show ?thesis by (simp only:)
qed

section \<open>The application\<close>

lemma open_access:
  assumes "\<not> is_production_saas st" and "\<not> auth_enabled st"
  obtains s1 where "api_access env st rq s = (Inr (), s1)" "ap_auth_context (ht_app s1) = Some local_lab_auth_context"
  using assms by (simp add: api_access_def verify_api_access_def on_app_def attach_auth_context_def)

lemma post_serves:
  assumes "\<not> is_production_saas st" and "\<not> auth_enabled st" and "read env (rq_body rq) = Some b"
    and "\<And>s. ap_auth_context (ht_app s) = Some local_lab_auth_context \<Longrightarrow> \<exists>r s'. run b s = (Inr r, s')"
  shows "\<exists>resp s'. post_lab env st read run rq s = (Inr resp, s')"
proof -
  obtain s1 where s1: "api_access env st rq s = (Inr (), s1)" "ap_auth_context (ht_app s1) = Some local_lab_auth_context"
    by (rule open_access [OF assms(1,2)])
  from assms(4) [OF s1(2)] show ?thesis
    by (auto simp: post_lab_def bind_eff_def s1(1) assms(3) ret_def)
qed

lemma route_serves:
  assumes "offline env" and "\<not> is_production_saas st" and "\<not> auth_enabled st"
    and "lab_of_path path = Some lab" and "lab_accepts env lab (rq_body rq)"
    and "read_mode env (rq_body rq) = Some m" and "enforce_vulnerable_allowed m st = Inr ()"
    and "(path, h) \<in> set (lab_routes env st)"
  shows "\<exists>resp s'. h rq s = (Inr resp, s')"
  using assms(8)
proof (cases rule: lab_routes_cases)
  case (plain l)
  then obtain b where b: "read_lab_request env (rq_body rq) = Some b" using assms(4,5) by (auto simp: lab_accepts_def)
  show ?thesis unfolding plain(3)
    using named_returns [OF assms(1,2) _ plain(1), of b] read_modes(1) [OF b] assms(6,7)
    by (intro post_serves [where read = read_lab_request, OF assms(2,3) b]) (auto simp: returns_def)
next
  case file_upload
  then obtain b where b: "read_file_upload env (rq_body rq) = Some b" "q_file_type b \<in> set ALLOWED_FILE_TYPES"
    using assms(4,5) by (auto simp: lab_accepts_def split: option.splits)
  show ?thesis unfolding file_upload(2)
    using handlers_return(1) [OF assms(1,2) _ b(2)] read_modes(2) [OF b(1)] assms(6,7)
    by (intro post_serves [where read = read_file_upload, OF assms(2,3) b(1)]) (auto simp: returns_def)
next
  case write_storm
  then obtain b where b: "read_write_storm env (rq_body rq) = Some b" using assms(4,5) by (auto simp: lab_accepts_def)
  show ?thesis unfolding write_storm(2)
    using handlers_return(2) [OF assms(1,2) _ b] read_modes(3) [OF b] assms(6,7)
    by (intro post_serves [where read = read_write_storm, OF assms(2,3) b]) (auto simp: returns_def)
next
  case circuit_breaker
  then obtain b where b: "read_circuit_breaker env (rq_body rq) = Some b" using assms(4,5) by (auto simp: lab_accepts_def)
  show ?thesis unfolding circuit_breaker(2)
    using handlers_return(3) [OF assms(1,2) _ b] read_modes(4) [OF b] assms(6,7)
    by (intro post_serves [where read = read_circuit_breaker, OF assms(2,3) b]) (auto simp: returns_def)
next
  case sse
  then obtain b where b: "read_sse_exhaustion env (rq_body rq) = Some b" using assms(4,5) by (auto simp: lab_accepts_def)
  show ?thesis unfolding sse(2)
    using handlers_return(4) [OF assms(1,2) _ b] read_modes(5) [OF b] assms(6,7)
    by (intro post_serves [where read = read_sse_exhaustion, OF assms(2,3) b]) (auto simp: returns_def)
next
  case prompt_cache
  then obtain b where b: "read_prompt_cache env (rq_body rq) = Some b" "strip (q_tenant_b b) \<noteq> []" "strip (q_prompt_prefix b) \<noteq> []"
    using assms(4,5) by (auto simp: lab_accepts_def split: option.splits)
  show ?thesis unfolding prompt_cache(2)
    using prompt_cache_returns [OF assms(1,2) _ b] read_modes(6) [OF b(1)] assms(6,7)
    by (intro post_serves [where read = read_prompt_cache, OF assms(2,3) b(1)]) auto
qed

lemma lab_path_open:
  assumes "lab_of_path path = Some lab"
  shows "path \<notin> set PRODUCTION_LOCKDOWN_PATHS"
proof -
  have "list_all (\<lambda>p. lab_of_path p = None) PRODUCTION_LOCKDOWN_PATHS" by code_simp
  then show ?thesis using assms by (auto simp: list_all_iff)
qed

lemma stack_open:
  assumes "\<not> rate_limit_enabled st" and "\<not> is_production_saas st" and "lab_of_path (rq_path rq) = Some lab"
  shows "stack_stop client st rq s = None"
  using assms lab_path_open [OF assms(3)]
  by (simp add: stack_stop_def comp_stop_def no_stop_def rate_stop_def rate_exempt_def body_stop_def inner_stop_def lockdown_stop_def)

lemma api_serves:
  assumes "offline env" and "\<not> is_production_saas st" and "\<not> auth_enabled st" and "\<not> rate_limit_enabled st"
    and "rq_method rq = ''POST''" and "lab_of_path (rq_path rq) = Some lab" and "lab_accepts env lab (rq_body rq)"
    and "read_mode env (rq_body rq) = Some m" and "enforce_vulnerable_allowed m st = Inr ()"
  obtains resp r s' where "api unmatched client env st rq s = (Inr resp, s')" "rs_body resp = lab_response r" "rs_status resp = 200"
proof -
  obtain h where h: "dict_get (lab_routes env st) (rq_path rq) = Some h" by (rule lab_path_route [OF assms(6)])
  then have mem: "(rq_path rq, h) \<in> set (lab_routes env st)" by (simp add: dict_get_def map_of_SomeD)
  let ?s = "s\<lparr>ht_app := (ht_app s)\<lparr>ap_auth_context := None\<rparr>\<rparr>"
  obtain r1 s' where r1: "h rq (stack_pre client st rq ?s) = (Inr r1, s')"
    using route_serves [OF assms(1-3) assms(6-9) mem] by blast
  then have "routes unmatched env st rq (stack_pre client st rq ?s) = (Inr r1, s')"
    unfolding routes_lab [OF assms(5) h] by (simp add: handle_http_def catch_eff_def)
  then have "api unmatched client env st rq s = (Inr (stack_post client st rq ?s r1), s')"
    unfolding api_def serve_def by (intro stack.passed stack_open [OF assms(4,2,6)])
  moreover obtain r where "r1 = respond (lab_response r)"
    using lab_route_answers [OF h r1 assms(6)] by (auto simp: route_answer_def)
  ultimately show thesis using that by (simp add: stack.post_same respond_def)
qed

section \<open>Examples\<close>

definition example_api :: "string api_env" where
  "example_api = \<lparr>ae_jwt = example_env, ae_environ = [], ae_pg_host = ''localhost'', ae_pg_port = 5432,
     ae_redis_host = ''localhost'', ae_redis_port = 6379, ae_secret = ''s'', ae_float = id, ae_audit_id = ''a1'',
     ae_denial_id = ''d1'', ae_lab_id = ''0123'', ae_duration = PFloat ''0.001'',
     ae_int = (\<lambda>v. case v of PInt i \<Rightarrow> Some i | _ \<Rightarrow> None), ae_bool = (\<lambda>v. case v of PBool b \<Rightarrow> Some b | _ \<Rightarrow> None),
     ae_str = (\<lambda>v. case v of PStr t \<Rightarrow> Some t | _ \<Rightarrow> None), ae_errors = id, ae_render = (\<lambda>_. [])\<rparr>"

definition lab_post :: "string \<Rightarrow> string \<Rightarrow> http_request" where
  "lab_post path mode = example_request\<lparr>rq_path := path, rq_body := PDict [(''mode'', PStr mode)],
     rq_headers := [(''authorization'', ''Bearer good'')]\<rparr>"

definition no_route :: handler where
  "no_route rq = ret (json_response 404 ''Not Found'' [])"

abbreviation breaker_post :: http_request where
  "breaker_post \<equiv> lab_post ''/labs/circuit-breaker/run'' ''hardened''"

lemma breaker_post_facts:
  "rq_method breaker_post = ''POST''" "lab_of_path (rq_path breaker_post) = Some ''circuit-breaker''"
  by code_simp+

lemma result_seen:
  assumes "case fst (api unmatched client env st rq s) of Inr resp \<Rightarrow> rs_body resp = v | Inl _ \<Rightarrow> False"
  obtains resp s' where "api unmatched client env st rq s = (Inr resp, s')" "rs_body resp = v"
  using assms by (cases "api unmatched client env st rq s") (auto split: sum.splits)

end
