(* ===== verification/Api_Props.thy ===== *)
theory Api_Props
  imports Api_Live
begin

text \<open>
  The properties of the whole application: the middleware stack of \<open>apps/api/middleware.py\<close> around the routes of
  \<open>apps/api/main.py\<close>, with the access gate, the labs, the database, Redis and the metrics behind them.
\<close>

section \<open>Properties\<close>

text \<open>
  C2. Every lab result a client is given is counted exactly once: the counter of lab runs goes up by one
  for this lab, mode and outcome and by nothing for any other, the result names the lab of the path and
  the mode the body asked for, and that mode was allowed.
\<close>

theorem lab_run_counted:
  assumes "rq_method rq = ''POST''" and "lab_of_path (rq_path rq) = Some lab"
    and "api unmatched client env st rq s = (Inr resp, s')" and "rs_body resp = lab_response r"
  shows "rs_status resp = 200 \<and> lr_lab r = lab \<and> read_mode env (rq_body rq) = Some (lr_mode r) \<and> mode_ok (lr_mode r)
    \<and> enforce_vulnerable_allowed (lr_mode r) st = Inr () \<and> counted_once lab (lr_mode r) (lr_blocked r) s s'"
  using assms by (rule api_lab_facts) (auto dest: read_mode_ok)

theorem lab_run_counted_witness:
  "\<exists>resp s'. api no_route (Inr ()) example_api example_oidc breaker_post example_http = (Inr resp, s')
    \<and> counted_once ''circuit-breaker'' ''hardened'' True example_http s'"
proof -
  have "case fst (api no_route (Inr ()) example_api example_oidc breaker_post example_http) of
      Inr resp \<Rightarrow> rs_body resp = lab_response (breaker_hardened ''hardened'' 250) | Inl _ \<Rightarrow> False"
    by code_simp
  then obtain resp s' where ran: "api no_route (Inr ()) example_api example_oidc breaker_post example_http = (Inr resp, s')"
    "rs_body resp = lab_response (breaker_hardened ''hardened'' 250)"
    by (rule result_seen)
  have "lr_mode (breaker_hardened ''hardened'' 250) = ''hardened''" "lr_blocked (breaker_hardened ''hardened'' 250)"
    by code_simp+
  with lab_run_counted [OF breaker_post_facts ran] ran(1) show ?thesis by auto
qed

text \<open>
  C3. Under any settings the program builds for production, a request for a vulnerable run is never answered with a
  lab result and leaves what the labs store, on Redis and in their tables, as it was.
\<close>

theorem vulnerable_never_runs_in_production:
  assumes "build_settings br raw = Inr st" and "is_production st"
    and "rq_method rq = ''POST''" and "lab_of_path (rq_path rq) = Some lab"
    and "read_mode env (rq_body rq) = Some ''vulnerable''"
  shows "lab_data (snd (api unmatched client env st rq s)) = lab_data s
    \<and> (\<forall>resp s' r. api unmatched client env st rq s = (Inr resp, s') \<longrightarrow> rs_body resp \<noteq> lab_response r)"
proof -
  have no: "enforce_vulnerable_allowed ''vulnerable'' st
      = Inl (HTTPException 403 (PStr ''Vulnerable lab mode is disabled in this environment'') [])"
    using built_production_locked(1) [OF assms(1,2)] by (simp add: enforce_vulnerable_allowed_def)
  have "rs_body resp \<noteq> lab_response r" if "api unmatched client env st rq s = (Inr resp, s')" for resp s' r
  proof
    assume "rs_body resp = lab_response r"
    with assms(3,4) that obtain "read_mode env (rq_body rq) = Some (lr_mode r)" "enforce_vulnerable_allowed (lr_mode r) st = Inr ()"
      by (rule api_lab_facts)
    then show False using no assms(5) by simp
  qed
  then show ?thesis using api_refuses [OF assms(3-5) no] by blast
qed

theorem vulnerable_never_runs_in_production_witness:
  "lab_data (snd (api no_route (Inr ()) example_api example_saas_built (lab_post ''/labs/redis/run'' ''vulnerable'') example_http))
    = lab_data example_http"
proof -
  let ?rq = "lab_post ''/labs/redis/run'' ''vulnerable''"
  have "rq_method ?rq = ''POST''" "lab_of_path (rq_path ?rq) = Some ''redis''"
    "read_mode example_api (rq_body ?rq) = Some ''vulnerable''"
    by code_simp+
  from vulnerable_never_runs_in_production [OF example_saas_builds saas_is_production [OF example_saas_built_saas] this]
  show ?thesis by blast
qed

text \<open>A run of the application: requests served one after the other.\<close>

definition serve_all :: "handler \<Rightarrow> unit result \<Rightarrow> settings \<Rightarrow> ('k api_env \<times> http_request) list \<Rightarrow> http \<Rightarrow> http" where
  "serve_all unmatched client st rqs s = fold (\<lambda>(env, rq) s. snd (api unmatched client env st rq s)) rqs s"

text \<open>
  C4. The metrics stay typed: from start-up on, whatever requests come in and however they end, every call the
  program has made on the Prometheus client is one the client accepts: a declared metric, the method of
  its kind, its declared labels, and no negative increment.
\<close>

theorem metrics_stay_typed:
  assumes "ap_metrics (ht_app s) = initial_metrics"
    and "\<And>rq t. ap_metrics (ht_app (snd (unmatched rq t))) = ap_metrics (ht_app t)"
  shows "metrics_ok (ap_metrics (ht_app (serve_all unmatched client st rqs s)))"
proof -
  have step: "keeps typed (api unmatched client env st rq)" for env rq
    by (rule api_typed) (simp add: keeps_def assms(2))
  have "typed t \<Longrightarrow> typed (serve_all unmatched client st rqs t)" for t
    using step by (induction rqs arbitrary: t) (auto simp: serve_all_def keeps_def)
  then show ?thesis using assms(1) initial_metrics_ok by simp
qed

theorem metrics_stay_typed_witness:
  "metrics_ok (ap_metrics (ht_app (serve_all no_route (Inr ()) example_oidc
     [(example_api, breaker_post), (example_api, lab_post ''/labs/redis/run'' ''hardened'')] example_http)))"
proof (rule metrics_stay_typed)
  show "ap_metrics (ht_app example_http) = initial_metrics" by (simp add: example_http_def example_app_def)
qed (simp add: no_route_def ret_def)

text \<open>
  C5. The local lab always answers: with no live backend, no access control and no rate limit, every POST to a lab
  with a well-formed body in an allowed mode is answered 200 with that lab's result.
\<close>

theorem local_lab_serves:
  assumes "offline env" and "\<not> is_production_saas st" and "\<not> auth_enabled st" and "\<not> rate_limit_enabled st"
    and "rq_method rq = ''POST''" and "lab_of_path (rq_path rq) = Some lab" and "lab_accepts env lab (rq_body rq)"
    and "read_mode env (rq_body rq) = Some m" and "m = ''vulnerable'' \<longrightarrow> allow_vulnerable st"
  shows "\<exists>resp r s'. api unmatched client env st rq s = (Inr resp, s') \<and> rs_status resp = 200
    \<and> rs_body resp = lab_response r \<and> lr_lab r = lab \<and> lr_mode r = m"
proof -
  have "enforce_vulnerable_allowed m st = Inr ()" using assms(9) by (simp add: enforce_vulnerable_allowed_def)
  then obtain resp r s' where ran: "api unmatched client env st rq s = (Inr resp, s')" "rs_body resp = lab_response r"
      "rs_status resp = 200"
    by (rule api_serves [OF assms(1-8)])
  have "lr_lab r = lab \<and> lr_mode r = m"
    using assms(5,6) ran(1,2) by (rule api_lab_facts) (use assms(8) in simp)
  with ran show ?thesis by blast
qed

theorem local_lab_serves_witness:
  "\<exists>resp r s'. api no_route (Inr ()) example_api default_settings (lab_post ''/labs/redis/run'' ''vulnerable'') example_http = (Inr resp, s')
    \<and> rs_status resp = 200 \<and> rs_body resp = lab_response r \<and> lr_lab r = ''redis''"
proof -
  let ?rq = "lab_post ''/labs/redis/run'' ''vulnerable''"
  have "offline example_api" "\<not> is_production_saas default_settings" "\<not> auth_enabled default_settings"
    "\<not> rate_limit_enabled default_settings" "rq_method ?rq = ''POST''" "lab_of_path (rq_path ?rq) = Some ''redis''"
    "lab_accepts example_api ''redis'' (rq_body ?rq)" "read_mode example_api (rq_body ?rq) = Some ''vulnerable''"
    "''vulnerable'' = ''vulnerable'' \<longrightarrow> allow_vulnerable default_settings"
    by code_simp+
  from local_lab_serves [OF this] show ?thesis by blast
qed

section \<open>Readiness\<close>

definition pg_reachable :: "http \<Rightarrow> bool" where
  "pg_reachable s = list_all (\<lambda>f. f = None) (take 1 (pg_faults (ap_pg (ht_app s))))"

definition redis_reachable :: "(string \<times> string) list \<Rightarrow> http \<Rightarrow> bool" where
  "redis_reachable env s = (\<not> isl (redis_connect_kwargs env) \<and> list_all (\<lambda>f. f = None) (take 2 (kv_faults (ht_kv s))))"

lemma check_postgres_ok:
  "\<exists>d s'. check_postgres env s = (Inr (postgres_live_enabled env \<longrightarrow> pg_reachable s, d), s')
    \<and> ht_kv s' = ht_kv s"
  by (auto simp: check_postgres_def pg_reachable_def on_db_def on_app_def on_pg_def get_connection_def
      split: list.splits option.splits)

lemma pings:
  "\<not> isl (fst (bind_eff (get_redis_client env) (\<lambda>_. kv_ping) k))
    \<longleftrightarrow> \<not> isl (redis_connect_kwargs env) \<and> list_all (\<lambda>f. f = None) (take 2 (kv_faults k))"
  by (cases "redis_connect_kwargs env"; cases "kv_faults k"; cases "tl (kv_faults k)")
    (auto simp: get_redis_client_def bind_eff_def lift_res_def kv_ping_def kv_command_def raise_exn_def Let_def split: option.splits)

lemma check_redis_ok:
  "\<exists>d s'. check_redis env s = (Inr (redis_live_enabled env \<longrightarrow> redis_reachable env s, d), s')"
  using pings [of env "ht_kv s"]
  by (auto simp: check_redis_def redis_reachable_def on_kv_def split: prod.splits sum.splits)

lemma sanitized_payload:
  assumes "is_production st" and "map (\<lambda>(n, ok, d). (n, ok)) c' = map (\<lambda>(n, ok, d). (n, ok)) c"
  shows "ready_payload st b c' = ready_payload st b c"
proof -
  have "sanitize_checks st c = map (\<lambda>(n, ok). (n, ok, if ok then ''ok'' else ''unavailable'')) (map (\<lambda>(n, ok, d). (n, ok)) c)" for c
    using assms(1) by (auto simp: sanitize_checks_def)
  then have "sanitize_checks st c' = sanitize_checks st c" by (simp only: assms(2))
  then show ?thesis by (simp only: ready_payload_def)
qed

text \<open>
  Readiness tells the truth and, in production, nothing more: with a valid metrics credential the answer is 200
  exactly when every live backend can be reached and 503 otherwise, and the body of a production
  answer is the same for any two failures of the same backends, whatever the exceptions say.
\<close>

theorem readiness_reported:
  assumes "verify_metrics_access (header rq ''authorization'') (header rq ''x-metrics-token'') st = Inr ()"
  shows "\<exists>checks s'. handle_http (ready env st) rq s = (Inr \<lparr>rs_status = (if map (fst \<circ> snd) checks = [True, True] then 200 else 503),
      rs_headers = [], rs_body = (if map (fst \<circ> snd) checks = [True, True] then ready_payload st True checks
        else PDict [(''detail'', ready_payload st False checks)])\<rparr>, s')
    \<and> map (\<lambda>(n, ok, d). (n, ok)) checks
        = [(''postgres'', postgres_live_enabled (ae_environ env) \<longrightarrow> pg_reachable s),
           (''redis'', redis_live_enabled (ae_environ env) \<longrightarrow> redis_reachable (ae_environ env) s)]
    \<and> (is_production st \<longrightarrow> (\<forall>checks'. map (\<lambda>(n, ok, d). (n, ok)) checks' = map (\<lambda>(n, ok, d). (n, ok)) checks
         \<longrightarrow> (\<forall>b. ready_payload st b checks' = ready_payload st b checks)))"
proof -
  obtain d1 s1 where pg: "check_postgres (ae_environ env) s
      = (Inr (postgres_live_enabled (ae_environ env) \<longrightarrow> pg_reachable s, d1), s1)" "ht_kv s1 = ht_kv s"
    using check_postgres_ok by blast
  obtain d2 s2 where kv: "check_redis (ae_environ env) s1
      = (Inr (redis_live_enabled (ae_environ env) \<longrightarrow> redis_reachable (ae_environ env) s1, d2), s2)"
    using check_redis_ok by blast
  have same: "redis_reachable (ae_environ env) s1 = redis_reachable (ae_environ env) s" by (simp add: redis_reachable_def pg(2))
  let ?a = "postgres_live_enabled (ae_environ env) \<longrightarrow> pg_reachable s"
  let ?b = "redis_live_enabled (ae_environ env) \<longrightarrow> redis_reachable (ae_environ env) s"
  let ?c = "[(''postgres'', ?a, d1), (''redis'', ?b, d2)]"
  have ev: "evaluate_readiness (ae_environ env) s = (Inr (?a \<and> ?b, ?c), s2)"
    by (simp add: evaluate_readiness_def bind_eff_def pg kv ret_def same)
  have answer: "handle_http (ready env st) rq s = (Inr \<lparr>rs_status = (if ok then 200 else 503), rs_headers = [],
      rs_body = (if ok then ready_payload st True c else PDict [(''detail'', ready_payload st False c)])\<rparr>, s2)"
    if "evaluate_readiness (ae_environ env) s = (Inr (ok, c), s2)" for ok c
    by (cases ok) (simp_all add: handle_http_def catch_eff_def ready_def metrics_access_def assms bind_eff_def that
        raise_exn_def ret_def respond_def)
  show ?thesis
    using answer [OF ev] by (intro exI [of _ ?c] exI [of _ s2] conjI impI allI sanitized_payload) simp_all
qed

definition down_http :: http where
  "down_http = example_http\<lparr>ht_kv := \<lparr>kv_faults = [Some (OtherError ''redis://10.0.0.7 refused'')], kv_now = 0, kv_data = []\<rparr>\<rparr>"

theorem readiness_reported_witness:
  "verify_metrics_access None None default_settings = Inr ()
   \<and> (\<exists>resp s'. handle_http (ready (example_api\<lparr>ae_environ := [(''BOUNDARY_LAYER_REDIS_LIVE'', ''true'')]\<rparr>) default_settings)
        (example_request\<lparr>rq_headers := []\<rparr>) down_http = (Inr resp, s') \<and> rs_status resp = 503)"
proof -
  let ?rq = "example_request\<lparr>rq_headers := []\<rparr>" and ?env = "example_api\<lparr>ae_environ := [(''BOUNDARY_LAYER_REDIS_LIVE'', ''true'')]\<rparr>"
  have free: "verify_metrics_access None None default_settings = Inr ()" by code_simp
  have ok: "verify_metrics_access (header ?rq ''authorization'') (header ?rq ''x-metrics-token'') default_settings = Inr ()"
    by code_simp
  have down: "\<not> (redis_live_enabled (ae_environ ?env) \<longrightarrow> redis_reachable (ae_environ ?env) down_http)" by code_simp
  from readiness_reported [OF ok, of ?env down_http] obtain checks :: "(string \<times> bool \<times> string) list" and s' body where
    resp: "handle_http (ready ?env default_settings) ?rq down_http
      = (Inr \<lparr>rs_status = (if map (fst \<circ> snd) checks = [True, True] then 200 else 503), rs_headers = [], rs_body = body\<rparr>, s')"
    and c: "map (\<lambda>(n, ok, d). (n, ok)) checks = [(''postgres'', postgres_live_enabled (ae_environ ?env) \<longrightarrow> pg_reachable down_http),
      (''redis'', redis_live_enabled (ae_environ ?env) \<longrightarrow> redis_reachable (ae_environ ?env) down_http)]"
    by (elim exE conjE) (rule that, assumption+)
  have "map (fst \<circ> snd) checks = map snd (map (\<lambda>(n, ok, d). (n, ok)) checks)" by auto
  then have "map (fst \<circ> snd) checks \<noteq> [True, True]" unfolding c using down by simp
  with resp free show ?thesis by (simp only: if_False) (metis http_response.select_convs(1))
qed

end
