(* ===== verification/Settings_Env.thy ===== *)
theory Settings_Env
  imports Config
begin

text \<open>
  How \<open>Settings(...)\<close> of \<open>apps/api/config.py\<close> gets its raw fields: for each field the sources are asked for a value
  under its name and alias, a value found is converted to the field's type, a field without one has its
  default; then the validators run. The sources and the conversions are pydantic's and make up the record
  \<open>pydantic\<close>: the value the sources give a field (from the keyword arguments and the environment), the conversions
  of a value to a string, an integer and a boolean, the text of the error for fields that do not convert,
  and the text of the \<open>ValidationError\<close> that wraps the message of a validator.
\<close>

type_synonym environ = "(string \<times> string) list"

record pydantic =
  pd_value :: "environ \<Rightarrow> pydict \<Rightarrow> string \<Rightarrow> string \<Rightarrow> pyval option"
  pd_str :: "pyval \<Rightarrow> string option"
  pd_int :: "pyval \<Rightarrow> int option"
  pd_bool :: "pyval \<Rightarrow> bool option"
  pd_errors :: "environ \<Rightarrow> pydict \<Rightarrow> string"
  pd_text :: "string \<Rightarrow> string"

type_synonym setter = "pyval \<Rightarrow> settings \<Rightarrow> settings option"

definition as_str :: "pydantic \<Rightarrow> ((string \<Rightarrow> string) \<Rightarrow> settings \<Rightarrow> settings) \<Rightarrow> setter" where
  "as_str pd upd v s = map_option (\<lambda>x. upd (\<lambda>_. x) s) (pd_str pd v)"

definition as_int :: "pydantic \<Rightarrow> ((int \<Rightarrow> int) \<Rightarrow> settings \<Rightarrow> settings) \<Rightarrow> setter" where
  "as_int pd upd v s = map_option (\<lambda>x. upd (\<lambda>_. x) s) (pd_int pd v)"

definition as_bool :: "pydantic \<Rightarrow> ((bool \<Rightarrow> bool) \<Rightarrow> settings \<Rightarrow> settings) \<Rightarrow> setter" where
  "as_bool pd upd v s = map_option (\<lambda>x. upd (\<lambda>_. x) s) (pd_bool pd v)"

text \<open>Name, alias and type of the fields, in the order of the class.\<close>

definition settings_fields :: "pydantic \<Rightarrow> (string \<times> string \<times> setter) list" where
  "settings_fields pd =
     [(''boundary_layer_env'', ''BOUNDARY_LAYER_ENV'', as_str pd boundary_layer_env_update),
      (''boundary_layer_profile'', ''BOUNDARY_LAYER_PROFILE'', as_str pd boundary_layer_profile_update),
      (''app_version'', ''app_version'', as_str pd app_version_update),
      (''api_host'', ''API_HOST'', as_str pd api_host_update),
      (''api_port'', ''API_PORT'', as_int pd api_port_update),
      (''api_log_level'', ''API_LOG_LEVEL'', as_str pd api_log_level_update),
      (''auth_enabled'', ''BOUNDARY_LAYER_AUTH_ENABLED'', as_bool pd auth_enabled_update),
      (''api_key'', ''BOUNDARY_LAYER_API_KEY'', as_str pd api_key_update),
      (''metrics_token'', ''BOUNDARY_LAYER_METRICS_TOKEN'', as_str pd metrics_token_update),
      (''metrics_auth_required'', ''BOUNDARY_LAYER_METRICS_AUTH_REQUIRED'', as_bool pd metrics_auth_required_update),
      (''allow_vulnerable'', ''BOUNDARY_LAYER_ALLOW_VULNERABLE'', as_bool pd allow_vulnerable_update),
      (''rate_limit_enabled'', ''BOUNDARY_LAYER_RATE_LIMIT_ENABLED'', as_bool pd rate_limit_enabled_update),
      (''rate_limit_requests'', ''BOUNDARY_LAYER_RATE_LIMIT_REQUESTS'', as_int pd rate_limit_requests_update),
      (''rate_limit_window_seconds'', ''BOUNDARY_LAYER_RATE_LIMIT_WINDOW_SECONDS'', as_int pd rate_limit_window_seconds_update),
      (''rate_limit_backend'', ''BOUNDARY_LAYER_RATE_LIMIT_BACKEND'', as_str pd rate_limit_backend_update),
      (''postgres_password'', ''POSTGRES_PASSWORD'', as_str pd postgres_password_update),
      (''redis_password'', ''REDIS_PASSWORD'', as_str pd redis_password_update),
      (''session_hmac_secret'', ''SESSION_HMAC_SECRET'', as_str pd session_hmac_secret_update),
      (''forwarded_allow_ips'', ''BOUNDARY_LAYER_FORWARDED_ALLOW_IPS'', as_str pd forwarded_allow_ips_update),
      (''expose_openapi'', ''BOUNDARY_LAYER_EXPOSE_OPENAPI'', as_bool pd expose_openapi_update),
      (''cors_enabled'', ''BOUNDARY_LAYER_CORS_ENABLED'', as_bool pd cors_enabled_update),
      (''cors_origins'', ''BOUNDARY_LAYER_CORS_ORIGINS'', as_str pd cors_origins_update),
      (''log_json'', ''BOUNDARY_LAYER_LOG_JSON'', as_bool pd log_json_update),
      (''log_request_id'', ''BOUNDARY_LAYER_LOG_REQUEST_ID'', as_bool pd log_request_id_update),
      (''run_migrations'', ''BOUNDARY_LAYER_RUN_MIGRATIONS'', as_bool pd run_migrations_update),
      (''trusted_hosts'', ''BOUNDARY_LAYER_TRUSTED_HOSTS'', as_str pd trusted_hosts_update),
      (''trust_proxy_headers'', ''BOUNDARY_LAYER_TRUST_PROXY_HEADERS'', as_bool pd trust_proxy_headers_update),
      (''auth_provider'', ''BOUNDARY_LAYER_AUTH_PROVIDER'', as_str pd auth_provider_update),
      (''database_url'', ''DATABASE_URL'', as_str pd database_url_update),
      (''redis_url'', ''REDIS_URL'', as_str pd redis_url_update),
      (''secret_key'', ''BOUNDARY_LAYER_SECRET_KEY'', as_str pd secret_key_update),
      (''allowed_origins'', ''BOUNDARY_LAYER_ALLOWED_ORIGINS'', as_str pd allowed_origins_update),
      (''public_base_url'', ''BOUNDARY_LAYER_PUBLIC_BASE_URL'', as_str pd public_base_url_update),
      (''secure_cookies'', ''BOUNDARY_LAYER_SECURE_COOKIES'', as_bool pd secure_cookies_update),
      (''file_storage_backend'', ''BOUNDARY_LAYER_FILE_STORAGE_BACKEND'', as_str pd file_storage_backend_update),
      (''audit_log_enabled'', ''BOUNDARY_LAYER_AUDIT_LOG_ENABLED'', as_bool pd audit_log_enabled_update),
      (''oidc_issuer_url'', ''OIDC_ISSUER_URL'', as_str pd oidc_issuer_url_update),
      (''oidc_audience'', ''OIDC_AUDIENCE'', as_str pd oidc_audience_update),
      (''oidc_jwks_url'', ''OIDC_JWKS_URL'', as_str pd oidc_jwks_url_update),
      (''oidc_algorithms'', ''OIDC_ALGORITHMS'', as_str pd oidc_algorithms_update),
      (''oidc_required_claims'', ''OIDC_REQUIRED_CLAIMS'', as_str pd oidc_required_claims_update),
      (''oidc_tenant_claim'', ''OIDC_TENANT_CLAIM'', as_str pd oidc_tenant_claim_update),
      (''oidc_roles_claim'', ''OIDC_ROLES_CLAIM'', as_str pd oidc_roles_claim_update),
      (''oidc_subject_claim'', ''OIDC_SUBJECT_CLAIM'', as_str pd oidc_subject_claim_update),
      (''oidc_email_claim'', ''OIDC_EMAIL_CLAIM'', as_str pd oidc_email_claim_update),
      (''oidc_required_roles'', ''OIDC_REQUIRED_ROLES'', as_str pd oidc_required_roles_update),
      (''oidc_clock_skew_seconds'', ''OIDC_CLOCK_SKEW_SECONDS'', as_int pd oidc_clock_skew_seconds_update),
      (''db_pool_min_size'', ''DB_POOL_MIN_SIZE'', as_int pd db_pool_min_size_update),
      (''db_pool_max_size'', ''DB_POOL_MAX_SIZE'', as_int pd db_pool_max_size_update),
      (''db_connect_timeout_seconds'', ''DB_CONNECT_TIMEOUT_SECONDS'', as_int pd db_connect_timeout_seconds_update),
      (''db_ssl_mode'', ''DB_SSL_MODE'', as_str pd db_ssl_mode_update),
      (''redis_connect_timeout_seconds'', ''REDIS_CONNECT_TIMEOUT_SECONDS'', as_int pd redis_connect_timeout_seconds_update),
      (''redis_key_prefix'', ''REDIS_KEY_PREFIX'', as_str pd redis_key_prefix_update),
      (''object_storage_bucket'', ''OBJECT_STORAGE_BUCKET'', as_str pd object_storage_bucket_update),
      (''object_storage_region'', ''OBJECT_STORAGE_REGION'', as_str pd object_storage_region_update),
      (''object_storage_prefix'', ''OBJECT_STORAGE_PREFIX'', as_str pd object_storage_prefix_update),
      (''object_storage_kms_key_id'', ''OBJECT_STORAGE_KMS_KEY_ID'', as_str pd object_storage_kms_key_id_update),
      (''object_storage_presigned_url_ttl_seconds'', ''OBJECT_STORAGE_PRESIGNED_URL_TTL_SECONDS'', as_int pd object_storage_presigned_url_ttl_seconds_update),
      (''object_storage_endpoint'', ''OBJECT_STORAGE_ENDPOINT'', as_str pd object_storage_endpoint_update),
      (''secret_manager_provider'', ''SECRET_MANAGER_PROVIDER'', as_str pd secret_manager_provider_update),
      (''secret_manager_project_or_path'', ''SECRET_MANAGER_PROJECT_OR_PATH'', as_str pd secret_manager_project_or_path_update),
      (''secret_rotation_required'', ''SECRET_ROTATION_REQUIRED'', as_bool pd secret_rotation_required_update),
      (''secret_cache_ttl_seconds'', ''SECRET_CACHE_TTL_SECONDS'', as_int pd secret_cache_ttl_seconds_update),
      (''allow_env_secret_provider'', ''BOUNDARY_LAYER_ALLOW_ENV_SECRET_PROVIDER'', as_bool pd allow_env_secret_provider_update),
      (''audit_sink_provider'', ''AUDIT_SINK_PROVIDER'', as_str pd audit_sink_provider_update),
      (''audit_immutable_required'', ''AUDIT_IMMUTABLE_REQUIRED'', as_bool pd audit_immutable_required_update),
      (''audit_retention_days'', ''AUDIT_RETENTION_DAYS'', as_int pd audit_retention_days_update),
      (''audit_export_enabled'', ''AUDIT_EXPORT_ENABLED'', as_bool pd audit_export_enabled_update),
      (''waf_enabled'', ''WAF_ENABLED'', as_bool pd waf_enabled_update),
      (''tenant_rate_limit_required'', ''TENANT_RATE_LIMIT_REQUIRED'', as_bool pd tenant_rate_limit_required_update),
      (''abuse_alerting_enabled'', ''ABUSE_ALERTING_ENABLED'', as_bool pd abuse_alerting_enabled_update),
      (''max_request_body_bytes'', ''MAX_REQUEST_BODY_BYTES'', as_int pd max_request_body_bytes_update),
      (''max_file_upload_bytes'', ''MAX_FILE_UPLOAD_BYTES'', as_int pd max_file_upload_bytes_update),
      (''tenant_concurrency_limit'', ''TENANT_CONCURRENCY_LIMIT'', as_int pd tenant_concurrency_limit_update),
      (''tenant_rate_limit_per_minute'', ''TENANT_RATE_LIMIT_PER_MINUTE'', as_int pd tenant_rate_limit_per_minute_update),
      (''allow_local_managed_endpoints'', ''BOUNDARY_LAYER_ALLOW_LOCAL_MANAGED_ENDPOINTS'', as_bool pd allow_local_managed_endpoints_update)]"

fun load_fields ::
    "pydantic \<Rightarrow> environ \<Rightarrow> pydict \<Rightarrow> (string \<times> string \<times> setter) list \<Rightarrow> settings \<Rightarrow> settings option" where
  "load_fields pd env kwargs [] s = Some s"
| "load_fields pd env kwargs ((name, alias, put) # fs) s =
     (case pd_value pd env kwargs name alias of
        None \<Rightarrow> load_fields pd env kwargs fs s
      | Some v \<Rightarrow> (case put v s of
          None \<Rightarrow> None
        | Some t \<Rightarrow> load_fields pd env kwargs fs t))"

definition load_settings :: "pydantic \<Rightarrow> environ \<Rightarrow> pydict \<Rightarrow> settings result" where
  "load_settings pd env kwargs =
     (case load_fields pd env kwargs (settings_fields pd) default_settings of
        None \<Rightarrow> Inl (ValueError (pd_errors pd env kwargs))
      | Some s \<Rightarrow> Inr s)"

text \<open>\<open>Settings(_env_file=None, **kwargs)\<close>: the error of a validator comes wrapped in pydantic's text.\<close>

definition validation_error :: "pydantic \<Rightarrow> 'a result \<Rightarrow> 'a result" where
  "validation_error pd r = (case r of Inl (ValueError m) \<Rightarrow> Inl (ValueError (pd_text pd m)) | _ \<Rightarrow> r)"

definition new_settings :: "bracket_check \<Rightarrow> pydantic \<Rightarrow> environ \<Rightarrow> pydict \<Rightarrow> settings result" where
  "new_settings br pd env kwargs =
     bind_res (load_settings pd env kwargs) (\<lambda>raw. validation_error pd (build_settings br raw))"

section \<open>Fields\<close>

lemma validation_error_Inr [simp]: "validation_error pd r = Inr s \<longleftrightarrow> r = Inr s"
  by (auto simp: validation_error_def split: sum.splits exn.splits)

lemma new_settings_Inr:
  "new_settings br pd env kwargs = Inr s \<longleftrightarrow>
     (\<exists>raw. load_settings pd env kwargs = Inr raw \<and> build_settings br raw = Inr s)"
  by (simp add: new_settings_def bind_res_Inr_iff)

text \<open>A field that every entry of the table but its own leaves alone has the value of its own source.\<close>

definition touches_not :: "(settings \<Rightarrow> 'a) \<Rightarrow> setter \<Rightarrow> bool" where
  "touches_not get put = (\<forall>v s t. put v s = Some t \<longrightarrow> get t = get s)"

lemma load_fields_keep:
  assumes "load_fields pd env kwargs fs s = Some t" and "\<forall>(f, a, put) \<in> set fs. touches_not get put"
  shows "get t = get s"
  using assms by (induction fs arbitrary: s) (auto simp: touches_not_def split: option.splits)

lemma touches_not_as:
  "(\<And>x s. get (upd (\<lambda>_. x) s) = get s) \<Longrightarrow> touches_not get (as_str pd upd)"
  "(\<And>x s. get (upd' (\<lambda>_. x) s) = get s) \<Longrightarrow> touches_not get (as_int pd upd')"
  "(\<And>x s. get (upd'' (\<lambda>_. x) s) = get s) \<Longrightarrow> touches_not get (as_bool pd upd'')"
  by (auto simp: touches_not_def as_str_def as_int_def as_bool_def)

lemma drop_numeral_2: "drop 2 (x # y # zs) = zs"
  by (simp add: numeral_2_eq_2)

lemma loaded_env_profile:
  assumes "load_settings pd env kwargs = Inr s"
  shows "boundary_layer_env s = (case pd_value pd env kwargs ''boundary_layer_env'' ''BOUNDARY_LAYER_ENV'' of
      None \<Rightarrow> ''development'' | Some v \<Rightarrow> the (pd_str pd v))"
    and "boundary_layer_profile s = (case pd_value pd env kwargs ''boundary_layer_profile'' ''BOUNDARY_LAYER_PROFILE'' of
      None \<Rightarrow> ''local-lab'' | Some v \<Rightarrow> the (pd_str pd v))"
proof -
  have run: "load_fields pd env kwargs (settings_fields pd) default_settings = Some s"
    using assms by (auto simp: load_settings_def split: option.splits)
  define rest where "rest = drop 2 (settings_fields pd)"
  have table: "settings_fields pd = [(''boundary_layer_env'', ''BOUNDARY_LAYER_ENV'', as_str pd boundary_layer_env_update),
      (''boundary_layer_profile'', ''BOUNDARY_LAYER_PROFILE'', as_str pd boundary_layer_profile_update)] @ rest"
    by (simp add: settings_fields_def rest_def)
  have "list_all (\<lambda>(f, a, put). touches_not boundary_layer_env put) rest"
    "list_all (\<lambda>(f, a, put). touches_not boundary_layer_profile put) rest"
    unfolding rest_def settings_fields_def drop_numeral_2 list.pred_inject prod.case
    by (intro conjI TrueI touches_not_as; simp)+
  then have "\<forall>(f, a, put) \<in> set rest. touches_not boundary_layer_env put"
    "\<forall>(f, a, put) \<in> set rest. touches_not boundary_layer_profile put"
    by (simp_all only: list_all_iff)
  note keep = load_fields_keep [OF _ this(1)] load_fields_keep [OF _ this(2)]
  show "boundary_layer_env s = (case pd_value pd env kwargs ''boundary_layer_env'' ''BOUNDARY_LAYER_ENV'' of
      None \<Rightarrow> ''development'' | Some v \<Rightarrow> the (pd_str pd v))"
    using run unfolding table
    by (auto simp: as_str_def default_settings_def dest!: keep(1) split: option.splits)
  show "boundary_layer_profile s = (case pd_value pd env kwargs ''boundary_layer_profile'' ''BOUNDARY_LAYER_PROFILE'' of
      None \<Rightarrow> ''local-lab'' | Some v \<Rightarrow> the (pd_str pd v))"
    using run unfolding table
    by (auto simp: as_str_def default_settings_def dest!: keep(2) split: option.splits)
qed

end
