(* ===== verification/Config_Check.thy ===== *)
theory Config_Check
  imports Settings_Env
begin

text \<open>
  \<open>apps/api/config_check.py\<close> and \<open>apps/api/staging_check.py\<close>: the readiness checks that try to build the settings in
  an environment they set up for the purpose and take down again. The state is \<open>os.environ\<close>, the environment of the
  process, which they change and restore. Names with an equals sign or a NUL, which \<open>os.environ\<close> refuses, do not occur.
\<close>

definition READINESS_ENV_KEYS :: "string list" where
  "READINESS_ENV_KEYS =
     [''BOUNDARY_LAYER_PROFILE'', ''BOUNDARY_LAYER_ENV'', ''BOUNDARY_LAYER_AUTH_ENABLED'',
      ''BOUNDARY_LAYER_AUTH_PROVIDER'', ''BOUNDARY_LAYER_SECRET_KEY'', ''BOUNDARY_LAYER_ALLOWED_ORIGINS'',
      ''BOUNDARY_LAYER_PUBLIC_BASE_URL'', ''BOUNDARY_LAYER_SECURE_COOKIES'',
      ''BOUNDARY_LAYER_TRUST_PROXY_HEADERS'', ''BOUNDARY_LAYER_METRICS_TOKEN'',
      ''BOUNDARY_LAYER_FILE_STORAGE_BACKEND'', ''BOUNDARY_LAYER_AUDIT_LOG_ENABLED'',
      ''BOUNDARY_LAYER_API_KEY'', ''BOUNDARY_LAYER_ALLOW_LOCAL_MANAGED_ENDPOINTS'', ''OIDC_ISSUER_URL'',
      ''OIDC_AUDIENCE'', ''OIDC_JWKS_URL'', ''OIDC_ALGORITHMS'', ''OIDC_REQUIRED_CLAIMS'',
      ''OIDC_TENANT_CLAIM'', ''OIDC_ROLES_CLAIM'', ''OIDC_SUBJECT_CLAIM'', ''OIDC_EMAIL_CLAIM'',
      ''OIDC_REQUIRED_ROLES'', ''OIDC_CLOCK_SKEW_SECONDS'', ''DATABASE_URL'', ''REDIS_URL'',
      ''DB_POOL_MIN_SIZE'', ''DB_POOL_MAX_SIZE'', ''DB_CONNECT_TIMEOUT_SECONDS'', ''DB_SSL_MODE'',
      ''REDIS_CONNECT_TIMEOUT_SECONDS'', ''REDIS_KEY_PREFIX'', ''OBJECT_STORAGE_BUCKET'',
      ''OBJECT_STORAGE_REGION'', ''OBJECT_STORAGE_PREFIX'', ''OBJECT_STORAGE_KMS_KEY_ID'',
      ''OBJECT_STORAGE_PRESIGNED_URL_TTL_SECONDS'', ''SECRET_MANAGER_PROVIDER'',
      ''SECRET_MANAGER_PROJECT_OR_PATH'', ''SECRET_ROTATION_REQUIRED'', ''SECRET_CACHE_TTL_SECONDS'',
      ''OBJECT_STORAGE_ENDPOINT'', ''AUDIT_SINK_PROVIDER'', ''AUDIT_IMMUTABLE_REQUIRED'',
      ''AUDIT_RETENTION_DAYS'', ''AUDIT_EXPORT_ENABLED'', ''WAF_ENABLED'', ''TENANT_RATE_LIMIT_REQUIRED'',
      ''ABUSE_ALERTING_ENABLED'', ''MAX_REQUEST_BODY_BYTES'', ''MAX_FILE_UPLOAD_BYTES'',
      ''BOUNDARY_LAYER_ALLOW_ENV_SECRET_PROVIDER'', ''POSTGRES_PASSWORD'', ''REDIS_PASSWORD'',
      ''SESSION_HMAC_SECRET'']"

definition PRODUCTION_SAAS_PROFILE :: string where
  "PRODUCTION_SAAS_PROFILE = ''production-saas''"

record readiness_report =
  rp_profile :: string
  rp_ready :: bool
  rp_mocked :: bool
  rp_issues :: "string list"

definition newline :: string where "newline = [CHR 0x0A]"

definition MOCKED_LINE :: string where
  "MOCKED_LINE = ''Mode: mocked example values only (not a live deployment)''"

definition issue_lines :: "string list \<Rightarrow> string \<Rightarrow> string list" where
  "issue_lines issues fine = (if issues \<noteq> [] then ''Issues:'' # map (\<lambda>i. ''  - '' @ i) issues else [fine])"

definition readiness_format_text :: "readiness_report \<Rightarrow> string" where
  "readiness_format_text r = join newline (
     [''BoundaryLayer production SaaS readiness check'', ''Target profile: '' @ rp_profile r,
      ''Status: '' @ (if rp_ready r then ''READY'' else ''NOT READY'')]
     @ issue (rp_mocked r) MOCKED_LINE
     @ issue_lines (rp_issues r) ''All required production-saas settings are present.'')"

definition env_bool :: "string option \<Rightarrow> bool" where
  "env_bool value = (case value of None \<Rightarrow> False | Some v \<Rightarrow> lower (strip v) \<in> set [''1'', ''true'', ''yes'', ''on''])"

section \<open>Keyword arguments\<close>

text \<open>\<open>_settings_kwargs\<close>: entry by entry, each conversion to an integer can raise.\<close>

definition kw_text :: "environ \<Rightarrow> string \<Rightarrow> string \<Rightarrow> pyval result" where
  "kw_text merged key d = Inr (PStr (dict_get_or merged key d))"

definition kw_flag :: "environ \<Rightarrow> string \<Rightarrow> pyval result" where
  "kw_flag merged key = Inr (PBool (env_bool (dict_get merged key)))"

definition kw_int :: "environ \<Rightarrow> string \<Rightarrow> string \<Rightarrow> pyval result" where
  "kw_int merged key d = bind_res (py_int (dict_get_or merged key d)) (\<lambda>i. Inr (PInt i))"

fun collect_kwargs :: "(string \<times> pyval result) list \<Rightarrow> pydict result" where
  "collect_kwargs [] = Inr []"
| "collect_kwargs ((name, r) # rest) =
     bind_res r (\<lambda>v. bind_res (collect_kwargs rest) (\<lambda>d. Inr ((name, v) # d)))"

definition settings_kwargs :: "environ \<Rightarrow> pydict result" where
  "settings_kwargs merged = collect_kwargs
     [(''boundary_layer_profile'', Inr (PStr PRODUCTION_SAAS_PROFILE)),
      (''boundary_layer_env'', kw_text merged ''BOUNDARY_LAYER_ENV'' ''production''),
      (''auth_enabled'', Inr (PBool (env_bool (Some (dict_get_or merged ''BOUNDARY_LAYER_AUTH_ENABLED'' ''true''))))),
      (''auth_provider'', kw_text merged ''BOUNDARY_LAYER_AUTH_PROVIDER'' []),
      (''database_url'', kw_text merged ''DATABASE_URL'' []),
      (''redis_url'', kw_text merged ''REDIS_URL'' []),
      (''secret_key'', kw_text merged ''BOUNDARY_LAYER_SECRET_KEY'' []),
      (''allowed_origins'', kw_text merged ''BOUNDARY_LAYER_ALLOWED_ORIGINS'' []),
      (''public_base_url'', kw_text merged ''BOUNDARY_LAYER_PUBLIC_BASE_URL'' []),
      (''secure_cookies'', kw_flag merged ''BOUNDARY_LAYER_SECURE_COOKIES''),
      (''trust_proxy_headers'', kw_flag merged ''BOUNDARY_LAYER_TRUST_PROXY_HEADERS''),
      (''metrics_token'', kw_text merged ''BOUNDARY_LAYER_METRICS_TOKEN'' []),
      (''metrics_auth_required'', Inr (PBool True)),
      (''file_storage_backend'', kw_text merged ''BOUNDARY_LAYER_FILE_STORAGE_BACKEND'' []),
      (''audit_log_enabled'', kw_flag merged ''BOUNDARY_LAYER_AUDIT_LOG_ENABLED''),
      (''oidc_issuer_url'', kw_text merged ''OIDC_ISSUER_URL'' []),
      (''oidc_audience'', kw_text merged ''OIDC_AUDIENCE'' []),
      (''oidc_jwks_url'', kw_text merged ''OIDC_JWKS_URL'' []),
      (''oidc_algorithms'', kw_text merged ''OIDC_ALGORITHMS'' ''RS256''),
      (''oidc_required_claims'', kw_text merged ''OIDC_REQUIRED_CLAIMS'' []),
      (''oidc_tenant_claim'', kw_text merged ''OIDC_TENANT_CLAIM'' ''https://boundarylayer.dev/tenant_id''),
      (''oidc_roles_claim'', kw_text merged ''OIDC_ROLES_CLAIM'' ''https://boundarylayer.dev/roles''),
      (''oidc_subject_claim'', kw_text merged ''OIDC_SUBJECT_CLAIM'' ''sub''),
      (''oidc_email_claim'', kw_text merged ''OIDC_EMAIL_CLAIM'' ''email''),
      (''oidc_required_roles'', kw_text merged ''OIDC_REQUIRED_ROLES'' []),
      (''oidc_clock_skew_seconds'', kw_int merged ''OIDC_CLOCK_SKEW_SECONDS'' ''60''),
      (''api_key'', kw_text merged ''BOUNDARY_LAYER_API_KEY'' []),
      (''postgres_password'', kw_text merged ''POSTGRES_PASSWORD'' []),
      (''redis_password'', kw_text merged ''REDIS_PASSWORD'' []),
      (''session_hmac_secret'', kw_text merged ''SESSION_HMAC_SECRET'' []),
      (''db_pool_min_size'', kw_int merged ''DB_POOL_MIN_SIZE'' ''1''),
      (''db_pool_max_size'', kw_int merged ''DB_POOL_MAX_SIZE'' ''10''),
      (''db_connect_timeout_seconds'', kw_int merged ''DB_CONNECT_TIMEOUT_SECONDS'' ''5''),
      (''db_ssl_mode'', kw_text merged ''DB_SSL_MODE'' []),
      (''redis_connect_timeout_seconds'', kw_int merged ''REDIS_CONNECT_TIMEOUT_SECONDS'' ''3''),
      (''redis_key_prefix'', kw_text merged ''REDIS_KEY_PREFIX'' []),
      (''object_storage_bucket'', kw_text merged ''OBJECT_STORAGE_BUCKET'' []),
      (''object_storage_region'', kw_text merged ''OBJECT_STORAGE_REGION'' []),
      (''object_storage_prefix'', kw_text merged ''OBJECT_STORAGE_PREFIX'' []),
      (''object_storage_kms_key_id'', kw_text merged ''OBJECT_STORAGE_KMS_KEY_ID'' []),
      (''object_storage_presigned_url_ttl_seconds'', kw_int merged ''OBJECT_STORAGE_PRESIGNED_URL_TTL_SECONDS'' ''900''),
      (''secret_manager_provider'', kw_text merged ''SECRET_MANAGER_PROVIDER'' []),
      (''secret_manager_project_or_path'', kw_text merged ''SECRET_MANAGER_PROJECT_OR_PATH'' []),
      (''secret_rotation_required'', Inr (PBool (env_bool (Some (dict_get_or merged ''SECRET_ROTATION_REQUIRED'' ''false''))))),
      (''secret_cache_ttl_seconds'', kw_int merged ''SECRET_CACHE_TTL_SECONDS'' ''0''),
      (''allow_env_secret_provider'', kw_flag merged ''BOUNDARY_LAYER_ALLOW_ENV_SECRET_PROVIDER''),
      (''object_storage_endpoint'', kw_text merged ''OBJECT_STORAGE_ENDPOINT'' []),
      (''audit_sink_provider'', kw_text merged ''AUDIT_SINK_PROVIDER'' ''postgres''),
      (''audit_immutable_required'', kw_flag merged ''AUDIT_IMMUTABLE_REQUIRED''),
      (''audit_retention_days'', kw_int merged ''AUDIT_RETENTION_DAYS'' ''365''),
      (''audit_export_enabled'', kw_flag merged ''AUDIT_EXPORT_ENABLED''),
      (''waf_enabled'', kw_flag merged ''WAF_ENABLED''),
      (''tenant_rate_limit_required'', kw_flag merged ''TENANT_RATE_LIMIT_REQUIRED''),
      (''abuse_alerting_enabled'', kw_flag merged ''ABUSE_ALERTING_ENABLED''),
      (''max_request_body_bytes'', kw_int merged ''MAX_REQUEST_BODY_BYTES'' ''0''),
      (''max_file_upload_bytes'', kw_int merged ''MAX_FILE_UPLOAD_BYTES'' ''0''),
      (''tenant_concurrency_limit'', kw_int merged ''TENANT_CONCURRENCY_LIMIT'' ''0''),
      (''tenant_rate_limit_per_minute'', kw_int merged ''TENANT_RATE_LIMIT_PER_MINUTE'' ''0''),
      (''allow_local_managed_endpoints'', kw_flag merged ''BOUNDARY_LAYER_ALLOW_LOCAL_MANAGED_ENDPOINTS'')]"

section \<open>The isolated environment\<close>

definition clear_keys :: "string list \<Rightarrow> environ \<Rightarrow> environ" where
  "clear_keys keys e = fold dict_pop keys e"

definition update_env :: "environ \<Rightarrow> environ \<Rightarrow> environ" where
  "update_env new e = fold (\<lambda>(k, v). dict_set k v) new e"

definition backup_env :: "environ \<Rightarrow> (string \<times> string option) list" where
  "backup_env e = map (\<lambda>k. (k, dict_get e k)) READINESS_ENV_KEYS"

definition restore_env :: "(string \<times> string option) list \<Rightarrow> environ \<Rightarrow> environ" where
  "restore_env backup e = fold (\<lambda>(k, v). case v of Some t \<Rightarrow> dict_set k t | None \<Rightarrow> (\<lambda>e. e)) backup e"

definition isolated_env :: "environ \<Rightarrow> (environ, 'a) eff \<Rightarrow> (environ, 'a) eff" where
  "isolated_env merged body s =
     (case body (update_env merged (clear_keys READINESS_ENV_KEYS s)) of
        (r, s') \<Rightarrow> (r, restore_env (backup_env s) (clear_keys READINESS_ENV_KEYS s')))"

definition settings_here :: "bracket_check \<Rightarrow> pydantic \<Rightarrow> pydict \<Rightarrow> (environ, settings) eff" where
  "settings_here br pd kwargs s = (new_settings br pd s kwargs, s)"

definition settings_from_merged :: "bracket_check \<Rightarrow> pydantic \<Rightarrow> environ \<Rightarrow> (environ, settings) eff" where
  "settings_from_merged br pd merged =
     isolated_env (dict_set ''BOUNDARY_LAYER_PROFILE'' PRODUCTION_SAAS_PROFILE merged) (settings_here br pd [])"

text \<open>\<open>except ValueError\<close> splits the text at semicolons, any other exception is one issue.\<close>

definition issues_of :: "exn \<Rightarrow> string list" where
  "issues_of e = (case e of
     ValueError m \<Rightarrow> filter (\<lambda>p. p \<noteq> []) (map strip (split_chr CHR '';'' m))
   | _ \<Rightarrow> [exn_text e])"

definition evaluate_production_saas_readiness ::
    "bracket_check \<Rightarrow> pydantic \<Rightarrow> environ option \<Rightarrow> bool \<Rightarrow> (environ, readiness_report) eff" where
  "evaluate_production_saas_readiness br pd env mocked s =
     (let merged = dict_set ''BOUNDARY_LAYER_PROFILE'' PRODUCTION_SAAS_PROFILE (case env of None \<Rightarrow> s | Some e \<Rightarrow> e);
          report = (\<lambda>ready issues. \<lparr>rp_profile = PRODUCTION_SAAS_PROFILE, rp_ready = ready, rp_mocked = mocked,
            rp_issues = issues\<rparr>) in
      case settings_from_merged br pd merged s of
        (Inl e, s') \<Rightarrow> (Inr (report False (issues_of e)), s')
      | (Inr _, s') \<Rightarrow> (Inr (report True []), s'))"

text \<open>\<open>main\<close>: what it prints and the exit status.\<close>

definition config_check_main :: "bracket_check \<Rightarrow> pydantic \<Rightarrow> (environ, string \<times> int) eff" where
  "config_check_main br pd =
     bind_eff (evaluate_production_saas_readiness br pd None False)
       (\<lambda>report. ret (readiness_format_text report, if rp_ready report then 0 else 1))"

section \<open>Staging\<close>

record staging_report =
  sr_profile :: string
  sr_environment :: string
  sr_ready :: bool
  sr_mocked :: bool
  sr_issues :: "string list"

definition staging_format_text :: "staging_report \<Rightarrow> string" where
  "staging_format_text r = join newline (
     [''BoundaryLayer production SaaS staging readiness check'', ''Target profile: '' @ sr_profile r,
      ''Target environment: '' @ sr_environment r, ''Status: '' @ (if sr_ready r then ''READY'' else ''NOT READY'')]
     @ issue (sr_mocked r) MOCKED_LINE
     @ issue_lines (sr_issues r) ''All required staging settings are structurally valid.'')"

definition staging_merged :: "environ \<Rightarrow> environ" where
  "staging_merged env =
     (let merged = dict_set ''BOUNDARY_LAYER_PROFILE'' PRODUCTION_SAAS_PROFILE env in
      dict_set ''BOUNDARY_LAYER_ENV'' (dict_get_or merged ''BOUNDARY_LAYER_ENV'' ''staging'') merged)"

definition staging_settings_from_merged :: "bracket_check \<Rightarrow> pydantic \<Rightarrow> environ \<Rightarrow> (environ, settings) eff" where
  "staging_settings_from_merged br pd merged = isolated_env (staging_merged merged) (settings_here br pd [])"

definition evaluate_staging_readiness ::
    "bracket_check \<Rightarrow> pydantic \<Rightarrow> environ option \<Rightarrow> bool \<Rightarrow> (environ, staging_report) eff" where
  "evaluate_staging_readiness br pd env mocked s =
     (let merged = staging_merged (case env of None \<Rightarrow> [(''BOUNDARY_LAYER_ENV'', ''staging'')] | Some e \<Rightarrow> e);
          report = (\<lambda>ready issues. \<lparr>sr_profile = PRODUCTION_SAAS_PROFILE,
            sr_environment = dict_get_or merged ''BOUNDARY_LAYER_ENV'' [], sr_ready = ready, sr_mocked = mocked,
            sr_issues = issues\<rparr>) in
      case staging_settings_from_merged br pd merged s of
        (Inl e, s') \<Rightarrow> (Inr (report False (issues_of e)), s')
      | (Inr _, s') \<Rightarrow> (Inr (report True []), s'))"

definition staging_check_main :: "bracket_check \<Rightarrow> pydantic \<Rightarrow> (environ, string \<times> int) eff" where
  "staging_check_main br pd =
     bind_eff (evaluate_staging_readiness br pd None False)
       (\<lambda>report. ret (staging_format_text report, if sr_ready report then 0 else 1))"

section \<open>Lemmas on environments\<close>

lemma clear_keys_filter: "clear_keys keys e = filter (\<lambda>(k, v). k \<notin> set keys) e"
proof (induction keys arbitrary: e)
  case (Cons key keys)
  have "clear_keys (key # keys) e = clear_keys keys (dict_pop key e)" by (simp add: clear_keys_def)
  then show ?case by (simp add: Cons.IH dict_pop_def) (rule arg_cong [where f = "\<lambda>p. filter p e"], auto)
qed (simp add: clear_keys_def)

lemma map_of_clear: "map_of (clear_keys keys e) k = (if k \<in> set keys then None else map_of e k)"
  by (induction keys arbitrary: e) (auto simp: clear_keys_def)

lemma map_of_update: "map_of (update_env new e) = map_of e ++ map_of (rev new)"
proof (induction new arbitrary: e)
  case (Cons kv new)
  have "update_env (kv # new) e = update_env new (dict_set (fst kv) (snd kv) e)"
    by (simp add: update_env_def split: prod.splits)
  then show ?case by (cases kv) (simp add: Cons.IH map_add_upd_left fun_eq_iff map_add_def split: option.splits)
qed (simp add: update_env_def)

lemma map_of_rev_distinct: "distinct (map fst d) \<Longrightarrow> map_of (rev d) = map_of d"
proof (induction d)
  case (Cons kv d)
  have "map_of d (fst kv) = None" using Cons.prems by (simp add: map_of_eq_None_iff)
  then show ?case using Cons by (cases kv) (auto simp: map_add_def fun_eq_iff split: option.splits)
qed simp

lemma map_of_restore:
  "map_of (restore_env (map (\<lambda>k. (k, dict_get s k)) keys) e) k =
     (if k \<in> set keys \<and> dict_get s k \<noteq> None then dict_get s k else map_of e k)"
proof (induction keys arbitrary: e)
  case (Cons key keys)
  have "restore_env (map (\<lambda>k. (k, dict_get s k)) (key # keys)) e =
      restore_env (map (\<lambda>k. (k, dict_get s k)) keys) (case dict_get s key of Some t \<Rightarrow> dict_set key t e | None \<Rightarrow> e)"
    by (simp add: restore_env_def split: option.splits)
  then show ?case by (auto simp: Cons.IH split: option.splits)
qed (simp add: restore_env_def)

lemma isolated_env_after:
  assumes "distinct (map fst merged)" and "\<And>t. snd (body t) = t"
  shows "map_of (snd (isolated_env merged body s)) k =
    (if k \<in> set READINESS_ENV_KEYS then map_of s k
     else case map_of merged k of Some v \<Rightarrow> Some v | None \<Rightarrow> map_of s k)"
proof -
  let ?inside = "update_env merged (clear_keys READINESS_ENV_KEYS s)"
  have "snd (isolated_env merged body s) = restore_env (backup_env s) (clear_keys READINESS_ENV_KEYS ?inside)"
    using assms(2) [of ?inside] by (auto simp: isolated_env_def split: prod.splits)
  then have "map_of (snd (isolated_env merged body s)) k =
      (if k \<in> set READINESS_ENV_KEYS \<and> dict_get s k \<noteq> None then dict_get s k
       else map_of (clear_keys READINESS_ENV_KEYS ?inside) k)"
    by (simp only: backup_env_def map_of_restore)
  then show ?thesis
    by (simp add: map_of_clear map_of_update map_of_rev_distinct [OF assms(1)] dict_get_def map_add_def
        split: option.splits)
qed

lemma isolated_env_inside:
  assumes "distinct (map fst merged)"
  shows "map_of (update_env merged (clear_keys READINESS_ENV_KEYS s)) k =
    (case map_of merged k of Some v \<Rightarrow> Some v | None \<Rightarrow> if k \<in> set READINESS_ENV_KEYS then None else map_of s k)"
  by (simp add: map_of_update map_of_rev_distinct [OF assms] map_add_def map_of_clear split: option.splits)

lemma settings_here_env [simp]: "snd (settings_here br pd kwargs t) = t"
  by (simp add: settings_here_def)

lemma isolated_env_result: "fst (isolated_env merged (settings_here br pd kwargs) s) =
    new_settings br pd (update_env merged (clear_keys READINESS_ENV_KEYS s)) kwargs"
  by (simp add: isolated_env_def settings_here_def)

lemma evaluate_readiness_eq:
  "evaluate_production_saas_readiness br pd env mocked s =
     (let merged = dict_set ''BOUNDARY_LAYER_PROFILE'' PRODUCTION_SAAS_PROFILE (case env of None \<Rightarrow> s | Some e \<Rightarrow> e);
          r = new_settings br pd (update_env merged (clear_keys READINESS_ENV_KEYS s)) [] in
      (Inr \<lparr>rp_profile = PRODUCTION_SAAS_PROFILE, rp_ready = (\<not> isl r), rp_mocked = mocked,
            rp_issues = (case r of Inl e \<Rightarrow> issues_of e | Inr _ \<Rightarrow> [])\<rparr>,
       snd (isolated_env merged (settings_here br pd []) s)))"
proof -
  define merged where
    "merged = dict_set ''BOUNDARY_LAYER_PROFILE'' PRODUCTION_SAAS_PROFILE (case env of None \<Rightarrow> s | Some e \<Rightarrow> e)"
  have "settings_from_merged br pd merged s = isolated_env merged (settings_here br pd []) s"
    by (simp add: settings_from_merged_def merged_def dict_set_twice)
  then show ?thesis
    by (cases "isolated_env merged (settings_here br pd []) s")
      (auto simp: evaluate_production_saas_readiness_def isolated_env_result [symmetric] Let_def
        merged_def [symmetric] split: sum.splits)
qed

text \<open>A documented trait of the sources: they depend on what the environment holds, not on its order.\<close>

definition reads_contents :: "pydantic \<Rightarrow> bool" where
  "reads_contents pd = (\<forall>e e' kwargs f a. map_of e = map_of e' \<longrightarrow> pd_value pd e kwargs f a = pd_value pd e' kwargs f a)"

lemma load_fields_contents:
  assumes "reads_contents pd" and "map_of e = map_of e'"
  shows "load_fields pd e kwargs fs st = load_fields pd e' kwargs fs st"
proof -
  have same: "pd_value pd e kwargs = pd_value pd e' kwargs"
    using assms unfolding reads_contents_def by (intro ext) blast
  show ?thesis
    by (induction fs arbitrary: st) (auto simp: same split: option.splits)
qed

lemma new_settings_contents:
  assumes "reads_contents pd" and "map_of e = map_of e'"
  shows "isl (new_settings br pd e kwargs) = isl (new_settings br pd e' kwargs)"
  using load_fields_contents [OF assms, of kwargs]
  by (simp add: new_settings_def load_settings_def split: option.splits)

lemma distinct_dict_set_env: "distinct (map fst e) \<Longrightarrow> distinct (map fst (dict_set k v e))"
  by (rule distinct_dict_set)

lemma profile_key: "''BOUNDARY_LAYER_PROFILE'' \<in> set READINESS_ENV_KEYS"
  by code_simp

text \<open>With no environment given, the one the settings are built in is the process's own, with the profile set.\<close>

lemma own_environment:
  assumes "distinct (map fst s)"
  shows "map_of (update_env (dict_set ''BOUNDARY_LAYER_PROFILE'' PRODUCTION_SAAS_PROFILE s) (clear_keys READINESS_ENV_KEYS s)) =
    map_of (dict_set ''BOUNDARY_LAYER_PROFILE'' PRODUCTION_SAAS_PROFILE s)"
  by (rule ext) (auto simp: isolated_env_inside [OF distinct_dict_set_env [OF assms]] split: option.splits)

section \<open>An instance of pydantic's lookup\<close>

text \<open>pydantic's lookup on a small scale, for the witnesses.\<close>

definition simple_pydantic :: pydantic where
  "simple_pydantic = \<lparr>
     pd_value = (\<lambda>env kwargs f a. case dict_get kwargs f of Some v \<Rightarrow> Some v | None \<Rightarrow> map_option PStr (dict_get env a)),
     pd_str = (\<lambda>v. case v of PStr t \<Rightarrow> Some t | _ \<Rightarrow> None),
     pd_int = (\<lambda>v. case v of PInt i \<Rightarrow> Some i | PStr t \<Rightarrow> (case py_int t of Inr i \<Rightarrow> Some i | Inl _ \<Rightarrow> None) | _ \<Rightarrow> None),
     pd_bool = (\<lambda>v. case v of PBool b \<Rightarrow> Some b
       | PStr t \<Rightarrow> if lower t \<in> set [''true'', ''1''] then Some True
                  else if lower t \<in> set [''false'', ''0''] then Some False else None
       | _ \<Rightarrow> None),
     pd_errors = (\<lambda>env kwargs. ''validation errors for Settings''),
     pd_text = (\<lambda>m. ''1 validation error for Settings Value error, '' @ m)\<rparr>"

lemma simple_pydantic_contents: "reads_contents simple_pydantic"
  unfolding reads_contents_def simple_pydantic_def dict_get_def by (auto split: option.splits)

text \<open>An environment that has what \<open>production-saas\<close> asks for, and no more.\<close>

definition example_environ :: environ where
  "example_environ =
     [(''BOUNDARY_LAYER_ENV'', ''staging''), (''BOUNDARY_LAYER_AUTH_PROVIDER'', ''oidc''),
      (''OIDC_ISSUER_URL'', ''https://idp.example.com/''), (''OIDC_AUDIENCE'', ''boundary-layer-api''),
      (''OIDC_JWKS_URL'', ''https://idp.example/jwks''),
      (''DATABASE_URL'', ''postgresql://u:p@db.example.com/app?sslmode=require''),
      (''REDIS_URL'', ''rediss://cache.example.com:6379/0''),
      (''BOUNDARY_LAYER_SECRET_KEY'', ''0123456789abcdef0123456789abcdef''),
      (''BOUNDARY_LAYER_ALLOWED_ORIGINS'', ''https://app.example.com''),
      (''BOUNDARY_LAYER_PUBLIC_BASE_URL'', ''https://app.example.com''),
      (''BOUNDARY_LAYER_SECURE_COOKIES'', ''true''), (''BOUNDARY_LAYER_METRICS_TOKEN'', ''metrics-token-0123456789ab''),
      (''BOUNDARY_LAYER_FILE_STORAGE_BACKEND'', ''s3''), (''BOUNDARY_LAYER_AUDIT_LOG_ENABLED'', ''true''),
      (''SECRET_MANAGER_PROVIDER'', ''aws''), (''SECRET_MANAGER_PROJECT_OR_PATH'', ''boundary/staging''),
      (''SECRET_ROTATION_REQUIRED'', ''true''), (''SECRET_CACHE_TTL_SECONDS'', ''300''), (''REDIS_KEY_PREFIX'', ''bl''),
      (''OBJECT_STORAGE_BUCKET'', ''artifacts''), (''OBJECT_STORAGE_REGION'', ''eu-west-1'')]"

text \<open>The settings it builds, with what the production profile imposes.\<close>

definition example_settings :: settings where
  "example_settings = default_settings\<lparr>
     boundary_layer_profile := ''production-saas'', boundary_layer_env := ''staging'',
     auth_enabled := True, metrics_auth_required := True, allow_vulnerable := False, rate_limit_enabled := True,
     rate_limit_backend := ''redis'', expose_openapi := False, log_json := True, run_migrations := True,
     trust_proxy_headers := True, auth_provider := ''oidc'', oidc_issuer_url := ''https://idp.example.com/'',
     oidc_audience := ''boundary-layer-api'', oidc_jwks_url := ''https://idp.example/jwks'',
     database_url := ''postgresql://u:p@db.example.com/app?sslmode=require'',
     redis_url := ''rediss://cache.example.com:6379/0'',
     secret_key := ''0123456789abcdef0123456789abcdef'',
     allowed_origins := ''https://app.example.com'', public_base_url := ''https://app.example.com'',
     secure_cookies := True, metrics_token := ''metrics-token-0123456789ab'',
     file_storage_backend := ''s3'', audit_log_enabled := True, secret_manager_provider := ''aws'',
     secret_manager_project_or_path := ''boundary/staging'', secret_rotation_required := True,
     secret_cache_ttl_seconds := 300, redis_key_prefix := ''bl'',
     object_storage_bucket := ''artifacts'', object_storage_region := ''eu-west-1''\<rparr>"

lemma example_environ_settings:
  "new_settings no_bracket_error simple_pydantic
     (dict_set ''BOUNDARY_LAYER_PROFILE'' ''production-saas'' example_environ) [] = Inr example_settings"
  by code_simp

lemma example_environ_builds:
  "\<not> isl (new_settings no_bracket_error simple_pydantic
      (dict_set ''BOUNDARY_LAYER_PROFILE'' ''production-saas'' example_environ) [])"
  by (simp add: example_environ_settings)

end
