(* ===== verification/Log_Config.thy ===== *)
theory Log_Config
  imports Py_Json Config
begin

text \<open>
  \<open>apps/api/logging_config.py\<close>: the JSON formatter of the log lines and the set-up of the loggers. A log record is what
  the formatter reads of it, with \<open>getMessage()\<close> and \<open>formatException()\<close> as texts; the time stamp is an argument. The
  state of the set-up is what it changes of the logging module: the level and handlers of the root logger and the
  levels of the two loggers of the server.
\<close>

section \<open>The formatter\<close>

record log_record =
  lg_levelname :: string
  lg_name :: string
  lg_message :: string
  lg_attributes :: pydict
  lg_exception :: "string option"

definition LOG_KEYS :: "string list" where
  "LOG_KEYS = [''request_id'', ''path'', ''method'', ''status_code'', ''client_ip'']"

text \<open>\<open>getattr(record, key, None)\<close>, kept when it is not \<open>None\<close>.\<close>

definition extra_entry :: "log_record \<Rightarrow> string \<Rightarrow> pydict" where
  "extra_entry r key = (let v = dict_get_or (lg_attributes r) key PNone in if v = PNone then [] else [(key, v)])"

definition log_payload :: "string \<Rightarrow> log_record \<Rightarrow> pydict" where
  "log_payload now r =
     [(''timestamp'', PStr now), (''level'', PStr (lg_levelname r)), (''logger'', PStr (lg_name r)),
      (''message'', PStr (lg_message r))]
     @ concat (map (extra_entry r) LOG_KEYS)
     @ (case lg_exception r of Some t \<Rightarrow> [(''exception'', PStr t)] | None \<Rightarrow> [])"

definition json_format :: "string \<Rightarrow> log_record \<Rightarrow> string" where
  "json_format now r = json_dumps (PDict (log_payload now r))"

section \<open>Set-up\<close>

datatype log_formatter = JsonFormatter | PlainFormatter string

record log_state =
  ls_root_level :: int
  ls_root_handlers :: "log_formatter list"
  ls_access_level :: int
  ls_error_level :: int

text \<open>
  The attributes of the logging module whose name is in upper case, by \<open>getattr\<close>: the levels, and two that are no level,
  on which \<open>setLevel\<close> raises.
\<close>

definition LOG_LEVELS :: "(string \<times> int) list" where
  "LOG_LEVELS = [(''CRITICAL'', 50), (''FATAL'', 50), (''ERROR'', 40), (''WARNING'', 30), (''WARN'', 30), (''INFO'', 20),
     (''DEBUG'', 10), (''NOTSET'', 0)]"

definition log_level :: "string \<Rightarrow> int result" where
  "log_level level_name =
     (if level_name = ''BASIC_FORMAT'' then Inl (ValueError (''Unknown level: '' @ repr_str ''%(levelname)s:%(name)s:%(message)s''))
      else if level_name = ''_STYLES'' then Inl (OtherError ''TypeError: Level not an integer or a valid string'')
      else Inr (dict_get_or LOG_LEVELS level_name 20))"

definition configure_logging :: "settings \<Rightarrow> (log_state, unit) eff" where
  "configure_logging st s =
     (let cleared = s\<lparr>ls_root_handlers := []\<rparr> in
      case log_level (upper (api_log_level st)) of
        Inl e \<Rightarrow> (Inl e, cleared)
      | Inr level \<Rightarrow> (Inr (), cleared\<lparr>ls_root_level := level,
          ls_root_handlers := [if log_json st then JsonFormatter
            else PlainFormatter ''%(asctime)s %(levelname)s [%(name)s] %(message)s''],
          ls_access_level := level, ls_error_level := level\<rparr>))"

section \<open>Lemmas\<close>

lemma hex_digit_printable: "n < 16 \<Longrightarrow> 32 \<le> (of_char (hex_digit n) :: nat)"
  by (auto simp: hex_digit_def of_char_of)

lemma json_char_printable: "c \<in> set (json_char d) \<Longrightarrow> 32 \<le> (of_char c :: nat)"
proof -
  have "(of_char d :: nat) mod 256 < 256" by simp
  then have "(of_char d :: nat) div 16 < 16" unfolding of_char_mod_256 by (simp add: less_mult_imp_div_less)
  moreover assume "c \<in> set (json_char d)"
  ultimately show ?thesis
    using hex_digit_printable [of "of_char d div 16"] hex_digit_printable [of "of_char d mod 16"]
    by (auto simp: json_char_def Let_def split: if_splits)
qed

lemma json_string_printable: "c \<in> set (json_string s) \<Longrightarrow> 32 \<le> (of_char c :: nat)"
  by (auto simp: json_string_def dest: json_char_printable)

lemma set_join: "set (join sep xs) \<subseteq> set sep \<union> (\<Union>x\<in>set xs. set x)"
  by (induction sep xs rule: join.induct) auto

lemma show_nat_printable: "c \<in> set (show_nat n) \<Longrightarrow> 32 \<le> (of_char c :: nat)"
  using show_nat_digits [of c n] by (simp add: is_decimal_char_def Let_def)

lemma show_int_printable: "c \<in> set (show_int i) \<Longrightarrow> 32 \<le> (of_char c :: nat)"
  by (auto simp: show_int_def dest: show_nat_printable split: if_splits)

text \<open>No character below the blank in what \<open>dumps\<close> writes, so no line end.\<close>

lemma json_dumps_printable: "json_plain v \<Longrightarrow> c \<in> set (json_dumps v) \<Longrightarrow> 32 \<le> (of_char c :: nat)"
proof (induction v rule: json_dumps.induct)
  case (6 xs)
  then show ?case using set_join [of "'', ''" "map json_dumps xs"] by (auto simp: list_all_iff)
next
  case (7 d)
  consider "c \<in> set ''{, }''" | k v where "(k, v) \<in> set d" "c \<in> set (json_item (k, v))"
    using 7(3) set_join [of "'', ''" "map json_item d"] unfolding json_dumps_dict by fastforce
  then show ?case
  proof cases
    case 2
    then have "json_plain v" using 7(2) by (auto simp: list_all_iff)
    then show ?thesis using 2 7(1) [of "(k, v)" k v] json_string_printable [of c k] by (auto simp: json_item_def)
  qed auto
qed (auto dest: json_string_printable show_int_printable split: if_splits)

lemma extra_entry_get:
  "dict_get (concat (map (extra_entry r) keys)) k =
     (if k \<in> set keys \<and> dict_get_or (lg_attributes r) k PNone \<noteq> PNone then dict_get (lg_attributes r) k else None)"
  by (induction keys) (auto simp: extra_entry_def Let_def dict_get_def dict_get_or_def split: option.splits)

lemma extra_keys: "fst ` set (concat (map (extra_entry r) keys)) \<subseteq> set keys"
  by (auto simp: extra_entry_def Let_def split: if_splits)

lemma extra_distinct: "distinct keys \<Longrightarrow> distinct (map fst (concat (map (extra_entry r) keys)))"
proof (induction keys)
  case (Cons k keys)
  then show ?case using extra_keys [of r keys] by (auto simp: extra_entry_def Let_def)
qed simp

lemma extra_plain:
  "list_all (\<lambda>(k, v). json_plain v) (lg_attributes r) \<Longrightarrow> list_all (\<lambda>(k, v). json_plain v) (concat (map (extra_entry r) keys))"
  by (auto simp: list_all_iff extra_entry_def Let_def dict_get_or_def split: if_splits option.splits dest!: map_of_SomeD)

lemma log_payload_plain:
  assumes "list_all (\<lambda>(k, v). json_plain v) (lg_attributes r)"
  shows "json_plain (PDict (log_payload now r))"
proof -
  have "distinct (map fst (log_payload now r))"
    using extra_keys [of r LOG_KEYS] extra_distinct [of LOG_KEYS r]
    by (auto simp: log_payload_def LOG_KEYS_def split: option.splits)
  moreover have "list_all (\<lambda>(k, v). json_plain v) (log_payload now r)"
    using extra_plain [OF assms, of LOG_KEYS] by (simp add: log_payload_def split: option.splits)
  ultimately show ?thesis by simp
qed

section \<open>Properties\<close>

text \<open>
  C30. One log line per record, and it can be read back: whatever text the message, the path or any other part of the
  record holds, the formatted line has no line end in it, so no request can forge a second log line, and
  reading it as JSON gives the payload with the message as it was.
\<close>

theorem log_line_faithful:
  assumes "list_all (\<lambda>(k, v). json_plain v) (lg_attributes r)"
  shows "CHR 0x0A \<notin> set (json_format now r) \<and> CHR 0x0D \<notin> set (json_format now r)
    \<and> json_loads fr (json_format now r) = Inr (PDict (log_payload now r))
    \<and> dict_get (log_payload now r) ''message'' = Some (PStr (lg_message r))"
proof -
  note plain = log_payload_plain [OF assms, of now]
  have "32 \<le> (of_char c :: nat)" if "c \<in> set (json_format now r)" for c
    using json_dumps_printable [OF plain] that by (simp add: json_format_def)
  from this [of "CHR 0x0A"] this [of "CHR 0x0D"] show ?thesis
    using json_roundtrip [OF plain] by (auto simp: json_format_def log_payload_def dict_get_def)
qed

theorem log_line_faithful_witness:
  "CHR 0x0A \<notin> set (json_format ''2026-01-01T00:00:00+00:00'' \<lparr>lg_levelname = ''INFO'', lg_name = ''boundary_layer.api'',
     lg_message = ''GET /x'' @ [CHR 0x0A] @ ''forged'', lg_attributes = [(''status_code'', PInt 200)], lg_exception = None\<rparr>)"
proof -
  let ?r = "\<lparr>lg_levelname = ''INFO'', lg_name = ''boundary_layer.api'', lg_message = ''GET /x'' @ [CHR 0x0A] @ ''forged'',
    lg_attributes = [(''status_code'', PInt 200)], lg_exception = None\<rparr>"
  have "list_all (\<lambda>(k, v). json_plain v) (lg_attributes ?r)" by code_simp
  from log_line_faithful [OF this] show ?thesis by blast
qed

end
