(* ===== verification/Api_Process.thy ===== *)
theory Api_Process
  imports Api_Live Config_Check Log_Config
begin

text \<open>
  The API as a process, from its environment to its answers. The head of \<open>apps/api/main.py\<close>: the settings are
  read from the environment, logging is set up, the application object is made and the middleware added, then the
  start-up hook of \<open>apps/api/lifespan.py\<close> runs and requests are served. Also what \<open>apps/api/db.py\<close> reads of the environment when it is
  imported, and with it where the process connects to. CORS and the host check are Starlette's: two functions from
  a handler to a handler, which the settings may put around the application.
\<close>

section \<open>The application object\<close>

record fastapi_app =
  fa_title :: string
  fa_description :: string
  fa_version :: string
  fa_docs_url :: "string option"
  fa_redoc_url :: "string option"
  fa_openapi_url :: "string option"

definition fastapi_app_of :: "settings \<Rightarrow> fastapi_app" where
  "fastapi_app_of settings =
     \<lparr>fa_title = ''BoundaryLayer API'', fa_description = ''Open LLM Infrastructure Security Lab'',
      fa_version = app_version settings,
      fa_docs_url = (if expose_openapi settings then Some ''/docs'' else None),
      fa_redoc_url = (if expose_openapi settings then Some ''/redoc'' else None),
      fa_openapi_url = (if expose_openapi settings then Some ''/openapi.json'' else None)\<rparr>"

record outer_layers =
  ol_cors :: "string list \<Rightarrow> string list \<Rightarrow> string list \<Rightarrow> handler \<Rightarrow> handler"
  ol_hosts :: "string list \<Rightarrow> handler \<Rightarrow> handler"

definition CORS_METHODS :: "string list" where
  "CORS_METHODS = [''GET'', ''POST'', ''DELETE'', ''OPTIONS'']"

definition CORS_HEADERS :: "string list" where
  "CORS_HEADERS = [''Authorization'', ''Content-Type'', ''X-API-Key'', ''X-Metrics-Token'']"

definition add_cors :: "outer_layers \<Rightarrow> settings \<Rightarrow> handler \<Rightarrow> handler" where
  "add_cors outer settings inner =
     (if cors_enabled settings \<and> cors_origin_list settings \<noteq> []
      then ol_cors outer (cors_origin_list settings) CORS_METHODS CORS_HEADERS inner else inner)"

definition add_trusted_hosts :: "outer_layers \<Rightarrow> settings \<Rightarrow> handler \<Rightarrow> handler" where
  "add_trusted_hosts outer settings inner =
     (if is_production settings \<and> trusted_host_list settings \<noteq> []
      then ol_hosts outer (trusted_host_list settings) inner else inner)"

text \<open>\<open>framework\<close> is what FastAPI answers on paths the table does not have, the documentation pages among them.\<close>

definition application ::
    "outer_layers \<Rightarrow> (fastapi_app \<Rightarrow> handler) \<Rightarrow> unit result \<Rightarrow> 'k api_env \<Rightarrow> settings \<Rightarrow> handler" where
  "application outer framework client env settings =
     add_trusted_hosts outer settings (add_cors outer settings
       (api (framework (fastapi_app_of settings)) client env settings))"

section \<open>Start-up\<close>

text \<open>The five constants of \<open>db.py\<close>, read once, when it is imported; a port that is no number stops the import.\<close>

definition postgres_constants :: "environ \<Rightarrow> (string \<times> int \<times> string \<times> string \<times> string) result" where
  "postgres_constants environ =
     bind_res (py_int (dict_get_or environ ''POSTGRES_PORT'' ''5432'')) (\<lambda>port. Inr (
       dict_get_or environ ''POSTGRES_HOST'' ''localhost'', port, dict_get_or environ ''POSTGRES_DB'' ''boundary_layer'',
       dict_get_or environ ''POSTGRES_USER'' ''boundary_layer'',
       dict_get_or environ ''POSTGRES_PASSWORD'' ''boundary_layer_local''))"

definition api_connect_kwargs :: "environ \<Rightarrow> pydict result" where
  "api_connect_kwargs environ =
     bind_res (postgres_constants environ) (\<lambda>(host, port, dbname, user, password).
       Inr (postgres_connect_kwargs environ host port dbname user password))"

record process =
  pr_log :: log_state
  pr_http :: http

definition on_log :: "(log_state, 'a) eff \<Rightarrow> (process, 'a) eff" where
  "on_log m p = (case m (pr_log p) of (r, l) \<Rightarrow> (r, p\<lparr>pr_log := l\<rparr>))"

definition on_http :: "(http, 'a) eff \<Rightarrow> (process, 'a) eff" where
  "on_http m p = (case m (pr_http p) of (r, h) \<Rightarrow> (r, p\<lparr>pr_http := h\<rparr>))"

definition start_process ::
    "bracket_check \<Rightarrow> pydantic \<Rightarrow> (pg, unit) eff option \<Rightarrow> environ \<Rightarrow> (process, settings) eff" where
  "start_process br pd migrate environ =
     bind_eff (lift_res (postgres_constants environ)) (\<lambda>_.
     bind_eff (lift_res (new_settings br pd environ [])) (\<lambda>settings.
     bind_eff (on_log (configure_logging settings)) (\<lambda>_.
     bind_eff (on_http (on_db (lifespan_start migrate settings))) (\<lambda>_. ret settings))))"

text \<open>Requests one after the other: each with the state it found and its answer.\<close>

fun served ::
    "outer_layers \<Rightarrow> (fastapi_app \<Rightarrow> handler) \<Rightarrow> unit result \<Rightarrow> settings \<Rightarrow> ('k api_env \<times> http_request) list \<Rightarrow> http
     \<Rightarrow> ('k api_env \<times> http_request \<times> http \<times> http_response result) list" where
  "served outer framework client st [] s = []"
| "served outer framework client st ((env, rq) # rqs) s =
     (env, rq, s, fst (application outer framework client env st rq s))
     # served outer framework client st rqs (snd (application outer framework client env st rq s))"

section \<open>What Starlette's layers are relied on for\<close>

text \<open>
  Such a layer answers by itself with a plain text (a preflight, a refused origin or host, a redirect) without touching
  the application, or hands the request on and adds headers to the answer.
\<close>

definition layer_ok :: "(handler \<Rightarrow> handler) \<Rightarrow> bool" where
  "layer_ok layer = (\<forall>nxt rq s.
     (\<exists>r t. layer nxt rq s = (Inr r, s) \<and> rs_body r = PStr t)
     \<or> (case nxt rq s of
          (Inl e, s') \<Rightarrow> layer nxt rq s = (Inl e, s')
        | (Inr r, s') \<Rightarrow> (\<exists>hs. layer nxt rq s = (Inr (r\<lparr>rs_headers := hs\<rparr>), s'))))"

definition outer_ok :: "outer_layers \<Rightarrow> bool" where
  "outer_ok outer = ((\<forall>os ms hs. layer_ok (ol_cors outer os ms hs)) \<and> (\<forall>hosts. layer_ok (ol_hosts outer hosts)))"

lemma layer_inside:
  assumes "layer_ok layer" and "layer nxt rq s = (Inr resp, s')" and "rs_body resp = PDict d"
  shows "\<exists>r. nxt rq s = (Inr r, s') \<and> rs_status r = rs_status resp \<and> rs_body r = rs_body resp"
proof -
  have "(\<exists>r t. layer nxt rq s = (Inr r, s) \<and> rs_body r = PStr t) \<or> (case nxt rq s of
      (Inl e, s') \<Rightarrow> layer nxt rq s = (Inl e, s')
    | (Inr r, s') \<Rightarrow> (\<exists>hs. layer nxt rq s = (Inr (r\<lparr>rs_headers := hs\<rparr>), s')))"
    using assms(1) by (simp add: layer_ok_def)
  then show ?thesis
    using assms(2,3) by (cases "nxt rq s"; cases "fst (nxt rq s)") auto
qed

lemma lab_response_dict: "\<exists>d. lab_response r = PDict d"
  by (simp add: lab_response_def)

text \<open>A lab result the process gives comes from the application, whatever is around it.\<close>

lemma application_lab:
  assumes "outer_ok outer" and "application outer framework client env st rq s = (Inr resp, s')"
    and "rs_body resp = lab_response r"
  shows "\<exists>inner. api (framework (fastapi_app_of st)) client env st rq s = (Inr inner, s')
    \<and> rs_status inner = rs_status resp \<and> rs_body inner = lab_response r"
proof -
  let ?core = "api (framework (fastapi_app_of st)) client env st"
  obtain d where d: "lab_response r = PDict d" using lab_response_dict by blast
  obtain r1 where r1: "add_cors outer st ?core rq s = (Inr r1, s')" "rs_status r1 = rs_status resp" "rs_body r1 = PDict d"
    using assms layer_inside [of "ol_hosts outer (trusted_host_list st)" "add_cors outer st ?core" rq s resp s' d]
    by (auto simp: application_def add_trusted_hosts_def outer_ok_def d split: if_splits)
  then show ?thesis
    using assms(1) layer_inside [of "ol_cors outer (cors_origin_list st) CORS_METHODS CORS_HEADERS" ?core rq s r1 s' d]
    by (auto simp: add_cors_def outer_ok_def d split: if_splits)
qed

lemma served_step:
  assumes "(env, rq, s', r) \<in> set (served outer framework client st rqs s)"
  shows "r = fst (application outer framework client env st rq s')"
  using assms by (induction rqs arbitrary: s) auto

section \<open>Settings of a process that started\<close>

lemma started_settings:
  assumes "start_process br pd migrate environ p = (Inr st, p')"
  shows "new_settings br pd environ [] = Inr st"
  using assms by (auto simp: start_process_def bind_eff_Inr_iff lift_res_def ret_def split: sum.splits)

text \<open>The profile the environment asks for, and that it is text.\<close>

definition asks_for_saas :: "pydantic \<Rightarrow> environ \<Rightarrow> bool" where
  "asks_for_saas pd environ =
     (case pd_value pd environ [] ''boundary_layer_profile'' ''BOUNDARY_LAYER_PROFILE'' of
        None \<Rightarrow> False
      | Some v \<Rightarrow> (case pd_str pd v of None \<Rightarrow> False | Some t \<Rightarrow> lower (strip t) = ''production-saas''))"

lemma new_settings_saas:
  assumes "new_settings br pd environ [] = Inr st" and "asks_for_saas pd environ"
  obtains raw where "build_settings br raw = Inr st" "is_production_saas st" "is_production st"
proof -
  obtain raw where raw: "load_settings pd environ [] = Inr raw" "build_settings br raw = Inr st"
    using assms(1) by (auto simp: new_settings_Inr)
  have "lower (strip (boundary_layer_profile raw)) = ''production-saas''"
    using assms(2) loaded_env_profile(2) [OF raw(1)] by (auto simp: asks_for_saas_def split: option.splits)
  then have "is_production_saas st" using built_profile [OF raw(2)] by (simp add: is_production_saas_def)
  with that [OF raw(2)] show thesis by (blast intro: saas_is_production)
qed

section \<open>Properties\<close>

text \<open>
  C1. A process that started with an environment that asks for \<open>production-saas\<close> is safe on everything it serves afterwards: whatever
  requests come in, in whatever order, and however Starlette's layers answer, a client is given a lab
  result only of a hardened run, and only for a token that verified to an identity whose subject had, in the database
  that request found, an active membership of its tenant, and one of the three lab roles; and the application
  has no documentation pages.
\<close>

theorem production_process_safe:
  assumes "start_process br pd migrate environ p = (Inr st, p')" and "asks_for_saas pd environ" and "outer_ok outer"
    and "(env, rq, s, Inr resp) \<in> set (served outer framework client st rqs (pr_http p'))"
    and "rq_method rq = ''POST''" and "lab_of_path (rq_path rq) = Some lab" and "rs_body resp = lab_response r"
  shows "lr_lab r = lab \<and> lr_mode r = ''hardened''
    \<and> (\<exists>token ctx m. parse_authorization_header (header rq ''authorization'') = Some token
        \<and> build_auth_context_from_token (ae_jwt env) token st = Inr ctx
        \<and> m \<in> set (membership_rows (ac_tenant_id ctx) (ac_subject ctx) (ap_pg (ht_app s))) \<and> tm_status m = ''active''
        \<and> (has_role ctx ''lab_runner'' \<or> has_role ctx ''tenant_admin'' \<or> has_role ctx ''platform_admin''))
    \<and> fa_docs_url (fastapi_app_of st) = None \<and> fa_redoc_url (fastapi_app_of st) = None
    \<and> fa_openapi_url (fastapi_app_of st) = None"
proof -
  obtain raw where st: "build_settings br raw = Inr st" "is_production_saas st" "is_production st"
    using started_settings [OF assms(1)] assms(2) by (rule new_settings_saas)
  note locked = built_production_locked [OF st(1,3)]
  obtain s' where "application outer framework client env st rq s = (Inr resp, s')"
    using served_step [OF assms(4)] by (metis prod.collapse)
  from application_lab [OF assms(3) this assms(7)] obtain inner where
    ran: "api (framework (fastapi_app_of st)) client env st rq s = (Inr inner, s')" "rs_body inner = lab_response r"
    by blast
  have "lr_lab r = lab \<and> mode_ok (lr_mode r) \<and> enforce_vulnerable_allowed (lr_mode r) st = Inr ()"
    using assms(5,6) ran by (rule api_lab_facts) (auto dest: read_mode_ok)
  then have "lr_lab r = lab \<and> lr_mode r = ''hardened''"
    using locked(1) by (auto simp: mode_ok_def enforce_vulnerable_allowed_def)
  with api_lab_authorised [OF st(2) assms(5,6) ran] locked(8) show ?thesis
    by (simp add: fastapi_app_of_def)
qed

definition saas_environ :: environ where
  "saas_environ = dict_set ''BOUNDARY_LAYER_PROFILE'' ''production-saas'' example_environ"

lemma saas_settings_new: "new_settings no_bracket_error simple_pydantic saas_environ [] = Inr example_settings"
  unfolding saas_environ_def by (rule example_environ_settings)

definition plain_outer :: outer_layers where
  "plain_outer = \<lparr>ol_cors = (\<lambda>os ms hs nxt. nxt), ol_hosts = (\<lambda>hosts nxt rq s.
     if map_of (rq_headers rq) ''host'' \<in> Some ` set hosts then nxt rq s
     else (Inr \<lparr>rs_status = 400, rs_headers = [], rs_body = PStr ''Invalid host header''\<rparr>, s))\<rparr>"

lemma plain_outer_ok: "outer_ok plain_outer"
proof -
  have "r = r\<lparr>rs_headers := rs_headers r\<rparr>" for r :: http_response by simp
  then show ?thesis
    unfolding outer_ok_def layer_ok_def plain_outer_def
    by (auto split: prod.splits sum.splits) (metis http_response.surjective http_response.update_convs(2))+
qed

definition example_process :: process where
  "example_process = \<lparr>pr_log = \<lparr>ls_root_level = 30, ls_root_handlers = [], ls_access_level = 0, ls_error_level = 0\<rparr>,
     pr_http = example_http\<rparr>"

lemma example_start:
  "start_process no_bracket_error simple_pydantic (Some (ret ())) saas_environ example_process =
     bind_eff (on_log (configure_logging example_settings)) (\<lambda>_.
     bind_eff (on_http (on_db (lifespan_start (Some (ret ())) example_settings))) (\<lambda>_. ret example_settings)) example_process"
proof -
  have "\<not> isl (postgres_constants saas_environ)" by code_simp
  then show ?thesis
    by (cases "postgres_constants saas_environ")
      (simp_all add: start_process_def bind_eff_def lift_res_def saas_settings_new)
qed

theorem production_process_safe_witness:
  "\<exists>st p' s resp. start_process no_bracket_error simple_pydantic (Some (ret ())) saas_environ example_process = (Inr st, p')
    \<and> (example_api, breaker_post, s, Inr resp) \<in>
        set (served plain_outer (\<lambda>_. no_route) (Inr ()) st [(example_api, breaker_post)] (pr_http p'))
    \<and> (\<exists>token ctx. build_auth_context_from_token example_env token st = Inr ctx)"
proof -
  let ?start = "start_process no_bracket_error simple_pydantic (Some (ret ())) saas_environ example_process"
  let ?r = "breaker_hardened ''hardened'' 250"
  have "case fst ?start of Inl _ \<Rightarrow> False | Inr st \<Rightarrow>
      (case fst (application plain_outer (\<lambda>_. no_route) (Inr ()) example_api st breaker_post (pr_http (snd ?start))) of
        Inr resp \<Rightarrow> rs_body resp = lab_response ?r | Inl _ \<Rightarrow> False)"
    unfolding example_start by code_simp
  then obtain st resp where started: "fst ?start = Inr st"
    and ran: "fst (application plain_outer (\<lambda>_. no_route) (Inr ()) example_api st breaker_post (pr_http (snd ?start))) = Inr resp"
    and body: "rs_body resp = lab_response ?r"
    by (auto split: sum.splits)
  from started have start: "?start = (Inr st, snd ?start)" by (simp add: prod_eq_iff)
  have seen: "(example_api, breaker_post, pr_http (snd ?start), Inr resp) \<in>
      set (served plain_outer (\<lambda>_. no_route) (Inr ()) st [(example_api, breaker_post)] (pr_http (snd ?start)))"
    using ran by simp
  have asks: "asks_for_saas simple_pydantic saas_environ" by code_simp
  from production_process_safe [OF start asks plain_outer_ok seen breaker_post_facts body] start seen show ?thesis
    by (force simp: example_api_def)
qed



end
