(* ===== verification/Alert_Webhook.thy ===== *)
theory Alert_Webhook
  imports Middleware
begin

text \<open>
  \<open>apps/alert_webhook/config.py\<close> and \<open>apps/alert_webhook/main.py\<close>: a second service, which stores the alerts
  that Alertmanager posts. Its state is the list \<open>_stored_alerts\<close>; its settings are read once. What
  pydantic reports for a body that is not an object and what the framework answers to a request that
  no route matches are the arguments \<open>errors\<close> and \<open>unmatched\<close>.
\<close>

section \<open>Settings\<close>

record webhook_settings =
  wh_auth_enabled :: bool
  wh_auth_token :: string
  wh_max_stored_alerts :: int
  wh_env :: string

definition default_webhook_settings :: webhook_settings where
  "default_webhook_settings =
     \<lparr>wh_auth_enabled = False, wh_auth_token = [], wh_max_stored_alerts = 1000, wh_env = ''development''\<rparr>"

definition webhook_production_defaults :: "webhook_settings \<Rightarrow> webhook_settings" where
  "webhook_production_defaults s = (if lower (strip (wh_env s)) = ''production'' then s\<lparr>wh_auth_enabled := True\<rparr> else s)"

definition webhook_production_requirements :: "webhook_settings \<Rightarrow> webhook_settings result" where
  "webhook_production_requirements s =
     (if wh_auth_enabled s \<and> strip (wh_auth_token s) = []
      then Inl (ValueError ''BOUNDARY_LAYER_ALERT_WEBHOOK_TOKEN is required when webhook auth is enabled'')
      else if strip (wh_auth_token s) \<noteq> [] \<and> length (strip (wh_auth_token s)) < 24
      then Inl (ValueError ''BOUNDARY_LAYER_ALERT_WEBHOOK_TOKEN must be at least 24 characters'')
      else Inr s)"

definition build_webhook_settings :: "webhook_settings \<Rightarrow> webhook_settings result" where
  "build_webhook_settings raw = webhook_production_requirements (webhook_production_defaults raw)"

section \<open>Access\<close>

definition webhook_credential :: "string option \<Rightarrow> string option \<Rightarrow> string option" where
  "webhook_credential authorization x_webhook_token =
     (let from_header = (case authorization of
            None \<Rightarrow> None
          | Some a \<Rightarrow> (let (scheme, _, token) = partition_chr CHR '' '' a in
              if a \<noteq> [] \<and> lower scheme = ''bearer'' \<and> token \<noteq> [] then Some (strip token) else None)) in
      if from_header = None \<or> from_header = Some [] then
        (case x_webhook_token of Some t \<Rightarrow> if t \<noteq> [] then Some (strip t) else from_header | None \<Rightarrow> from_header)
      else from_header)"

definition verify_webhook_access :: "webhook_settings \<Rightarrow> string option \<Rightarrow> string option \<Rightarrow> unit result" where
  "verify_webhook_access settings authorization x_webhook_token =
     (if \<not> wh_auth_enabled settings then Inr ()
      else check_credential (webhook_credential authorization x_webhook_token) (strip (wh_auth_token settings))
        ''Invalid or missing webhook credentials'')"

section \<open>Endpoints\<close>

type_synonym alert_store = "pydict list"

type_synonym webhook_handler = "http_request \<Rightarrow> (alert_store, http_response) eff"

definition answer_json :: "pydict \<Rightarrow> http_response" where
  "answer_json d = \<lparr>rs_status = 200, rs_headers = [], rs_body = PDict d\<rparr>"

definition webhook_health :: "webhook_settings \<Rightarrow> webhook_handler" where
  "webhook_health settings request = ret (answer_json [(''status'', PStr ''ok''),
     (''service'', PStr ''boundary-layer-alert-webhook''), (''auth_enabled'', PBool (wh_auth_enabled settings))])"

text \<open>The loop over the batch: an alert that is not an object ends it, with what came before it stored.\<close>

fun store_alerts :: "pyval list \<Rightarrow> (alert_store, unit) eff" where
  "store_alerts [] s = (Inr (), s)"
| "store_alerts (PDict alert # alerts) s = store_alerts alerts (s @ [alert])"
| "store_alerts (_ # alerts) s = (Inl (HTTPException 422 (PStr ''Each alert must be an object'') []), s)"

definition remaining_capacity :: "webhook_settings \<Rightarrow> alert_store \<Rightarrow> int" where
  "remaining_capacity settings s = max (wh_max_stored_alerts settings - int (length s)) 0"

definition receive_alerts :: "webhook_settings \<Rightarrow> pydict \<Rightarrow> (alert_store, http_response) eff" where
  "receive_alerts settings payload s =
     (case dict_get_or payload ''alerts'' PNone of
        PNone \<Rightarrow> (Inl (HTTPException 422 (PStr ''Missing alerts field in webhook payload'') []), s)
      | PList alerts \<Rightarrow>
          (let incoming = int (length alerts); capacity = remaining_capacity settings s in
           if capacity = 0 then (Inl (HTTPException 413 (PStr (''Alert store full ('' @ show_int (wh_max_stored_alerts settings)
             @ '' alerts). DELETE /alerts before accepting more.'')) []), s)
           else if incoming > capacity then (Inl (HTTPException 413 (PStr (''Alert batch size '' @ show_int incoming
             @ '' exceeds remaining capacity '' @ show_int capacity)) []), s)
           else bind_eff (store_alerts alerts)
             (\<lambda>_. ret (answer_json [(''status'', PStr ''ok''), (''received'', PInt incoming)])) s)
      | _ \<Rightarrow> (Inl (HTTPException 422 (PStr ''alerts must be a list'') []), s))"

definition list_alerts :: "(alert_store, http_response) eff" where
  "list_alerts s = (Inr (answer_json [(''count'', PInt (int (length s))), (''alerts'', PList (map PDict s))]), s)"

definition clear_alerts :: "(alert_store, http_response) eff" where
  "clear_alerts s = (Inr (answer_json [(''status'', PStr ''ok''), (''cleared'', PInt (int (length s)))]), [])"

text \<open>A route with the access dependency; the body is validated after it.\<close>

definition webhook_guarded :: "webhook_settings \<Rightarrow> webhook_handler \<Rightarrow> webhook_handler" where
  "webhook_guarded settings h request =
     bind_eff (lift_res (verify_webhook_access settings (header request ''authorization'') (header request ''x-webhook-token'')))
       (\<lambda>_. h request)"

definition post_alerts :: "(pyval \<Rightarrow> pyval) \<Rightarrow> webhook_settings \<Rightarrow> webhook_handler" where
  "post_alerts errors settings request = (case rq_body request of
     PDict payload \<Rightarrow> receive_alerts settings payload
   | body \<Rightarrow> raise_exn (HTTPException 422 (errors body) []))"

definition webhook_endpoint :: "(pyval \<Rightarrow> pyval) \<Rightarrow> webhook_settings \<Rightarrow> string \<Rightarrow> string \<Rightarrow> webhook_handler option" where
  "webhook_endpoint errors settings meth path =
     (if path = ''/health'' \<and> meth = ''GET'' then Some (webhook_health settings)
      else if path = ''/alerts'' then
        (if meth = ''POST'' then Some (webhook_guarded settings (post_alerts errors settings))
         else if meth = ''GET'' then Some (webhook_guarded settings (\<lambda>_. list_alerts))
         else if meth = ''DELETE'' then Some (webhook_guarded settings (\<lambda>_. clear_alerts))
         else None)
      else None)"

definition answer_exception :: "exn \<Rightarrow> (alert_store, http_response) eff" where
  "answer_exception e = (case e of
     HTTPException status detail headers \<Rightarrow>
       ret \<lparr>rs_status = status, rs_headers = headers, rs_body = PDict [(''detail'', detail)]\<rparr>
   | _ \<Rightarrow> raise_exn e)"

definition webhook_app ::
    "(http_request \<Rightarrow> http_response) \<Rightarrow> (pyval \<Rightarrow> pyval) \<Rightarrow> webhook_settings \<Rightarrow> webhook_handler" where
  "webhook_app unmatched errors settings request =
     (case webhook_endpoint errors settings (rq_method request) (rq_path request) of
        None \<Rightarrow> ret (unmatched request)
      | Some h \<Rightarrow> catch_eff (h request) answer_exception)"

section \<open>Lemmas\<close>

fun is_alert :: "pyval \<Rightarrow> bool" where
  "is_alert (PDict d) = True"
| "is_alert _ = False"

fun alert_of :: "pyval \<Rightarrow> pydict" where
  "alert_of (PDict d) = d"
| "alert_of _ = []"

lemma is_alert_iff: "is_alert v \<longleftrightarrow> (\<exists>d. v = PDict d)"
  by (cases v) auto

lemma store_alerts_eq:
  "store_alerts xs s = (if list_all is_alert xs then Inr () else Inl (HTTPException 422 (PStr ''Each alert must be an object'') []),
     s @ map alert_of (takeWhile is_alert xs))"
  by (induction xs s rule: store_alerts.induct) auto

lemma takeWhile_fits: "length (takeWhile P xs) \<le> length xs"
  by (rule length_takeWhile_le)

lemma receive_alerts_store:
  assumes "receive_alerts st payload s = (r, s')"
  shows "s' = s \<or> (\<exists>new. s' = s @ new \<and> int (length s') \<le> max 0 (wh_max_stored_alerts st))"
proof (cases "dict_get_or payload ''alerts'' PNone")
  case (PList xs)
  show ?thesis
  proof (cases "remaining_capacity st s = 0 \<or> int (length xs) > remaining_capacity st s")
    case True
    then have "s' = s" using assms PList by (auto simp: receive_alerts_def Let_def split: if_splits)
    then show ?thesis ..
  next
    case False
    then have "s' = s @ map alert_of (takeWhile is_alert xs)"
      using assms PList
      by (auto simp: receive_alerts_def Let_def bind_eff_def store_alerts_eq ret_def split: if_splits)
    moreover have "length (takeWhile is_alert xs) \<le> length xs" by (rule takeWhile_fits)
    ultimately show ?thesis using False by (auto simp: remaining_capacity_def)
  qed
qed (use assms in \<open>auto simp: receive_alerts_def\<close>)

text \<open>A guarded route leaves the store alone and answers 401, or raises, unless the credential is right.\<close>

definition webhook_admits :: "webhook_settings \<Rightarrow> http_request \<Rightarrow> bool" where
  "webhook_admits st rq =
     (verify_webhook_access st (header rq ''authorization'') (header rq ''x-webhook-token'') = Inr ())"

lemma webhook_guarded_cases:
  obtains (admitted) "webhook_admits st rq" "webhook_guarded st h rq s = h rq s"
  | (refused) e where "\<not> webhook_admits st rq" "webhook_guarded st h rq s = (Inl e, s)"
      "\<And>status detail headers. e = HTTPException status detail headers \<Longrightarrow> status = 401"
proof (cases "verify_webhook_access st (header rq ''authorization'') (header rq ''x-webhook-token'')")
  case (Inl e)
  then have "status = 401" if "e = HTTPException status detail headers" for status detail headers
    using that by (auto simp: verify_webhook_access_def check_credential_def unauthorized_def compare_digest_def
        bind_res_def split: if_splits option.splits sum.splits)
  then show ?thesis using Inl refused by (simp add: webhook_guarded_def webhook_admits_def raise_exn_def)
next
  case (Inr u)
  then show ?thesis using admitted by (simp add: webhook_guarded_def webhook_admits_def)
qed

lemma answer_exception_store [simp]: "snd (answer_exception e s) = s"
  by (simp add: answer_exception_def ret_def raise_exn_def split: exn.splits)

lemma catch_store: "snd (catch_eff m answer_exception s) = snd (m s)"
  by (auto simp: catch_eff_def split: prod.splits sum.splits)

lemma guarded_store:
  assumes "snd (webhook_guarded st h rq s) \<noteq> s"
  shows "webhook_admits st rq \<and> snd (webhook_guarded st h rq s) = snd (h rq s)"
  using assms by (cases rule: webhook_guarded_cases [of st rq h s]) auto

lemma webhook_endpoint_cases:
  assumes "webhook_endpoint errors st meth path = Some h"
  obtains (health) "path = ''/health''" "meth = ''GET''" "h = webhook_health st"
  | (post) "path = ''/alerts''" "meth = ''POST''" "h = webhook_guarded st (post_alerts errors st)"
  | (listing) "path = ''/alerts''" "meth = ''GET''" "h = webhook_guarded st (\<lambda>_. list_alerts)"
  | (clear) "path = ''/alerts''" "meth = ''DELETE''" "h = webhook_guarded st (\<lambda>_. clear_alerts)"
  using assms unfolding webhook_endpoint_def by (auto split: if_splits)

lemma webhook_app_via:
  assumes "s' = snd (webhook_app unmatched errors st rq s)"
  shows "s' = s \<or> s' = snd (webhook_guarded st (post_alerts errors st) rq s)
    \<or> s' = snd (webhook_guarded st (\<lambda>_. list_alerts) rq s) \<or> s' = snd (webhook_guarded st (\<lambda>_. clear_alerts) rq s)"
proof (cases "webhook_endpoint errors st (rq_method rq) (rq_path rq)")
  case None
  then show ?thesis using assms by (simp add: webhook_app_def ret_def)
next
  case (Some h)
  then have "s' = snd (h rq s)" using assms by (simp add: webhook_app_def catch_store)
  then show ?thesis using Some by (elim webhook_endpoint_cases) (simp_all add: webhook_health_def ret_def)
qed

lemma webhook_app_store:
  assumes "s' = snd (webhook_app unmatched errors st rq s)"
  shows "s' = s \<or> webhook_admits st rq
    \<and> (s' = [] \<or> (\<exists>new. s' = s @ new \<and> int (length s') \<le> max 0 (wh_max_stored_alerts st)))"
proof -
  have post: "snd (post_alerts errors st rq s) = s
      \<or> (\<exists>new. snd (post_alerts errors st rq s) = s @ new
          \<and> int (length (snd (post_alerts errors st rq s))) \<le> max 0 (wh_max_stored_alerts st))"
    using receive_alerts_store [OF surjective_pairing]
    by (auto simp: post_alerts_def raise_exn_def split: pyval.splits)
  from webhook_app_via [OF assms]
  consider "s' = s" | "s' = snd (webhook_guarded st (post_alerts errors st) rq s)"
    | "s' = snd (webhook_guarded st (\<lambda>_. list_alerts) rq s)" | "s' = snd (webhook_guarded st (\<lambda>_. clear_alerts) rq s)"
    by blast
  then show ?thesis
  proof cases
    case 2
    then show ?thesis using post guarded_store [of st "post_alerts errors st" rq s] by metis
  next
    case 3
    then show ?thesis using guarded_store [of st "\<lambda>_. list_alerts" rq s] by (auto simp: list_alerts_def)
  next
    case 4
    then show ?thesis using guarded_store [of st "\<lambda>_. clear_alerts" rq s] by (auto simp: clear_alerts_def)
  qed simp
qed

section \<open>Properties\<close>

text \<open>The stores the service can reach: empty at start, then one request after the other.\<close>

inductive webhook_reachable ::
    "(http_request \<Rightarrow> http_response) \<Rightarrow> (pyval \<Rightarrow> pyval) \<Rightarrow> webhook_settings \<Rightarrow> alert_store \<Rightarrow> bool"
  for unmatched errors st where
  start: "webhook_reachable unmatched errors st []"
| serve: "webhook_reachable unmatched errors st s
    \<Longrightarrow> webhook_reachable unmatched errors st (snd (webhook_app unmatched errors st rq s))"

text \<open>
  C24. The alert store never grows past its limit: in every store the service reaches, whatever requests
  came and however they ended, there are at most \<open>max_stored_alerts\<close> alerts (none for a negative limit).
\<close>

theorem webhook_store_bounded:
  assumes "webhook_reachable unmatched errors st s"
  shows "int (length s) \<le> max 0 (wh_max_stored_alerts st)"
  using assms
proof induction
  case (serve s rq)
  then show ?case using webhook_app_store [OF refl, of unmatched errors st rq s] by auto
qed simp

definition example_post :: "pyval list \<Rightarrow> http_request" where
  "example_post alerts = example_request\<lparr>rq_method := ''POST'', rq_path := ''/alerts'',
     rq_headers := [(''x-webhook-token'', ''webhook-token-0123456789'')], rq_body := PDict [(''alerts'', PList alerts)]\<rparr>"

definition plain_404 :: "http_request \<Rightarrow> http_response" where
  "plain_404 rq = json_response 404 ''Not Found'' []"

definition example_webhook :: webhook_settings where
  "example_webhook = default_webhook_settings\<lparr>wh_auth_enabled := True, wh_auth_token := ''webhook-token-0123456789'',
     wh_max_stored_alerts := 2, wh_env := ''production''\<rparr>"

theorem webhook_store_bounded_witness:
  "int (length (snd (webhook_app plain_404 id example_webhook (example_post [PDict [], PDict []]) []))) \<le> max 0 2"
  using webhook_store_bounded [OF webhook_reachable.serve [OF webhook_reachable.start], of plain_404 id example_webhook]
  by (simp add: example_webhook_def)

text \<open>
  C23. In production the webhook is closed without its token: settings that build for the production
  environment have a token of at least 24 characters, and a request that changes the store, or that one
  of the alert routes answers with 200, carried exactly that token, as a bearer or in its own header.
\<close>

theorem webhook_closed_in_production:
  assumes "build_webhook_settings raw = Inr st" and "lower (strip (wh_env raw)) = ''production''"
    and "webhook_app unmatched errors st rq s = (r, s')"
    and "s' \<noteq> s \<or> (\<exists>h resp. rq_path rq = ''/alerts'' \<and> webhook_endpoint errors st (rq_method rq) (rq_path rq) = Some h
      \<and> r = Inr resp \<and> rs_status resp = 200)"
  shows "24 \<le> length (strip (wh_auth_token st))
    \<and> webhook_credential (header rq ''authorization'') (header rq ''x-webhook-token'') = Some (strip (wh_auth_token st))"
proof -
  have st: "wh_auth_enabled st" "24 \<le> length (strip (wh_auth_token st))"
    using assms(1,2) by (auto simp: build_webhook_settings_def webhook_production_defaults_def
        webhook_production_requirements_def split: if_splits)
  have "webhook_admits st rq"
    using assms(4)
  proof
    assume "s' \<noteq> s"
    then show ?thesis using webhook_app_store [of s' unmatched errors st rq s] assms(3) by simp
  next
    assume "\<exists>h resp. rq_path rq = ''/alerts'' \<and> webhook_endpoint errors st (rq_method rq) (rq_path rq) = Some h
      \<and> r = Inr resp \<and> rs_status resp = 200"
    then obtain h resp where h: "rq_path rq = ''/alerts''" "r = Inr resp" "rs_status resp = 200"
      "webhook_endpoint errors st (rq_method rq) (rq_path rq) = Some h" by blast
    then obtain h' where "h = webhook_guarded st h'" by (elim webhook_endpoint_cases) auto
    then show ?thesis
      using h assms(3) by (cases rule: webhook_guarded_cases [of st rq h' s])
        (auto simp: webhook_app_def catch_eff_def answer_exception_def ret_def raise_exn_def split: exn.splits)
  qed
  then show ?thesis
    using st by (auto simp: webhook_admits_def verify_webhook_access_def check_credential_def compare_digest_def
        bind_res_def split: option.splits if_splits sum.splits)
qed

theorem webhook_closed_in_production_witness:
  "24 \<le> length (strip (wh_auth_token example_webhook))
    \<and> webhook_credential None (Some ''webhook-token-0123456789'') = Some (strip (wh_auth_token example_webhook))"
proof -
  let ?rq = "example_post [PDict []]"
  have pre: "build_webhook_settings example_webhook = Inr example_webhook"
    "lower (strip (wh_env example_webhook)) = ''production''"
    "snd (webhook_app plain_404 id example_webhook ?rq []) \<noteq> []" by code_simp+
  have "header ?rq ''authorization'' = None" "header ?rq ''x-webhook-token'' = Some ''webhook-token-0123456789''"
    by code_simp+
  then show ?thesis
    using webhook_closed_in_production [OF pre(1,2) surjective_pairing disjI1 [OF pre(3)]] by simp
qed

text \<open>
  C34. What an admitted batch of alerts does. It is refused with 413, and nothing stored, when it does not fit;
  when all its alerts are objects they are all stored behind those already there, in order, and a
  listing then returns exactly that; otherwise it is answered 422, yet the alerts before the first one
  that is no object stay stored.
\<close>

theorem webhook_batch_outcome:
  assumes "webhook_admits st rq" and "rq_method rq = ''POST''" and "rq_path rq = ''/alerts''"
    and "rq_body rq = PDict payload" and "dict_get payload ''alerts'' = Some (PList xs)"
    and "webhook_app unmatched errors st rq s = (r, s')"
  shows "\<exists>resp. r = Inr resp \<and>
    (if remaining_capacity st s = 0 \<or> remaining_capacity st s < int (length xs) then rs_status resp = 413 \<and> s' = s
     else if list_all is_alert xs then rs_status resp = 200 \<and> s' = s @ map alert_of xs
       \<and> fst (list_alerts s') = Inr (answer_json [(''count'', PInt (int (length s + length xs))),
           (''alerts'', PList (map PDict s @ xs))])
     else rs_status resp = 422 \<and> s' = s @ map alert_of (takeWhile is_alert xs))"
proof -
  have run: "catch_eff (receive_alerts st payload) answer_exception s = (r, s')"
    using assms(2-4,6) webhook_guarded_cases [of st rq "post_alerts errors st" s] assms(1)
    by (auto simp: webhook_app_def webhook_endpoint_def webhook_guarded_def webhook_admits_def post_alerts_def)
  have all: "list_all is_alert xs \<Longrightarrow> takeWhile is_alert xs = xs" "list_all is_alert xs \<Longrightarrow> map (PDict \<circ> alert_of) xs = xs"
    by (induction xs) (auto simp: is_alert_iff)
  show ?thesis
    using run assms(5)
    by (auto simp: all catch_eff_def receive_alerts_def dict_get_or_def dict_get_def Let_def bind_eff_def store_alerts_eq
        answer_exception_def ret_def answer_json_def list_alerts_def split: if_splits)
qed

theorem webhook_batch_outcome_witness:
  "\<exists>resp s'. webhook_app plain_404 id example_webhook (example_post [PDict [(''a'', PInt 1)], PNone]) [] = (Inr resp, s')
    \<and> rs_status resp = 422 \<and> s' = [[(''a'', PInt 1)]]"
proof -
  let ?xs = "[PDict [(''a'', PInt 1)], PNone]"
  let ?rq = "example_post ?xs"
  have pre: "webhook_admits example_webhook ?rq" "rq_method ?rq = ''POST''" "rq_path ?rq = ''/alerts''"
    "rq_body ?rq = PDict [(''alerts'', PList ?xs)]" "dict_get [(''alerts'', PList ?xs)] ''alerts'' = Some (PList ?xs)"
    "\<not> (remaining_capacity example_webhook [] = 0 \<or> remaining_capacity example_webhook [] < int (length ?xs))"
    by code_simp+
  obtain r s' where run: "webhook_app plain_404 id example_webhook ?rq [] = (r, s')" by (cases rule: prod.exhaust)
  from webhook_batch_outcome [OF pre(1-5) run] run
  show ?thesis by (simp only: pre(6) if_False) auto
qed

end
