(* ===== verification/Audit_Export.thy ===== *)
theory Audit_Export
  imports Tenancy
begin

text \<open>
  \<open>apps/api/audit_export.py\<close>: the sinks an audit event can be exported to. The random id of a row, the
  clock and \<open>datetime.isoformat\<close> are arguments.
\<close>

definition SUPPORTED_EXTERNAL_AUDIT_SINKS :: "string list" where
  "SUPPORTED_EXTERNAL_AUDIT_SINKS =
     [''splunk'', ''datadog'', ''cloudwatch'', ''gcp_logging'', ''azure_monitor'', ''s3'']"

record audit_export_event =
  xe_tenant_id :: "string option"
  xe_actor :: "string option"
  xe_action :: string
  xe_result :: string
  xe_resource_type :: "string option"
  xe_resource_id :: "string option"
  xe_metadata :: "pydict option"
  xe_timestamp :: "int option"

definition normalized_timestamp :: "int \<Rightarrow> audit_export_event \<Rightarrow> int" where
  "normalized_timestamp now event = (case xe_timestamp event of Some t \<Rightarrow> t | None \<Rightarrow> now)"

datatype audit_sink =
    LocalPostgresAuditSink
  | LazyExternalAuditSink string

definition export_metadata :: "(int \<Rightarrow> string) \<Rightarrow> int \<Rightarrow> audit_export_event \<Rightarrow> pydict" where
  "export_metadata isoformat now event =
     dict_set ''exported_at'' (PStr (isoformat (normalized_timestamp now event)))
       (case xe_metadata event of Some m \<Rightarrow> m | None \<Rightarrow> [])"

definition local_export_event ::
    "(int \<Rightarrow> string) \<Rightarrow> string \<Rightarrow> int \<Rightarrow> audit_export_event \<Rightarrow> (pg, unit) eff" where
  "local_export_event isoformat uuid now event =
     bind_eff (insert_audit_event uuid (xe_action event) (xe_result event) (xe_tenant_id event) (xe_actor event)
         (xe_resource_type event) (xe_resource_id event) (Some (export_metadata isoformat now event)))
       (\<lambda>_. ret ())"

definition disabled_export_event :: "string \<Rightarrow> audit_export_event \<Rightarrow> (pg, unit) eff" where
  "disabled_export_event provider event =
     raise_exn (AuditExportError (''External audit sink adapter for '' @ provider @ '' is not implemented'')
       ''audit_sink_not_configured'')"

fun export_event ::
    "(int \<Rightarrow> string) \<Rightarrow> audit_sink \<Rightarrow> string \<Rightarrow> int \<Rightarrow> audit_export_event \<Rightarrow> (pg, unit) eff" where
  "export_event isoformat LocalPostgresAuditSink uuid now event = local_export_event isoformat uuid now event"
| "export_event isoformat (LazyExternalAuditSink provider) uuid now event = disabled_export_event provider event"

fun sink_health_check :: "audit_sink \<Rightarrow> bool" where
  "sink_health_check LocalPostgresAuditSink = True"
| "sink_health_check (LazyExternalAuditSink _) = False"

definition build_audit_sink :: "settings \<Rightarrow> audit_sink result" where
  "build_audit_sink settings =
     (let configured = lower (strip (audit_sink_provider settings));
          provider = (if configured = [] then ''postgres'' else configured) in
      if provider = ''postgres'' then Inr LocalPostgresAuditSink
      else if provider \<in> set SUPPORTED_EXTERNAL_AUDIT_SINKS then Inr (LazyExternalAuditSink provider)
      else Inl (AuditExportError (''Unsupported AUDIT_SINK_PROVIDER: '' @ provider) ''audit_sink_invalid''))"

definition export_audit_event ::
    "(int \<Rightarrow> string) \<Rightarrow> string \<Rightarrow> int \<Rightarrow> settings \<Rightarrow> audit_export_event \<Rightarrow> (pg, unit) eff" where
  "export_audit_event isoformat uuid now settings event =
     bind_eff (lift_res (build_audit_sink settings)) (\<lambda>sink. export_event isoformat sink uuid now event)"

section \<open>The contract of a sink\<close>

text \<open>A sequence of exports, each with its id and its clock, going on after a failure, and those that returned.\<close>

fun export_all ::
    "(string \<Rightarrow> int \<Rightarrow> 'e \<Rightarrow> (pg, unit) eff) \<Rightarrow> (string \<times> int \<times> 'e) list \<Rightarrow> pg \<Rightarrow> (string \<times> int \<times> 'e) list \<times> pg" where
  "export_all export [] s = ([], s)"
| "export_all export ((u, n, ev) # evs) s =
     (case export u n ev s of
        (Inr _, s') \<Rightarrow> (case export_all export evs s' of (ok, t) \<Rightarrow> ((u, n, ev) # ok, t))
      | (Inl _, s') \<Rightarrow> export_all export evs s')"

text \<open>
  \<open>AuditSink\<close>: an export that returns has added one row that renders the event, one that raises has added
  none, and a sink that reports itself unreachable never returns. \<open>row\<close> tells which row an event becomes.
\<close>

locale audit_sink_contract =
  fixes export :: "string \<Rightarrow> int \<Rightarrow> 'e \<Rightarrow> (pg, unit) eff"
    and healthy :: bool
    and row :: "string \<Rightarrow> int \<Rightarrow> 'e \<Rightarrow> audit_event \<Rightarrow> bool"
  assumes exported: "export uuid now ev s = (Inr u, s') \<Longrightarrow>
      \<exists>r. audit_events s' = audit_events s @ [r] \<and> row uuid now ev r"
    and failed: "export uuid now ev s = (Inl e, s') \<Longrightarrow> audit_events s' = audit_events s"
    and reachable: "export uuid now ev s = (Inr u, s') \<Longrightarrow> healthy"
begin

lemma export_all_trail:
  "export_all export evs s = (ok, t) \<Longrightarrow>
    \<exists>rs. audit_events t = audit_events s @ rs \<and> list_all2 (\<lambda>(u, n, ev) r. row u n ev r) ok rs
      \<and> (healthy \<or> ok = [])"
proof (induction evs arbitrary: s ok)
  case (Cons x evs)
  obtain u n ev where x: "x = (u, n, ev)" by (cases x)
  obtain r s' where run: "export u n ev s = (r, s')" by (cases "export u n ev s")
  obtain ok' t' where rest: "export_all export evs s' = (ok', t')" by (cases "export_all export evs s'")
  have t: "t' = t" and ok: "ok = (case r of Inl _ \<Rightarrow> ok' | Inr _ \<Rightarrow> (u, n, ev) # ok')"
    using Cons.prems rest by (auto simp: x run split: sum.splits)
  obtain rs where rs: "audit_events t = audit_events s' @ rs" "list_all2 (\<lambda>(u, n, ev) r. row u n ev r) ok' rs"
      "healthy \<or> ok' = []"
    using Cons.IH [of s' ok'] rest t by auto
  show ?case
  proof (cases r)
    case (Inl e)
    then show ?thesis using rs ok failed [of u n ev s e s'] run by auto
  next
    case (Inr v)
    then obtain r1 where r1: "audit_events s' = audit_events s @ [r1]" "row u n ev r1"
      using exported [of u n ev s v s'] run by auto
    then have "audit_events t = audit_events s @ (r1 # rs)" using rs(1) by simp
    moreover have "list_all2 (\<lambda>(u, n, ev) r. row u n ev r) ok (r1 # rs)" using rs(2) ok Inr r1(2) by simp
    ultimately show ?thesis using reachable [of u n ev s v s'] run Inr by blast
  qed
qed simp

end

text \<open>The row an event becomes.\<close>

definition export_row :: "(int \<Rightarrow> string) \<Rightarrow> string \<Rightarrow> int \<Rightarrow> audit_export_event \<Rightarrow> audit_event \<Rightarrow> bool" where
  "export_row isoformat uuid now ev r = (ae_id r = ''audit-'' @ uuid \<and> ae_tenant_id r = xe_tenant_id ev
     \<and> ae_actor_subject r = xe_actor ev \<and> ae_action r = xe_action ev \<and> ae_result r = xe_result ev
     \<and> ae_resource_type r = xe_resource_type ev \<and> ae_resource_id r = xe_resource_id ev
     \<and> dict_get (ae_metadata r) ''exported_at'' = Some (PStr (isoformat (normalized_timestamp now ev)))
     \<and> (\<forall>k. k \<noteq> ''exported_at'' \<longrightarrow> dict_get (ae_metadata r) k =
         (case xe_metadata ev of Some m \<Rightarrow> dict_get m k | None \<Rightarrow> None)))"

lemma local_export_Inr:
  assumes "local_export_event isoformat uuid now ev s = (Inr u, s')"
  shows "\<exists>r. audit_events s' = audit_events s @ [r] \<and> export_row isoformat uuid now ev r"
proof -
  obtain i where "insert_audit_event uuid (xe_action ev) (xe_result ev) (xe_tenant_id ev) (xe_actor ev)
      (xe_resource_type ev) (xe_resource_id ev) (Some (export_metadata isoformat now ev)) s = (Inr i, s')"
    using assms by (auto simp: local_export_event_def bind_eff_Inr_iff ret_def)
  from get_connection_Inr [OF this [unfolded insert_audit_event_def Let_def]]
  show ?thesis
    by (auto simp: insert_pk_def export_row_def export_metadata_def dict_get_def next_conn_def
        split: if_splits sum.splits option.splits)
qed

lemma local_export_Inl:
  assumes "local_export_event isoformat uuid now ev s = (Inl e, s')"
  shows "audit_events s' = audit_events s"
  using assms unfolding local_export_event_def
  by (auto elim!: bind_eff_Inl_cases simp: insert_audit_event_def get_connection_def next_conn_def Let_def ret_def
      split: list.splits option.splits prod.splits sum.splits)

interpretation local_sink: audit_sink_contract "export_event isoformat LocalPostgresAuditSink"
    "sink_health_check LocalPostgresAuditSink" "export_row isoformat" for isoformat
  by unfold_locales (auto simp: local_export_Inr local_export_Inl)

interpretation external_sink: audit_sink_contract "export_event isoformat (LazyExternalAuditSink provider)"
    "sink_health_check (LazyExternalAuditSink provider)" "export_row isoformat" for isoformat provider
  by unfold_locales (auto simp: disabled_export_event_def raise_exn_def)

section \<open>Properties\<close>

text \<open>
  C29. The audit trail grows by exactly what was exported. For a sequence of exports through the configured
  sink, some of which may fail, the rows added are, one for one and in order, those of the exports that
  returned, with the event's fields, its metadata and the time of the export; and only the PostgreSQL sink ever
  returns: with an external sink configured every export fails and nothing is stored.
\<close>

theorem audit_exports_recorded:
  assumes "build_audit_sink st = Inr sink"
    and "export_all (\<lambda>u n ev. export_audit_event isoformat u n st ev) evs s = (ok, t)"
  shows "\<exists>rs. audit_events t = audit_events s @ rs
    \<and> list_all2 (\<lambda>(u, n, ev) r. export_row isoformat u n ev r) ok rs
    \<and> (sink = LocalPostgresAuditSink \<or> ok = [])"
proof -
  have "export_audit_event isoformat u n st ev = export_event isoformat sink u n ev" for u n ev
    by (simp add: export_audit_event_def assms(1))
  then have run: "export_all (export_event isoformat sink) evs s = (ok, t)"
    using assms(2) by simp
  show ?thesis
  proof (cases sink)
    case LocalPostgresAuditSink
    then show ?thesis using local_sink.export_all_trail run by blast
  next
    case (LazyExternalAuditSink p)
    then show ?thesis using external_sink.export_all_trail run by fastforce
  qed
qed

definition example_export :: audit_export_event where
  "example_export = \<lparr>xe_tenant_id = Some ''acme'', xe_actor = Some ''alice'', xe_action = ''lab_run'', xe_result = ''success'',
     xe_resource_type = None, xe_resource_id = None, xe_metadata = Some [(''lab'', PStr ''redis'')], xe_timestamp = None\<rparr>"

theorem audit_exports_recorded_witness:
  "\<exists>rs t. export_all (\<lambda>u n ev. export_audit_event show_int u n default_settings ev)
      [(''1'', 5, example_export), (''1'', 6, example_export), (''2'', 7, example_export)] (empty_pg 0)
      = ([(''1'', 5, example_export), (''2'', 7, example_export)], t)
    \<and> audit_events t = rs \<and> length rs = 2"
proof -
  let ?evs = "[(''1'', 5, example_export), (''1'', 6, example_export), (''2'', 7, example_export)]"
  let ?run = "export_all (\<lambda>u n ev. export_audit_event show_int u n default_settings ev) ?evs (empty_pg 0)"
  have sink: "build_audit_sink default_settings = Inr LocalPostgresAuditSink"
    and ok: "fst ?run = [(''1'', 5, example_export), (''2'', 7, example_export)]" by code_simp+
  have run: "?run = ([(''1'', 5, example_export), (''2'', 7, example_export)], snd ?run)"
    by (simp only: ok [symmetric] prod.collapse)
  from audit_exports_recorded [OF sink run] obtain rs where "audit_events (snd ?run) = audit_events (empty_pg 0) @ rs"
    "length rs = 2" by (auto dest: list_all2_lengthD)
  then show ?thesis using run by (metis append_Nil empty_pg_def pg.select_convs(10))
qed

end
