(* ===== verification/Readiness_Props.thy ===== *)
theory Readiness_Props
  imports Config_Check
begin

text \<open>
  The properties of the readiness checks of \<open>apps/api/config_check.py\<close> and \<open>apps/api/staging_check.py\<close>.
\<close>

section \<open>Properties\<close>



text \<open>
  C35. What the check leaves behind when it is given an environment of its own: the variables it knows of are as
  they were, but every other variable of the given environment stays set in the process.
\<close>

theorem readiness_check_environment:
  assumes "distinct (map fst env)" and "evaluate_production_saas_readiness br pd (Some env) mocked s = (r, s')"
  shows "map_of s' k = (if k \<in> set READINESS_ENV_KEYS then map_of s k
    else case map_of env k of Some v \<Rightarrow> Some v | None \<Rightarrow> map_of s k)"
proof -
  let ?merged = "dict_set ''BOUNDARY_LAYER_PROFILE'' PRODUCTION_SAAS_PROFILE env"
  have "s' = snd (isolated_env ?merged (settings_here br pd []) s)"
    using assms(2) by (auto simp: evaluate_readiness_eq Let_def)
  then show ?thesis
    using profile_key by (auto simp: isolated_env_after [OF distinct_dict_set_env [OF assms(1)]] split: option.splits)
qed

theorem readiness_check_environment_witness:
  "map_of (snd (evaluate_production_saas_readiness no_bracket_error simple_pydantic
      (Some [(''API_PORT'', ''9000'')]) True [])) ''API_PORT'' = Some ''9000''"
proof -
  have "distinct (map fst [(''API_PORT'', ''9000'')])" "''API_PORT'' \<notin> set READINESS_ENV_KEYS" by code_simp+
  then show ?thesis
    using readiness_check_environment [of "[(''API_PORT'', ''9000'')]" no_bracket_error simple_pydantic True "[]" _ _ "''API_PORT''",
        OF _ surjective_pairing] by simp
qed

text \<open>
  The staging check does not look at the environment it is run in: its command prints the same report with the same
  exit status in any two environments that differ only in the variables the check is about.
\<close>

theorem staging_check_ignores_environment:
  assumes "filter (\<lambda>(k, v). k \<notin> set READINESS_ENV_KEYS) s = filter (\<lambda>(k, v). k \<notin> set READINESS_ENV_KEYS) t"
  shows "fst (staging_check_main br pd s) = fst (staging_check_main br pd t)"
proof -
  have same: "fst (isolated_env merged (settings_here br pd []) s) = fst (isolated_env merged (settings_here br pd []) t)"
    for merged
    using assms by (simp only: isolated_env_result clear_keys_filter)
  have "fst (evaluate_staging_readiness br pd None False s) = fst (evaluate_staging_readiness br pd None False t)"
    unfolding evaluate_staging_readiness_def staging_settings_from_merged_def Let_def
    using same [of "staging_merged (staging_merged [(''BOUNDARY_LAYER_ENV'', ''staging'')])"]
    by (auto split: prod.splits sum.splits)
  then show ?thesis
    by (auto simp: staging_check_main_def bind_eff_def ret_def split: prod.splits sum.splits)
qed

theorem staging_check_ignores_environment_witness:
  "\<exists>text. fst (staging_check_main no_bracket_error simple_pydantic [(''BOUNDARY_LAYER_PROFILE'', ''local-lab''), (''REDIS_URL'', ''redis://cache'')]) = Inr (text, 1)"
proof -
  have same: "filter (\<lambda>(k, v). k \<notin> set READINESS_ENV_KEYS) [(''BOUNDARY_LAYER_PROFILE'', ''local-lab''), (''REDIS_URL'', ''redis://cache'')] = filter (\<lambda>(k, v). k \<notin> set READINESS_ENV_KEYS) []"
    and out: "case fst (staging_check_main no_bracket_error simple_pydantic []) of Inr (text, code) \<Rightarrow> code = 1 | Inl _ \<Rightarrow> False"
    by code_simp+
  then show ?thesis
    by (simp only: staging_check_ignores_environment [OF same]) (auto split: sum.splits)
qed

end
