(* ===== verification/Storage.thy ===== *)
theory Storage
  imports Config Tenant_Scope
begin

text \<open>
  \<open>apps/api/storage.py\<close>: object keys, the in-memory backend, the cloud backends and their choice.
  Object data is a byte string. The provider SDKs are not part of the sources: a cloud backend is given
  a record of the calls it makes on one, over a state \<open>'w\<close> of the provider.
\<close>

section \<open>Keys\<close>

definition STORAGE_BACKENDS :: "string list" where
  "STORAGE_BACKENDS = [''gcs'', ''r2'', ''s3'']"

definition TENANT_KEY_SEGMENT :: string where
  "TENANT_KEY_SEGMENT = ''tenants''"

definition SDK_NOT_INSTALLED_MESSAGE :: string where
  "SDK_NOT_INSTALLED_MESSAGE =
     ''Provider SDK not installed. Install optional dependency or use the local test backend.''"

record object_metadata =
  om_key :: string
  om_size_bytes :: int
  om_content_type :: string

definition tenant_required :: exn where
  "tenant_required = StorageError ''tenant_id is required for object keys in production-saas'' ''tenant_required''"

definition build_tenant_object_key :: "string \<Rightarrow> string \<Rightarrow> string \<Rightarrow> bool \<Rightarrow> string result" where
  "build_tenant_object_key tenant_id relative_key prefix require_tenant =
     (if require_tenant \<and> strip tenant_id = [] then Inl tenant_required
      else
        let relative = lstrip_chr CHR ''/'' relative_key;
            normalized_prefix = rstrip_chr CHR ''/'' (strip prefix) in
        if endswith normalized_prefix TENANT_KEY_SEGMENT
        then Inr (normalized_prefix @ ''/'' @ strip tenant_id @ ''/'' @ relative)
        else let tenant_part = TENANT_KEY_SEGMENT @ ''/'' @ strip tenant_id @ ''/'' @ relative in
          if normalized_prefix \<noteq> [] then Inr (normalized_prefix @ ''/'' @ tenant_part) else Inr tenant_part)"

text \<open>The pattern \<open>^tenants/([^/]+)/\<close>.\<close>

definition extract_tenant_from_object_key :: "string \<Rightarrow> string option" where
  "extract_tenant_from_object_key key =
     (let normalized = lstrip_chr CHR ''/'' key in
      if startswith normalized ''tenants/'' then
        (case partition_chr CHR ''/'' (drop 8 normalized) of (segment, found, _) \<Rightarrow>
           if segment \<noteq> [] \<and> found then Some segment else None)
      else None)"

definition assert_tenant_object_access :: "string \<Rightarrow> string \<Rightarrow> unit result" where
  "assert_tenant_object_access tenant_id object_key =
     (case extract_tenant_from_object_key object_key of
        None \<Rightarrow> Inl (StorageError ''Object key must be tenant-scoped as tenants/{tenant_id}/...'' ''tenant_scope_required'')
      | Some key_tenant \<Rightarrow>
          if key_tenant \<noteq> strip tenant_id
          then Inl (StorageError ''Cross-tenant object access denied'' ''cross_tenant_denied'')
          else Inr ())"

definition cap_presigned_ttl :: "int \<Rightarrow> int \<Rightarrow> int result" where
  "cap_presigned_ttl requested_ttl max_ttl =
     (if requested_ttl \<le> 0 then Inl (StorageError ''Presigned URL TTL must be positive'' ''invalid_ttl'')
      else Inr (min requested_ttl max_ttl))"

definition resolve_object_key :: "string \<Rightarrow> string \<Rightarrow> settings \<Rightarrow> bool \<Rightarrow> string result" where
  "resolve_object_key key tenant_id settings require_tenant =
     (if strip tenant_id \<noteq> [] then
        bind_res (if startswith key (TENANT_KEY_SEGMENT @ ''/'') then Inr key
                  else build_tenant_object_key tenant_id key (object_storage_prefix settings) require_tenant)
          (\<lambda>object_key. bind_res (assert_tenant_object_access tenant_id object_key) (\<lambda>_. Inr object_key))
      else if require_tenant then Inl tenant_required
      else
        let prefix = strip (object_storage_prefix settings) in
        if prefix \<noteq> [] \<and> \<not> startswith key prefix
        then Inr (rstrip_chr CHR ''/'' prefix @ ''/'' @ lstrip_chr CHR ''/'' key)
        else Inr key)"

section \<open>The in-memory backend\<close>

record memory_storage =
  ms_prefix :: string
  ms_require_tenant :: bool
  ms_objects :: "(string \<times> string \<times> string) list"

definition full_key :: "memory_storage \<Rightarrow> string \<Rightarrow> string \<Rightarrow> string result" where
  "full_key s key tenant_id =
     (if strip tenant_id \<noteq> [] \<or> ms_require_tenant s
      then build_tenant_object_key tenant_id key (ms_prefix s) (ms_require_tenant s)
      else Inr (rstrip_chr CHR ''/'' (ms_prefix s) @ ''/'' @ lstrip_chr CHR ''/'' key))"

definition object_not_found :: "string \<Rightarrow> exn" where
  "object_not_found key = StorageError (''Object not found: '' @ key) ''storage_not_found''"

definition memory_put_object ::
    "string \<Rightarrow> string \<Rightarrow> string \<Rightarrow> string \<Rightarrow> (memory_storage, object_metadata) eff" where
  "memory_put_object key data content_type tenant_id s =
     (case full_key s key tenant_id of
        Inl e \<Rightarrow> (Inl e, s)
      | Inr k \<Rightarrow> (Inr \<lparr>om_key = k, om_size_bytes = int (length data), om_content_type = content_type\<rparr>,
                  s\<lparr>ms_objects := dict_set k (data, content_type) (ms_objects s)\<rparr>))"

definition memory_get_object_metadata :: "string \<Rightarrow> string \<Rightarrow> (memory_storage, object_metadata) eff" where
  "memory_get_object_metadata key tenant_id s =
     (case full_key s key tenant_id of
        Inl e \<Rightarrow> (Inl e, s)
      | Inr k \<Rightarrow> (case map_of (ms_objects s) k of
          None \<Rightarrow> (Inl (object_not_found key), s)
        | Some (data, content_type) \<Rightarrow>
            (Inr \<lparr>om_key = k, om_size_bytes = int (length data), om_content_type = content_type\<rparr>, s)))"

definition memory_delete_object :: "string \<Rightarrow> string \<Rightarrow> (memory_storage, unit) eff" where
  "memory_delete_object key tenant_id s =
     (case full_key s key tenant_id of
        Inl e \<Rightarrow> (Inl e, s)
      | Inr k \<Rightarrow> (case map_of (ms_objects s) k of
          None \<Rightarrow> (Inl (object_not_found key), s)
        | Some _ \<Rightarrow> (Inr (), s\<lparr>ms_objects := dict_pop k (ms_objects s)\<rparr>)))"

definition memory_presigned_upload_url ::
    "string \<Rightarrow> string \<Rightarrow> int \<Rightarrow> string \<Rightarrow> (memory_storage, string) eff" where
  "memory_presigned_upload_url key content_type ttl_seconds tenant_id s =
     (bind_res (full_key s key tenant_id) (\<lambda>k. bind_res (cap_presigned_ttl ttl_seconds ttl_seconds) (\<lambda>capped.
        Inr (''memory://upload/'' @ k @ ''?content_type='' @ content_type @ ''&ttl='' @ show_int capped))), s)"

section \<open>The cloud backends\<close>

text \<open>
  The calls on a provider: whether its SDK imports, making a client from a region or bucket and an
  endpoint, storing, reading the size and type of, deleting and signing an upload of an object.
\<close>

record ('c, 'w) storage_sdk =
  sdk_installed :: bool
  sdk_client :: "string \<Rightarrow> string option \<Rightarrow> ('w, 'c) eff"
  sdk_put :: "'c \<Rightarrow> string \<Rightarrow> string \<Rightarrow> string \<Rightarrow> string \<Rightarrow> ('w, unit) eff"
  sdk_head :: "'c \<Rightarrow> string \<Rightarrow> string \<Rightarrow> ('w, int option \<times> string option) eff"
  sdk_delete :: "'c \<Rightarrow> string \<Rightarrow> string \<Rightarrow> ('w, unit) eff"
  sdk_presign :: "'c \<Rightarrow> string \<Rightarrow> string \<Rightarrow> string \<Rightarrow> int \<Rightarrow> ('w, string) eff"

datatype cloud_kind = S3StorageBackend | R2StorageBackend | GCSStorageBackend

record ('c, 'w) cloud_storage =
  cs_kind :: cloud_kind
  cs_settings :: settings
  cs_client :: "'c option"
  cs_world :: 'w

definition on_world :: "('w, 'a) eff \<Rightarrow> (('c, 'w) cloud_storage, 'a) eff" where
  "on_world m s = (case m (cs_world s) of (r, w) \<Rightarrow> (r, s\<lparr>cs_world := w\<rparr>))"

definition cloud_object_key :: "string \<Rightarrow> string \<Rightarrow> (('c, 'w) cloud_storage, string) eff" where
  "cloud_object_key key tenant_id s =
     (resolve_object_key key tenant_id (cs_settings s) (is_production_saas (cs_settings s)), s)"

definition cloud_bucket :: "('c, 'w) cloud_storage \<Rightarrow> string" where
  "cloud_bucket s = (case cs_kind s of
     GCSStorageBackend \<Rightarrow> strip (object_storage_bucket (cs_settings s))
   | _ \<Rightarrow> object_storage_bucket (cs_settings s))"

text \<open>The region and endpoint a client is made with, after the checks of its class.\<close>

definition client_arguments :: "('c, 'w) cloud_storage \<Rightarrow> (string \<times> string option) result" where
  "client_arguments s =
     (let region = strip (object_storage_region (cs_settings s));
          endpoint = strip (object_storage_endpoint (cs_settings s)) in
      case cs_kind s of
        S3StorageBackend \<Rightarrow> Inr (region, None)
      | R2StorageBackend \<Rightarrow>
          if endpoint = []
          then Inl (StorageError ''OBJECT_STORAGE_ENDPOINT is required for r2 backend'' ''storage_config_invalid'')
          else Inr (if region = [] then ''auto'' else region, Some endpoint)
      | GCSStorageBackend \<Rightarrow> Inr (strip (object_storage_bucket (cs_settings s)), None))"

definition cloud_client :: "('c, 'w) storage_sdk \<Rightarrow> (('c, 'w) cloud_storage, 'c) eff" where
  "cloud_client sdk s =
     (case cs_client s of
        Some c \<Rightarrow> (Inr c, s)
      | None \<Rightarrow> (case client_arguments s of
          Inl e \<Rightarrow> (Inl e, s)
        | Inr (region, endpoint) \<Rightarrow>
            if \<not> sdk_installed sdk
            then (Inl (StorageError SDK_NOT_INSTALLED_MESSAGE ''sdk_not_installed''), s)
            else bind_eff (on_world (sdk_client sdk region endpoint))
                   (\<lambda>c s. (Inr c, s\<lparr>cs_client := Some c\<rparr>)) s))"

definition cloud_put_object ::
    "('c, 'w) storage_sdk \<Rightarrow> string \<Rightarrow> string \<Rightarrow> string \<Rightarrow> string \<Rightarrow> (('c, 'w) cloud_storage, object_metadata) eff" where
  "cloud_put_object sdk key data content_type tenant_id =
     bind_eff (cloud_object_key key tenant_id) (\<lambda>object_key.
     bind_eff (cloud_client sdk) (\<lambda>client s.
       bind_eff (on_world (sdk_put sdk client (cloud_bucket s) object_key data content_type)) (\<lambda>_.
         ret \<lparr>om_key = object_key, om_size_bytes = int (length data), om_content_type = content_type\<rparr>) s))"

definition cloud_get_object_metadata ::
    "('c, 'w) storage_sdk \<Rightarrow> string \<Rightarrow> string \<Rightarrow> (('c, 'w) cloud_storage, object_metadata) eff" where
  "cloud_get_object_metadata sdk key tenant_id =
     bind_eff (cloud_object_key key tenant_id) (\<lambda>object_key.
     bind_eff (cloud_client sdk) (\<lambda>client s.
       bind_eff (on_world (sdk_head sdk client (cloud_bucket s) object_key)) (\<lambda>(size, ctype).
         ret \<lparr>om_key = object_key, om_size_bytes = (case size of None \<Rightarrow> 0 | Some n \<Rightarrow> n),
              om_content_type = (case ctype of None \<Rightarrow> ''application/octet-stream''
                | Some t \<Rightarrow> if t = [] \<and> cs_kind s = GCSStorageBackend then ''application/octet-stream'' else t)\<rparr>) s))"

definition cloud_delete_object ::
    "('c, 'w) storage_sdk \<Rightarrow> string \<Rightarrow> string \<Rightarrow> (('c, 'w) cloud_storage, unit) eff" where
  "cloud_delete_object sdk key tenant_id =
     bind_eff (cloud_object_key key tenant_id) (\<lambda>object_key.
     bind_eff (cloud_client sdk) (\<lambda>client s. on_world (sdk_delete sdk client (cloud_bucket s) object_key) s))"

definition cloud_presigned_upload_url ::
    "('c, 'w) storage_sdk \<Rightarrow> string \<Rightarrow> string \<Rightarrow> int \<Rightarrow> string \<Rightarrow> (('c, 'w) cloud_storage, string) eff" where
  "cloud_presigned_upload_url sdk key content_type ttl_seconds tenant_id =
     bind_eff (cloud_object_key key tenant_id) (\<lambda>object_key.
     bind_eff (\<lambda>s. (cap_presigned_ttl ttl_seconds (object_storage_presigned_url_ttl_seconds (cs_settings s)), s)) (\<lambda>capped.
     bind_eff (cloud_client sdk) (\<lambda>client s.
       on_world (sdk_presign sdk client (cloud_bucket s) object_key content_type capped) s)))"

section \<open>Choosing a backend\<close>

definition validate_storage_settings :: "settings \<Rightarrow> unit result" where
  "validate_storage_settings settings =
     (let backend = lower (strip (file_storage_backend settings)) in
      if \<not> is_production_saas settings then Inr ()
      else if backend \<in> set [''local'', ''disk'', ''filesystem'', ''memory'']
      then Inl (ValueError ''BOUNDARY_LAYER_FILE_STORAGE_BACKEND must not use local disk in production-saas'')
      else if backend \<notin> set STORAGE_BACKENDS
      then Inl (ValueError (''BOUNDARY_LAYER_FILE_STORAGE_BACKEND must be one of: '' @ join '', '' STORAGE_BACKENDS))
      else if strip (object_storage_bucket settings) = []
      then Inl (ValueError ''OBJECT_STORAGE_BUCKET is required in production-saas'')
      else if backend = ''r2'' \<and> strip (object_storage_endpoint settings) = []
      then Inl (ValueError ''OBJECT_STORAGE_ENDPOINT is required for r2 backend'')
      else Inr ())"

datatype storage_backend =
    LocalMemoryStorageBackend memory_storage
  | CloudStorageBackend cloud_kind settings
  | DisabledProductionStorageBackend string

definition fresh_memory :: "string \<Rightarrow> storage_backend" where
  "fresh_memory prefix =
     LocalMemoryStorageBackend \<lparr>ms_prefix = prefix, ms_require_tenant = False, ms_objects = []\<rparr>"

definition build_storage_backend :: "settings \<Rightarrow> storage_backend result" where
  "build_storage_backend settings =
     bind_res (validate_storage_settings settings) (\<lambda>_.
       let backend = lower (strip (file_storage_backend settings));
           prefix = object_storage_prefix settings in
       if is_local_lab settings then Inr (fresh_memory (if prefix = [] then ''local/'' else prefix))
       else if is_production_saas settings then
         (if backend = ''s3'' then Inr (CloudStorageBackend S3StorageBackend settings)
          else if backend = ''gcs'' then Inr (CloudStorageBackend GCSStorageBackend settings)
          else if backend = ''r2'' then Inr (CloudStorageBackend R2StorageBackend settings)
          else Inr (DisabledProductionStorageBackend (''Object storage adapter for '' @ backend @
                 '' is not configured; set FILE_STORAGE_BACKEND to s3, gcs, or r2'')))
       else Inr (fresh_memory (if prefix = [] then ''test/'' else prefix)))"

text \<open>Every operation of the disabled backend.\<close>

definition disabled_fail :: "string \<Rightarrow> 'a result" where
  "disabled_fail reason = Inl (StorageError reason ''storage_not_configured'')"

section \<open>The contract of a store\<close>

datatype store_op = Put string string string string | Delete string string

text \<open>Operations one after the other, whatever each of them returns or raises.\<close>

fun run_store ::
    "(string \<Rightarrow> string \<Rightarrow> string \<Rightarrow> string \<Rightarrow> ('s, object_metadata) eff) \<Rightarrow> (string \<Rightarrow> string \<Rightarrow> ('s, unit) eff)
     \<Rightarrow> store_op list \<Rightarrow> 's \<Rightarrow> 's" where
  "run_store put delete [] s = s"
| "run_store put delete (Put k d c t # ops) s = run_store put delete ops (snd (put k d c t s))"
| "run_store put delete (Delete k t # ops) s = run_store put delete ops (snd (delete k t s))"

fun op_key :: "store_op \<Rightarrow> string \<times> string" where
  "op_key (Put k d c t) = (k, t)"
| "op_key (Delete k t) = (k, t)"

locale object_store =
  fixes put :: "string \<Rightarrow> string \<Rightarrow> string \<Rightarrow> string \<Rightarrow> ('s, object_metadata) eff"
    and head :: "string \<Rightarrow> string \<Rightarrow> ('s, object_metadata) eff"
    and delete :: "string \<Rightarrow> string \<Rightarrow> ('s, unit) eff"
    and name :: "'s \<Rightarrow> string \<Rightarrow> string \<Rightarrow> string result"
  assumes put_head: "put k d c t s = (Inr m, s') \<Longrightarrow> head k t s' = (Inr m, s')"
    and put_other: "name s k' t' \<noteq> name s k t \<Longrightarrow> fst (head k' t' (snd (put k d c t s))) = fst (head k' t' s)"
    and delete_gone: "delete k t s = (Inr (), s') \<Longrightarrow> fst (head k t s') = Inl (object_not_found k)"
    and delete_other: "name s k' t' \<noteq> name s k t \<Longrightarrow> fst (head k' t' (snd (delete k t s))) = fst (head k' t' s)"
    and delete_present: "head k t s = (Inr m, s') \<Longrightarrow> fst (delete k t s) = Inr ()"
    and names_kept: "name (snd (put k d c t s)) = name s" "name (snd (delete k t s)) = name s"
begin

lemma run_other:
  assumes "\<And>op. op \<in> set ops \<Longrightarrow> name s (fst (op_key op)) (snd (op_key op)) \<noteq> name s k t"
  shows "fst (head k t (run_store put delete ops s)) = fst (head k t s)
    \<and> name (run_store put delete ops s) = name s"
  using assms
proof (induction ops arbitrary: s)
  case (Cons op ops)
  have rest: "name s (fst (op_key o')) (snd (op_key o')) \<noteq> name s k t" if "o' \<in> set ops" for o'
    using Cons.prems that by simp
  show ?case
  proof (cases op)
    case (Put k' d c t')
    have "name s k t \<noteq> name s k' t'" using Cons.prems [of op] Put by auto
    from put_other [OF this] show ?thesis
      using Cons.IH [of "snd (put k' d c t' s)"] rest Put by (simp add: names_kept)
  next
    case (Delete k' t')
    have "name s k t \<noteq> name s k' t'" using Cons.prems [of op] Delete by auto
    from delete_other [OF this] show ?thesis
      using Cons.IH [of "snd (delete k' t' s)"] rest Delete by (simp add: names_kept)
  qed
qed simp

text \<open>What was stored is found, through any work on other objects, until it is deleted.\<close>

lemma put_survives:
  assumes "put k d c t s = (Inr m, s1)"
    and "\<And>op. op \<in> set ops \<Longrightarrow> name s (fst (op_key op)) (snd (op_key op)) \<noteq> name s k t"
  defines "s2 \<equiv> run_store put delete ops s1"
  shows "fst (head k t s2) = Inr m"
    and "fst (delete k t s2) = Inr ()"
    and "fst (head k t (snd (delete k t s2))) = Inl (object_not_found k)"
proof -
  have same: "name s1 = name s" using assms(1) names_kept(1) by (metis snd_conv)
  have "fst (head k t s2) = fst (head k t s1)"
    unfolding s2_def by (rule run_other [THEN conjunct1]) (use assms(2) same in simp)
  then show found: "fst (head k t s2) = Inr m" using put_head [OF assms(1)] by simp
  then show gone: "fst (delete k t s2) = Inr ()" using delete_present by (metis prod.collapse)
  then show "fst (head k t (snd (delete k t s2))) = Inl (object_not_found k)"
    using delete_gone [of k t s2] by (metis prod.collapse)
qed

end

lemma full_key_frame [simp]: "full_key (s\<lparr>ms_objects := os\<rparr>) = full_key s"
  by (simp add: full_key_def fun_eq_iff)

interpretation memory_store: object_store memory_put_object memory_get_object_metadata memory_delete_object full_key
proof
  show "memory_put_object k d c t s = (Inr m, s') \<Longrightarrow> memory_get_object_metadata k t s' = (Inr m, s')" for k d c t s m s'
    by (auto simp: memory_put_object_def memory_get_object_metadata_def split: sum.splits)
  show "full_key s k' t' \<noteq> full_key s k t \<Longrightarrow>
      fst (memory_get_object_metadata k' t' (snd (memory_put_object k d c t s))) = fst (memory_get_object_metadata k' t' s)"
    for s k' t' k t d c
    by (auto simp: memory_put_object_def memory_get_object_metadata_def split: sum.splits option.splits)
  show "memory_delete_object k t s = (Inr (), s') \<Longrightarrow> fst (memory_get_object_metadata k t s') = Inl (object_not_found k)"
    for k t s s'
    by (auto simp: memory_delete_object_def memory_get_object_metadata_def split: sum.splits option.splits)
  show "full_key s k' t' \<noteq> full_key s k t \<Longrightarrow>
      fst (memory_get_object_metadata k' t' (snd (memory_delete_object k t s))) = fst (memory_get_object_metadata k' t' s)"
    for s k' t' k t
    by (auto simp: memory_delete_object_def memory_get_object_metadata_def split: sum.splits option.splits)
  show "memory_get_object_metadata k t s = (Inr m, s') \<Longrightarrow> fst (memory_delete_object k t s) = Inr ()" for k t s m s'
    by (auto simp: memory_delete_object_def memory_get_object_metadata_def split: sum.splits option.splits)
qed (auto simp: memory_put_object_def memory_delete_object_def split: sum.splits option.splits)

section \<open>Tenant scope\<close>

definition object_scope :: "string \<Rightarrow> string" where
  "object_scope tenant_id = ''tenants/'' @ tenant_id @ ''/''"

definition slash_free :: "string \<Rightarrow> bool" where
  "slash_free t = (CHR ''/'' \<notin> set t)"

interpretation object_scope: tenant_scope object_scope slash_free
proof
  fix a b x
  assume "slash_free a" "slash_free b" "startswith x (object_scope a)" "startswith x (object_scope b)"
  then show "a = b"
    using separator_scope [of "CHR ''/''" a b x "''tenants/''" "[]" "[]"]
    by (simp add: slash_free_def object_scope_def)
qed

lemma extract_tenant_Some:
  assumes "extract_tenant_from_object_key key = Some t"
  shows "t \<noteq> []" and "slash_free t" and "startswith (lstrip_chr CHR ''/'' key) (object_scope t)"
proof -
  let ?n = "lstrip_chr CHR ''/'' key"
  have start: "startswith ?n ''tenants/''" and t: "t = takeWhile (\<lambda>x. x \<noteq> CHR ''/'') (drop 8 ?n)"
    and found: "CHR ''/'' \<in> set (drop 8 ?n)" and ne: "t \<noteq> []"
    using assms by (auto simp: extract_tenant_from_object_key_def partition_chr_def Let_def split: if_splits)
  show "t \<noteq> []" by (rule ne)
  show "slash_free t" unfolding slash_free_def t by (auto dest: set_takeWhileD)
  obtain rest where "drop 8 ?n = t @ CHR ''/'' # rest"
    using takeWhile_sep [OF found] unfolding t by blast
  moreover have "?n = ''tenants/'' @ drop 8 ?n"
    using start by (auto simp: startswith_iff)
  ultimately have "?n = object_scope t @ rest"
    by (simp add: object_scope_def)
  then show "startswith ?n (object_scope t)" by (auto simp: startswith_iff)
qed

lemma resolve_object_key_Inr:
  assumes "resolve_object_key key t st req = Inr k" and "strip t \<noteq> []"
  shows "extract_tenant_from_object_key k = Some (strip t)"
  using assms by (auto simp: resolve_object_key_def assert_tenant_object_access_def bind_res_Inr_iff
      split: option.splits if_splits)

text \<open>
  What a provider documents of its calls: storing and deleting touch the object named, the other
  calls touch none. \<open>view\<close> reads the object stored under a key.
\<close>

definition sdk_local :: "('w \<Rightarrow> string \<Rightarrow> 'o) \<Rightarrow> ('c, 'w) storage_sdk \<Rightarrow> bool" where
  "sdk_local view sdk =
     ((\<forall>c b k d ty w x. x \<noteq> k \<longrightarrow> view (snd (sdk_put sdk c b k d ty w)) x = view w x) \<and>
      (\<forall>c b k w x. x \<noteq> k \<longrightarrow> view (snd (sdk_delete sdk c b k w)) x = view w x) \<and>
      (\<forall>r e w. view (snd (sdk_client sdk r e w)) = view w) \<and>
      (\<forall>c b k w. view (snd (sdk_head sdk c b k w)) = view w) \<and>
      (\<forall>c b k ty n w. view (snd (sdk_presign sdk c b k ty n w)) = view w))"

lemma on_world_view: "view (cs_world (snd (on_world m s))) x = view (snd (m (cs_world s))) x"
  by (simp add: on_world_def split: prod.splits)

lemma cloud_client_view:
  assumes "sdk_local view sdk"
  shows "view (cs_world (snd (cloud_client sdk s))) = view (cs_world s)"
  using assms
  by (auto simp: cloud_client_def bind_eff_def on_world_def sdk_local_def
      split: option.splits sum.splits prod.splits) (metis snd_conv)+

lemma with_client_view:
  assumes "sdk_local view sdk" and "\<And>c s. view (cs_world (snd (f c s))) x = view (cs_world s) x"
  shows "view (cs_world (snd (bind_eff (cloud_client sdk) f s))) x = view (cs_world s) x"
proof (cases "cloud_client sdk s")
  case (Pair r s1)
  then have "view (cs_world s1) = view (cs_world s)"
    using cloud_client_view [OF assms(1), of s] by simp
  with Pair assms(2) show ?thesis by (cases r) (simp_all add: bind_eff_def)
qed

lemma bind_view:
  assumes "\<And>s. view (cs_world (snd (m s))) x = view (cs_world s) x" and "\<And>a s. cs_world (snd (f a s)) = cs_world s"
  shows "view (cs_world (snd (bind_eff m f s))) x = view (cs_world s) x"
proof (cases "m s")
  case (Pair r s1)
  then have "view (cs_world s1) x = view (cs_world s) x"
    using assms(1) [of s] by simp
  with Pair assms(2) show ?thesis by (cases r) (simp_all add: bind_eff_def)
qed

lemma cloud_key_view:
  assumes "\<And>k. resolve_object_key key t (cs_settings s) (is_production_saas (cs_settings s)) = Inr k \<Longrightarrow>
      view (cs_world (snd (f k s))) x = view (cs_world s) x"
  shows "view (cs_world (snd (bind_eff (cloud_object_key key t) f s))) x = view (cs_world s) x"
  using assms by (auto simp: bind_eff_def cloud_object_key_def split: sum.splits prod.splits)

lemma saas_key_tenant:
  assumes "is_production_saas st" and "resolve_object_key key t st (is_production_saas st) = Inr k"
  shows "extract_tenant_from_object_key k = Some (strip t)"
proof (cases "strip t = []")
  case True
  then show ?thesis using assms by (simp add: resolve_object_key_def)
next
  case False
  then show ?thesis using resolve_object_key_Inr assms(2) by blast
qed

lemma cloud_ops_isolated:
  assumes "is_production_saas (cs_settings s)" and "sdk_local view sdk"
    and "extract_tenant_from_object_key x = Some u" and "u \<noteq> strip t"
  shows "view (cs_world (snd (cloud_put_object sdk key d c t s))) x = view (cs_world s) x"
    and "view (cs_world (snd (cloud_delete_object sdk key t s))) x = view (cs_world s) x"
    and "view (cs_world (snd (cloud_get_object_metadata sdk key t s))) x = view (cs_world s) x"
    and "view (cs_world (snd (cloud_presigned_upload_url sdk key c n t s))) x = view (cs_world s) x"
proof -
  note laws = assms(2) [unfolded sdk_local_def]
  have other: "x \<noteq> k" if "resolve_object_key key t (cs_settings s) (is_production_saas (cs_settings s)) = Inr k" for k
    using saas_key_tenant [OF assms(1) that] assms(3,4) by auto
  show "view (cs_world (snd (cloud_put_object sdk key d c t s))) x = view (cs_world s) x"
    unfolding cloud_put_object_def using laws other
    by (auto intro!: cloud_key_view with_client_view [OF assms(2)] bind_view simp: on_world_view ret_def)
  show "view (cs_world (snd (cloud_delete_object sdk key t s))) x = view (cs_world s) x"
    unfolding cloud_delete_object_def using laws other
    by (auto intro!: cloud_key_view with_client_view [OF assms(2)] simp: on_world_view)
  show "view (cs_world (snd (cloud_get_object_metadata sdk key t s))) x = view (cs_world s) x"
    unfolding cloud_get_object_metadata_def using laws
    by (auto intro!: cloud_key_view with_client_view [OF assms(2)] bind_view simp: on_world_view ret_def)
  show "view (cs_world (snd (cloud_presigned_upload_url sdk key c n t s))) x = view (cs_world s) x"
    unfolding cloud_presigned_upload_url_def using laws
    by (intro cloud_key_view) (auto simp: bind_eff_def [of "\<lambda>s. (_ s, s)"] on_world_view
        intro!: with_client_view [OF assms(2)] split: sum.splits)
qed

text \<open>No operation changes the settings of a backend.\<close>

lemma bind_settings:
  assumes "\<And>s. cs_settings (snd (m s)) = cs_settings s" and "\<And>x s. cs_settings (snd (f x s)) = cs_settings s"
  shows "cs_settings (snd (bind_eff m f s)) = cs_settings s"
proof (cases "m s")
  case (Pair r s1)
  then show ?thesis using assms(1) [of s] assms(2) by (cases r) (simp_all add: bind_eff_def)
qed

lemma parts_settings [simp]:
  "cs_settings (snd (on_world w s)) = cs_settings s"
  "cs_settings (snd (cloud_object_key key t s)) = cs_settings s"
  "cs_settings (snd (cloud_client sdk s)) = cs_settings s"
  by (auto simp: on_world_def cloud_object_key_def cloud_client_def bind_eff_def
      split: option.splits sum.splits prod.splits)

lemma cloud_ops_settings [simp]:
  "cs_settings (snd (cloud_put_object sdk key d c t s)) = cs_settings s"
  "cs_settings (snd (cloud_get_object_metadata sdk key t s)) = cs_settings s"
  "cs_settings (snd (cloud_delete_object sdk key t s)) = cs_settings s"
  unfolding cloud_put_object_def cloud_get_object_metadata_def cloud_delete_object_def
  by (auto intro!: bind_settings simp: ret_def)

section \<open>Properties\<close>

text \<open>
  C14. In \<open>production-saas\<close> no operation of a cloud backend on behalf of a tenant can change an
  object of another tenant: whatever key and tenant the caller gives, an object whose key belongs to
  a different tenant reads the same afterwards, given only that the provider's calls act on the
  object they name.
\<close>

theorem cloud_storage_isolated:
  assumes "is_production_saas (cs_settings s)" and "sdk_local view sdk"
    and "extract_tenant_from_object_key x = Some u" and "u \<noteq> strip t"
  shows "view (cs_world (snd (cloud_put_object sdk key d c t s))) x = view (cs_world s) x
    \<and> view (cs_world (snd (cloud_delete_object sdk key t s))) x = view (cs_world s) x
    \<and> view (cs_world (snd (cloud_get_object_metadata sdk key t s))) x = view (cs_world s) x
    \<and> view (cs_world (snd (cloud_presigned_upload_url sdk key c n t s))) x = view (cs_world s) x"
  using cloud_ops_isolated [OF assms] by blast

text \<open>A bucket as a dictionary from keys to data.\<close>

definition dict_sdk :: "(unit, (string \<times> string) list) storage_sdk" where
  "dict_sdk = \<lparr>sdk_installed = True, sdk_client = (\<lambda>r e. ret ()),
     sdk_put = (\<lambda>_ b k d ty w. (Inr (), dict_set k d w)),
     sdk_head = (\<lambda>_ b k w. (case map_of w k of None \<Rightarrow> Inl (OtherError ''404'')
        | Some d \<Rightarrow> Inr (Some (int (length d)), None), w)),
     sdk_delete = (\<lambda>_ b k w. (Inr (), dict_pop k w)),
     sdk_presign = (\<lambda>_ b k ty n. ret (''https://bucket/'' @ k))\<rparr>"

lemma dict_sdk_local: "sdk_local map_of dict_sdk"
  by (simp add: sdk_local_def dict_sdk_def ret_def)

definition example_cloud :: "(unit, (string \<times> string) list) cloud_storage" where
  "example_cloud = \<lparr>cs_kind = S3StorageBackend,
     cs_settings = default_settings\<lparr>boundary_layer_profile := ''production-saas'', object_storage_prefix := ''tenants/''\<rparr>,
     cs_client = None, cs_world = [(''tenants/acme/report.txt'', ''secret'')]\<rparr>"

theorem cloud_storage_isolated_witness:
  "map_of (cs_world (snd (cloud_delete_object dict_sdk ''tenants/acme/report.txt'' ''mallory'' example_cloud)))
     ''tenants/acme/report.txt'' = Some ''secret''"
proof -
  have pre: "is_production_saas (cs_settings example_cloud)"
    "extract_tenant_from_object_key ''tenants/acme/report.txt'' = Some ''acme''" "''acme'' \<noteq> strip ''mallory''"
    "map_of (cs_world example_cloud) ''tenants/acme/report.txt'' = Some ''secret''"
    by code_simp+
  show ?thesis
    using cloud_storage_isolated [OF pre(1) dict_sdk_local pre(2,3)] pre(4) by simp
qed

text \<open>
  The in-memory store keeps what it is given: after a successful \<open>put_object\<close> and any further
  operations on objects of other names, the metadata read back are those the call returned; then
  \<open>delete_object\<close> succeeds, and reading raises \<open>storage_not_found\<close>.
\<close>

theorem memory_storage_roundtrip:
  assumes "memory_put_object k d c t s = (Inr m, s1)"
    and "\<And>op. op \<in> set ops \<Longrightarrow> full_key s (fst (op_key op)) (snd (op_key op)) \<noteq> full_key s k t"
    and "s2 = run_store memory_put_object memory_delete_object ops s1"
  shows "fst (memory_get_object_metadata k t s2) = Inr m \<and> om_size_bytes m = int (length d) \<and> om_content_type m = c
    \<and> fst (memory_delete_object k t s2) = Inr ()
    \<and> fst (memory_get_object_metadata k t (snd (memory_delete_object k t s2))) = Inl (object_not_found k)"
proof -
  have "om_size_bytes m = int (length d) \<and> om_content_type m = c"
    using assms(1) by (auto simp: memory_put_object_def split: sum.splits)
  then show ?thesis
    using memory_store.put_survives [OF assms(1,2)] by (simp add: assms(3))
qed

theorem memory_storage_roundtrip_witness:
  "fst (memory_get_object_metadata ''a.txt'' ''acme''
      (run_store memory_put_object memory_delete_object [Put ''a.txt'' ''xx'' ''text/html'' ''globex'', Delete ''b.txt'' ''acme'']
         (snd (memory_put_object ''a.txt'' ''hello'' ''text/plain'' ''acme''
            \<lparr>ms_prefix = ''test/'', ms_require_tenant = True, ms_objects = []\<rparr>))))
     = Inr \<lparr>om_key = ''test/tenants/acme/a.txt'', om_size_bytes = 5, om_content_type = ''text/plain''\<rparr>"
proof -
  let ?s = "\<lparr>ms_prefix = ''test/'', ms_require_tenant = True, ms_objects = []\<rparr>"
  let ?m = "\<lparr>om_key = ''test/tenants/acme/a.txt'', om_size_bytes = 5, om_content_type = ''text/plain''\<rparr>"
  let ?ops = "[Put ''a.txt'' ''xx'' ''text/html'' ''globex'', Delete ''b.txt'' ''acme'']"
  have ran: "memory_put_object ''a.txt'' ''hello'' ''text/plain'' ''acme'' ?s =
      (Inr ?m, snd (memory_put_object ''a.txt'' ''hello'' ''text/plain'' ''acme'' ?s))"
    by (simp add: prod_eq_iff) code_simp
  have "list_all (\<lambda>op. full_key ?s (fst (op_key op)) (snd (op_key op)) \<noteq> full_key ?s ''a.txt'' ''acme'') ?ops"
    by code_simp
  then have "full_key ?s (fst (op_key op)) (snd (op_key op)) \<noteq> full_key ?s ''a.txt'' ''acme''" if "op \<in> set ?ops" for op
    using that unfolding list_all_iff by blast
  from memory_storage_roundtrip [OF ran this refl] show ?thesis by blast
qed

text \<open>
  The in-memory store does not keep apart tenants whose ids hold a slash, as the cloud backends
  do: it stores the object \<open>c\<close> of the tenant \<open>a/b\<close> and the object \<open>b/c\<close> of the tenant
  \<open>a\<close> under one key, where \<open>_resolve_object_key\<close> refuses the first of them.
\<close>

theorem memory_storage_slash_collision:
  "(let s = \<lparr>ms_prefix = ''test/'', ms_require_tenant = True, ms_objects = []\<rparr> in
     full_key s ''c'' ''a/b'' = full_key s ''b/c'' ''a''
     \<and> resolve_object_key ''c'' ''a/b'' (default_settings\<lparr>object_storage_prefix := ''tenants/''\<rparr>) True
         = Inl (StorageError ''Cross-tenant object access denied'' ''cross_tenant_denied''))"
  by code_simp

text \<open>
  A storage prefix that does not end in \<open>tenants\<close> shuts every tenant out: the key the backend
  itself builds below the prefix then fails its own tenant check.
\<close>

theorem storage_prefix_locks_out:
  "resolve_object_key ''a.txt'' ''acme'' (default_settings\<lparr>object_storage_prefix := ''uploads/''\<rparr>) True
     = Inl (StorageError ''Object key must be tenant-scoped as tenants/{tenant_id}/...'' ''tenant_scope_required'')
   \<and> resolve_object_key ''a.txt'' ''acme'' (default_settings\<lparr>object_storage_prefix := ''tenants/''\<rparr>) True
     = Inr ''tenants/acme/a.txt''"
  by code_simp

end
