(* ===== verification/Secrets.thy ===== *)
theory Secrets
  imports Config Ttl_Cache Py_Json Py_Hash
begin

text \<open>
  \<open>apps/api/secrets.py\<close>: secret providers with a time-limited cache. The environment is an
  association list; each reading of \<open>time.monotonic()\<close> is an argument. The SDK of a cloud provider
  is a record: whether it imports, what making its client at an address does, and the answer to a request, as
  the value the code goes on to read.
\<close>

record secret_sdk =
  sk_installed :: bool
  sk_client :: "string \<Rightarrow> unit result"
  sk_fetch :: "string \<Rightarrow> pyval result"

section \<open>Redaction\<close>

definition secret_redact :: "string \<Rightarrow> nat \<Rightarrow> string" where
  "secret_redact value visible =
     (let cleaned = strip value in
      if cleaned = [] then ''<empty>''
      else if length cleaned \<le> visible then replicate (length cleaned) CHR ''*''
      else take visible cleaned @ replicate (length cleaned - visible) CHR ''*'')"

section \<open>The cache\<close>

record secret_cache =
  sc_ttl :: int
  sc_cache :: "(string \<times> int \<times> string) list"

text \<open>An entry that has lapsed is removed by the lookup that finds it.\<close>

definition cache_get :: "string \<Rightarrow> int \<Rightarrow> secret_cache \<Rightarrow> string option \<times> secret_cache" where
  "cache_get name now s =
     (case map_of (sc_cache s) name of
        None \<Rightarrow> (None, s)
      | Some (expires_at, value) \<Rightarrow>
          if now \<ge> expires_at then (None, s\<lparr>sc_cache := dict_pop name (sc_cache s)\<rparr>)
          else (Some value, s))"

definition cache_set :: "string \<Rightarrow> string \<Rightarrow> int \<Rightarrow> secret_cache \<Rightarrow> secret_cache" where
  "cache_set name value now s = s\<lparr>sc_cache := dict_set name (now + sc_ttl s, value) (sc_cache s)\<rparr>"

definition cache_evict :: "string \<Rightarrow> secret_cache \<Rightarrow> secret_cache" where
  "cache_evict name s = s\<lparr>sc_cache := dict_pop name (sc_cache s)\<rparr>"

section \<open>Providers\<close>

type_synonym env = "(string \<times> string) list"

definition env_get_secret :: "env \<Rightarrow> string \<Rightarrow> int \<Rightarrow> int \<Rightarrow> (secret_cache, string) eff" where
  "env_get_secret environ name now now' s =
     (case cache_get name now s of
        (Some cached, s1) \<Rightarrow> (Inr cached, s1)
      | (None, s1) \<Rightarrow>
          (let env_name = upper (strip name); value = strip (dict_get_or environ env_name []) in
           if value = [] then (Inl (SecretError (''Missing secret: '' @ env_name) ''secret_not_found''), s1)
           else (Inr value, if sc_ttl s1 > 0 then cache_set name value now' s1 else s1)))"

definition env_refresh_secret :: "env \<Rightarrow> string \<Rightarrow> int \<Rightarrow> int \<Rightarrow> (secret_cache, string) eff" where
  "env_refresh_secret environ name now now' s =
     env_get_secret environ name now now' (cache_evict (upper (strip name)) s)"

definition secret_path :: "settings \<Rightarrow> string \<Rightarrow> string" where
  "secret_path settings name =
     (let base = rstrip_chr CHR ''/'' (strip (secret_manager_project_or_path settings)); secret_name = strip name in
      if base = [] then secret_name else base @ ''/'' @ secret_name)"

section \<open>The cloud providers\<close>

datatype cloud_provider = AwsSecretsManager | GcpSecretManager | AzureKeyVault | VaultSecret | DopplerSecret

definition lookup_failed :: "string \<Rightarrow> exn" where
  "lookup_failed name = SecretError (''Secret lookup failed for '' @ strip name) ''secret_not_found''"

definition sdk_missing :: exn where
  "sdk_missing = SecretError ''Provider SDK not installed. Install optional dependency or use the local test backend.''
     ''sdk_not_installed''"

text \<open>
  What a provider asks for and what it makes of the answer. The call is inside a \<open>try\<close> whose every
  exception is a failed lookup; reading the answer is outside of it, so what that raises passes on. A
  blank text is a failed lookup.
\<close>

definition secret_value :: "string \<Rightarrow> pyval result \<Rightarrow> (pyval \<Rightarrow> string result) \<Rightarrow> string result" where
  "secret_value name response read =
     (case response of
        Inl _ \<Rightarrow> Inl (lookup_failed name)
      | Inr v \<Rightarrow> bind_res (read v) (\<lambda>text.
          let value = strip text in if value = [] then Inl (lookup_failed name) else Inr value))"

text \<open>\<open>v.get(key, default)\<close>.\<close>

definition method_get :: "pyval \<Rightarrow> string \<Rightarrow> pyval \<Rightarrow> pyval result" where
  "method_get v key d = (case v of
     PDict items \<Rightarrow> Inr (dict_get_or items key d)
   | _ \<Rightarrow> Inl (OtherError ''AttributeError: object has no attribute get''))"

definition get_text :: "pyval \<Rightarrow> string \<Rightarrow> string result" where
  "get_text v key = bind_res (method_get v key (PStr [])) (\<lambda>x. Inr (py_str x))"

definition aws_lookup :: "settings \<Rightarrow> secret_sdk \<Rightarrow> string \<Rightarrow> string result" where
  "aws_lookup settings sdk name =
     (if \<not> sk_installed sdk then Inl sdk_missing
      else bind_res (sk_client sdk ''secretsmanager'') (\<lambda>_.
        secret_value name (sk_fetch sdk (secret_path settings name)) (\<lambda>r. get_text r ''SecretString'')))"

text \<open>The payload of a secret version is its bytes.\<close>

definition payload_text :: "pyval \<Rightarrow> string result" where
  "payload_text v = (case v of
     PStr bytes \<Rightarrow> utf8_decode bytes
   | _ \<Rightarrow> Inl (OtherError ''AttributeError: object has no attribute decode''))"

definition gcp_lookup :: "settings \<Rightarrow> secret_sdk \<Rightarrow> string \<Rightarrow> string result" where
  "gcp_lookup settings sdk name =
     (if \<not> sk_installed sdk then Inl sdk_missing
      else bind_res (sk_client sdk []) (\<lambda>_.
        secret_value name (sk_fetch sdk (secret_path settings name)) payload_text))"

definition azure_lookup :: "settings \<Rightarrow> secret_sdk \<Rightarrow> string \<Rightarrow> string result" where
  "azure_lookup settings sdk name =
     (let vault_url = strip (secret_manager_project_or_path settings) in
      if \<not> sk_installed sdk then Inl sdk_missing
      else if \<not> startswith vault_url ''https://''
      then Inl (SecretError ''SECRET_MANAGER_PROJECT_OR_PATH must be an Azure Key Vault URL'' ''secret_manager_config_invalid'')
      else bind_res (sk_client sdk vault_url) (\<lambda>_.
        secret_value name (sk_fetch sdk (strip name)) (\<lambda>v. Inr (if truthy v then py_str v else []))))"

definition vault_lookup :: "settings \<Rightarrow> env \<Rightarrow> secret_sdk \<Rightarrow> string \<Rightarrow> string result" where
  "vault_lookup settings environ sdk name =
     (let address = strip (dict_get_or environ ''VAULT_ADDR'' []); token = strip (dict_get_or environ ''VAULT_TOKEN'' []) in
      if \<not> sk_installed sdk then Inl sdk_missing
      else if address = [] \<or> token = []
      then Inl (SecretError ''VAULT_ADDR and VAULT_TOKEN are required for vault provider'' ''secret_manager_config_invalid'')
      else bind_res (sk_client sdk address) (\<lambda>_.
        secret_value name (sk_fetch sdk (secret_path settings name)) (\<lambda>r.
          bind_res (method_get r ''data'' (PDict [])) (\<lambda>d.
          bind_res (method_get d ''data'' (PDict [])) (\<lambda>data. get_text data ''value'')))))"

definition doppler_url :: "settings \<Rightarrow> string" where
  "doppler_url settings = ''https://api.doppler.com/v3/configs/config/secrets/download?format=json&project=''
     @ strip (secret_manager_project_or_path settings)"

definition doppler_lookup :: "settings \<Rightarrow> env \<Rightarrow> secret_sdk \<Rightarrow> string \<Rightarrow> string result" where
  "doppler_lookup settings environ sdk name =
     (if strip (dict_get_or environ ''DOPPLER_TOKEN'' []) = []
      then Inl (SecretError ''DOPPLER_TOKEN is required for doppler provider'' ''secret_manager_config_invalid'')
      else if \<not> sk_installed sdk then Inl sdk_missing
      else secret_value name (sk_fetch sdk (doppler_url settings)) (\<lambda>payload. get_text payload (strip name)))"

fun cloud_lookup :: "cloud_provider \<Rightarrow> settings \<Rightarrow> env \<Rightarrow> secret_sdk \<Rightarrow> string \<Rightarrow> string result" where
  "cloud_lookup AwsSecretsManager settings environ = aws_lookup settings"
| "cloud_lookup GcpSecretManager settings environ = gcp_lookup settings"
| "cloud_lookup AzureKeyVault settings environ = azure_lookup settings"
| "cloud_lookup VaultSecret settings environ = vault_lookup settings environ"
| "cloud_lookup DopplerSecret settings environ = doppler_lookup settings environ"

text \<open>The frame the five methods share: the cache first, then the lookup, whose value is stored.\<close>

definition cloud_get_secret ::
    "cloud_provider \<Rightarrow> settings \<Rightarrow> env \<Rightarrow> secret_sdk \<Rightarrow> string \<Rightarrow> int \<Rightarrow> int \<Rightarrow> (secret_cache, string) eff" where
  "cloud_get_secret p settings environ sdk name now now' s =
     (case cache_get name now s of
        (Some cached, s1) \<Rightarrow> (Inr cached, s1)
      | (None, s1) \<Rightarrow>
          (case cloud_lookup p settings environ sdk name of
             Inl e \<Rightarrow> (Inl e, s1)
           | Inr value \<Rightarrow> (Inr value, cache_set name value now' s1)))"

definition cloud_refresh_secret ::
    "cloud_provider \<Rightarrow> settings \<Rightarrow> env \<Rightarrow> secret_sdk \<Rightarrow> string \<Rightarrow> int \<Rightarrow> int \<Rightarrow> (secret_cache, string) eff" where
  "cloud_refresh_secret p settings environ sdk name now now' s =
     cloud_get_secret p settings environ sdk name now now' (cache_evict name s)"

section \<open>Secrets in JSON\<close>

text \<open>\<open>fr\<close> reads the text of a float; the error depends on whether the text was JSON at all.\<close>

definition json_secret ::
    "(bool \<Rightarrow> exn) \<Rightarrow> (string \<Rightarrow> string) \<Rightarrow> (secret_cache, string) eff \<Rightarrow> (secret_cache, pydict) eff" where
  "json_secret error fr get_secret =
     bind_eff get_secret (\<lambda>raw. case json_loads fr raw of
        Inl _ \<Rightarrow> raise_exn (error False)
      | Inr (PDict d) \<Rightarrow> ret d
      | Inr _ \<Rightarrow> raise_exn (error True))"

definition env_get_json_secret :: "(string \<Rightarrow> string) \<Rightarrow> env \<Rightarrow> string \<Rightarrow> int \<Rightarrow> int \<Rightarrow> (secret_cache, pydict) eff" where
  "env_get_json_secret fr environ name now now' =
     json_secret (\<lambda>parsed. SecretError (''Secret '' @ strip name @
         (if parsed then '' must decode to a JSON object'' else '' is not valid JSON'')) ''secret_invalid_json'')
       fr (env_get_secret environ name now now')"

definition cloud_get_json_secret ::
    "(string \<Rightarrow> string) \<Rightarrow> cloud_provider \<Rightarrow> settings \<Rightarrow> env \<Rightarrow> secret_sdk \<Rightarrow> string \<Rightarrow> int \<Rightarrow> int \<Rightarrow> (secret_cache, pydict) eff" where
  "cloud_get_json_secret fr p settings environ sdk name now now' =
     json_secret (\<lambda>parsed. SecretError (''Secret lookup failed for '' @ strip name) ''secret_invalid_json'')
       fr (cloud_get_secret p settings environ sdk name now now')"

section \<open>Choosing a provider\<close>

datatype secret_provider =
    EnvironmentSecretProvider int
  | CloudSecretProvider cloud_provider settings
  | DisabledProductionSecretProvider string

definition disabled_secret :: "string \<Rightarrow> 'a result" where
  "disabled_secret provider =
     Inl (SecretError (''Secret manager adapter for '' @ provider @ '' is not configured'') ''secret_manager_not_configured'')"

definition provider_class :: "string \<Rightarrow> cloud_provider option" where
  "provider_class name = map_of [(''aws'', AwsSecretsManager), (''gcp'', GcpSecretManager),
     (''azure'', AzureKeyVault), (''vault'', VaultSecret), (''doppler'', DopplerSecret)] name"

definition build_secret_provider :: "settings \<Rightarrow> secret_provider result" where
  "build_secret_provider settings =
     (let environment = Inr (EnvironmentSecretProvider (secret_cache_ttl_seconds settings)) in
      if is_local_lab settings then environment
      else if allow_env_secret_provider settings then environment
      else if \<not> is_production_saas settings then environment
      else
        let provider = lower (strip (secret_manager_provider settings)) in
        if provider \<notin> set SUPPORTED_SECRET_MANAGER_PROVIDERS
        then Inl (SecretError ''SECRET_MANAGER_PROVIDER is not configured for production-saas'' ''secret_manager_missing'')
        else case provider_class provider of
          None \<Rightarrow> Inr (DisabledProductionSecretProvider provider)
        | Some p \<Rightarrow> Inr (CloudSecretProvider p settings))"

section \<open>The cache keeps its contract\<close>

definition secret_hit :: "secret_cache \<Rightarrow> string \<Rightarrow> int \<Rightarrow> string option" where
  "secret_hit s name now = fst (cache_get name now s)"

interpretation secret_ttl: ttl_cache secret_hit cache_set sc_ttl
  by unfold_locales (auto simp: secret_hit_def cache_get_def cache_set_def split: option.splits)

lemma secret_hit_evict: "secret_hit (cache_evict name s) j t = (if j = name then None else secret_hit s j t)"
  by (auto simp: secret_hit_def cache_get_def cache_evict_def split: option.splits)

lemma cache_get_later:
  "now \<le> t \<Longrightarrow> secret_hit (snd (cache_get name now s)) j t = secret_hit s j t"
  by (auto simp: secret_hit_def cache_get_def split: option.splits)

lemma cache_get_ttl [simp]: "sc_ttl (snd (cache_get name now s)) = sc_ttl s"
  by (auto simp: cache_get_def split: option.splits)

lemma secret_hit_evict_later: "secret_hit (cache_evict name s) j t = Some v \<Longrightarrow> secret_hit s j t = Some v"
  by (simp add: secret_hit_evict split: if_splits)

section \<open>A provider over time\<close>

text \<open>
  One call: what the SDK holds at that moment, the name asked for and the two clock readings, the
  second of them taken only when a value is fetched.
\<close>

record secret_call =
  sl_sdk :: secret_sdk
  sl_name :: string
  sl_now :: int
  sl_now' :: int

fun run_secrets ::
    "cloud_provider \<Rightarrow> settings \<Rightarrow> env \<Rightarrow> secret_call list \<Rightarrow> secret_cache \<Rightarrow> string result list" where
  "run_secrets p st en [] s = []"
| "run_secrets p st en (c # cs) s =
     (case cloud_get_secret p st en (sl_sdk c) (sl_name c) (sl_now c) (sl_now' c) s of
        (r, s') \<Rightarrow> r # run_secrets p st en cs s')"

fun calls_in_order :: "int \<Rightarrow> secret_call list \<Rightarrow> bool" where
  "calls_in_order now [] = True"
| "calls_in_order now (c # cs) = (now \<le> sl_now c \<and> sl_now c \<le> sl_now' c \<and> calls_in_order (sl_now' c) cs)"

text \<open>The value the SDK holds for a name, if it would be accepted.\<close>

definition held :: "cloud_provider \<Rightarrow> settings \<Rightarrow> env \<Rightarrow> secret_call \<Rightarrow> string option" where
  "held p st en c =
     (case cloud_lookup p st en (sl_sdk c) (sl_name c) of Inl _ \<Rightarrow> None | Inr v \<Rightarrow> Some v)"

lemma secret_value_Inr:
  assumes "secret_value name response read = Inr v"
  shows "\<exists>r text. response = Inr r \<and> read r = Inr text \<and> v = strip text \<and> v \<noteq> []"
  using assms by (auto simp: secret_value_def bind_res_Inr_iff Let_def split: sum.splits if_splits)

lemmas lookup_defs = aws_lookup_def gcp_lookup_def azure_lookup_def vault_lookup_def doppler_lookup_def

lemma cloud_lookup_trimmed: "cloud_lookup p st en sdk name = Inr v \<Longrightarrow> strip v = v \<and> v \<noteq> []"
  by (cases p) (auto simp: lookup_defs Let_def bind_res_Inr_iff dest!: secret_value_Inr split: if_splits)

lemma held_trimmed: "held p st en c = Some v \<Longrightarrow> strip v = v \<and> v \<noteq> []"
  using cloud_lookup_trimmed [of p st en "sl_sdk c" "sl_name c"] by (auto simp: held_def split: sum.splits)

lemma cloud_get_secret_cases:
  obtains (hit) v where "secret_hit s (sl_name c) (sl_now c) = Some v"
      "fst (cloud_get_secret p st en (sl_sdk c) (sl_name c) (sl_now c) (sl_now' c) s) = Inr v"
      "snd (cloud_get_secret p st en (sl_sdk c) (sl_name c) (sl_now c) (sl_now' c) s) = snd (cache_get (sl_name c) (sl_now c) s)"
  | (fetch) v where "held p st en c = Some v"
      "cloud_get_secret p st en (sl_sdk c) (sl_name c) (sl_now c) (sl_now' c) s =
        (Inr v, cache_set (sl_name c) v (sl_now' c) (snd (cache_get (sl_name c) (sl_now c) s)))"
  | (fail) e where "held p st en c = None"
      "cloud_get_secret p st en (sl_sdk c) (sl_name c) (sl_now c) (sl_now' c) s =
        (Inl e, snd (cache_get (sl_name c) (sl_now c) s))"
proof (cases "cache_get (sl_name c) (sl_now c) s")
  case (Pair h s1)
  show ?thesis
  proof (cases h)
    case None
    show ?thesis
    proof (cases "held p st en c")
      case None
      then have "\<exists>e. cloud_get_secret p st en (sl_sdk c) (sl_name c) (sl_now c) (sl_now' c) s = (Inl e, s1)"
        using \<open>h = None\<close> Pair
        by (auto simp: cloud_get_secret_def held_def split: sum.splits)
      then show ?thesis using fail None Pair by auto
    next
      case (Some v)
      then have "cloud_get_secret p st en (sl_sdk c) (sl_name c) (sl_now c) (sl_now' c) s =
          (Inr v, cache_set (sl_name c) v (sl_now' c) s1)"
        using \<open>h = None\<close> Pair
        by (auto simp: cloud_get_secret_def held_def split: sum.splits)
      then show ?thesis using fetch Some Pair by auto
    qed
  next
    case (Some v)
    then show ?thesis using hit Pair by (simp add: cloud_get_secret_def secret_hit_def)
  qed
qed

text \<open>\<open>fetched\<close>: each value held in the cache was fetched, and when.\<close>

definition sourced :: "(string \<times> string \<times> int) set \<Rightarrow> int \<Rightarrow> secret_cache \<Rightarrow> bool" where
  "sourced fetched now s = (\<forall>k t v. now \<le> t \<and> secret_hit s k t = Some v \<longrightarrow>
     (\<exists>t0. (k, v, t0) \<in> fetched \<and> t < t0 + sc_ttl s))"

lemma sourced_get:
  assumes "sourced F now s" and "now \<le> t"
  shows "sourced F t (snd (cache_get name t s))"
  using assms cache_get_later [of t _ name s] unfolding sourced_def by fastforce

lemma sourced_set:
  assumes "sourced F now s" and "now \<le> t0"
  shows "sourced (insert (k, v, t0) F) t0 (cache_set k v t0 s)"
  using assms unfolding sourced_def
  by (auto simp: secret_ttl.hit_store secret_ttl.ttl_store split: if_splits)

lemma sourced_later: "sourced F now s \<Longrightarrow> now \<le> t \<Longrightarrow> sourced F t s"
  unfolding sourced_def by (meson order_trans)

text \<open>The value of the call \<open>n\<close> is in \<open>F\<close> or was held at a call \<open>j\<close> not long ago.\<close>

definition traced where
  "traced p st en F ttl cs n v =
     ((\<exists>t0. (sl_name (cs ! n), v, t0) \<in> F \<and> sl_now (cs ! n) < t0 + ttl)
      \<or> (\<exists>j \<le> n. sl_name (cs ! j) = sl_name (cs ! n) \<and> held p st en (cs ! j) = Some v
           \<and> (j = n \<or> sl_now (cs ! n) < sl_now' (cs ! j) + ttl)))"

lemma traced_Suc: "traced p st en F ttl cs n v \<Longrightarrow> traced p st en F ttl (c # cs) (Suc n) v"
  unfolding traced_def by (metis Suc_le_mono nth_Cons_Suc)

lemma traced_fetch:
  assumes "traced p st en (insert (sl_name c, w, sl_now' c) F) ttl cs n v" and "held p st en c = Some w"
  shows "traced p st en F ttl (c # cs) (Suc n) v"
proof (cases "traced p st en F ttl cs n v")
  case False
  then have "sl_name (cs ! n) = sl_name c" "v = w" "sl_now (cs ! n) < sl_now' c + ttl"
    using assms(1) by (auto simp: traced_def)
  then show ?thesis
    using assms(2) unfolding traced_def by (metis le0 nth_Cons_0 nth_Cons_Suc)
qed (rule traced_Suc)

lemma run_secrets_traced:
  assumes "sourced F now s" and "calls_in_order now cs" and "n < length cs"
    and "run_secrets p st en cs s ! n = Inr v"
  shows "traced p st en F (sc_ttl s) cs n v"
  using assms
proof (induction cs arbitrary: F now s n)
  case (Cons c cs)
  let ?r = "cloud_get_secret p st en (sl_sdk c) (sl_name c) (sl_now c) (sl_now' c) s"
  have times: "now \<le> sl_now c" "sl_now c \<le> sl_now' c" "calls_in_order (sl_now' c) cs"
    using Cons.prems(2) by simp_all
  have run: "run_secrets p st en (c # cs) s = fst ?r # run_secrets p st en cs (snd ?r)"
    by (simp split: prod.splits)
  have got: "sourced F (sl_now' c) (snd (cache_get (sl_name c) (sl_now c) s))"
    using sourced_later [OF sourced_get [OF Cons.prems(1) times(1)] times(2)] .
  show ?case
  proof (cases n)
    case 0
    then have first: "fst ?r = Inr v" using Cons.prems(4) by (simp only: run nth_Cons_0)
    show ?thesis
    proof (cases rule: cloud_get_secret_cases [of s c p st en])
      case (hit w)
      then have "\<exists>t0. (sl_name c, v, t0) \<in> F \<and> sl_now c < t0 + sc_ttl s"
        using first Cons.prems(1) times(1) by (simp add: sourced_def)
      then show ?thesis by (auto simp: traced_def 0)
    qed (use first in \<open>auto simp: traced_def 0\<close>)
  next
    case (Suc m)
    then have later: "m < length cs" "run_secrets p st en cs (snd ?r) ! m = Inr v"
      using Cons.prems(3,4) by (simp_all only: run nth_Cons_Suc length_Cons Suc_less_eq)
    show ?thesis
    proof (cases rule: cloud_get_secret_cases [of s c p st en])
      case (fetch w)
      have "sourced (insert (sl_name c, w, sl_now' c) F) (sl_now' c) (snd ?r)"
        using sourced_set [OF sourced_get [OF Cons.prems(1) times(1)] times(2)] fetch by simp
      from Cons.IH [OF this times(3) later] show ?thesis
        using traced_fetch [OF _ fetch(1)] fetch Suc by (simp add: secret_ttl.ttl_store)
    next
      case (hit w)
      then show ?thesis
        using traced_Suc [OF Cons.IH [OF _ times(3) later]] got Suc by simp
    next
      case (fail e)
      then show ?thesis
        using traced_Suc [OF Cons.IH [OF _ times(3) later]] got Suc by simp
    qed
  qed
qed simp

section \<open>Properties\<close>

text \<open>
  C15. A cloud provider never serves an outdated secret: in any sequence of calls in time order on a
  new provider, whatever the secret manager holds at each moment, a value returned for a name is the
  trimmed, non-empty one the manager held for it at that very call or at an earlier one, less than a
  cache lifetime before.
\<close>

theorem secrets_fresh:
  assumes "sc_cache s = []" and "calls_in_order now cs" and "n < length cs"
    and "run_secrets p st en cs s ! n = Inr v"
  shows "strip v = v \<and> v \<noteq> [] \<and> (\<exists>j \<le> n. sl_name (cs ! j) = sl_name (cs ! n) \<and> held p st en (cs ! j) = Some v
    \<and> (j = n \<or> sl_now (cs ! n) < sl_now' (cs ! j) + sc_ttl s))"
proof -
  have "sourced {} now s" by (simp add: sourced_def secret_hit_def cache_get_def assms(1))
  from run_secrets_traced [OF this assms(2,3,4)] show ?thesis
    by (auto simp: traced_def dest: held_trimmed)
qed

definition holding :: "string \<Rightarrow> secret_sdk" where
  "holding v = \<lparr>sk_installed = True, sk_client = (\<lambda>_. Inr ()),
     sk_fetch = (\<lambda>_. Inr (PDict [(''SecretString'', PStr v)]))\<rparr>"

definition example_secret_calls :: "secret_call list" where
  "example_secret_calls =
     [\<lparr>sl_sdk = holding ''v1'', sl_name = ''DB'', sl_now = 0, sl_now' = 1\<rparr>,
      \<lparr>sl_sdk = holding ''v2'', sl_name = ''DB'', sl_now = 60, sl_now' = 60\<rparr>,
      \<lparr>sl_sdk = holding ''v2'', sl_name = ''DB'', sl_now = 61, sl_now' = 62\<rparr>]"

theorem secrets_fresh_witness:
  "run_secrets AwsSecretsManager default_settings [] example_secret_calls \<lparr>sc_ttl = 60, sc_cache = []\<rparr>
     = [Inr ''v1'', Inr ''v1'', Inr ''v2'']
   \<and> (\<exists>j \<le> 1. held AwsSecretsManager default_settings [] (example_secret_calls ! j) = Some ''v1'')"
proof -
  have run: "run_secrets AwsSecretsManager default_settings [] example_secret_calls \<lparr>sc_ttl = 60, sc_cache = []\<rparr>
     = [Inr ''v1'', Inr ''v1'', Inr ''v2'']" and ord: "calls_in_order 0 example_secret_calls"
    and n: "1 < length example_secret_calls"
    by code_simp+
  have at: "run_secrets AwsSecretsManager default_settings [] example_secret_calls \<lparr>sc_ttl = 60, sc_cache = []\<rparr> ! 1
     = Inr ''v1''" by (simp add: run)
  show ?thesis
    using secrets_fresh [OF _ ord n at] run by auto
qed

text \<open>
  Refreshing a cloud secret always asks the manager: its answer does not depend on the cache,
  and it is the value the manager holds or, when it holds none, an exception.
\<close>

theorem cloud_refresh_current:
  "(case held p st en c of
      Some v \<Rightarrow> fst (cloud_refresh_secret p st en (sl_sdk c) (sl_name c) (sl_now c) (sl_now' c) s) = Inr v
    | None \<Rightarrow> (\<exists>e. fst (cloud_refresh_secret p st en (sl_sdk c) (sl_name c) (sl_now c) (sl_now' c) s) = Inl e))"
  unfolding cloud_refresh_secret_def
  by (cases rule: cloud_get_secret_cases [of "cache_evict (sl_name c) s" c p st en])
    (auto simp: secret_hit_evict split: option.splits)

text \<open>
  What a failed lookup raises: a \<open>SecretError\<close>, but for two exceptions that pass through as they are. The
  client is made outside of the \<open>try\<close>, and so is the reading of the answer.
\<close>

definition is_secret_error :: "exn \<Rightarrow> bool" where
  "is_secret_error e = (case e of SecretError m c \<Rightarrow> True | _ \<Rightarrow> False)"

lemma secret_value_Inl:
  assumes "secret_value name response read = Inl e"
  shows "is_secret_error e \<or> (\<exists>r. response = Inr r \<and> read r = Inl e)"
  using assms by (auto simp: secret_value_def is_secret_error_def lookup_failed_def bind_res_def Let_def
      split: sum.splits if_splits)

lemma utf8_decode_Inl: "utf8_decode s = Inl e \<Longrightarrow> \<exists>m. e = ValueError m"
  by (induction s rule: utf8_decode.induct) (auto simp: bind_res_def Let_def split: if_splits sum.splits)

theorem cloud_lookup_errors:
  assumes "cloud_lookup p st en sdk name = Inl e" and "\<not> is_secret_error e"
  shows "(\<exists>a. sk_client sdk a = Inl e) \<or>
    (\<exists>request r m. sk_fetch sdk request = Inr r \<and> (e = OtherError m \<or> p = GcpSecretManager \<and> e = ValueError m))"
  using assms
  by (cases p) (auto simp: lookup_defs sdk_missing_def Let_def bind_res_def is_secret_error_def get_text_def
      method_get_def payload_text_def dest!: secret_value_Inl utf8_decode_Inl split: if_splits sum.splits pyval.splits)

theorem cloud_client_error_escapes:
  assumes "sk_installed sdk" and "sk_client sdk ''secretsmanager'' = Inl e" and "secret_hit s name now = None"
  shows "fst (cloud_get_secret AwsSecretsManager st en sdk name now now' s) = Inl e"
  using assms by (cases "cache_get name now s") (simp add: cloud_get_secret_def secret_hit_def aws_lookup_def bind_res_def)

text \<open>A dictionary stored in a secret as JSON is read back as it was.\<close>

theorem json_secret_roundtrip:
  assumes "json_plain (PDict d)" and "secret_hit s (sl_name c) (sl_now c) = None"
    and "held p st en c = Some (json_dumps (PDict d))"
  shows "fst (cloud_get_json_secret fr p st en (sl_sdk c) (sl_name c) (sl_now c) (sl_now' c) s) = Inr d"
proof -
  have "cloud_get_secret p st en (sl_sdk c) (sl_name c) (sl_now c) (sl_now' c) s =
      (Inr (json_dumps (PDict d)), cache_set (sl_name c) (json_dumps (PDict d)) (sl_now' c) (snd (cache_get (sl_name c) (sl_now c) s)))"
    using assms(2,3) by (cases rule: cloud_get_secret_cases [of s c p st en]) simp_all
  then show ?thesis
    by (simp add: cloud_get_json_secret_def json_secret_def bind_eff_def json_roundtrip [OF assms(1)] ret_def del: json_dumps.simps)
qed

text \<open>
  Refreshing an environment secret does not when its name is not in upper case: the entry
  dropped is that of the variable's name, the cached one is under the name given, and the old value
  is returned.
\<close>

theorem env_refresh_serves_stale:
  "(let s1 = snd (env_get_secret [(''DB_PASSWORD'', ''old'')] ''db_password'' 0 0 \<lparr>sc_ttl = 60, sc_cache = []\<rparr>) in
     fst (env_refresh_secret [(''DB_PASSWORD'', ''new'')] ''db_password'' 10 10 s1) = Inr ''old''
     \<and> fst (env_refresh_secret [(''DB_PASSWORD'', ''new'')] ''DB_PASSWORD'' 10 10 s1) = Inr ''new'')"
  by code_simp

text \<open>
  What \<open>redact\<close> prints of a secret depends on its first few characters and its length only:
  two secrets that agree on those are printed alike.
\<close>

theorem redact_hides:
  assumes "take n (strip a) = take n (strip b)" and "length (strip a) = length (strip b)"
  shows "secret_redact a n = secret_redact b n"
  using assms by (auto simp: secret_redact_def Let_def)

theorem redact_hides_witness: "secret_redact ''hunter2-secret'' 4 = secret_redact '' hunt-something '' 4"
proof -
  have "take 4 (strip ''hunter2-secret'') = take 4 (strip '' hunt-something '')"
    "length (strip ''hunter2-secret'') = length (strip '' hunt-something '')" by code_simp+
  then show ?thesis by (rule redact_hides)
qed

text \<open>
  In \<open>production-saas\<close> secrets come from the configured manager: with any settings object the
  program can build for that profile, unless the environment provider is explicitly allowed, the
  provider is the cloud class named by the setting. The class that stands for an unconfigured manager
  is never chosen.
\<close>

theorem saas_secret_provider:
  assumes "build_settings br raw = Inr st" and "is_production_saas st" and "\<not> allow_env_secret_provider st"
  shows "\<exists>p. provider_class (lower (strip (secret_manager_provider st))) = Some p
    \<and> build_secret_provider st = Inr (CloudSecretProvider p st)"
proof -
  note parts = saas_issues_parts [OF built_saas_issues [OF assms(1,2)]]
  have supported: "lower (strip (secret_manager_provider st)) \<in> set SUPPORTED_SECRET_MANAGER_PROVIDERS"
    using saas_issues_managed_Nil [OF parts(3)] by blast
  then obtain p where "provider_class (lower (strip (secret_manager_provider st))) = Some p"
    by (auto simp: SUPPORTED_SECRET_MANAGER_PROVIDERS_def provider_class_def)
  moreover have "\<not> is_local_lab st"
    using assms(2) by (simp add: is_local_lab_def is_production_saas_def)
  ultimately show ?thesis
    using assms(2,3) supported by (simp add: build_secret_provider_def Let_def)
qed

theorem saas_secret_provider_witness:
  "\<exists>p. build_secret_provider example_saas_built = Inr (CloudSecretProvider p example_saas_built)"
proof -
  have "\<not> allow_env_secret_provider example_saas_built" by code_simp
  with saas_secret_provider [OF example_saas_builds example_saas_built_saas] show ?thesis by blast
qed

end
