(* ===== verification/Managed_Services.thy ===== *)
theory Managed_Services
  imports Config_Check Storage Secrets Redis_Client
begin

text \<open>
  \<open>apps/api/managed_services.py\<close>: the check of the managed services of a deployment, first of their settings and,
  when it is asked for, of the live services. The state is the environment of the process, the Redis server and
  the object store. Connecting to PostgreSQL and asking for its name, making a Redis client, the cloud SDKs,
  fetching a URL as JSON, the clock and pydantic are the record \<open>managed_env\<close>.
\<close>

definition LIVE_CHECKS_ENV :: string where "LIVE_CHECKS_ENV = ''RUN_LIVE_STAGING_CHECKS''"
definition DEFAULT_HEALTHCHECK_SECRET_NAME :: string where
  "DEFAULT_HEALTHCHECK_SECRET_NAME = ''BOUNDARY_LAYER_HEALTHCHECK_SECRET''"
definition STAGING_HEALTH_TENANT :: string where "STAGING_HEALTH_TENANT = ''staging-health''"
definition REDIS_HEALTH_KEY :: string where
  "REDIS_HEALTH_KEY = ''boundary_layer:tenant:staging-health:managed-service-check''"
definition REDIS_HEALTH_TTL_SECONDS :: int where "REDIS_HEALTH_TTL_SECONDS = 60"
definition OBJECT_HEALTH_RELATIVE_KEY :: string where
  "OBJECT_HEALTH_RELATIVE_KEY = ''healthchecks/managed-service-check.txt''"

datatype check_mode = Structural | Live

fun mode_name :: "check_mode \<Rightarrow> string" where
  "mode_name Structural = ''structural''"
| "mode_name Live = ''live''"

section \<open>Reports\<close>

record live_check_result =
  lc_name :: string
  lc_passed :: bool
  lc_detail :: string

definition live_result :: "string \<Rightarrow> bool \<Rightarrow> string \<Rightarrow> live_check_result" where
  "live_result name passed detail = \<lparr>lc_name = name, lc_passed = passed, lc_detail = detail\<rparr>"

definition format_line :: "live_check_result \<Rightarrow> string" where
  "format_line r = (if lc_passed r then ''PASS'' else ''FAIL'') @ '' '' @ lc_name r @ '': '' @ lc_detail r"

record managed_report =
  mr_profile :: string
  mr_ready :: bool
  mr_mode :: check_mode
  mr_structural :: bool
  mr_live :: bool
  mr_mocked :: bool
  mr_issues :: "string list"
  mr_notes :: "string list"
  mr_live_results :: "live_check_result list"

definition bullet :: "string \<Rightarrow> string" where
  "bullet t = ''  - '' @ t"

definition managed_format_text :: "managed_report \<Rightarrow> string" where
  "managed_format_text r =
     (let status = (if mr_mode r = Live \<and> mr_ready r then ''LIVE CHECKS PASSED''
        else if mr_structural r \<and> mr_ready r \<and> \<not> mr_live r then ''STRUCTURALLY READY''
        else if mr_ready r then ''READY'' else ''NOT READY'') in
      join newline (
        [''BoundaryLayer production SaaS managed services check'', ''Target profile: '' @ mr_profile r,
         ''Mode: '' @ mode_name (mr_mode r), ''Status: '' @ status]
        @ issue (mr_mocked r) ''Mode detail: mocked example values only (not live connectivity)''
        @ (if mr_notes r \<noteq> [] then ''Notes:'' # map bullet (mr_notes r) else [])
        @ (if mr_live_results r \<noteq> [] then ''Live check results:'' # map (bullet \<circ> format_line) (mr_live_results r) else [])
        @ (if mr_issues r \<noteq> [] then ''Issues:'' # map bullet (mr_issues r)
           else if mr_structural r \<and> mr_mode r = Structural then [''Managed service settings are structurally valid.'']
           else if mr_mode r = Live \<and> mr_ready r then [''Managed services live connectivity checks passed.'']
           else [])))"

definition is_live_checks_enabled :: "environ \<Rightarrow> bool" where
  "is_live_checks_enabled source =
     (lower (strip (dict_get_or source LIVE_CHECKS_ENV [])) \<in> set [''1'', ''true'', ''yes'', ''on''])"

definition healthcheck_secret_name :: "environ \<Rightarrow> string" where
  "healthcheck_secret_name environ =
     (let configured = strip (dict_get_or environ ''BOUNDARY_LAYER_HEALTHCHECK_SECRET_NAME'' []) in
      if configured \<noteq> [] then configured else DEFAULT_HEALTHCHECK_SECRET_NAME)"

text \<open>The first marker that is in the message cuts it at its first at-sign, if it has one.\<close>

definition ERROR_MARKERS :: "string list" where
  "ERROR_MARKERS = [''password='', ''://'', ''Bearer '', ''token='']"

definition redact_error_message :: "string \<Rightarrow> string" where
  "redact_error_message message =
     (let cleaned = (if list_ex (contains message) ERROR_MARKERS \<and> CHR ''@'' \<in> set message
          then snd (snd (partition_chr CHR ''@'' message)) else message) in
      if length cleaned > 160 then take 160 cleaned @ ''...'' else cleaned)"

section \<open>Policies\<close>

definition check_database_url_policy :: "bracket_check \<Rightarrow> settings \<Rightarrow> string list result" where
  "check_database_url_policy br st =
     (let url = strip (database_url st) in
      if url = [] then Inr [''DATABASE_URL is required'']
      else bind_res (urlparse br url) (\<lambda>parsed.
        bind_res (database_ssl_mode br st) (\<lambda>sslmode. Inr (
          issue (local_host st parsed)
            ''DATABASE_URL must not use localhost or container hostnames in production-saas'' @
          issue (sslmode \<noteq> ''require'') ''DATABASE_URL or DB_SSL_MODE must require SSL (sslmode=require)'' @
          issue (db_pool_min_size st < 1) ''DB_POOL_MIN_SIZE must be at least 1'' @
          issue (db_pool_max_size st < db_pool_min_size st)
            ''DB_POOL_MAX_SIZE must be greater than or equal to DB_POOL_MIN_SIZE''))))"

definition check_redis_url_policy :: "bracket_check \<Rightarrow> settings \<Rightarrow> string list result" where
  "check_redis_url_policy br st =
     (let url = strip (redis_url st) in
      if url = [] then Inr [''REDIS_URL is required'']
      else bind_res (urlparse br url) (\<lambda>parsed. Inr (
        issue (url_scheme parsed \<noteq> ''rediss'') ''REDIS_URL must use rediss:// in production-saas'' @
        issue (local_host st parsed) ''REDIS_URL must not use localhost or container hostnames in production-saas'' @
        issue (strip (redis_key_prefix st) = []) ''REDIS_KEY_PREFIX is required'')))"

definition check_object_storage_policy :: "settings \<Rightarrow> string list" where
  "check_object_storage_policy st =
     (let backend = lower (strip (file_storage_backend st)) in
      if backend = [] then [''BOUNDARY_LAYER_FILE_STORAGE_BACKEND is required'']
      else if backend \<in> set [''local'', ''disk'', ''filesystem'', ''memory'']
      then [''BOUNDARY_LAYER_FILE_STORAGE_BACKEND must not use local disk'']
      else if backend \<notin> set STORAGE_BACKENDS
      then [''BOUNDARY_LAYER_FILE_STORAGE_BACKEND must be one of: '' @ join '', '' STORAGE_BACKENDS]
      else issue (strip (object_storage_bucket st) = []) ''OBJECT_STORAGE_BUCKET is required'' @
        issue (strip (object_storage_region st) = [] \<and> backend \<noteq> ''r2'') ''OBJECT_STORAGE_REGION is required'' @
        issue (backend = ''r2'' \<and> strip (object_storage_endpoint st) = []) ''OBJECT_STORAGE_ENDPOINT is required for r2 backend'' @
        issue (object_storage_presigned_url_ttl_seconds st \<le> 0) ''OBJECT_STORAGE_PRESIGNED_URL_TTL_SECONDS must be positive'')"

definition check_secret_manager_policy :: "settings \<Rightarrow> string list" where
  "check_secret_manager_policy st =
     (let provider = lower (strip (secret_manager_provider st)) in
      (if provider = [] then [''SECRET_MANAGER_PROVIDER is required'']
       else issue (provider \<notin> set SUPPORTED_SECRET_MANAGER_PROVIDERS)
         (''SECRET_MANAGER_PROVIDER must be one of: '' @ join '', '' SUPPORTED_SECRET_MANAGER_PROVIDERS)) @
      issue (strip (secret_manager_project_or_path st) = []) ''SECRET_MANAGER_PROJECT_OR_PATH is required'' @
      issue (\<not> secret_rotation_required st) ''SECRET_ROTATION_REQUIRED must be true'' @
      (if secret_cache_ttl_seconds st \<le> 0 then [''SECRET_CACHE_TTL_SECONDS is required'']
       else issue (secret_cache_ttl_seconds st > 3600) ''SECRET_CACHE_TTL_SECONDS must be at most 3600'') @
      issue (is_production_saas st \<and> allow_env_secret_provider st)
        ''BOUNDARY_LAYER_ALLOW_ENV_SECRET_PROVIDER must not be enabled in production-saas'' @
      issue (audit_immutable_required st \<and> strip (audit_sink_provider st) = ''postgres'')
        ''AUDIT_IMMUTABLE_REQUIRED requires a non-postgres immutable audit sink'')"

text \<open>\<open>value.strip() and not is_valid_https_url(value)\<close>.\<close>

definition set_but_not_https :: "bracket_check \<Rightarrow> string \<Rightarrow> bool result" where
  "set_but_not_https br u =
     (if strip u = [] then Inr False else bind_res (is_valid_https_url br u) (\<lambda>ok. Inr (\<not> ok)))"

definition run_structural_policy_checks :: "bracket_check \<Rightarrow> settings \<Rightarrow> string list result" where
  "run_structural_policy_checks br st =
     bind_res (check_database_url_policy br st) (\<lambda>database.
     bind_res (check_redis_url_policy br st) (\<lambda>redis.
     bind_res (set_but_not_https br (strip (public_base_url st))) (\<lambda>bad_base.
     bind_res (set_but_not_https br (oidc_issuer_url st)) (\<lambda>bad_issuer.
     bind_res (set_but_not_https br (oidc_jwks_url st)) (\<lambda>bad_jwks. Inr (
       database @ redis @ check_object_storage_policy st @ check_secret_manager_policy st @
       issue bad_base ''BOUNDARY_LAYER_PUBLIC_BASE_URL must be a valid https URL'' @
       issue bad_issuer ''OIDC_ISSUER_URL must be a valid https URL'' @
       issue bad_jwks ''OIDC_JWKS_URL must be a valid https URL''))))))"

definition settings_from_env :: "bracket_check \<Rightarrow> pydantic \<Rightarrow> environ \<Rightarrow> (environ, settings) eff" where
  "settings_from_env br pd env =
     (let merged = dict_set ''BOUNDARY_LAYER_PROFILE'' PRODUCTION_SAAS_PROFILE env in
      isolated_env merged (bind_eff (lift_res (settings_kwargs merged)) (settings_here br pd)))"

section \<open>Live checks\<close>

record ('c, 'w) managed_env =
  me_bracket :: bracket_check
  me_pydantic :: pydantic
  me_database :: "string \<Rightarrow> int \<Rightarrow> string result"
  me_redis :: "string \<Rightarrow> int \<Rightarrow> unit result"
  me_storage_sdk :: "('c, 'w) storage_sdk"
  me_secret_sdk :: secret_sdk
  me_now :: int
  me_now' :: int
  me_http_json :: "string \<Rightarrow> int \<Rightarrow> pyval result"

record 'w managed_world =
  mw_environ :: environ
  mw_kv :: kv
  mw_store :: 'w

definition check_database_live :: "('c, 'w) managed_env \<Rightarrow> settings \<Rightarrow> live_check_result result" where
  "check_database_live env st =
     bind_res (database_ssl_mode (me_bracket env) st) (\<lambda>sslmode. Inr (
       if sslmode \<notin> set [''require'', ''verify-ca'', ''verify-full'']
       then live_result ''postgresql'' False
         (''DATABASE_URL must require SSL (sslmode='' @ (if sslmode = [] then ''unset'' else sslmode) @ '')'')
       else case me_database env (database_url st) (db_connect_timeout_seconds st) of
         Inl e \<Rightarrow> live_result ''postgresql'' False (redact_error_message (exn_text e))
       | Inr db_name \<Rightarrow> live_result ''postgresql'' True
           (''SELECT 1 ok; database='' @ db_name @ ''; sslmode='' @ sslmode)))"

text \<open>The commands of the Redis check, once the client is made.\<close>

definition redis_probe :: "(kv, int) eff" where
  "redis_probe =
     bind_eff kv_ping (\<lambda>_.
     bind_eff (kv_setex REDIS_HEALTH_KEY REDIS_HEALTH_TTL_SECONDS ''ok'') (\<lambda>_.
     bind_eff (kv_get REDIS_HEALTH_KEY) (\<lambda>value.
       if value = None then raise_exn (RuntimeError ''health-check key missing after SET'')
       else bind_eff (kv_time_left REDIS_HEALTH_KEY) (\<lambda>ttl.
            bind_eff (kv_delete REDIS_HEALTH_KEY) (\<lambda>_. ret ttl)))))"

definition check_redis_live :: "('c, 'w) managed_env \<Rightarrow> settings \<Rightarrow> (kv, live_check_result) eff" where
  "check_redis_live env st s =
     (if \<not> startswith (strip (redis_url st)) ''rediss://''
      then (Inr (live_result ''redis'' False ''REDIS_URL must use rediss:// for live production-saas check''), s)
      else case bind_eff (lift_res (me_redis env (redis_url st) (redis_connect_timeout_seconds st))) (\<lambda>_. redis_probe) s of
        (Inl e, s') \<Rightarrow> (Inr (live_result ''redis'' False (redact_error_message (exn_text e))), s')
      | (Inr ttl, s') \<Rightarrow> (Inr (live_result ''redis'' True (''PING ok; key='' @ REDIS_HEALTH_KEY @ ''; ttl='' @ show_int ttl)), s'))"

text \<open>Writing, reading and deleting the health object with the operations of a backend.\<close>

definition storage_probe ::
    "(string \<Rightarrow> string \<Rightarrow> string \<Rightarrow> string \<Rightarrow> ('s, object_metadata) eff) \<Rightarrow> (string \<Rightarrow> string \<Rightarrow> ('s, object_metadata) eff)
     \<Rightarrow> (string \<Rightarrow> string \<Rightarrow> ('s, unit) eff) \<Rightarrow> ('s, object_metadata) eff" where
  "storage_probe put head delete =
     bind_eff (put OBJECT_HEALTH_RELATIVE_KEY ''boundary-layer-managed-service-healthcheck'' ''text/plain'' STAGING_HEALTH_TENANT) (\<lambda>_.
     bind_eff (head OBJECT_HEALTH_RELATIVE_KEY STAGING_HEALTH_TENANT) (\<lambda>metadata.
     bind_eff (delete OBJECT_HEALTH_RELATIVE_KEY STAGING_HEALTH_TENANT) (\<lambda>_. ret metadata)))"

fun probe_backend :: "('c, 'w) storage_sdk \<Rightarrow> storage_backend \<Rightarrow> ('w, object_metadata) eff" where
  "probe_backend sdk (LocalMemoryStorageBackend m) w =
     (fst (storage_probe memory_put_object memory_get_object_metadata memory_delete_object m), w)"
| "probe_backend sdk (CloudStorageBackend kind st) w =
     (case storage_probe (cloud_put_object sdk) (cloud_get_object_metadata sdk) (cloud_delete_object sdk)
         \<lparr>cs_kind = kind, cs_settings = st, cs_client = None, cs_world = w\<rparr> of
        (r, s) \<Rightarrow> (r, cs_world s))"
| "probe_backend sdk (DisabledProductionStorageBackend reason) w = (disabled_fail reason, w)"

definition check_object_storage_live :: "('c, 'w) managed_env \<Rightarrow> settings \<Rightarrow> ('w, live_check_result) eff" where
  "check_object_storage_live env st w =
     (case bind_eff (lift_res (build_storage_backend st)) (probe_backend (me_storage_sdk env)) w of
        (Inr metadata, w') \<Rightarrow> (Inr (
          if \<not> startswith (om_key metadata) ''tenants/staging-health/''
          then live_result ''object_storage'' False ''object key is not tenant-scoped under tenants/staging-health/''
          else live_result ''object_storage'' True (''write/read/delete ok; key='' @ om_key metadata)), w')
      | (Inl e, w') \<Rightarrow> (Inr (live_result ''object_storage'' False (
          if contains (lower (exn_text e)) ''sdk_not_installed''
          then ''Provider SDK not installed for live object storage check''
          else redact_error_message (exn_text e))), w'))"

definition exn_code :: "exn \<Rightarrow> string" where
  "exn_code e = (case e of AuthError _ c \<Rightarrow> c | JwksError _ c \<Rightarrow> c | StorageError _ c \<Rightarrow> c | SecretError _ c \<Rightarrow> c
     | AuditExportError _ c \<Rightarrow> c | _ \<Rightarrow> [])"

fun provider_get_secret :: "('c, 'w) managed_env \<Rightarrow> environ \<Rightarrow> secret_provider \<Rightarrow> string \<Rightarrow> string result" where
  "provider_get_secret env environ (EnvironmentSecretProvider ttl) name =
     fst (env_get_secret environ name (me_now env) (me_now' env) \<lparr>sc_ttl = ttl, sc_cache = []\<rparr>)"
| "provider_get_secret env environ (CloudSecretProvider p st) name =
     fst (cloud_get_secret p st environ (me_secret_sdk env) name (me_now env) (me_now' env)
       \<lparr>sc_ttl = secret_cache_ttl_seconds st, sc_cache = []\<rparr>)"
| "provider_get_secret env environ (DisabledProductionSecretProvider provider) name = disabled_secret provider"

definition check_secret_manager_live :: "('c, 'w) managed_env \<Rightarrow> environ \<Rightarrow> settings \<Rightarrow> live_check_result" where
  "check_secret_manager_live env environ st =
     (let secret_name = healthcheck_secret_name environ in
      case bind_res (build_secret_provider st) (\<lambda>p. provider_get_secret env environ p secret_name) of
        Inr value \<Rightarrow> live_result ''secret_manager'' True (''secret present for '' @ secret_name @ '' (value redacted)'')
      | Inl e \<Rightarrow> live_result ''secret_manager'' False (
          if exn_code e = ''secret_not_found'' \<or> contains (exn_text e) ''Missing secret''
          then ''health-check secret missing: '' @ secret_name
          else if contains (lower (exn_text e)) ''sdk_not_installed''
          then ''Provider SDK not installed for live secret manager check''
          else redact_error_message (exn_text e)))"

text \<open>\<open>v.get(key)\<close>, and iterating over a value, on what JSON can hold.\<close>

definition type_name :: "pyval \<Rightarrow> string" where
  "type_name v = (case v of PNone \<Rightarrow> ''NoneType'' | PBool _ \<Rightarrow> ''bool'' | PInt _ \<Rightarrow> ''int'' | PFloat _ \<Rightarrow> ''float''
     | PStr _ \<Rightarrow> ''str'' | PList _ \<Rightarrow> ''list'' | PDict _ \<Rightarrow> ''dict'')"

definition json_get :: "pyval \<Rightarrow> string \<Rightarrow> pyval result" where
  "json_get v key = (case v of
     PDict d \<Rightarrow> Inr (dict_get_or d key PNone)
   | _ \<Rightarrow> Inl (OtherError ([CHR 0x27] @ type_name v @ [CHR 0x27] @ '' object has no attribute '' @ [CHR 0x27] @ ''get'' @ [CHR 0x27])))"

definition json_iter :: "pyval \<Rightarrow> pyval list result" where
  "json_iter v = (case v of
     PList xs \<Rightarrow> Inr xs
   | PStr s \<Rightarrow> Inr (map (\<lambda>c. PStr [c]) s)
   | PDict d \<Rightarrow> Inr (map (PStr \<circ> fst) d)
   | _ \<Rightarrow> Inl (OtherError ([CHR 0x27] @ type_name v @ [CHR 0x27] @ '' object is not iterable'')))"

fun key_algorithms :: "pyval list \<Rightarrow> string list result" where
  "key_algorithms [] = Inr []"
| "key_algorithms (key # rest) =
     bind_res (json_get key ''alg'') (\<lambda>alg.
     bind_res (key_algorithms rest) (\<lambda>algs. Inr (if truthy alg then strip (py_str alg) # algs else algs)))"

definition allowed_algorithms :: "settings \<Rightarrow> string list" where
  "allowed_algorithms st = filter (\<lambda>alg. lower alg \<noteq> ''none'') (csv_list (oidc_algorithms st))"

definition judge_keys :: "settings \<Rightarrow> pyval \<Rightarrow> live_check_result result" where
  "judge_keys st payload =
     bind_res (json_get payload ''keys'') (\<lambda>keys.
       if \<not> truthy keys then Inr (live_result ''jwks'' False ''JWKS response contains no keys'')
       else bind_res (json_iter keys) (\<lambda>ks.
         bind_res (key_algorithms ks) (\<lambda>key_algs. Inr (
           if allowed_algorithms st \<noteq> [] \<and> key_algs \<noteq> [] \<and> set key_algs \<inter> set (allowed_algorithms st) = {}
           then live_result ''jwks'' False ''JWKS signing algorithms do not match OIDC_ALGORITHMS''
           else live_result ''jwks'' True
             (''issuer=https ok; signing_keys='' @ show_nat (length ks) @ ''; algorithms_ok=true'')))))"

definition check_jwks_live :: "('c, 'w) managed_env \<Rightarrow> settings \<Rightarrow> live_check_result result" where
  "check_jwks_live env st =
     (let issuer = strip (oidc_issuer_url st); jwks_url = strip (oidc_jwks_url st) in
      bind_res (is_valid_https_url (me_bracket env) issuer) (\<lambda>issuer_ok.
        if \<not> issuer_ok then Inr (live_result ''jwks'' False ''OIDC_ISSUER_URL must be https'')
        else bind_res (is_valid_https_url (me_bracket env) jwks_url) (\<lambda>jwks_ok.
          if \<not> jwks_ok then Inr (live_result ''jwks'' False ''OIDC_JWKS_URL must be https'')
          else Inr (case bind_res (me_http_json env jwks_url (min (redis_connect_timeout_seconds st) 10)) (judge_keys st) of
            Inl e \<Rightarrow> live_result ''jwks'' False (redact_error_message (exn_text e))
          | Inr r \<Rightarrow> r))))"

definition on_managed_kv :: "(kv, 'a) eff \<Rightarrow> ('w managed_world, 'a) eff" where
  "on_managed_kv m s = (case m (mw_kv s) of (r, k) \<Rightarrow> (r, s\<lparr>mw_kv := k\<rparr>))"

definition on_managed_store :: "('w, 'a) eff \<Rightarrow> ('w managed_world, 'a) eff" where
  "on_managed_store m s = (case m (mw_store s) of (r, w) \<Rightarrow> (r, s\<lparr>mw_store := w\<rparr>))"

definition on_managed_environ :: "(environ, 'a) eff \<Rightarrow> ('w managed_world, 'a) eff" where
  "on_managed_environ m s = (case m (mw_environ s) of (r, e) \<Rightarrow> (r, s\<lparr>mw_environ := e\<rparr>))"

definition run_live_connectivity_checks ::
    "('c, 'w) managed_env \<Rightarrow> settings \<Rightarrow> ('w managed_world, live_check_result list) eff" where
  "run_live_connectivity_checks env st =
     bind_eff (lift_res (check_database_live env st)) (\<lambda>database.
     bind_eff (on_managed_kv (check_redis_live env st)) (\<lambda>redis.
     bind_eff (on_managed_store (check_object_storage_live env st)) (\<lambda>storage.
     bind_eff (\<lambda>s. (Inr (check_secret_manager_live env (mw_environ s) st), s)) (\<lambda>secret_manager.
     bind_eff (lift_res (check_jwks_live env st)) (\<lambda>jwks.
       ret [database, redis, storage, secret_manager, jwks])))))"

section \<open>The verdict\<close>

definition managed_result ::
    "bool \<Rightarrow> bool \<Rightarrow> check_mode \<Rightarrow> bool \<Rightarrow> bool \<Rightarrow> string list \<Rightarrow> string list \<Rightarrow> live_check_result list \<Rightarrow> managed_report" where
  "managed_result mocked is_ready mode structural live issues notes results =
     \<lparr>mr_profile = PRODUCTION_SAAS_PROFILE, mr_ready = is_ready, mr_mode = mode, mr_structural = structural, mr_live = live,
      mr_mocked = mocked, mr_issues = issues, mr_notes = notes, mr_live_results = results\<rparr>"

definition live_verdict :: "bool \<Rightarrow> live_check_result list \<Rightarrow> managed_report" where
  "live_verdict mocked results =
     (let failed = filter (\<lambda>r. \<not> lc_passed r) results in
      if failed \<noteq> [] then managed_result mocked False Live True True (map format_line failed)
        [''Structural settings passed; one or more live checks failed''] results
      else managed_result mocked True Live True True [] [''Structural settings and live connectivity checks passed''] results)"

definition judge_settings ::
    "('c, 'w) managed_env \<Rightarrow> bool \<Rightarrow> bool \<Rightarrow> check_mode \<Rightarrow> settings \<Rightarrow> ('w managed_world, managed_report) eff" where
  "judge_settings env mocked live_enabled mode st =
     bind_eff (lift_res (run_structural_policy_checks (me_bracket env) st)) (\<lambda>issues.
       if issues \<noteq> [] then ret (managed_result mocked False Structural False live_enabled issues [] [])
       else case bind_res (build_storage_backend st) (\<lambda>_. build_secret_provider st) of
         Inl e \<Rightarrow> ret (managed_result mocked False mode False live_enabled [exn_text e] [] [])
       | Inr _ \<Rightarrow>
           if mode = Structural then ret (managed_result mocked True Structural True False []
             [''Live connectivity checks skipped (set RUN_LIVE_STAGING_CHECKS=true)''] [])
           else bind_eff (run_live_connectivity_checks env st) (\<lambda>results. ret (live_verdict mocked results)))"

definition evaluate_managed_services_readiness ::
    "('c, 'w) managed_env \<Rightarrow> environ option \<Rightarrow> bool \<Rightarrow> bool option \<Rightarrow> check_mode option \<Rightarrow> ('w managed_world, managed_report) eff" where
  "evaluate_managed_services_readiness env environ mocked live mode s =
     (let merged = dict_set ''BOUNDARY_LAYER_PROFILE'' PRODUCTION_SAAS_PROFILE
            (case environ of None \<Rightarrow> [(''BOUNDARY_LAYER_ENV'', ''staging'')] | Some e \<Rightarrow> e);
          live_enabled = (case live of Some b \<Rightarrow> b | None \<Rightarrow> is_live_checks_enabled merged);
          selected_mode = (case mode of Some m \<Rightarrow> m | None \<Rightarrow> if live_enabled then Live else Structural) in
      if selected_mode = Live \<and> \<not> live_enabled
      then (Inr (managed_result mocked False Live False True
        [''Live mode refused: set RUN_LIVE_STAGING_CHECKS=true explicitly''] [] []), s)
      else case on_managed_environ (settings_from_env (me_bracket env) (me_pydantic env) merged) s of
        (Inl e, s') \<Rightarrow> (Inr (managed_result mocked False selected_mode False live_enabled (issues_of e) [] []), s')
      | (Inr st, s') \<Rightarrow> judge_settings env mocked live_enabled selected_mode st s')"

definition managed_services_main :: "('c, 'w) managed_env \<Rightarrow> ('w managed_world, string \<times> int) eff" where
  "managed_services_main env s =
     (let mode = (if is_live_checks_enabled (mw_environ s) then Live else Structural) in
      bind_eff (evaluate_managed_services_readiness env None False None (Some mode))
        (\<lambda>report. ret (managed_format_text report, if mr_ready report then 0 else 1)) s)"

end
