(* ===== verification/Managed_Props.thy ===== *)
theory Managed_Props
  imports Managed_Services
begin

text \<open>
  The properties of \<open>apps/api/managed_services.py\<close>: what the policy check adds to the validation at start-up, what the live
  checks leave behind in the services they probe, and what an error message may still say.
\<close>

section \<open>Lemmas\<close>

lemma kv_command_data:
  assumes "\<And>t. kv_data (snd (f t)) = g (kv_data t) (kv_now t)" and "\<And>t. kv_now (snd (f t)) = kv_now t"
  shows "kv_now (snd (kv_command f s)) = kv_now s"
    and "kv_data (snd (kv_command f s)) = kv_data s \<or> kv_data (snd (kv_command f s)) = g (kv_data s) (kv_now s)"
  using assms [of "s\<lparr>kv_faults := drop 1 (kv_faults s)\<rparr>"]
  by (auto simp: kv_command_def Let_def split: list.splits option.splits prod.splits)

lemma kv_reads_keep [simp]:
  "kv_data (snd (kv_ping s)) = kv_data s" "kv_now (snd (kv_ping s)) = kv_now s"
  "kv_data (snd (kv_get k s)) = kv_data s" "kv_now (snd (kv_get k s)) = kv_now s"
  "kv_data (snd (kv_time_left k s)) = kv_data s" "kv_now (snd (kv_time_left k s)) = kv_now s"
  by (auto simp: kv_ping_def kv_get_def kv_time_left_def kv_command_def Let_def split: list.splits option.splits)

lemma kv_setex_data:
  "kv_now (snd (kv_setex k ttl v s)) = kv_now s"
  "kv_data (snd (kv_setex k ttl v s)) = kv_data s
    \<or> kv_data (snd (kv_setex k ttl v s)) = dict_set k (v, Some (kv_now s + ttl)) (kv_data s)"
  using kv_command_data [of "\<lambda>s. ((), s\<lparr>kv_data := dict_set k (v, Some (kv_now s + ttl)) (kv_data s)\<rparr>)"
      "\<lambda>d n. dict_set k (v, Some (n + ttl)) d" s]
  by (simp_all add: kv_setex_def)

lemma kv_delete_data:
  "kv_now (snd (kv_delete k s)) = kv_now s"
  "kv_data (snd (kv_delete k s)) = kv_data s \<or> kv_data (snd (kv_delete k s)) = dict_pop k (kv_data s)"
  using kv_command_data [of "\<lambda>s. ((), s\<lparr>kv_data := dict_pop k (kv_data s)\<rparr>)" "\<lambda>d n. dict_pop k d" s]
  by (simp_all add: kv_delete_def)

lemma kv_delete_Inr: "kv_delete k s = (Inr u, s') \<Longrightarrow> kv_data s' = dict_pop k (kv_data s)"
  by (auto simp: kv_delete_def kv_command_def Let_def split: list.splits option.splits)

text \<open>Where a probe of Redis can leave the server: as it was, with the health key, or without it.\<close>

definition probe_trace :: "kv \<Rightarrow> kv \<Rightarrow> bool" where
  "probe_trace s t = (kv_now t = kv_now s \<and> (\<forall>k. k \<noteq> REDIS_HEALTH_KEY \<longrightarrow> map_of (kv_data t) k = map_of (kv_data s) k)
     \<and> (map_of (kv_data t) REDIS_HEALTH_KEY = map_of (kv_data s) REDIS_HEALTH_KEY
        \<or> map_of (kv_data t) REDIS_HEALTH_KEY = Some (''ok'', Some (kv_now s + REDIS_HEALTH_TTL_SECONDS))
        \<or> map_of (kv_data t) REDIS_HEALTH_KEY = None))"

lemma probe_trace_bind:
  assumes "probe_trace s (snd (m s))" and "\<And>x t. m s = (Inr x, t) \<Longrightarrow> probe_trace s (snd (f x t))"
  shows "probe_trace s (snd (bind_eff m f s))"
  using assms by (auto simp: bind_eff_def split: prod.splits sum.splits)

lemma probe_trace_step:
  assumes "probe_trace s t"
  shows "probe_trace s (snd (kv_ping t))" "probe_trace s (snd (kv_get k t))" "probe_trace s (snd (kv_time_left k t))"
    "probe_trace s (snd (kv_setex REDIS_HEALTH_KEY REDIS_HEALTH_TTL_SECONDS ''ok'' t))"
    "probe_trace s (snd (kv_delete REDIS_HEALTH_KEY t))"
  using assms kv_setex_data [of REDIS_HEALTH_KEY REDIS_HEALTH_TTL_SECONDS "''ok''" t] kv_delete_data [of REDIS_HEALTH_KEY t]
  by (auto simp: probe_trace_def)

lemma probe_trace_then:
  assumes "probe_trace s (snd (m t))" and "\<And>x u. probe_trace s u \<Longrightarrow> probe_trace s (snd (f x u))"
  shows "probe_trace s (snd (bind_eff m f t))"
  using assms by (cases "m t") (auto simp: bind_eff_def split: sum.splits)

lemma redis_probe_trace: "probe_trace s (snd (redis_probe s))"
proof -
  have start: "probe_trace s s" by (simp add: probe_trace_def)
  show ?thesis
    unfolding redis_probe_def
    by (intro probe_trace_then) (auto intro: probe_trace_step start simp: ret_def raise_exn_def intro!: probe_trace_then)
qed

lemma redis_probe_Inr:
  assumes "redis_probe s = (Inr ttl, t)"
  shows "map_of (kv_data t) REDIS_HEALTH_KEY = None"
  using assms by (auto simp: redis_probe_def bind_eff_Inr_iff ret_def raise_exn_def kv_delete_Inr split: if_splits)

text \<open>The policies on settings that passed start-up validation.\<close>

lemma database_policy_built:
  assumes "validate_managed_database_url br st = Inr []" and "strip (database_url st) \<noteq> []"
  shows "check_database_url_policy br st = Inr [] \<longleftrightarrow> 1 \<le> db_pool_min_size st \<and> db_pool_min_size st \<le> db_pool_max_size st"
  using assms by (auto simp: validate_managed_database_url_def check_database_url_policy_def Let_def bind_res_Inr_iff)

lemma redis_policy_built:
  assumes "validate_managed_redis_url br st = Inr []" and "strip (redis_url st) \<noteq> []" and "strip (redis_key_prefix st) \<noteq> []"
  shows "check_redis_url_policy br st = Inr []"
  using assms by (auto simp: validate_managed_redis_url_def check_redis_url_policy_def Let_def bind_res_Inr_iff)

lemma storage_backends_same: "STORAGE_BACKENDS = SUPPORTED_OBJECT_STORAGE_BACKENDS"
  by (simp add: STORAGE_BACKENDS_def SUPPORTED_OBJECT_STORAGE_BACKENDS_def)

lemma supported_not_local:
  "b \<in> set SUPPORTED_OBJECT_STORAGE_BACKENDS \<Longrightarrow> b \<noteq> [] \<and> b \<notin> set [''local'', ''disk'', ''filesystem'', ''memory'']"
  by (auto simp: SUPPORTED_OBJECT_STORAGE_BACKENDS_def)

lemma saas_supported_storage:
  assumes "saas_issues_managed st = []" and "lower (strip (file_storage_backend st)) \<in> set SUPPORTED_OBJECT_STORAGE_BACKENDS"
  shows "strip (object_storage_bucket st) \<noteq> []" "strip (object_storage_region st) \<noteq> []"
    "lower (strip (file_storage_backend st)) = ''r2'' \<Longrightarrow> strip (object_storage_endpoint st) \<noteq> []"
  using assms by (auto simp: saas_issues_managed_def simp del: set_simps split: if_splits)

lemma object_policy_built:
  assumes "saas_issues_managed st = []"
  shows "check_object_storage_policy st = [] \<longleftrightarrow>
    lower (strip (file_storage_backend st)) \<in> set STORAGE_BACKENDS \<and> 0 < object_storage_presigned_url_ttl_seconds st"
proof (cases "lower (strip (file_storage_backend st)) \<in> set SUPPORTED_OBJECT_STORAGE_BACKENDS")
  case True
  note facts = saas_supported_storage [OF assms True] supported_not_local [OF True]
  show ?thesis
    unfolding check_object_storage_policy_def Let_def storage_backends_same
    using True facts by (auto simp del: set_simps)
next
  case False
  then show ?thesis
    unfolding check_object_storage_policy_def Let_def storage_backends_same by (simp del: set_simps)
qed

lemma secret_policy_built:
  assumes "saas_issues_managed st = []" and "is_production_saas st"
  shows "check_secret_manager_policy st = [] \<longleftrightarrow>
    \<not> allow_env_secret_provider st \<and> \<not> (audit_immutable_required st \<and> strip (audit_sink_provider st) = ''postgres'')"
  using assms by (auto simp: check_secret_manager_policy_def saas_issues_managed_def Let_def simp del: set_simps split: if_splits)

lemma set_but_not_https_False: "set_but_not_https br u = Inr False \<longleftrightarrow> strip u = [] \<or> is_valid_https_url br u = Inr True"
  by (auto simp: set_but_not_https_def bind_res_Inr_iff)

lemma saas_base_url: "saas_issues_core st = [] \<Longrightarrow> strip (public_base_url st) \<noteq> []"
  by (auto simp: saas_issues_core_def)

lemma staging_tenant_plain: "strip STAGING_HEALTH_TENANT = STAGING_HEALTH_TENANT"
  by code_simp

text \<open>A step that keeps the object and the settings can be followed by another.\<close>

lemma bind_saas_view:
  assumes "view (cs_world (snd (m s))) x = view (cs_world s) x" and "cs_settings (snd (m s)) = cs_settings s"
    and "\<And>a t. cs_settings t = cs_settings s \<Longrightarrow> view (cs_world (snd (f a t))) x = view (cs_world t) x"
  shows "view (cs_world (snd (bind_eff m f s))) x = view (cs_world s) x"
  using assms by (cases "m s") (auto simp: bind_eff_def split: sum.splits)

lemma built_backend:
  "build_storage_backend st = Inr b \<Longrightarrow> (\<exists>m. b = LocalMemoryStorageBackend m) \<or> (\<exists>k. b = CloudStorageBackend k st)
    \<or> (\<exists>r. b = DisabledProductionStorageBackend r)"
  by (auto simp: build_storage_backend_def Let_def bind_res_Inr_iff fresh_memory_def split: if_splits)

text \<open>The text of the error for a missing SDK does not have the code the live checks look for in it.\<close>

lemma sdk_text_without_code: "\<not> contains (lower SDK_NOT_INSTALLED_MESSAGE) ''sdk_not_installed''"
  by code_simp

section \<open>Examples\<close>

definition example_managed :: "(unit, (string \<times> string) list) managed_env" where
  "example_managed = \<lparr>me_bracket = no_bracket_error, me_pydantic = simple_pydantic, me_database = (\<lambda>u n. Inr ''app''),
     me_redis = (\<lambda>u n. Inr ()), me_storage_sdk = dict_sdk, me_secret_sdk = holding ''present'',
     me_now = 0, me_now' = 0,
     me_http_json = (\<lambda>u n. Inr (PDict [(''keys'', PList [PDict [(''alg'', PStr ''RS256'')]])]))\<rparr>"

definition example_services :: "(string \<times> string) list managed_world" where
  "example_services = \<lparr>mw_environ = [(''RUN_LIVE_STAGING_CHECKS'', ''true'')],
     mw_kv = \<lparr>kv_faults = [], kv_now = 7, kv_data = [(''boundary_layer:tenant:acme:session'', ''s'', None)]\<rparr>,
     mw_store = [(''tenants/acme/report.txt'', ''secret'')]\<rparr>"

text \<open>On services that work, all five live checks pass.\<close>

lemma example_live_checks:
  "fst (run_live_connectivity_checks example_managed
      (example_saas_built\<lparr>object_storage_prefix := ''tenants/''\<rparr>) example_services) =
     Inr [live_result ''postgresql'' True ''SELECT 1 ok; database=app; sslmode=require'',
       live_result ''redis'' True ''PING ok; key=boundary_layer:tenant:staging-health:managed-service-check; ttl=60'',
       live_result ''object_storage'' True ''write/read/delete ok; key=tenants/staging-health/healthchecks/managed-service-check.txt'',
       live_result ''secret_manager'' True ''secret present for BOUNDARY_LAYER_HEALTHCHECK_SECRET (value redacted)'',
       live_result ''jwks'' True ''issuer=https ok; signing_keys=1; algorithms_ok=true'']"
  by code_simp

section \<open>Properties\<close>

text \<open>
  C28. The live check is tidy in Redis: whatever command fails, no key but its own is touched, and its own is either as it
  was, or gone, or the probe value that expires within a minute; when the check passes it is gone.
\<close>

theorem redis_live_check_tidy:
  assumes "check_redis_live env st s = (r, s')"
  shows "(\<forall>k. k \<noteq> REDIS_HEALTH_KEY \<longrightarrow> map_of (kv_data s') k = map_of (kv_data s) k)
    \<and> map_of (kv_data s') REDIS_HEALTH_KEY
        \<in> {map_of (kv_data s) REDIS_HEALTH_KEY, Some (''ok'', Some (kv_now s + 60)), None}
    \<and> (\<exists>result. r = Inr result \<and> (lc_passed result \<longrightarrow> map_of (kv_data s') REDIS_HEALTH_KEY = None))"
proof -
  obtain p t where probe: "redis_probe s = (p, t)" by (cases "redis_probe s")
  have "probe_trace s t" using redis_probe_trace [of s] probe by simp
  moreover have "p = Inr ttl \<Longrightarrow> map_of (kv_data t) REDIS_HEALTH_KEY = None" for ttl
    using redis_probe_Inr probe by simp
  ultimately show ?thesis
    using assms probe unfolding check_redis_live_def
    by (cases "me_redis env (redis_url st) (redis_connect_timeout_seconds st)")
      (auto simp: bind_eff_def lift_res_def raise_exn_def probe_trace_def live_result_def REDIS_HEALTH_TTL_SECONDS_def
        split: if_splits sum.splits)
qed

theorem redis_live_check_tidy_witness:
  "map_of (kv_data (snd (check_redis_live example_managed example_saas_built (mw_kv example_services))))
     ''boundary_layer:tenant:acme:session'' = Some (''s'', None)
   \<and> map_of (kv_data (snd (check_redis_live example_managed example_saas_built (mw_kv example_services)))) REDIS_HEALTH_KEY = None"
proof -
  have other: "''boundary_layer:tenant:acme:session'' \<noteq> REDIS_HEALTH_KEY"
    and before: "map_of (kv_data (mw_kv example_services)) ''boundary_layer:tenant:acme:session'' = Some (''s'', None)"
    and pass: "case fst (check_redis_live example_managed example_saas_built (mw_kv example_services)) of
      Inr r \<Rightarrow> lc_passed r | Inl _ \<Rightarrow> False" by code_simp+
  show ?thesis
    using redis_live_check_tidy [OF surjective_pairing, of example_managed example_saas_built "mw_kv example_services"]
      other before pass by (auto split: sum.splits)
qed

text \<open>
  C26. What the policy check adds: for settings that passed start-up validation in \<open>production-saas\<close>, it finds nothing exactly
  when the pool sizes are in order, the storage backend is one of the three supported, upload URLs live for a
  positive time, secrets are not taken from the environment, an immutable audit trail is not kept in
  PostgreSQL, and the public base URL is https.
\<close>

theorem structural_policy_exact:
  assumes "build_settings br raw = Inr st" and "is_production_saas st"
  shows "run_structural_policy_checks br st = Inr [] \<longleftrightarrow>
    1 \<le> db_pool_min_size st \<and> db_pool_min_size st \<le> db_pool_max_size st
    \<and> lower (strip (file_storage_backend st)) \<in> set STORAGE_BACKENDS
    \<and> 0 < object_storage_presigned_url_ttl_seconds st \<and> \<not> allow_env_secret_provider st
    \<and> \<not> (audit_immutable_required st \<and> strip (audit_sink_provider st) = ''postgres'')
    \<and> is_valid_https_url br (strip (public_base_url st)) = Inr True"
proof -
  note parts = saas_issues_parts [OF built_saas_issues [OF assms]]
  note urls = saas_urls_present [OF parts(2)]
  have fixed: "check_redis_url_policy br st = Inr []" "set_but_not_https br (oidc_issuer_url st) = Inr False"
    "set_but_not_https br (oidc_jwks_url st) = Inr False"
    using redis_policy_built [OF parts(5) urls(2) saas_issues_managed_Nil(7) [OF parts(3)]]
      saas_issues_auth_Nil(2,3) [OF parts(1)] by (auto simp: set_but_not_https_False)
  have "run_structural_policy_checks br st = Inr [] \<longleftrightarrow>
      check_database_url_policy br st = Inr [] \<and> check_object_storage_policy st = [] \<and> check_secret_manager_policy st = []
      \<and> set_but_not_https br (strip (public_base_url st)) = Inr False"
    by (auto simp: run_structural_policy_checks_def bind_res_Inr_iff fixed)
  also have "set_but_not_https br (strip (public_base_url st)) = Inr False \<longleftrightarrow>
      is_valid_https_url br (strip (public_base_url st)) = Inr True"
    using saas_base_url [OF parts(2)] by (simp add: set_but_not_https_False)
  finally show ?thesis
    using database_policy_built [OF parts(4) urls(1)] object_policy_built [OF parts(3)] secret_policy_built [OF parts(3) assms(2)]
    by simp
qed

theorem structural_policy_exact_witness:
  "run_structural_policy_checks no_bracket_error example_saas_built = Inr []"
proof -
  have "1 \<le> db_pool_min_size example_saas_built \<and> db_pool_min_size example_saas_built \<le> db_pool_max_size example_saas_built
    \<and> lower (strip (file_storage_backend example_saas_built)) \<in> set STORAGE_BACKENDS
    \<and> 0 < object_storage_presigned_url_ttl_seconds example_saas_built \<and> \<not> allow_env_secret_provider example_saas_built
    \<and> \<not> (audit_immutable_required example_saas_built \<and> strip (audit_sink_provider example_saas_built) = ''postgres'')
    \<and> is_valid_https_url no_bracket_error (strip (public_base_url example_saas_built)) = Inr True"
    by code_simp
  then show ?thesis unfolding structural_policy_exact [OF example_saas_builds example_saas_built_saas] .
qed

text \<open>
  C36. The live command never runs a live check: with \<open>RUN_LIVE_STAGING_CHECKS\<close> set, as its script asks, the command selects the live
  mode but looks for the permission in an environment it made up itself, where it is not; so it always reports
  that the live mode was refused, exits with 1 and touches no service.
\<close>

theorem live_command_always_refuses:
  assumes "is_live_checks_enabled (mw_environ s)"
  shows "managed_services_main env s = (Inr (managed_format_text (managed_result False False Live False True
    [''Live mode refused: set RUN_LIVE_STAGING_CHECKS=true explicitly''] [] []), 1), s)"
proof -
  have "\<not> is_live_checks_enabled (dict_set ''BOUNDARY_LAYER_PROFILE'' PRODUCTION_SAAS_PROFILE [(''BOUNDARY_LAYER_ENV'', ''staging'')])"
    by code_simp
  then show ?thesis
    using assms by (simp add: managed_services_main_def evaluate_managed_services_readiness_def Let_def bind_eff_def ret_def
        managed_result_def)
qed

theorem live_command_always_refuses_witness:
  "\<exists>out. managed_services_main example_managed example_services = (Inr (out, 1), example_services)"
proof -
  have "is_live_checks_enabled (mw_environ example_services)" by code_simp
  from live_command_always_refuses [OF this] show ?thesis by blast
qed

text \<open>
  What a reported error may still say: the text is at most 163 characters long, and when the message names a URL,
  a password, a token or a bearer credential and has an at-sign, everything up to the first at-sign is gone.
\<close>

theorem redacted_error_bounded:
  "length (redact_error_message m) \<le> 163
    \<and> (if list_ex (contains m) ERROR_MARKERS \<and> CHR ''@'' \<in> set m
       then \<exists>before rest. m = before @ [CHR ''@''] @ rest \<and> CHR ''@'' \<notin> set before
         \<and> redact_error_message m = (if length rest > 160 then take 160 rest @ ''...'' else rest)
       else redact_error_message m = (if length m > 160 then take 160 m @ ''...'' else m))"
proof (cases "list_ex (contains m) ERROR_MARKERS \<and> CHR ''@'' \<in> set m")
  case True
  then obtain rest where rest: "m = takeWhile (\<lambda>x. x \<noteq> CHR ''@'') m @ CHR ''@'' # rest" using takeWhile_sep by fastforce
  let ?before = "takeWhile (\<lambda>x. x \<noteq> CHR ''@'') m"
  have free: "CHR ''@'' \<notin> set ?before" by (auto dest: set_takeWhileD)
  have "dropWhile (\<lambda>x. x \<noteq> CHR ''@'') m = CHR ''@'' # rest"
    using rest by (metis append_same_eq same_append_eq takeWhile_dropWhile_id)
  then have red: "redact_error_message m = (if length rest > 160 then take 160 rest @ ''...'' else rest)"
    using True by (simp add: redact_error_message_def partition_chr_def Let_def)
  have "m = ?before @ [CHR ''@''] @ rest" using rest by simp
  then have "\<exists>before rest. m = before @ [CHR ''@''] @ rest \<and> CHR ''@'' \<notin> set before
      \<and> redact_error_message m = (if length rest > 160 then take 160 rest @ ''...'' else rest)" using free red by blast
  moreover have "length (redact_error_message m) \<le> 163" by (simp add: red)
  ultimately show ?thesis unfolding if_P [OF True] by blast
next
  case False
  then have red: "redact_error_message m = (if length m > 160 then take 160 m @ ''...'' else m)"
    unfolding redact_error_message_def Let_def by (simp only: if_False)
  then have "length (redact_error_message m) \<le> 163" by simp
  then show ?thesis unfolding if_not_P [OF False] using red by blast
qed

text \<open>
  C27. The live check of the object store stays in its own corner: in \<open>production-saas\<close>, given only that the provider's calls act on the
  object they name, an object of any tenant but the health-check tenant reads the same afterwards, whether
  the check passed or failed half-way.
\<close>

theorem storage_live_check_isolated:
  assumes "is_production_saas st" and "sdk_local view (me_storage_sdk env)"
    and "extract_tenant_from_object_key x = Some u" and "u \<noteq> STAGING_HEALTH_TENANT"
  shows "view (snd (check_object_storage_live env st w)) x = view w x"
proof -
  let ?sdk = "me_storage_sdk env"
  have tenant: "u \<noteq> strip STAGING_HEALTH_TENANT"
    using assms(4) by (simp add: staging_tenant_plain)
  have cloud: "view (cs_world (snd (storage_probe (cloud_put_object ?sdk) (cloud_get_object_metadata ?sdk) (cloud_delete_object ?sdk) s))) x
      = view (cs_world s) x" if "is_production_saas (cs_settings s)" for s
    using that unfolding storage_probe_def
    by (auto intro!: bind_saas_view cloud_ops_isolated [OF _ assms(2,3) tenant] simp: ret_def)
  have "view (snd (probe_backend ?sdk b w)) x = view w x" if "build_storage_backend st = Inr b" for b
    using built_backend [OF that]
  proof (elim disjE exE)
    fix k
    assume "b = CloudStorageBackend k st"
    then show ?thesis
      using cloud [of "\<lparr>cs_kind = k, cs_settings = st, cs_client = None, cs_world = w\<rparr>"] assms(1)
      by (simp add: case_prod_beta)
  qed auto
  then show ?thesis
    by (cases "build_storage_backend st")
      (auto simp: check_object_storage_live_def bind_eff_def lift_res_def raise_exn_def split: prod.splits sum.splits)
qed

theorem storage_live_check_isolated_witness:
  "map_of (snd (check_object_storage_live example_managed example_saas_built (mw_store example_services)))
     ''tenants/acme/report.txt'' = Some ''secret''"
proof -
  have sdk: "sdk_local map_of (me_storage_sdk example_managed)" using dict_sdk_local by (simp add: example_managed_def)
  have facts: "extract_tenant_from_object_key ''tenants/acme/report.txt'' = Some ''acme''" "''acme'' \<noteq> STAGING_HEALTH_TENANT"
    "map_of (mw_store example_services) ''tenants/acme/report.txt'' = Some ''secret''" by code_simp+
  show ?thesis using storage_live_check_isolated [OF example_saas_built_saas sdk facts(1,2)] facts(3) by simp
qed

end
