(* ===== verification/Schema.thy ===== *)
theory Schema
  imports Py_Prelude
begin

text \<open>
  The schema, in the two forms the repository keeps it: the texts \<open>SCHEMA_SQL\<close> of \<open>apps/api/db.py\<close> and \<open>TENANCY_SCHEMA_SQL\<close> of
  \<open>apps/api/tenancy.py\<close>, which the application executes when it initialises its tables, and the Alembic revisions under
  \<open>migrations/versions\<close>. A text is the list of its statements, run in order on the catalog of the database. A
  relation is a table or an index; they share their names, as in PostgreSQL.
\<close>

section \<open>Statements and catalog\<close>

datatype sql_type = Text | Integer | Boolean | Timestamptz | Jsonb

datatype sql_constraint = PrimaryKey | NotNull | UniqueColumn | DefaultNow | DefaultText string

record sql_column =
  col_name :: string
  col_type :: sql_type
  col_constraints :: "sql_constraint list"

definition col :: "string \<Rightarrow> sql_type \<Rightarrow> sql_constraint list \<Rightarrow> sql_column" where
  "col name ty cs = \<lparr>col_name = name, col_type = ty, col_constraints = cs\<rparr>"

datatype ddl =
    CreateTable string "sql_column list"
  | CreateIndex bool string string "string list"
  | DropTable string

record sql_index =
  ix_name :: string
  ix_table :: string
  ix_unique :: bool
  ix_columns :: "string list"

record catalog =
  ct_tables :: "(string \<times> sql_column list) list"
  ct_indexes :: "sql_index list"

definition relation_names :: "catalog \<Rightarrow> string list" where
  "relation_names c = map fst (ct_tables c) @ map ix_name (ct_indexes c)"

text \<open>\<open>IF NOT EXISTS\<close> and \<open>IF EXISTS\<close>; an index on no table is an error, dropping a table drops its indexes.\<close>

fun exec_ddl :: "ddl \<Rightarrow> catalog \<Rightarrow> catalog result" where
  "exec_ddl (CreateTable name cols) c =
     (if name \<in> set (relation_names c) then Inr c
      else Inr (c\<lparr>ct_tables := ct_tables c @ [(name, cols)]\<rparr>))"
| "exec_ddl (CreateIndex unique name table cols) c =
     (if name \<in> set (relation_names c) then Inr c
      else if table \<notin> fst ` set (ct_tables c) then Inl (OtherError (''relation '' @ table @ '' does not exist''))
      else Inr (c\<lparr>ct_indexes := ct_indexes c @ [\<lparr>ix_name = name, ix_table = table, ix_unique = unique, ix_columns = cols\<rparr>]\<rparr>))"
| "exec_ddl (DropTable name) c =
     Inr \<lparr>ct_tables = filter (\<lambda>(n, cols). n \<noteq> name) (ct_tables c),
          ct_indexes = filter (\<lambda>i. ix_table i \<noteq> name) (ct_indexes c)\<rparr>"

fun run_ddl :: "ddl list \<Rightarrow> catalog \<Rightarrow> catalog result" where
  "run_ddl [] c = Inr c"
| "run_ddl (d # ds) c = bind_res (exec_ddl d c) (run_ddl ds)"

section \<open>The scripts\<close>

definition SCHEMA_SQL :: "ddl list" where
  "SCHEMA_SQL =
     [CreateTable ''prompt_requests''
        [col ''id'' Text [PrimaryKey], col ''tenant_id'' Text [NotNull], col ''prompt_text'' Text [NotNull],
        col ''created_at'' Timestamptz [NotNull, DefaultNow], col ''deleted_at'' Timestamptz []],
      CreateTable ''prompt_logs''
        [col ''id'' Text [PrimaryKey], col ''prompt_request_id'' Text [NotNull],
        col ''content'' Text [NotNull], col ''created_at'' Timestamptz [NotNull, DefaultNow],
        col ''deleted_at'' Timestamptz []],
      CreateTable ''tool_records''
        [col ''id'' Text [PrimaryKey], col ''prompt_request_id'' Text [NotNull],
        col ''tool_name'' Text [NotNull], col ''content'' Text [NotNull],
        col ''created_at'' Timestamptz [NotNull, DefaultNow], col ''deleted_at'' Timestamptz []],
      CreateTable ''evaluation_queue''
        [col ''id'' Text [PrimaryKey], col ''prompt_request_id'' Text [NotNull],
        col ''content'' Text [NotNull], col ''created_at'' Timestamptz [NotNull, DefaultNow],
        col ''deleted_at'' Timestamptz []],
      CreateTable ''training_queue''
        [col ''id'' Text [PrimaryKey], col ''prompt_request_id'' Text [NotNull],
        col ''content'' Text [NotNull], col ''created_at'' Timestamptz [NotNull, DefaultNow],
        col ''deleted_at'' Timestamptz []],
      CreateTable ''deletion_audit''
        [col ''id'' Text [PrimaryKey], col ''prompt_request_id'' Text [NotNull],
        col ''mode'' Text [NotNull], col ''orphan_count'' Integer [NotNull],
        col ''complete'' Boolean [NotNull], col ''created_at'' Timestamptz [NotNull, DefaultNow]],
      CreateTable ''write_storm_events''
        [col ''id'' Text [PrimaryKey], col ''tenant_id'' Text [NotNull],
        col ''prompt_request_id'' Text [NotNull], col ''event_type'' Text [NotNull],
        col ''payload'' Text [NotNull], col ''created_at'' Timestamptz [NotNull, DefaultNow]],
      CreateIndex False ''write_storm_events_tenant_created_idx'' ''write_storm_events'' [''tenant_id'', ''created_at DESC'']]"

definition TENANCY_SCHEMA_SQL :: "ddl list" where
  "TENANCY_SCHEMA_SQL =
     [CreateTable ''tenants''
        [col ''id'' Text [PrimaryKey], col ''name'' Text [NotNull],
        col ''status'' Text [NotNull, DefaultText ''active''],
        col ''created_at'' Timestamptz [NotNull, DefaultNow]],
      CreateTable ''users''
        [col ''id'' Text [PrimaryKey], col ''subject'' Text [NotNull, UniqueColumn], col ''email'' Text [],
        col ''created_at'' Timestamptz [NotNull, DefaultNow]],
      CreateTable ''tenant_memberships''
        [col ''id'' Text [PrimaryKey], col ''tenant_id'' Text [NotNull], col ''user_id'' Text [NotNull],
        col ''role'' Text [NotNull], col ''status'' Text [NotNull, DefaultText ''active''],
        col ''created_at'' Timestamptz [NotNull, DefaultNow]],
      CreateIndex True ''tenant_memberships_tenant_user_idx'' ''tenant_memberships'' [''tenant_id'', ''user_id''],
      CreateTable ''audit_events''
        [col ''id'' Text [PrimaryKey], col ''tenant_id'' Text [], col ''actor_subject'' Text [],
        col ''action'' Text [NotNull], col ''resource_type'' Text [], col ''resource_id'' Text [],
        col ''result'' Text [NotNull], col ''metadata'' Jsonb [],
        col ''created_at'' Timestamptz [NotNull, DefaultNow]],
      CreateIndex False ''audit_events_tenant_created_idx'' ''audit_events'' [''tenant_id'', ''created_at DESC'']]"

definition initial_upgrade :: "ddl list" where
  "initial_upgrade =
     [CreateTable ''prompt_requests''
        [col ''id'' Text [PrimaryKey], col ''tenant_id'' Text [NotNull], col ''prompt_text'' Text [NotNull],
        col ''created_at'' Timestamptz [NotNull, DefaultNow], col ''deleted_at'' Timestamptz []],
      CreateTable ''prompt_logs''
        [col ''id'' Text [PrimaryKey], col ''prompt_request_id'' Text [NotNull],
        col ''content'' Text [NotNull], col ''created_at'' Timestamptz [NotNull, DefaultNow],
        col ''deleted_at'' Timestamptz []],
      CreateTable ''tool_records''
        [col ''id'' Text [PrimaryKey], col ''prompt_request_id'' Text [NotNull],
        col ''tool_name'' Text [NotNull], col ''content'' Text [NotNull],
        col ''created_at'' Timestamptz [NotNull, DefaultNow], col ''deleted_at'' Timestamptz []],
      CreateTable ''evaluation_queue''
        [col ''id'' Text [PrimaryKey], col ''prompt_request_id'' Text [NotNull],
        col ''content'' Text [NotNull], col ''created_at'' Timestamptz [NotNull, DefaultNow],
        col ''deleted_at'' Timestamptz []],
      CreateTable ''training_queue''
        [col ''id'' Text [PrimaryKey], col ''prompt_request_id'' Text [NotNull],
        col ''content'' Text [NotNull], col ''created_at'' Timestamptz [NotNull, DefaultNow],
        col ''deleted_at'' Timestamptz []],
      CreateTable ''deletion_audit''
        [col ''id'' Text [PrimaryKey], col ''prompt_request_id'' Text [NotNull],
        col ''mode'' Text [NotNull], col ''orphan_count'' Integer [NotNull],
        col ''complete'' Boolean [NotNull], col ''created_at'' Timestamptz [NotNull, DefaultNow]],
      CreateTable ''write_storm_events''
        [col ''id'' Text [PrimaryKey], col ''tenant_id'' Text [NotNull],
        col ''prompt_request_id'' Text [NotNull], col ''event_type'' Text [NotNull],
        col ''payload'' Text [NotNull], col ''created_at'' Timestamptz [NotNull, DefaultNow]],
      CreateIndex False ''write_storm_events_tenant_created_idx'' ''write_storm_events'' [''tenant_id'', ''created_at DESC'']]"

definition initial_downgrade :: "ddl list" where
  "initial_downgrade =
     [DropTable ''write_storm_events'',
      DropTable ''deletion_audit'',
      DropTable ''training_queue'',
      DropTable ''evaluation_queue'',
      DropTable ''tool_records'',
      DropTable ''prompt_logs'',
      DropTable ''prompt_requests'']"

definition tenancy_upgrade :: "ddl list" where
  "tenancy_upgrade =
     [CreateTable ''tenants''
        [col ''id'' Text [PrimaryKey], col ''name'' Text [NotNull],
        col ''status'' Text [NotNull, DefaultText ''active''],
        col ''created_at'' Timestamptz [NotNull, DefaultNow]],
      CreateTable ''users''
        [col ''id'' Text [PrimaryKey], col ''subject'' Text [NotNull, UniqueColumn], col ''email'' Text [],
        col ''created_at'' Timestamptz [NotNull, DefaultNow]],
      CreateTable ''tenant_memberships''
        [col ''id'' Text [PrimaryKey], col ''tenant_id'' Text [NotNull], col ''user_id'' Text [NotNull],
        col ''role'' Text [NotNull], col ''status'' Text [NotNull, DefaultText ''active''],
        col ''created_at'' Timestamptz [NotNull, DefaultNow]],
      CreateIndex True ''tenant_memberships_tenant_user_idx'' ''tenant_memberships'' [''tenant_id'', ''user_id''],
      CreateTable ''audit_events''
        [col ''id'' Text [PrimaryKey], col ''tenant_id'' Text [], col ''actor_subject'' Text [],
        col ''action'' Text [NotNull], col ''resource_type'' Text [], col ''resource_id'' Text [],
        col ''result'' Text [NotNull], col ''metadata'' Jsonb [],
        col ''created_at'' Timestamptz [NotNull, DefaultNow]],
      CreateIndex False ''audit_events_tenant_created_idx'' ''audit_events'' [''tenant_id'', ''created_at DESC'']]"

definition tenancy_downgrade :: "ddl list" where
  "tenancy_downgrade =
     [DropTable ''audit_events'',
      DropTable ''tenant_memberships'',
      DropTable ''users'',
      DropTable ''tenants'']"

text \<open>\<open>migrations/env.py\<close>: the URL Alembic connects to, from the environment.\<close>

definition migration_database_url :: "(string \<times> string) list \<Rightarrow> string" where
  "migration_database_url environ =
     ''postgresql+psycopg2://'' @ dict_get_or environ ''POSTGRES_USER'' ''boundary_layer'' @ '':''
     @ dict_get_or environ ''POSTGRES_PASSWORD'' ''boundary_layer_local'' @ ''@''
     @ dict_get_or environ ''POSTGRES_HOST'' ''localhost'' @ '':'' @ dict_get_or environ ''POSTGRES_PORT'' ''5432'' @ ''/''
     @ dict_get_or environ ''POSTGRES_DB'' ''boundary_layer''"

text \<open>
  The two modes of \<open>env.py\<close>. Which statements \<open>context.run_migrations()\<close> runs is Alembic's to say: they are the argument
  \<open>pending\<close>, as \<open>connect\<close> is the outcome of connecting to a URL. Online they run in one transaction on the
  catalog, which a failure rolls back; offline they are written out with the URL they are meant for.
\<close>

definition run_migrations_online ::
    "(string \<Rightarrow> unit result) \<Rightarrow> (string \<times> string) list \<Rightarrow> ddl list \<Rightarrow> (catalog, unit) eff" where
  "run_migrations_online connect environ pending c =
     (case connect (migration_database_url environ) of
        Inl e \<Rightarrow> (Inl e, c)
      | Inr _ \<Rightarrow> (case run_ddl pending c of Inl e \<Rightarrow> (Inl e, c) | Inr c' \<Rightarrow> (Inr (), c')))"

definition run_migrations_offline :: "(string \<times> string) list \<Rightarrow> ddl list \<Rightarrow> string \<times> ddl list" where
  "run_migrations_offline environ pending = (migration_database_url environ, pending)"

definition migration_env ::
    "(string \<Rightarrow> unit result) \<Rightarrow> bool \<Rightarrow> (string \<times> string) list \<Rightarrow> ddl list \<Rightarrow> (catalog, (string \<times> ddl list) option) eff" where
  "migration_env connect is_offline environ pending =
     (if is_offline then ret (Some (run_migrations_offline environ pending))
      else bind_eff (run_migrations_online connect environ pending) (\<lambda>_. ret None))"

section \<open>Lemmas\<close>

text \<open>All of the pending statements or none of them; offline, none.\<close>

lemma migration_env_atomic:
  assumes "migration_env connect is_offline environ pending c = (r, c')"
  shows "c' = c \<or> \<not> is_offline \<and> r = Inr None \<and> run_ddl pending c = Inr c'"
  using assms
  by (auto simp: migration_env_def run_migrations_online_def bind_eff_def ret_def split: if_splits sum.splits)

fun created :: "ddl \<Rightarrow> string option" where
  "created (CreateTable name _) = Some name"
| "created (CreateIndex _ name _ _) = Some name"
| "created (DropTable _) = None"

lemma run_ddl_append: "run_ddl (xs @ ys) c = bind_res (run_ddl xs c) (run_ddl ys)"
  by (induction xs arbitrary: c) (auto simp: bind_res_def split: sum.splits)

lemma create_keeps:
  assumes "exec_ddl d c = Inr c'" and "created d = Some name"
  shows "set (relation_names c') = insert name (set (relation_names c))"
  using assms by (cases d) (auto simp: relation_names_def split: if_splits)

lemma create_exists: "created d = Some name \<Longrightarrow> name \<in> set (relation_names c) \<Longrightarrow> exec_ddl d c = Inr c"
  by (cases d) auto

lemma run_creates_names:
  assumes "run_ddl ds c = Inr c'" and "\<forall>d\<in>set ds. created d \<noteq> None"
  shows "set (relation_names c') = set (relation_names c) \<union> the ` created ` set ds"
  using assms
proof (induction ds arbitrary: c)
  case (Cons d ds)
  then obtain c1 name where "exec_ddl d c = Inr c1" "run_ddl ds c1 = Inr c'" "created d = Some name"
    by (auto simp: bind_res_Inr_iff)
  then show ?case using Cons create_keeps [of d c c1 name] by auto
qed simp

lemma run_existing:
  assumes "\<forall>d\<in>set ds. \<exists>name\<in>set (relation_names c). created d = Some name"
  shows "run_ddl ds c = Inr c"
  using assms by (induction ds) (auto simp: create_exists)

lemma rerun_creates:
  assumes "run_ddl ds c = Inr c'" and "\<forall>d\<in>set ds. created d \<noteq> None"
  shows "run_ddl ds c' = Inr c'"
proof (rule run_existing, rule ballI)
  fix d
  assume d: "d \<in> set ds"
  then obtain name where "created d = Some name" using assms(2) by auto
  then show "\<exists>name\<in>set (relation_names c'). created d = Some name"
    using run_creates_names [OF assms] d by force
qed

text \<open>On a catalog with none of the names, a script of creations appends its tables and indexes.\<close>

fun tables_of :: "ddl list \<Rightarrow> (string \<times> sql_column list) list" where
  "tables_of [] = []"
| "tables_of (CreateTable name cols # ds) = (name, cols) # tables_of ds"
| "tables_of (_ # ds) = tables_of ds"

fun indexes_of :: "ddl list \<Rightarrow> sql_index list" where
  "indexes_of [] = []"
| "indexes_of (CreateIndex unique name table cols # ds) =
     \<lparr>ix_name = name, ix_table = table, ix_unique = unique, ix_columns = cols\<rparr> # indexes_of ds"
| "indexes_of (_ # ds) = indexes_of ds"

fun indexes_covered :: "ddl list \<Rightarrow> string list \<Rightarrow> bool" where
  "indexes_covered [] ts = True"
| "indexes_covered (CreateTable name cols # ds) ts = indexes_covered ds (name # ts)"
| "indexes_covered (CreateIndex unique name table cols # ds) ts = (table \<in> set ts \<and> indexes_covered ds ts)"
| "indexes_covered (DropTable name # ds) ts = False"

lemma run_creates_fresh:
  assumes "indexes_covered ds ts" and "set ts \<subseteq> fst ` set (ct_tables c)"
    and "distinct (map created ds)" and "\<forall>d\<in>set ds. created d \<notin> Some ` set (relation_names c)"
  shows "run_ddl ds c = Inr \<lparr>ct_tables = ct_tables c @ tables_of ds, ct_indexes = ct_indexes c @ indexes_of ds\<rparr>"
  using assms
proof (induction ds ts arbitrary: c rule: indexes_covered.induct)
  case (2 name cols ds ts)
  let ?c = "c\<lparr>ct_tables := ct_tables c @ [(name, cols)]\<rparr>"
  have names: "set (relation_names ?c) = insert name (set (relation_names c))" by (auto simp: relation_names_def)
  have "run_ddl ds ?c = Inr \<lparr>ct_tables = ct_tables ?c @ tables_of ds, ct_indexes = ct_indexes ?c @ indexes_of ds\<rparr>"
  proof (rule 2(1))
    show "\<forall>d\<in>set ds. created d \<notin> Some ` set (relation_names ?c)" unfolding names using 2(4,5) by (auto simp: image_iff)
  qed (use 2(2-4) in auto)
  moreover have "name \<notin> set (relation_names c)" using 2(5) by auto
  ultimately show ?case by simp
next
  case (3 unique name table cols ds ts)
  let ?c = "c\<lparr>ct_indexes := ct_indexes c @ [\<lparr>ix_name = name, ix_table = table, ix_unique = unique, ix_columns = cols\<rparr>]\<rparr>"
  have names: "set (relation_names ?c) = insert name (set (relation_names c))" by (auto simp: relation_names_def)
  have "run_ddl ds ?c = Inr \<lparr>ct_tables = ct_tables ?c @ tables_of ds, ct_indexes = ct_indexes ?c @ indexes_of ds\<rparr>"
  proof (rule 3(1))
    show "\<forall>d\<in>set ds. created d \<notin> Some ` set (relation_names ?c)" unfolding names using 3(4,5) by (auto simp: image_iff)
  qed (use 3(2-4) in auto)
  moreover have "name \<notin> set (relation_names c)" "table \<in> fst ` set (ct_tables c)" using 3(2,3,5) by auto
  ultimately show ?case by simp
qed auto

lemma run_drops:
  "run_ddl (map DropTable names) c =
     Inr \<lparr>ct_tables = filter (\<lambda>(n, cols). n \<notin> set names) (ct_tables c),
          ct_indexes = filter (\<lambda>i. ix_table i \<notin> set names) (ct_indexes c)\<rparr>"
proof (induction names arbitrary: c)
  case (Cons name names)
  show ?case by (simp add: Cons.IH) (auto intro!: filter_cong)
qed simp

section \<open>Properties\<close>

abbreviation migrate_up :: "ddl list" where
  "migrate_up \<equiv> initial_upgrade @ tenancy_upgrade"

abbreviation migrate_down :: "ddl list" where
  "migrate_down \<equiv> tenancy_downgrade @ initial_downgrade"

lemma scripts_agree: "SCHEMA_SQL = initial_upgrade" "TENANCY_SCHEMA_SQL = tenancy_upgrade"
  by (simp_all add: SCHEMA_SQL_def initial_upgrade_def TENANCY_SCHEMA_SQL_def tenancy_upgrade_def)

lemma upgrades_create: "\<forall>d\<in>set migrate_up. created d \<noteq> None"
  by (simp add: initial_upgrade_def tenancy_upgrade_def)

text \<open>
  Initialising the tables after the migrations changes nothing: whatever the catalog was, once the revisions have run,
  the two scripts the application executes at start-up leave it as it is, and so does running the revisions again.
\<close>

theorem schema_init_idempotent:
  assumes "run_ddl migrate_up c = Inr c'"
  shows "run_ddl (SCHEMA_SQL @ TENANCY_SCHEMA_SQL) c' = Inr c' \<and> run_ddl migrate_up c' = Inr c'"
  using rerun_creates [OF assms upgrades_create] by (simp add: scripts_agree)

text \<open>
  C31. The migrations can be taken back: on a catalog that has none of their relations, and no index on a table of their
  names, going up and down again gives the catalog one started with.
\<close>

theorem migrations_roundtrip:
  assumes "\<forall>d\<in>set migrate_up. the (created d) \<notin> set (relation_names c)"
    and "\<forall>i\<in>set (ct_indexes c). ix_table i \<in> fst ` set (ct_tables c)"
  shows "\<exists>c'. run_ddl migrate_up c = Inr c' \<and> length (ct_tables c') = length (ct_tables c) + 11
    \<and> run_ddl migrate_down c' = Inr c"
proof -
  let ?names = "[''audit_events'', ''tenant_memberships'', ''users'', ''tenants'', ''write_storm_events'', ''deletion_audit'',
    ''training_queue'', ''evaluation_queue'', ''tool_records'', ''prompt_logs'', ''prompt_requests'']"
  let ?up = "\<lparr>ct_tables = ct_tables c @ tables_of migrate_up, ct_indexes = ct_indexes c @ indexes_of migrate_up\<rparr>"
  have up: "run_ddl migrate_up c = Inr ?up"
  proof (rule run_creates_fresh [where ts = "[]"])
    show "\<forall>d\<in>set migrate_up. created d \<notin> Some ` set (relation_names c)"
      using assms(1) by (metis imageE option.sel)
    show "indexes_covered migrate_up []" "distinct (map created migrate_up)" by code_simp+
  qed simp
  have down: "migrate_down = map DropTable ?names"
    by (simp add: initial_downgrade_def tenancy_downgrade_def)
  have new: "filter (\<lambda>(n, cols). n \<notin> set ?names) (tables_of migrate_up) = []"
    "filter (\<lambda>i. ix_table i \<notin> set ?names) (indexes_of migrate_up) = []" "length (tables_of migrate_up) = 11"
    by code_simp+
  have created: "n \<in> the ` created ` set migrate_up" if "n \<in> set ?names" for n
    using that by (auto simp: initial_upgrade_def tenancy_upgrade_def)
  have old: "n \<notin> set ?names" if "n \<in> fst ` set (ct_tables c)" for n
  proof -
    have "n \<in> set (relation_names c)" using that by (auto simp: relation_names_def)
    then show ?thesis using created [of n] assms(1) by blast
  qed
  have keep: "filter (\<lambda>(n, cols). n \<notin> set ?names) (ct_tables c) = ct_tables c"
    "filter (\<lambda>i. ix_table i \<notin> set ?names) (ct_indexes c) = ct_indexes c"
  proof -
    show "filter (\<lambda>(n, cols). n \<notin> set ?names) (ct_tables c) = ct_tables c"
      by (rule filter_True) (use old in \<open>fastforce simp del: set_simps\<close>)
    show "filter (\<lambda>i. ix_table i \<notin> set ?names) (ct_indexes c) = ct_indexes c"
      by (rule filter_True) (use old assms(2) in blast)
  qed
  have "run_ddl migrate_down ?up = Inr c"
    unfolding down run_drops by (simp only: catalog.select_convs filter_append keep new append_Nil2) simp
  then show ?thesis using up new(3) by auto
qed

theorem schema_init_idempotent_witness:
  "\<exists>c'. run_ddl migrate_up \<lparr>ct_tables = [], ct_indexes = []\<rparr> = Inr c' \<and> run_ddl (SCHEMA_SQL @ TENANCY_SCHEMA_SQL) c' = Inr c'"
proof -
  have "\<not> isl (run_ddl migrate_up \<lparr>ct_tables = [], ct_indexes = []\<rparr>)" by code_simp
  then obtain c' where up: "run_ddl migrate_up \<lparr>ct_tables = [], ct_indexes = []\<rparr> = Inr c'"
    by (cases "run_ddl migrate_up \<lparr>ct_tables = [], ct_indexes = []\<rparr>") auto
  then show ?thesis using schema_init_idempotent [OF up] by blast
qed

theorem migrations_roundtrip_witness:
  "\<exists>c'. run_ddl migrate_up \<lparr>ct_tables = [(''other'', [])], ct_indexes = []\<rparr> = Inr c'
    \<and> run_ddl migrate_down c' = Inr \<lparr>ct_tables = [(''other'', [])], ct_indexes = []\<rparr>"
proof -
  let ?c = "\<lparr>ct_tables = [(''other'', [])], ct_indexes = []\<rparr>"
  have "\<forall>d\<in>set migrate_up. the (created d) \<notin> set (relation_names ?c)"
    "\<forall>i\<in>set (ct_indexes ?c). ix_table i \<in> fst ` set (ct_tables ?c)" by code_simp+
  from migrations_roundtrip [OF this] show ?thesis by blast
qed

end
