(* ===== verification/Hash_Vectors.thy ===== *)
theory Hash_Vectors
  imports Py_Hash
begin

text \<open>
  A published test vector of SHA-256, computed by the definitions of \<open>Py_Hash\<close>. It is a theory of
  its own because the evaluation takes about two minutes.
\<close>

lemma sha256_vector:
  "sha256_hexdigest ''abc'' = ''ba7816bf8f01cfea414140de5dae2223b00361a396177a9cb410ff61f20015ad''"
  by code_simp

end
