(* ===== verification/Spec2Isabelle.thy ===== *)
theory Spec2Isabelle
  imports Api_Props Api_Process Alert_Webhook Mock_Llm Audit_Export Readiness_Props Managed_Props Log_Config Schema Hash_Vectors
begin

text \<open>
  BoundaryLayer: a model of the repository's Python programs and the proofs of what they promise.

  \<^bold>\<open>The program.\<close> The API service (\<open>apps/api\<close>) runs security labs, each in a vulnerable and in a hardened mode, for
  tenants. A request enters a stack of middleware (request context, identity, rate limit, body size, security headers,
  production lockdown, from the outside in), reaches a route of \<open>main.py\<close>, passes the access gate (\<open>security.py\<close>), which verifies the bearer token
  (\<open>auth.py\<close>, \<open>jwks.py\<close>), looks up the membership of the caller (\<open>tenancy.py\<close>) and writes audit rows, and runs a
  lab (\<open>labs\<close>) on PostgreSQL (\<open>db.py\<close>), on Redis (\<open>redis_client.py\<close>) or on a fallback in memory. Everything is counted
  in metrics. The behaviour is chosen by the settings (\<open>config.py\<close>), whose validators refuse unsafe production
  settings. Beside the request path there are object storage, secrets, the export of audit events, three commands that
  check a deployment before it starts, the log set-up, the migrations, and two services of their own: the alert webhook and the mock model.

  \<^bold>\<open>The theories, bottom up.\<close>

  \<^item> \<open>Py_Prelude\<close> is what the components share of Python: values, exceptions (\<open>exn\<close>), results as a sum with the
    exception on the left, operations on a state (\<open>eff\<close>) whose state survives an exception, string methods, dictionaries as
    association lists, and the collections of rewrite rules. \<open>Py_Url\<close>, \<open>Py_Json\<close> and \<open>Py_Hash\<close> are the parts of
    \<open>urllib.parse\<close>, \<open>json\<close>, \<open>hashlib\<close>, \<open>hmac\<close> and \<open>base64\<close> the sources call; \<open>Hash_Vectors\<close> computes a published vector of SHA-256.
  \<^item> \<open>Tenant_Scope\<close> and \<open>Ttl_Cache\<close> are contracts several components keep: names that belong to one tenant, and
    caches whose entries lapse.
  \<^item> \<open>Config\<close> is \<open>config.py\<close> on fields that have been read: one record field per setting, each validator in its order.
    \<open>Settings_Env\<close> is how the fields are read from keyword arguments, the environment and the defaults.
  \<^item> \<open>Metrics\<close> is \<open>metrics.py\<close>: a log of the changes to the registry, one operation per recording function.
  \<^item> \<open>Db\<close> is \<open>db.py\<close>: the tables as lists of rows, connections that fail on demand, transactions that roll back, \<open>LIKE\<close>.
    \<open>Schema\<close> is the two migrations, run up and down on a catalog, beside the schema texts of \<open>db.py\<close> and \<open>tenancy.py\<close>,
    and the two modes of \<open>migrations/env.py\<close>.
  \<^item> \<open>Jwks\<close>, \<open>Auth\<close>, \<open>Tenancy\<close> and \<open>Security\<close> are the files of those names, \<open>Security\<close> with \<open>request_context.py\<close>. The
    databases a program can reach are an inductive relation of \<open>Tenancy\<close>.
  \<^item> \<open>Rate_Limit\<close> is \<open>rate_limit.py\<close>: both sliding windows, and two callers of the Redis one in any order of their steps.
  \<^item> \<open>Storage\<close>, \<open>Secrets\<close> and \<open>Audit_Export\<close> are \<open>storage.py\<close>, \<open>secrets.py\<close> and \<open>audit_export.py\<close>.
  \<^item> \<open>Lab_Capacity\<close> (\<open>circuit_breaker.py\<close>, \<open>sse_exhaustion.py\<close>), \<open>Lab_Data\<close> (\<open>governance.py\<close>, \<open>postgres_write_storm.py\<close>),
    \<open>Lab_Injection\<close> (\<open>tool_router.py\<close>, \<open>authz.py\<close>, \<open>file_upload.py\<close>) and \<open>Lab_Sessions\<close> (\<open>redis_state.py\<close>,
    \<open>prompt_cache_isolation.py\<close>, over \<open>Redis_Client\<close>) are the nine labs, each returning its whole result.
  \<^item> \<open>Middleware\<close> is \<open>middleware.py\<close>: a middleware takes a handler to a handler. \<open>Middleware_Stack\<close> is what the composed
    stack does to a request. \<open>Api_Main\<close> is \<open>main.py\<close>, \<open>readiness.py\<close> and \<open>lifespan.py\<close>: request models, endpoints,
    the table of routes and the application. \<open>Api_Laws\<close> is what all lab handlers have in common, \<open>Api_Live\<close> that
    the application answers, and \<open>Api_Props\<close> the properties of the whole. \<open>Api_Process\<close> is the process around it: the
    head of \<open>main.py\<close>, which reads the settings, sets up the log and makes the application object with CORS and the host
    check around it, the start-up hook, the constants of \<open>db.py\<close>, and requests served one after the other.
  \<^item> \<open>Config_Check\<close> is \<open>config_check.py\<close> and \<open>staging_check.py\<close>, with its properties in \<open>Readiness_Props\<close>; \<open>Managed_Services\<close> is
    \<open>managed_services.py\<close>, with its properties in \<open>Managed_Props\<close>.
  \<^item> \<open>Alert_Webhook\<close> and \<open>Mock_Llm\<close> are the two other services; \<open>Log_Config\<close> is \<open>logging_config.py\<close>.

  \<^bold>\<open>Contracts.\<close> Where components rely on each other the laws are a locale, interpreted on the model's own definitions:
  \<open>tenant_scope\<close> (row ids, Redis keys, object keys), \<open>ttl_cache\<close> (key sets, secrets, sessions), \<open>owner_guarded\<close>
  (the prompt operations of \<open>db.py\<close>), \<open>sliding_window\<close> and \<open>limiter\<close> (both rate limiters, each a refinement of the exact
  window), \<open>object_store\<close>, \<open>audit_sink_contract\<close> (the sinks an event is exported to), \<open>capped_admission\<close> (the labs
  that admit a bounded share), \<open>middleware\<close> and \<open>transparent_middleware\<close> (every class of the stack and the stack
  itself) and \<open>lab_handler\<close> (the handlers of \<open>main.py\<close>).

  \<^bold>\<open>What is proved.\<close> Across components: a process that started for \<open>production-saas\<close> gives a lab result only of a hardened
  run and only to a verified and entitled caller, it is counted once, no vulnerable run happens in production, the metrics stay within their families, and a well-formed
  request on a local profile is answered. Per component: validated production settings are locked down;
  an identity is as its token says; keys stay unique in every reachable database; tenants are kept apart in the database, in
  Redis, in storage and in the caches; secrets are never served past their lifetime; the limiters admit exactly, or at
  most, what their window allows; every failure of an operation is a stated error. For the checks: the readiness check
  accepts an environment exactly when the program starts in it, and the live checks leave nothing behind. Some theorems show where the
  code does not do what it means to: a wildcard in a tenant's id, an upsert across tenants, a race of the Redis limiter, a
  batch of alerts stored in part and then refused, a live command that always refuses, and a database URL that is validated
  and never used: the process connects by other variables.

  \<^bold>\<open>Parameters.\<close> PyJWT, the key-set parser, the HTTP fetch, the cloud SDKs, pydantic's conversions, the brackets check
  of \<open>urlparse\<close>, the ISO form of a date, clocks and random ids, Starlette's CORS and host check are arguments of the definitions that use them; what a
  theorem needs of them is a named hypothesis, and its witness gives a concrete function that has it.

  \<^bold>\<open>Bounds and fuel.\<close> A character is a code point below 256. Python's integers are \<^typ>\<open>int\<close>, times are integers in a
  fixed unit, and the words of SHA-256 are 32 bits wide. The one definition with fuel is the reader of JSON: its fuel is above twice
  the length of the text, and \<open>Py_Json.parse_fuel\<close> shows that more makes no difference. Every other loop is structural
  or has its termination proved.

  \<^bold>\<open>Not modelled.\<close> The framework's answers to unmatched routes and to bodies that are not JSON, which are an argument; uvicorn and its access log; Alembic's version table and its command line;
  the Redis and PostgreSQL servers beyond the commands the sources send; threads inside one process, whose steps are
  taken one operation at a time except in the race of the Redis limiter; the shell scripts, Terraform, nginx and the
  continuous-integration files.
\<close>

end
